(* ===== verification/Base.thy ===== *)
theory Base
  imports Main "HOL-Library.Word" "HOL-Library.Finite_Map"
begin

text \<open>
  The prelude of the development: results with two kinds of failure (a contract error, which is a
  value the code returns, and a panic, which aborts the WebAssembly instance), machine words with
  the checked arithmetic of the code (the workspace builds with \<open>overflow-checks = true\<close> and
  \<open>Uint128\<close> panics on overflow), the storage operations of the contracts as finite maps, and the
  rule collections the component theories use:
  \<^item> \<open>res_simps\<close> turns "this computation returned \<open>Inr\<close>" into the guards it passed;
  \<^item> \<open>word_nat\<close> moves successful word arithmetic to natural numbers.
\<close>

section \<open>Collections\<close>

named_theorems res_simps "equations for computations that returned a value"
named_theorems word_nat "successful word arithmetic as arithmetic on nat"
named_theorems handler_defs "definitions of the entry points of the contracts"

section \<open>Failures and results\<close>

datatype panic =
    ArithOverflow
  | DivideByZero
  | UnwrapNone
  | IndexOutOfBounds
  | NotImplemented

datatype 'e fail = Panic panic | Err 'e

type_synonym ('e, 'a) res = "'e fail + 'a"

definition rbind :: "('e, 'a) res \<Rightarrow> ('a \<Rightarrow> ('e, 'b) res) \<Rightarrow> ('e, 'b) res" where
  "rbind m f = (case m of Inl e \<Rightarrow> Inl e | Inr x \<Rightarrow> f x)"

definition map_err :: "('d \<Rightarrow> 'e) \<Rightarrow> ('d, 'a) res \<Rightarrow> ('e, 'a) res" where
  "map_err g m = (case m of
       Inl (Err d) \<Rightarrow> Inl (Err (g d))
     | Inl (Panic p) \<Rightarrow> Inl (Panic p)
     | Inr x \<Rightarrow> Inr x)"

definition ok_or :: "'e fail \<Rightarrow> 'a option \<Rightarrow> ('e, 'a) res" where
  "ok_or e v = (case v of None \<Rightarrow> Inl e | Some x \<Rightarrow> Inr x)"

fun rmap :: "('a \<Rightarrow> ('e, 'b) res) \<Rightarrow> 'a list \<Rightarrow> ('e, 'b list) res" where
  "rmap f [] = Inr []"
| "rmap f (x # xs) = rbind (f x) (\<lambda>y. rbind (rmap f xs) (\<lambda>ys. Inr (y # ys)))"

fun rfold :: "('a \<Rightarrow> 's \<Rightarrow> ('e, 's) res) \<Rightarrow> 'a list \<Rightarrow> 's \<Rightarrow> ('e, 's) res" where
  "rfold f [] s = Inr s"
| "rfold f (x # xs) s = rbind (f x s) (rfold f xs)"

lemma rbind_Inl [simp]: "rbind (Inl e) f = Inl e"
  by (simp add: rbind_def)

lemma rbind_Inr [simp]: "rbind (Inr x) f = f x"
  by (simp add: rbind_def)

lemma rbind_eq_Inr [res_simps]: "rbind m f = Inr y \<longleftrightarrow> (\<exists>x. m = Inr x \<and> f x = Inr y)"
  by (cases m) simp_all

lemma rbind_eq_Inl: "rbind m f = Inl e \<longleftrightarrow> m = Inl e \<or> (\<exists>x. m = Inr x \<and> f x = Inl e)"
  by (cases m) simp_all

lemma rbind_assoc: "rbind (rbind m f) g = rbind m (\<lambda>x. rbind (f x) g)"
  by (cases m) simp_all

lemma if_Inl_eq_Inr [res_simps]: "(if c then Inl e else m) = Inr y \<longleftrightarrow> \<not> c \<and> m = Inr y"
  by simp

lemma if_else_Inl_eq_Inr [res_simps]: "(if c then m else Inl e) = Inr y \<longleftrightarrow> c \<and> m = Inr y"
  by simp

lemma case_sum_eq_Inr [res_simps]:
  "(case r of Inl d \<Rightarrow> Inl (g d) | Inr a \<Rightarrow> f a) = Inr y \<longleftrightarrow> (\<exists>a. r = Inr a \<and> f a = Inr y)"
  by (cases r) simp_all

lemma case_option_eq_Inr [res_simps]:
  "(case v of None \<Rightarrow> Inl e | Some a \<Rightarrow> f a) = Inr y \<longleftrightarrow> (\<exists>a. v = Some a \<and> f a = Inr y)"
  by (cases v) simp_all

text \<open>Matches on lists of a fixed length, any other length being an error.\<close>

lemma case_single_eq_Inr [res_simps]:
  "(case xs of [] \<Rightarrow> Inl e | a # as \<Rightarrow> (case as of [] \<Rightarrow> f a | _ # _ \<Rightarrow> Inl e)) = Inr y
   \<longleftrightarrow> (\<exists>a. xs = [a] \<and> f a = Inr y)"
  by (auto split: list.splits)

lemma case_pair_eq_Inr [res_simps]:
  "(case xs of [] \<Rightarrow> Inl e | a # as \<Rightarrow> (case as of [] \<Rightarrow> Inl e | b # bs \<Rightarrow>
     (case bs of [] \<Rightarrow> f a b | _ # _ \<Rightarrow> Inl e))) = Inr y
   \<longleftrightarrow> (\<exists>a b. xs = [a, b] \<and> f a b = Inr y)"
  by (auto split: list.splits)

lemma case_five_eq_Inr [res_simps]:
  "(case xs of [] \<Rightarrow> Inl e | a # as \<Rightarrow> (case as of [] \<Rightarrow> Inl e | b # bs \<Rightarrow>
     (case bs of [] \<Rightarrow> Inl e | c # cs \<Rightarrow> (case cs of [] \<Rightarrow> Inl e | d # ds \<Rightarrow>
       (case ds of [] \<Rightarrow> Inl e | g # gs \<Rightarrow> (case gs of [] \<Rightarrow> f a b c d g | _ # _ \<Rightarrow> Inl e)))))) = Inr y
   \<longleftrightarrow> (\<exists>a b c d g. xs = [a, b, c, d, g] \<and> f a b c d g = Inr y)"
  by (auto split: list.splits)

lemma map_err_Inr [simp]: "map_err g (Inr x) = Inr x"
  by (simp add: map_err_def)

lemma map_err_eq_Inr [res_simps]: "map_err g m = Inr y \<longleftrightarrow> m = Inr y"
  by (auto simp: map_err_def split: sum.splits fail.splits)

lemma ok_or_None [simp]: "ok_or e None = Inl e"
  by (simp add: ok_or_def)

lemma ok_or_Some [simp]: "ok_or e (Some x) = Inr x"
  by (simp add: ok_or_def)

lemma ok_or_eq_Inr [res_simps]: "ok_or e v = Inr x \<longleftrightarrow> v = Some x"
  by (cases v) simp_all

lemma rmap_length: "rmap f xs = Inr ys \<Longrightarrow> length ys = length xs"
  by (induction xs arbitrary: ys) (auto simp: res_simps)

lemma rfold_append: "rfold f (xs @ ys) s = rbind (rfold f xs s) (rfold f ys)"
  by (induction xs arbitrary: s) (simp_all add: rbind_def split: sum.splits)

text \<open>An invariant of every step of a loop is an invariant of the loop.\<close>

lemma rfold_invariant:
  assumes "rfold f xs s = Inr s'" and "I s"
    and "\<And>x s s'. x \<in> set xs \<Longrightarrow> I s \<Longrightarrow> f x s = Inr s' \<Longrightarrow> I s'"
  shows "I s'"
  using assms by (induction xs arbitrary: s) (auto simp: res_simps)

section \<open>Machine integers\<close>

type_synonym u8 = "8 word"
type_synonym u32 = "32 word"
type_synonym u64 = "64 word"
type_synonym u128 = "128 word"

text \<open>
  Rust's \<open>+\<close>, \<open>-\<close>, \<open>*\<close> and \<open>/\<close> on unsigned integers in this workspace, and the operators of
  \<open>Uint128\<close>: they panic instead of wrapping. \<open>checked_sub\<close> is the operation that returns an error.
\<close>

definition uadd :: "'a::len word \<Rightarrow> 'a word \<Rightarrow> ('e, 'a word) res" where
  "uadd a b = (if unat a + unat b < 2 ^ LENGTH('a) then Inr (a + b) else Inl (Panic ArithOverflow))"

definition usub :: "'a::len word \<Rightarrow> 'a word \<Rightarrow> ('e, 'a word) res" where
  "usub a b = (if b \<le> a then Inr (a - b) else Inl (Panic ArithOverflow))"

definition umul :: "'a::len word \<Rightarrow> 'a word \<Rightarrow> ('e, 'a word) res" where
  "umul a b = (if unat a * unat b < 2 ^ LENGTH('a) then Inr (a * b) else Inl (Panic ArithOverflow))"

definition udiv :: "'a::len word \<Rightarrow> 'a word \<Rightarrow> ('e, 'a word) res" where
  "udiv a b = (if b = 0 then Inl (Panic DivideByZero) else Inr (a div b))"

definition checked_sub :: "'e \<Rightarrow> 'a::len word \<Rightarrow> 'a word \<Rightarrow> ('e, 'a word) res" where
  "checked_sub e a b = (if b \<le> a then Inr (a - b) else Inl (Err e))"

text \<open>\<open>u64::saturating_add_signed\<close>: the second operand is an \<open>i64\<close>, read by \<open>sint\<close>.\<close>

definition saturating_add_signed :: "u64 \<Rightarrow> u64 \<Rightarrow> u64" where
  "saturating_add_signed a b =
     (let r = uint a + sint b in
      if r < 0 then 0 else if 2 ^ 64 \<le> r then -1 else word_of_int r)"

text \<open>Subtraction on \<open>i64\<close> (two's complement words), which panics when the result does not fit.\<close>

definition isub :: "u64 \<Rightarrow> u64 \<Rightarrow> ('e, u64) res" where
  "isub a b =
     (let r = sint a - sint b in
      if - (2 ^ 63) \<le> r \<and> r < 2 ^ 63 then Inr (word_of_int r) else Inl (Panic ArithOverflow))"

text \<open>The length of a vector as \<open>usize\<close> cast to \<open>u64\<close> or \<open>u128\<close>; a vector in memory is shorter than
  \<open>2 ^ 32\<close>, so the cast never truncates.\<close>

definition ulen :: "'b list \<Rightarrow> 'a::len word" where
  "ulen xs = of_nat (length xs)"

lemma uadd_eq_Inr [res_simps]:
  "uadd a b = Inr (c :: 'a::len word) \<longleftrightarrow> unat a + unat b < 2 ^ LENGTH('a) \<and> c = a + b"
  by (auto simp: uadd_def)

lemma usub_eq_Inr [res_simps]: "usub a b = Inr c \<longleftrightarrow> b \<le> a \<and> c = a - b"
  by (auto simp: usub_def)

lemma umul_eq_Inr [res_simps]:
  "umul a b = Inr (c :: 'a::len word) \<longleftrightarrow> unat a * unat b < 2 ^ LENGTH('a) \<and> c = a * b"
  by (auto simp: umul_def)

lemma udiv_eq_Inr [res_simps]: "udiv a b = Inr c \<longleftrightarrow> b \<noteq> 0 \<and> c = a div b"
  by (auto simp: udiv_def)

lemma checked_sub_eq_Inr [res_simps]: "checked_sub e a b = Inr c \<longleftrightarrow> b \<le> a \<and> c = a - b"
  by (auto simp: checked_sub_def)

lemma unat_add_exact [word_nat]:
  "unat a + unat b < 2 ^ LENGTH('a) \<Longrightarrow> unat (a + b) = unat a + unat (b :: 'a::len word)"
  by (simp add: unat_word_ariths)

lemma unat_sub_exact [word_nat]: "b \<le> a \<Longrightarrow> unat (a - b) = unat a - unat (b :: 'a::len word)"
  by (rule unat_sub)

lemma unat_mul_exact [word_nat]:
  "unat a * unat b < 2 ^ LENGTH('a) \<Longrightarrow> unat (a * b) = unat a * unat (b :: 'a::len word)"
  by (simp add: unat_word_ariths)

lemma unat_div_exact [word_nat]: "unat (a div b) = unat a div unat (b :: 'a::len word)"
  by (rule unat_div)

lemma uadd_unat: "uadd a b = Inr c \<Longrightarrow> unat c = unat a + unat b"
  by (simp add: uadd_eq_Inr unat_add_exact)

lemma usub_unat: "usub a b = Inr c \<Longrightarrow> unat c + unat b = unat a"
  by (auto simp: usub_eq_Inr unat_sub_exact word_le_nat_alt)

lemma umul_unat: "umul a b = Inr c \<Longrightarrow> unat c = unat a * unat b"
  by (simp add: umul_eq_Inr unat_mul_exact)

lemma udiv_unat: "udiv a b = Inr c \<Longrightarrow> unat c = unat a div unat b \<and> unat b \<noteq> 0"
  by (auto simp: udiv_eq_Inr unat_div_exact unat_eq_0)

lemma checked_sub_unat: "checked_sub e a b = Inr c \<Longrightarrow> unat c + unat b = unat a"
  by (auto simp: checked_sub_eq_Inr unat_sub_exact word_le_nat_alt)

lemmas arith_unat = uadd_unat usub_unat umul_unat udiv_unat checked_sub_unat

lemma uadd_zero_left [simp]: "uadd 0 (a :: 'a::len word) = Inr a"
  by (simp add: uadd_def)

lemma uadd_zero_right [simp]: "uadd (a :: 'a::len word) 0 = Inr a"
  by (simp add: uadd_def)

lemma word_zero_lt: "(0 :: 'a::len word) < a \<longleftrightarrow> unat a \<noteq> 0"
  by (simp add: word_neq_0_conv [symmetric] unat_eq_0)

section \<open>Storage\<close>

text \<open>
  An \<open>Item\<close> of \<open>cw-storage-plus\<close> is an optional value, a \<open>Map\<close> a finite map. \<open>load\<close> fails on a
  missing key, \<open>may_load\<close> is \<open>fmlookup\<close>, \<open>save\<close> is \<open>fmupd\<close>, \<open>remove\<close> is \<open>fmdrop\<close>.
\<close>

definition load :: "'e \<Rightarrow> ('k, 'v) fmap \<Rightarrow> 'k \<Rightarrow> ('e, 'v) res" where
  "load e m k = ok_or (Err e) (fmlookup m k)"

definition has :: "('k, 'v) fmap \<Rightarrow> 'k \<Rightarrow> bool" where
  "has m k = (case fmlookup m k of None \<Rightarrow> False | Some _ \<Rightarrow> True)"

definition load_item :: "'e \<Rightarrow> 'v option \<Rightarrow> ('e, 'v) res" where
  "load_item e v = ok_or (Err e) v"

definition get_or_zero :: "('k, 'a::len word) fmap \<Rightarrow> 'k \<Rightarrow> 'a word" where
  "get_or_zero m k = (case fmlookup m k of None \<Rightarrow> 0 | Some v \<Rightarrow> v)"

lemma load_eq_Inr [res_simps]: "load e m k = Inr v \<longleftrightarrow> fmlookup m k = Some v"
  by (simp add: load_def res_simps)

lemma load_Some [simp]: "fmlookup m k = Some v \<Longrightarrow> load e m k = Inr v"
  by (simp add: load_def)

lemma load_None [simp]: "fmlookup m k = None \<Longrightarrow> load e m k = Inl (Err e)"
  by (simp add: load_def)

lemma load_item_eq_Inr [res_simps]: "load_item e v = Inr x \<longleftrightarrow> v = Some x"
  by (simp add: load_item_def res_simps)

lemma load_item_Some [simp]: "load_item e (Some x) = Inr x"
  by (simp add: load_item_def)

lemma load_item_None [simp]: "load_item e None = Inl (Err e)"
  by (simp add: load_item_def)

lemma has_iff [simp]: "has m k \<longleftrightarrow> fmlookup m k \<noteq> None"
  by (simp add: has_def split: option.splits)

lemma get_or_zero_upd: "get_or_zero (fmupd k v m) j = (if j = k then v else get_or_zero m j)"
  by (simp add: get_or_zero_def)

lemma get_or_zero_upd_same [simp]: "get_or_zero (fmupd k v m) k = v"
  by (simp add: get_or_zero_def)

lemma get_or_zero_empty [simp]: "get_or_zero fmempty k = 0"
  by (simp add: get_or_zero_def)

text \<open>The sum of the values of a map of unsigned integers.\<close>

definition map_total :: "('k, 'a::len word) fmap \<Rightarrow> nat" where
  "map_total m = (\<Sum>k \<in> fmdom' m. unat (get_or_zero m k))"

lemma map_total_empty [simp]: "map_total fmempty = 0"
  by (simp add: map_total_def)

lemma map_total_upd:
  "map_total (fmupd k v m) + unat (get_or_zero m k) = map_total m + unat v"
proof -
  let ?D = "fmdom' m - {k}"
  have rest: "(\<Sum>j \<in> ?D. unat (get_or_zero (fmupd k v m) j)) = (\<Sum>j \<in> ?D. unat (get_or_zero m j))"
    by (rule sum.cong) (auto simp: get_or_zero_upd)
  have "map_total (fmupd k v m) = unat v + (\<Sum>j \<in> ?D. unat (get_or_zero (fmupd k v m) j))"
    by (simp add: map_total_def sum.insert_remove)
  then have upd: "map_total (fmupd k v m) = unat v + (\<Sum>j \<in> ?D. unat (get_or_zero m j))"
    by (simp only: rest)
  have "map_total m = unat (get_or_zero m k) + (\<Sum>j \<in> ?D. unat (get_or_zero m j))"
  proof (cases "k \<in> fmdom' m")
    case True
    then show ?thesis by (simp add: map_total_def sum.remove)
  next
    case False
    then have "get_or_zero m k = 0"
      by (simp add: get_or_zero_def fmdom'_notD)
    with False show ?thesis by (simp add: map_total_def)
  qed
  with upd show ?thesis by simp
qed

lemma get_or_zero_le_total: "unat (get_or_zero m k) \<le> map_total m"
  using map_total_upd [of k 0 m] by simp

section \<open>Lists\<close>

text \<open>\<open>Vec::retain\<close> keeps the elements the predicate accepts, in order; \<open>filter\<close> is the same.\<close>

definition retain :: "('a \<Rightarrow> bool) \<Rightarrow> 'a list \<Rightarrow> 'a list" where
  "retain p xs = filter p xs"

lemma set_retain [simp]: "set (retain p xs) = {x \<in> set xs. p x}"
  by (simp add: retain_def)

lemma distinct_retain: "distinct xs \<Longrightarrow> distinct (retain p xs)"
  by (simp add: retain_def)

lemma retain_simps [simp]:
  "retain p [] = []"
  "retain p (x # xs) = (if p x then x # retain p xs else retain p xs)"
  by (simp_all add: retain_def)

lemma length_retain_le: "length (retain p xs) \<le> length xs"
  by (simp add: retain_def)

end
