(* ===== verification/Strings.thy ===== *)
theory Strings
  imports Base "HOL-Library.Sublist" "HOL-Library.Char_ord" "HOL-Library.List_Lexorder"
begin

text \<open>
  The operations of Rust's \<open>str\<close> the contracts use, on strings as lists of bytes (\<open>len\<close> counts
  bytes, the order of strings is the lexicographic order of bytes): \<open>split\<close>, \<open>splitn(3, _)\<close>,
  \<open>join\<close>, \<open>contains\<close>, \<open>starts_with\<close>, \<open>strip_suffix\<close>, \<open>trim().is_empty()\<close>, \<open>to_string\<close> and
  \<open>parse\<close> of unsigned integers. The lemmas are the round trips between \<open>join\<close> and \<open>split\<close> and
  between \<open>to_string\<close> and \<open>parse\<close>, on which the callback payloads of the contracts rely.
\<close>

section \<open>Splitting and joining\<close>

fun split_on :: "char \<Rightarrow> string \<Rightarrow> string list" where
  "split_on c [] = [[]]"
| "split_on c (x # xs) =
     (if x = c then [] # split_on c xs
      else (case split_on c xs of [] \<Rightarrow> [[x]] | y # ys \<Rightarrow> (x # y) # ys))"

fun join :: "string \<Rightarrow> string list \<Rightarrow> string" where
  "join sep [] = []"
| "join sep [x] = x"
| "join sep (x # y # zs) = x @ sep @ join sep (y # zs)"

text \<open>\<open>splitn(3, c)\<close>: at most three pieces, the last one unsplit.\<close>

definition splitn3 :: "char \<Rightarrow> string \<Rightarrow> string list" where
  "splitn3 c s = (case split_on c s of
       a # b # d # ds \<Rightarrow> [a, b, join [c] (d # ds)]
     | ps \<Rightarrow> ps)"

lemma split_on_nonempty [simp]: "split_on c s \<noteq> []"
  by (induction s) (auto split: list.splits)

lemma split_on_no_sep: "c \<notin> set s \<Longrightarrow> split_on c s = [s]"
  by (induction s) auto

lemma split_on_append: "c \<notin> set p \<Longrightarrow> split_on c (p @ c # s) = p # split_on c s"
  by (induction p) auto

lemma split_on_parts_no_sep: "p \<in> set (split_on c s) \<Longrightarrow> c \<notin> set p"
proof (induction s arbitrary: p)
  case (Cons x xs)
  then show ?case by (cases "split_on c xs") (auto split: if_splits)
qed simp

lemma join_Cons: "ps \<noteq> [] \<Longrightarrow> join sep (p # ps) = p @ sep @ join sep ps"
  by (cases ps) auto

lemma split_on_join:
  "ps \<noteq> [] \<Longrightarrow> (\<forall>p \<in> set ps. c \<notin> set p) \<Longrightarrow> split_on c (join [c] ps) = ps"
proof (induction ps)
  case (Cons p ps)
  then show ?case
    by (cases ps) (auto simp: split_on_no_sep split_on_append)
qed simp

lemma join_push: "join sep ((x # p) # ps) = x # join sep (p # ps)"
  by (cases ps) simp_all

lemma join_split_on: "join [c] (split_on c s) = s"
proof (induction s)
  case (Cons x xs)
  then show ?case
    by (cases "split_on c xs") (auto simp: join_Cons join_push)
qed simp

section \<open>Searching\<close>

fun contains :: "string \<Rightarrow> string \<Rightarrow> bool" where
  "contains pat [] = (pat = [])"
| "contains pat (x # xs) = (prefix pat (x # xs) \<or> contains pat xs)"

definition strip_suffix :: "string \<Rightarrow> string \<Rightarrow> string option" where
  "strip_suffix suf s =
     (if suffix suf s then Some (take (length s - length suf) s) else None)"

text \<open>
  \<open>s.trim().is_empty()\<close>: the string is made of characters with the Unicode property
  \<open>White_Space\<close>, here in their UTF-8 encoding (U+0009 to U+000D, space, U+0085, U+00A0, U+1680,
  U+2000 to U+200A, U+2028, U+2029, U+202F, U+205F, U+3000).
\<close>

definition byte :: "char \<Rightarrow> nat" where
  "byte c = of_char c"

fun trim_is_empty :: "string \<Rightarrow> bool" where
  "trim_is_empty [] = True"
| "trim_is_empty (a # s) =
     (if byte a = 32 \<or> (9 \<le> byte a \<and> byte a \<le> 13) then trim_is_empty s
      else (case s of
          [] \<Rightarrow> False
        | b # t \<Rightarrow>
            if byte a = 194 \<and> (byte b = 133 \<or> byte b = 160) then trim_is_empty t
            else (case t of
                [] \<Rightarrow> False
              | c # u \<Rightarrow>
                  if (byte a = 225 \<and> byte b = 154 \<and> byte c = 128)
                    \<or> (byte a = 226 \<and> byte b = 128 \<and> 128 \<le> byte c \<and> byte c \<le> 138)
                    \<or> (byte a = 226 \<and> byte b = 128 \<and> byte c \<in> {168, 169, 175})
                    \<or> (byte a = 226 \<and> byte b = 129 \<and> byte c = 159)
                    \<or> (byte a = 227 \<and> byte b = 128 \<and> byte c = 128)
                  then trim_is_empty u else False)))"

lemma contains_prefix: "prefix pat s \<Longrightarrow> contains pat s"
  by (cases s) auto

lemma contains_append: "contains pat (a @ pat @ b)"
proof (induction a)
  case Nil
  show ?case by (simp add: contains_prefix)
next
  case (Cons x a)
  then show ?case by simp
qed

lemma contains_iff: "contains pat s \<longleftrightarrow> (\<exists>a b. s = a @ pat @ b)"
proof
  show "contains pat s \<Longrightarrow> \<exists>a b. s = a @ pat @ b"
  proof (induction s)
    case (Cons x xs)
    show ?case
    proof (cases "prefix pat (x # xs)")
      case True
      then show ?thesis by (auto simp: prefix_def intro: exI [of _ "[]"])
    next
      case False
      with Cons obtain a b where "xs = a @ pat @ b" by auto
      then show ?thesis by (metis append_Cons)
    qed
  qed simp
qed (auto simp: contains_append)

lemma contains_single: "contains [c] s \<longleftrightarrow> c \<in> set s"
  by (induction s) (auto simp: prefix_def)

lemma strip_suffix_append [simp]: "strip_suffix suf (s @ suf) = Some s"
  by (simp add: strip_suffix_def suffix_def)

section \<open>Decimal numbers\<close>

definition digit :: "nat \<Rightarrow> char" where
  "digit d = char_of (48 + d)"

fun show_nat :: "nat \<Rightarrow> string" where
  "show_nat n = (if n < 10 then [digit n] else show_nat (n div 10) @ [digit (n mod 10)])"

declare show_nat.simps [simp del]

definition to_string :: "'a::len word \<Rightarrow> string" where
  "to_string w = show_nat (unat w)"

definition is_digit :: "char \<Rightarrow> bool" where
  "is_digit c \<longleftrightarrow> 48 \<le> byte c \<and> byte c \<le> 57"

definition digits_value :: "string \<Rightarrow> nat" where
  "digits_value s = foldl (\<lambda>n c. 10 * n + (byte c - 48)) 0 s"

text \<open>
  \<open>str::parse\<close> for an unsigned type: an optional \<open>+\<close>, then one digit or more, and a value in range.
\<close>

definition parse_uint :: "string \<Rightarrow> 'a::len word option" where
  "parse_uint s =
     (let t = (if s \<noteq> [] \<and> hd s = CHR ''+'' then tl s else s) in
      if t \<noteq> [] \<and> list_all is_digit t \<and> digits_value t < 2 ^ LENGTH('a)
      then Some (of_nat (digits_value t)) else None)"

lemma byte_digit: "d < 10 \<Longrightarrow> byte (digit d) = 48 + d"
  by (simp add: byte_def digit_def)

lemma is_digit_digit [simp]: "d < 10 \<Longrightarrow> is_digit (digit d)"
  by (simp add: is_digit_def byte_digit)

lemma show_nat_nonempty [simp]: "show_nat n \<noteq> []"
  by (subst show_nat.simps) simp

lemma show_nat_digits: "list_all is_digit (show_nat n)"
proof (induction n rule: show_nat.induct)
  case (1 n)
  then show ?case
    by (cases "n < 10") (simp_all add: show_nat.simps [of n])
qed

lemma digits_value_show_nat: "digits_value (show_nat n) = n"
proof (induction n rule: show_nat.induct)
  case (1 n)
  show ?case
  proof (cases "n < 10")
    case True
    then show ?thesis by (simp add: show_nat.simps [of n] digits_value_def byte_digit)
  next
    case False
    then have "show_nat n = show_nat (n div 10) @ [digit (n mod 10)]"
      by (simp add: show_nat.simps [of n])
    moreover from False "1" have "digits_value (show_nat (n div 10)) = n div 10" by simp
    ultimately show ?thesis by (simp add: digits_value_def byte_digit)
  qed
qed

lemma show_nat_inject [simp]: "show_nat m = show_nat n \<longleftrightarrow> m = n"
  by (metis digits_value_show_nat)

lemma not_is_digit_plus [simp]: "\<not> is_digit CHR ''+''" and
  not_is_digit_underscore [simp]: "\<not> is_digit CHR ''_''"
  by (simp_all add: is_digit_def byte_def)

lemma hd_show_nat: "hd (show_nat n) \<noteq> CHR ''+''"
  by (metis show_nat_digits show_nat_nonempty list.set_sel(1) list_all_iff not_is_digit_plus)

lemma parse_to_string [simp]: "parse_uint (to_string w) = Some (w :: 'a::len word)"
  by (simp add: parse_uint_def to_string_def Let_def hd_show_nat show_nat_digits
      digits_value_show_nat)

lemma to_string_inject [simp]: "to_string v = to_string w \<longleftrightarrow> v = w"
  by (simp add: to_string_def word_unat_eq_iff)

lemma to_string_nonempty [simp]: "to_string w \<noteq> []"
  by (simp add: to_string_def)

lemma to_string_no_underscore [simp]: "CHR ''_'' \<notin> set (to_string w)"
  using show_nat_digits [of "unat w"] by (auto simp: to_string_def list_all_iff)

lemma to_string_digits: "c \<in> set (to_string w) \<Longrightarrow> is_digit c"
  using show_nat_digits [of "unat w"] by (auto simp: to_string_def list_all_iff)

text \<open>Booleans and options as Rust prints them in event attributes.\<close>

definition bool_to_string :: "bool \<Rightarrow> string" where
  "bool_to_string b = (if b then ''true'' else ''false'')"

end
