(* ===== verification/Chain.thy ===== *)
theory Chain
  imports Base Strings
begin

text \<open>
  The vocabulary the contracts share with their host: addresses, coins, the environment and the
  sender of a message, the response of an entry point (messages, attributes, data), and the errors
  of the standard crate. These are the public types of \<open>cosmwasm-std\<close>. What the host and the
  libraries compute (address validation, expiry of an allowance) is an argument of the definitions
  that use it: the record \<open>api\<close>.
\<close>

section \<open>Values\<close>

type_synonym addr = string

record coin =
  c_denom :: string
  c_amount :: u128

record env =
  block_height :: u64
  block_time :: u64  \<comment> \<open>nanoseconds, \<open>Timestamp::nanos\<close>\<close>
  contract_addr :: addr

definition seconds :: "env \<Rightarrow> u64" where
  "seconds env = block_time env div 1000000000"

record message_info =
  sender :: addr
  funds :: "coin list"

datatype std_error =
    NotFound string
  | GenericErr string
  | OverflowErr
  | ParseErr
  | InvalidUtf8 string
  | HostErr string

datatype expiration = AtHeight u64 | AtTime u64 | Never

record api =
  addr_validate :: "string \<Rightarrow> std_error + addr"
  is_expired :: "expiration \<Rightarrow> env \<Rightarrow> bool"

definition from_std :: "(std_error \<Rightarrow> 'e) \<Rightarrow> std_error + 'a \<Rightarrow> ('e, 'a) res" where
  "from_std g r = (case r of Inl e \<Rightarrow> Inl (Err (g e)) | Inr x \<Rightarrow> Inr x)"

lemma from_std_Inr [simp]: "from_std g (Inr x) = Inr x"
  by (simp add: from_std_def)

lemma from_std_Inl [simp]: "from_std g (Inl e) = Inl (Err (g e))"
  by (simp add: from_std_def)

lemma from_std_eq_Inr [res_simps]: "from_std g r = Inr x \<longleftrightarrow> r = Inr x"
  by (cases r) simp_all

section \<open>Responses\<close>

datatype reply_on = ReplyNever | ReplySuccess | ReplyError

record 'm sub_msg =
  sm_msg :: 'm
  sm_id :: u64
  sm_reply :: reply_on
  sm_gas_limit :: "u64 option"

type_synonym attribute = "string \<times> string"

record 'm response =
  messages :: "'m sub_msg list"
  attributes :: "attribute list"

definition no_reply :: "'m \<Rightarrow> 'm sub_msg" where
  "no_reply m = \<lparr>sm_msg = m, sm_id = 0, sm_reply = ReplyNever, sm_gas_limit = None\<rparr>"

definition reply_on_success :: "'m \<Rightarrow> u64 \<Rightarrow> 'm sub_msg" where
  "reply_on_success m i = \<lparr>sm_msg = m, sm_id = i, sm_reply = ReplySuccess, sm_gas_limit = None\<rparr>"

definition reply_on_error :: "'m \<Rightarrow> u64 \<Rightarrow> u64 option \<Rightarrow> 'm sub_msg" where
  "reply_on_error m i g = \<lparr>sm_msg = m, sm_id = i, sm_reply = ReplyError, sm_gas_limit = g\<rparr>"

definition respond :: "'m sub_msg list \<Rightarrow> attribute list \<Rightarrow> 'm response" where
  "respond ms as = \<lparr>messages = ms, attributes = as\<rparr>"

lemma respond_simps [simp]:
  "messages (respond ms as) = ms" "attributes (respond ms as) = as"
  by (simp_all add: respond_def)

lemma sub_msg_simps [simp]:
  "sm_msg (no_reply m) = m" "sm_reply (no_reply m) = ReplyNever"
  "sm_msg (reply_on_success m i) = m" "sm_id (reply_on_success m i) = i"
  "sm_reply (reply_on_success m i) = ReplySuccess"
  "sm_msg (reply_on_error m i g) = m" "sm_id (reply_on_error m i g) = i"
  "sm_reply (reply_on_error m i g) = ReplyError" "sm_gas_limit (reply_on_error m i g) = g"
  by (simp_all add: no_reply_def reply_on_success_def reply_on_error_def)

text \<open>
  A message that fails reverts the whole transaction: the host keeps the old storage. Entry points
  return the new storage with their response, so the storage after a call is this.
\<close>

definition commit :: "'s \<Rightarrow> ('e, 's \<times> 'r) res \<Rightarrow> 's" where
  "commit s r = (case r of Inl _ \<Rightarrow> s | Inr (s', _) \<Rightarrow> s')"

lemma commit_simps [simp]:
  "commit s (Inl e) = s" "commit s (Inr (s', r)) = s'"
  by (simp_all add: commit_def)

text \<open>An invariant of the successful calls is an invariant of the storage.\<close>

lemma commit_invariant:
  "I s \<Longrightarrow> (\<And>s' r. m = Inr (s', r) \<Longrightarrow> I s') \<Longrightarrow> I (commit s m)"
  by (cases m) auto

text \<open>The address oracle used in the witnesses: every string is a valid address.\<close>

definition accept_all :: api where
  "accept_all = \<lparr>addr_validate = Inr,
     is_expired = (\<lambda>e env. case e of AtHeight h \<Rightarrow> h \<le> block_height env
       | AtTime t \<Rightarrow> t \<le> block_time env | Never \<Rightarrow> False)\<rparr>"

lemma accept_all_simps [simp]:
  "addr_validate accept_all a = Inr a"
  "is_expired accept_all (AtHeight h) env = (h \<le> block_height env)"
  "is_expired accept_all (AtTime t) env = (t \<le> block_time env)"
  "is_expired accept_all Never env = False"
  by (simp_all add: accept_all_def)

end
