(* ===== verification/Ics20_State.thy ===== *)
theory Ics20_State
  imports Chain
begin

text \<open>
  contracts/cw20-ics20: the contract that escrows native coins and cw20 tokens and sends them over
  IBC channels. The theory holds its storage and the ledger of the channels (state.rs), its errors
  and their texts (error.rs), amounts (amount.rs) and messages (msg.rs), and the record of what the
  contract asks of its host and of the libraries \<open>cw_controllers\<close>, \<open>cw_utils\<close>, \<open>serde\<close> and
  \<open>semver\<close>. Names another contract also uses carry the suffix \<open>_ics\<close>.
\<close>

section \<open>error.rs\<close>

text \<open>\<open>PaymentError\<close> and \<open>AdminError\<close> are the libraries' own types, known by their text.\<close>

datatype ics_error =
    Std_ics std_error
  | Payment string
  | AdminErr string
  | NoSuchChannel string  \<comment> \<open>id\<close>
  | NoFunds
  | AmountOverflow
  | InvalidIbcVersion string  \<comment> \<open>version\<close>
  | OnlyOrderedChannel
  | InsufficientFunds
  | NoForeignTokens
  | FromOtherPort string  \<comment> \<open>port\<close>
  | FromOtherChannel string  \<comment> \<open>channel\<close>
  | CannotMigrate string  \<comment> \<open>previous\_contract\<close>
  | CannotMigrateVersion string  \<comment> \<open>previous\_version\<close>
  | UnknownReplyId u64  \<comment> \<open>id\<close>
  | CannotLowerGas
  | Unauthorized_ics
  | NotOnAllowList

type_synonym 'a ics_res = "(ics_error, 'a) res"

text \<open>The texts of the errors; \<open>std_text\<close> is the text of an error of the standard crate.\<close>

fun display_ics :: "(std_error \<Rightarrow> string) \<Rightarrow> ics_error \<Rightarrow> string" where
  "display_ics std_text (Std_ics e) = std_text e"
| "display_ics std_text (Payment t) = t"
| "display_ics std_text (AdminErr t) = t"
| "display_ics std_text (NoSuchChannel i) = ''Channel doesn't exist: '' @ i"
| "display_ics std_text NoFunds = ''Didn't send any funds''"
| "display_ics std_text AmountOverflow =
     ''Amount larger than 2**64, not supported by ics20 packets''"
| "display_ics std_text (InvalidIbcVersion v) =
     ''Only supports channel with ibc version ics20-1, got '' @ v"
| "display_ics std_text OnlyOrderedChannel = ''Only supports unordered channel''"
| "display_ics std_text InsufficientFunds =
     ''Insufficient funds to redeem voucher on channel''"
| "display_ics std_text NoForeignTokens =
     ''Only accepts tokens that originate on this chain, not native tokens of remote chain''"
| "display_ics std_text (FromOtherPort p) =
     ''Parsed port from denom ('' @ p @ '') doesn't match packet''"
| "display_ics std_text (FromOtherChannel c) =
     ''Parsed channel from denom ('' @ c @ '') doesn't match packet''"
| "display_ics std_text (CannotMigrate c) =
     ''Cannot migrate from different contract type: '' @ c"
| "display_ics std_text (CannotMigrateVersion v) =
     ''Cannot migrate from unsupported version: '' @ v"
| "display_ics std_text (UnknownReplyId i) =
     ''Got a submessage reply with unknown id: '' @ to_string i"
| "display_ics std_text CannotLowerGas =
     ''You cannot lower the gas limit for a contract on the allow list''"
| "display_ics std_text Unauthorized_ics = ''Only the governance contract can do this''"
| "display_ics std_text NotOnAllowList =
     ''You can only send cw20 tokens that have been explicitly allowed by governance''"

section \<open>state.rs\<close>

record channel_state =
  outstanding :: u128
  total_sent :: u128

record ics_config =
  default_timeout :: u64
  default_gas_limit :: "u64 option"

record ibc_endpoint =
  port_id :: string
  channel_id :: string

record channel_info =
  ci_id :: string
  ci_counterparty_endpoint :: ibc_endpoint
  ci_connection_id :: string

record allow_info =
  ai_gas_limit :: "u64 option"

record reply_args =
  ra_channel :: string
  ra_denom :: string
  ra_amount :: u128

text \<open>The configuration as releases before 0.12.0 stored it, under the same key (migrations.rs).\<close>

record v1_config =
  v1_default_timeout :: u64
  v1_gov_contract :: addr

datatype stored_config = ConfigV1 v1_config | ConfigNow ics_config

record ics_store =
  ICS_VERSION :: "(string \<times> string) option"
  ADMIN :: "addr option"
  ICS_CONFIG :: "stored_config option"
  REPLY_ARGS :: "reply_args option"
  CHANNEL_INFO :: "(string, channel_info) fmap"
  CHANNEL_STATE :: "(string \<times> string, channel_state) fmap"
  ALLOW_LIST :: "(addr, allow_info) fmap"

definition empty_ics :: ics_store where
  "empty_ics = \<lparr>ICS_VERSION = None, ADMIN = None, ICS_CONFIG = None, REPLY_ARGS = None,
     CHANNEL_INFO = fmempty, CHANNEL_STATE = fmempty, ALLOW_LIST = fmempty\<rparr>"

text \<open>
  \<open>CONFIG.load\<close>: the two layouts have different fields, so reading one as the other fails to parse.
\<close>

definition load_config :: "ics_store \<Rightarrow> ics_config ics_res" where
  "load_config s = (case ICS_CONFIG s of
       None \<Rightarrow> Inl (Err (Std_ics (NotFound ''Config'')))
     | Some (ConfigV1 _) \<Rightarrow> Inl (Err (Std_ics ParseErr))
     | Some (ConfigNow c) \<Rightarrow> Inr c)"

definition load_v1_config :: "ics_store \<Rightarrow> v1_config ics_res" where
  "load_v1_config s = (case ICS_CONFIG s of
       None \<Rightarrow> Inl (Err (Std_ics (NotFound ''Config'')))
     | Some (ConfigV1 c) \<Rightarrow> Inr c
     | Some (ConfigNow _) \<Rightarrow> Inl (Err (Std_ics ParseErr)))"

section \<open>The ledger of the channels\<close>

definition default_channel_state :: channel_state where
  "default_channel_state = \<lparr>outstanding = 0, total_sent = 0\<rparr>"

definition increase_channel_balance ::
  "string \<Rightarrow> string \<Rightarrow> u128 \<Rightarrow> ics_store \<Rightarrow> ics_store ics_res" where
  "increase_channel_balance channel denom amount s =
     (let state = (case fmlookup (CHANNEL_STATE s) (channel, denom) of
           None \<Rightarrow> default_channel_state | Some st \<Rightarrow> st) in
      rbind (uadd (outstanding state) amount) (\<lambda>outs.
      rbind (uadd (total_sent state) amount) (\<lambda>total.
      Inr (s\<lparr>CHANNEL_STATE := fmupd (channel, denom)
        (state\<lparr>outstanding := outs, total_sent := total\<rparr>) (CHANNEL_STATE s)\<rparr>))))"

definition reduce_channel_balance ::
  "string \<Rightarrow> string \<Rightarrow> u128 \<Rightarrow> ics_store \<Rightarrow> ics_store ics_res" where
  "reduce_channel_balance channel denom amount s =
     rbind (ok_or (Err InsufficientFunds) (fmlookup (CHANNEL_STATE s) (channel, denom))) (\<lambda>cur.
     rbind (checked_sub InsufficientFunds (outstanding cur) amount) (\<lambda>outs.
     Inr (s\<lparr>CHANNEL_STATE := fmupd (channel, denom) (cur\<lparr>outstanding := outs\<rparr>)
       (CHANNEL_STATE s)\<rparr>)))"

definition undo_reduce_channel_balance ::
  "string \<Rightarrow> string \<Rightarrow> u128 \<Rightarrow> ics_store \<Rightarrow> ics_store ics_res" where
  "undo_reduce_channel_balance channel denom amount s =
     (let state = (case fmlookup (CHANNEL_STATE s) (channel, denom) of
           None \<Rightarrow> default_channel_state | Some st \<Rightarrow> st) in
      rbind (uadd (outstanding state) amount) (\<lambda>outs.
      Inr (s\<lparr>CHANNEL_STATE := fmupd (channel, denom) (state\<lparr>outstanding := outs\<rparr>)
        (CHANNEL_STATE s)\<rparr>)))"

section \<open>amount.rs\<close>

record cw20_coin =
  cc_address :: string
  cc_amount :: u128

datatype amount = Native coin | Cw20 cw20_coin

text \<open>\<open>get(5..)\<close> of a string that starts with these five bytes is always defined.\<close>

definition from_parts :: "string \<Rightarrow> u128 \<Rightarrow> amount" where
  "from_parts denom amt =
     (if prefix ''cw20:'' denom then Cw20 \<lparr>cc_address = drop 5 denom, cc_amount = amt\<rparr>
      else Native \<lparr>c_denom = denom, c_amount = amt\<rparr>)"

definition amount_cw20 :: "u128 \<Rightarrow> string \<Rightarrow> amount" where
  "amount_cw20 amt addr = Cw20 \<lparr>cc_address = addr, cc_amount = amt\<rparr>"

definition amount_native :: "u128 \<Rightarrow> string \<Rightarrow> amount" where
  "amount_native amt denom = Native \<lparr>c_denom = denom, c_amount = amt\<rparr>"

fun amount_denom :: "amount \<Rightarrow> string" where
  "amount_denom (Native c) = c_denom c"
| "amount_denom (Cw20 c) = ''cw20:'' @ cc_address c"

fun amount_amount :: "amount \<Rightarrow> u128" where
  "amount_amount (Native c) = c_amount c"
| "amount_amount (Cw20 c) = cc_amount c"

definition u64_amount :: "amount \<Rightarrow> u64 ics_res" where
  "u64_amount a =
     (if unat (amount_amount a) < 2 ^ 64 then Inr (ucast (amount_amount a))
      else Inl (Err AmountOverflow))"

fun amount_is_empty :: "amount \<Rightarrow> bool" where
  "amount_is_empty (Native c) = (c_amount c = 0)"
| "amount_is_empty (Cw20 c) = (cc_amount c = 0)"

section \<open>msg.rs\<close>

record allow_msg =
  am_contract :: string
  am_gas_limit :: "u64 option"

record init_msg_ics =
  im_default_timeout :: u64
  im_gov_contract :: string
  im_allowlist :: "allow_msg list"
  im_default_gas_limit :: "u64 option"

type_synonym binary = string

record cw20_receive_msg =  \<comment> \<open>\<open>cw20::Cw20ReceiveMsg\<close>\<close>
  rw_sender :: string
  rw_amount :: u128
  rw_msg :: binary

record transfer_msg =
  tm_channel :: string
  tm_remote_address :: string
  tm_timeout :: "u64 option"
  tm_memo :: "string option"

datatype ics_execute_msg =
    Receive cw20_receive_msg
  | TransferNative transfer_msg  \<comment> \<open>\<open>ExecuteMsg::Transfer\<close>\<close>
  | Allow allow_msg
  | UpdateAdmin string

datatype ics_query_msg =
    Port
  | ListChannels
  | Channel string  \<comment> \<open>id\<close>
  | QConfig
  | QAdmin
  | Allowed string  \<comment> \<open>contract\<close>
  | ListAllowed "string option" "u32 option"  \<comment> \<open>start\_after, limit\<close>

record channel_response =
  cr_info :: channel_info
  cr_balances :: "amount list"
  cr_total_sent :: "amount list"

record config_response =
  cf_default_timeout :: u64
  cf_default_gas_limit :: "u64 option"
  cf_gov_contract :: string

record allowed_response =
  ar_is_allowed :: bool
  ar_gas_limit :: "u64 option"

record allowed_info =
  af_contract :: string
  af_gas_limit :: "u64 option"

section \<open>Packets, acknowledgements and messages\<close>

record ics20_packet =
  p_amount :: u128
  p_denom :: string
  p_receiver :: string
  p_sender :: string
  p_memo :: "string option"

definition new_packet :: "u128 \<Rightarrow> string \<Rightarrow> string \<Rightarrow> string \<Rightarrow> ics20_packet" where
  "new_packet amt denom sndr receiver =
     \<lparr>p_amount = amt, p_denom = denom, p_receiver = receiver, p_sender = sndr, p_memo = None\<rparr>"

definition with_memo :: "string option \<Rightarrow> ics20_packet \<Rightarrow> ics20_packet" where
  "with_memo memo p = p\<lparr>p_memo := memo\<rparr>"

definition validate_packet :: "ics20_packet \<Rightarrow> unit ics_res" where
  "validate_packet p =
     (if 2 ^ 64 - 1 < unat (p_amount p) then Inl (Err AmountOverflow) else Inr ())"

datatype ics20_ack = AckResult binary | AckError string

datatype ics_msg =
    SendPacket string binary u64  \<comment> \<open>channel\_id, data, timeout (nanoseconds)\<close>
  | BankSend string "coin list"  \<comment> \<open>to\_address, amount\<close>
  | WasmExecute string cw20_execute_msg "coin list"  \<comment> \<open>contract\_addr, msg, funds\<close>
and cw20_execute_msg = Cw20Transfer string u128  \<comment> \<open>recipient, amount\<close>

record ibc_packet =
  pk_data :: binary
  pk_src :: ibc_endpoint
  pk_dest :: ibc_endpoint

datatype ibc_order = Unordered | Ordered

record ibc_channel =
  ch_endpoint :: ibc_endpoint
  ch_counterparty_endpoint :: ibc_endpoint
  ch_order :: ibc_order
  ch_version :: string
  ch_connection_id :: string

text \<open>
  The channel handshake messages: \<open>counterparty_version()\<close> is defined in \<open>OpenTry\<close> and \<open>OpenAck\<close>.
\<close>

datatype channel_open_msg = OpenInit ibc_channel | OpenTry ibc_channel string
datatype channel_connect_msg = OpenAck ibc_channel string | OpenConfirm ibc_channel

section \<open>The host and the libraries\<close>

text \<open>
  What the contract calls and this repository does not define: the address check of the chain and
  its queries, the payment checks of \<open>cw_utils\<close>, the admin controller of \<open>cw_controllers\<close> (its
  stored value is \<open>ADMIN\<close>), the JSON codecs of \<open>serde\<close>, the text of standard errors, and the parser
  and order of \<open>semver\<close>.
\<close>

record ics_host =
  h_api :: api
  one_coin :: "message_info \<Rightarrow> string + coin"
  nonpayable :: "message_info \<Rightarrow> string + unit"
  admin_assert :: "addr option \<Rightarrow> addr \<Rightarrow> string + unit"
  admin_update :: "addr option \<Rightarrow> addr \<Rightarrow> addr option \<Rightarrow> string + (addr option \<times> attribute list)"
  parse_transfer :: "binary \<Rightarrow> std_error + transfer_msg"
  parse_packet :: "binary \<Rightarrow> std_error + ics20_packet"
  encode_packet :: "ics20_packet \<Rightarrow> std_error + binary"
  parse_ack :: "binary \<Rightarrow> std_error + ics20_ack"
  encode_ack :: "ics20_ack \<Rightarrow> std_error + binary"
  std_text :: "std_error \<Rightarrow> string"
  parse_semver :: "string \<Rightarrow> std_error + string"  \<comment> \<open>\<open>Version\<close> in its printed form\<close>
  semver_less :: "string \<Rightarrow> string \<Rightarrow> bool"
  bank_balance :: "addr \<Rightarrow> string \<Rightarrow> std_error + u128"
  cw20_balance :: "string \<Rightarrow> addr \<Rightarrow> std_error + u128"
  query_port_id :: "std_error + string"

abbreviation validate_addr :: "ics_host \<Rightarrow> string \<Rightarrow> addr ics_res" where
  "validate_addr h a \<equiv> from_std Std_ics (addr_validate (h_api h) a)"

abbreviation lib :: "(string \<Rightarrow> ics_error) \<Rightarrow> string + 'a \<Rightarrow> 'a ics_res" where
  "lib g r \<equiv> (case r of Inl e \<Rightarrow> Inl (Err (g e)) | Inr x \<Rightarrow> Inr x)"

text \<open>\<open>env.block.time.plus_seconds(d)\<close>, in nanoseconds; both operations panic on overflow.\<close>

definition plus_seconds :: "u64 \<Rightarrow> u64 \<Rightarrow> ('e, u64) res" where
  "plus_seconds t d = rbind (umul d 1000000000) (uadd t)"

end
