(* ===== verification/Pages.thy ===== *)
theory Pages
  imports Strings
begin

text \<open>
  Pages of the keys of a map in ascending order, as \<open>range(start, None, Ascending).take(limit)\<close> of
  \<open>cw-storage-plus\<close> gives them to the paginated queries of the contracts: the first \<open>n\<close> keys after
  the exclusive bound \<open>start\<close>. The lemmas show that a page is sorted, has no duplicates, and that
  the keys after a bound are one page followed by the keys after the last key of that page.
\<close>

section \<open>Definitions\<close>

definition after_bound :: "string option \<Rightarrow> string \<Rightarrow> bool" where
  "after_bound start k = (case start of None \<Rightarrow> True | Some b \<Rightarrow> b < k)"

text \<open>\<open>prefix(..).range(start, None, Ascending).take(limit)\<close> on a set of keys.\<close>

definition page :: "string fset \<Rightarrow> string option \<Rightarrow> nat \<Rightarrow> string list" where
  "page keys start n = take n (filter (after_bound start) (sorted_list_of_fset keys))"

definition second_keys :: "(string \<times> string, 'v) fmap \<Rightarrow> string \<Rightarrow> string fset" where
  "second_keys m a = snd |`| ffilter (\<lambda>k. fst k = a) (fmdom m)"

section \<open>Lemmas\<close>

lemma page_sorted: "sorted (page keys start n)" and page_distinct: "distinct (page keys start n)"
  by (simp_all add: page_def sorted_list_of_fset.rep_eq sorted_wrt_take sorted_wrt_filter)

lemma set_page_subset: "set (page keys start n) \<subseteq> {k. k |\<in>| keys \<and> after_bound start k}"
  by (auto simp: page_def sorted_list_of_fset.rep_eq dest!: in_set_takeD)

lemma filter_take_last:
  fixes xs :: "'a::linorder list"
  assumes "sorted xs" and "distinct xs" and "0 < n" and "n \<le> length xs"
  shows "filter (\<lambda>k. last (take n xs) < k) xs = drop n xs"
proof -
  let ?ys = "take n xs" and ?zs = "drop n xs"
  from assms have ne: "?ys \<noteq> []" by auto
  have srt: "sorted (?ys @ ?zs)" and dst: "distinct (?ys @ ?zs)"
    using assms by simp_all
  from srt have le: "y \<le> last ?ys" if "y \<in> set ?ys" for y
    using that ne by (metis append_butlast_last_id in_set_butlastD last_in_set
        order_refl sorted_append sorted_wrt.simps(1) append_Nil2 set_append UnE
        list.set_intros(1) empty_iff list.set(1) set_ConsD)
  then have "filter (\<lambda>k. last ?ys < k) ?ys = []"
    by (auto simp: filter_empty_conv leD)
  moreover have "last ?ys < z" if "z \<in> set ?zs" for z
  proof -
    from srt have "\<forall>x \<in> set ?ys. \<forall>y \<in> set ?zs. x \<le> y"
      unfolding sorted_append by blast
    with ne that have "last ?ys \<le> z" by (meson last_in_set)
    moreover from dst ne that have "last ?ys \<noteq> z"
      by (metis IntI distinct_append emptyE last_in_set)
    ultimately show ?thesis by simp
  qed
  then have "filter (\<lambda>k. last ?ys < k) ?zs = ?zs"
    by (simp add: filter_id_conv)
  ultimately show ?thesis
    by (metis append_take_drop_id filter_append append_Nil)
qed

text \<open>
  The keys after a bound are one page followed by the keys after the last key of that page.
\<close>

lemma page_continues:
  assumes "0 < n" and "n \<le> length (filter (after_bound start) (sorted_list_of_fset keys))"
  shows "filter (after_bound start) (sorted_list_of_fset keys)
       = page keys start n
         @ filter (after_bound (Some (last (page keys start n)))) (sorted_list_of_fset keys)"
proof -
  let ?all = "sorted_list_of_fset keys"
  let ?xs = "filter (after_bound start) ?all"
  let ?l = "last (take n ?xs)"
  have l: "after_bound start ?l"
  proof -
    from assms have "take n ?xs \<noteq> []" by auto
    then have "?l \<in> set ?xs" by (meson in_set_takeD last_in_set)
    then show ?thesis by simp
  qed
  have "filter (\<lambda>k. ?l < k) ?all = filter (\<lambda>k. ?l < k) ?xs"
    using l by (auto simp: after_bound_def filter_filter intro!: filter_cong split: option.splits)
  moreover have "filter (\<lambda>k. ?l < k) ?xs = drop n ?xs"
    by (rule filter_take_last)
      (use assms in \<open>simp_all add: sorted_list_of_fset.rep_eq sorted_wrt_filter\<close>)
  ultimately have "filter (after_bound (Some ?l)) ?all = drop n ?xs"
    by (simp add: after_bound_def [abs_def])
  then show ?thesis by (simp add: page_def)
qed

end
