(* ===== verification/Ics20_Contract.thy ===== *)
theory Ics20_Contract
  imports Ics20_State Pages
begin

text \<open>
  contracts/cw20-ics20/src/contract.rs and migrations.rs: instantiation, the transfer of a native
  coin or of a cw20 token over a channel, the allow list, migration and queries.
\<close>

definition CONTRACT_NAME_ICS :: string where
  "CONTRACT_NAME_ICS = ''crates.io:cw20-ics20''"

definition CONTRACT_VERSION_ICS :: string where
  "CONTRACT_VERSION_ICS = ''1.1.2''"

type_synonym ics_result = "(ics_store \<times> ics_msg response) ics_res"

section \<open>Instantiation\<close>

definition save_allowed :: "ics_host \<Rightarrow> allow_msg \<Rightarrow> ics_store \<Rightarrow> ics_store ics_res" where
  "save_allowed h allowed s =
     rbind (validate_addr h (am_contract allowed)) (\<lambda>contract.
     Inr (s\<lparr>ALLOW_LIST := fmupd contract \<lparr>ai_gas_limit = am_gas_limit allowed\<rparr> (ALLOW_LIST s)\<rparr>))"

definition instantiate_ics :: "ics_host \<Rightarrow> init_msg_ics \<Rightarrow> ics_store \<Rightarrow> ics_result" where
  "instantiate_ics h m s =
     (let s1 = s\<lparr>ICS_VERSION := Some (CONTRACT_NAME_ICS, CONTRACT_VERSION_ICS)\<rparr>;
          cfg = \<lparr>default_timeout = im_default_timeout m,
                 default_gas_limit = im_default_gas_limit m\<rparr>;
          s2 = s1\<lparr>ICS_CONFIG := Some (ConfigNow cfg)\<rparr> in
      rbind (validate_addr h (im_gov_contract m)) (\<lambda>admin.
      rbind (rfold (save_allowed h) (im_allowlist m) (s2\<lparr>ADMIN := Some admin\<rparr>)) (\<lambda>s3.
      Inr (s3, respond [] []))))"

section \<open>Transfers\<close>

text \<open>The allow list guards the sending of cw20 tokens unless a default gas limit is set.\<close>

definition check_sendable :: "ics_host \<Rightarrow> ics_config \<Rightarrow> amount \<Rightarrow> ics_store \<Rightarrow> unit ics_res" where
  "check_sendable h config amt s = (case amt of
       Native _ \<Rightarrow> Inr ()
     | Cw20 coin \<Rightarrow>
         rbind (validate_addr h (cc_address coin)) (\<lambda>addr.
         if default_gas_limit config = None
         then rbind (ok_or (Err NotOnAllowList) (fmlookup (ALLOW_LIST s) addr)) (\<lambda>_. Inr ())
         else Inr ()))"

definition transfer_attributes :: "ics20_packet \<Rightarrow> attribute list" where
  "transfer_attributes p =
     [(''action'', ''transfer''), (''sender'', p_sender p), (''receiver'', p_receiver p),
      (''denom'', p_denom p), (''amount'', to_string (p_amount p))]"

definition execute_transfer_ics ::
  "ics_host \<Rightarrow> env \<Rightarrow> transfer_msg \<Rightarrow> amount \<Rightarrow> addr \<Rightarrow> ics_store \<Rightarrow> ics_result" where
  "execute_transfer_ics h env m amt sndr s =
     (if amount_is_empty amt then Inl (Err NoFunds)
      else if \<not> has (CHANNEL_INFO s) (tm_channel m) then Inl (Err (NoSuchChannel (tm_channel m)))
      else
      rbind (load_config s) (\<lambda>config.
      rbind (check_sendable h config amt s) (\<lambda>_.
      let timeout_delta = (case tm_timeout m of Some t \<Rightarrow> t | None \<Rightarrow> default_timeout config) in
      rbind (plus_seconds (block_time env) timeout_delta) (\<lambda>timeout.
      let packet = with_memo (tm_memo m)
            (new_packet (amount_amount amt) (amount_denom amt) sndr (tm_remote_address m)) in
      rbind (validate_packet packet) (\<lambda>_.
      rbind (increase_channel_balance (tm_channel m) (amount_denom amt) (amount_amount amt) s) (\<lambda>s'.
      rbind (from_std Std_ics (encode_packet h packet)) (\<lambda>data.
      Inr (s', respond [no_reply (SendPacket (tm_channel m) data timeout)]
                 (transfer_attributes packet)))))))))"

definition execute_receive ::
  "ics_host \<Rightarrow> env \<Rightarrow> message_info \<Rightarrow> cw20_receive_msg \<Rightarrow> ics_store \<Rightarrow> ics_result" where
  "execute_receive h env info wrapper s =
     rbind (lib Payment (nonpayable h info)) (\<lambda>_.
     rbind (from_std Std_ics (parse_transfer h (rw_msg wrapper))) (\<lambda>m.
     let amt = Cw20 \<lparr>cc_address = sender info, cc_amount = rw_amount wrapper\<rparr> in
     rbind (validate_addr h (rw_sender wrapper)) (\<lambda>sndr.
     execute_transfer_ics h env m amt sndr s)))"

section \<open>The allow list\<close>

definition lowers_gas :: "u64 option \<Rightarrow> u64 option \<Rightarrow> bool" where
  "lowers_gas old new = (case (old, new) of
       (None, Some _) \<Rightarrow> True
     | (Some o', Some n) \<Rightarrow> n < o'
     | _ \<Rightarrow> False)"

definition allow_update :: "allow_msg \<Rightarrow> allow_info option \<Rightarrow> allow_info ics_res" where
  "allow_update allow old = (case old of
       Some info \<Rightarrow>
         if lowers_gas (ai_gas_limit info) (am_gas_limit allow) then Inl (Err CannotLowerGas)
         else Inr \<lparr>ai_gas_limit = am_gas_limit allow\<rparr>
     | None \<Rightarrow> Inr \<lparr>ai_gas_limit = am_gas_limit allow\<rparr>)"

definition execute_allow ::
  "ics_host \<Rightarrow> message_info \<Rightarrow> allow_msg \<Rightarrow> ics_store \<Rightarrow> ics_result" where
  "execute_allow h info allow s =
     rbind (lib AdminErr (admin_assert h (ADMIN s) (sender info))) (\<lambda>_.
     rbind (validate_addr h (am_contract allow)) (\<lambda>contract.
     rbind (allow_update allow (fmlookup (ALLOW_LIST s) contract)) (\<lambda>new.
     let gas = (case am_gas_limit allow of Some g \<Rightarrow> to_string g | None \<Rightarrow> ''None'') in
     Inr (s\<lparr>ALLOW_LIST := fmupd contract new (ALLOW_LIST s)\<rparr>,
          respond [] [(''action'', ''allow''), (''contract'', am_contract allow),
                      (''gas_limit'', gas)]))))"

fun execute_ics ::
  "ics_host \<Rightarrow> env \<Rightarrow> message_info \<Rightarrow> ics_execute_msg \<Rightarrow> ics_store \<Rightarrow> ics_result" where
  "execute_ics h env info (Receive m) s = execute_receive h env info m s"
| "execute_ics h env info (TransferNative m) s =
     rbind (lib Payment (one_coin h info)) (\<lambda>coin.
     execute_transfer_ics h env m (Native coin) (sender info) s)"
| "execute_ics h env info (Allow allow) s = execute_allow h info allow s"
| "execute_ics h env info (UpdateAdmin admin) s =
     rbind (validate_addr h admin) (\<lambda>a.
     rbind (lib AdminErr (admin_update h (ADMIN s) (sender info) (Some a))) (\<lambda>(cell, attrs).
     Inr (s\<lparr>ADMIN := cell\<rparr>, respond [] attrs)))"

section \<open>migrations.rs\<close>

text \<open>
  The migration of releases before 0.13.1: the balance of the only channel is set to what the
  contract holds.
\<close>

definition held_balance :: "ics_host \<Rightarrow> addr \<Rightarrow> string \<Rightarrow> u128 \<Rightarrow> u128 ics_res" where
  "held_balance h contract denom outs = (case from_parts denom outs of
       Native coin \<Rightarrow> from_std Std_ics (bank_balance h contract (c_denom coin))
     | Cw20 coin \<Rightarrow> from_std Std_ics (cw20_balance h (cc_address coin) contract))"

definition update_denom ::
  "ics_host \<Rightarrow> addr \<Rightarrow> string \<Rightarrow> string \<times> channel_state \<Rightarrow> ics_store \<Rightarrow> ics_store ics_res" where
  "update_denom h contract channel = (\<lambda>(denom, state) s.
     rbind (held_balance h contract denom (outstanding state)) (\<lambda>balance.
     rbind (usub balance (outstanding state)) (\<lambda>diff.
     if diff = 0 then Inr s
     else
       rbind (uadd (outstanding state) diff) (\<lambda>outs.
       rbind (uadd (total_sent state) diff) (\<lambda>total.
       Inr (s\<lparr>CHANNEL_STATE := fmupd (channel, denom)
         (state\<lparr>outstanding := outs, total_sent := total\<rparr>) (CHANNEL_STATE s)\<rparr>))))))"

text \<open>\<open>CHANNEL_STATE.prefix(channel).range(..)\<close>: denominations and balances in ascending order.\<close>

definition channel_states :: "string \<Rightarrow> ics_store \<Rightarrow> (string \<times> channel_state) list" where
  "channel_states channel s = concat (map (\<lambda>d. case fmlookup (CHANNEL_STATE s) (channel, d) of
       None \<Rightarrow> [] | Some st \<Rightarrow> [(d, st)])
     (sorted_list_of_fset (second_keys (CHANNEL_STATE s) channel)))"

definition update_balances :: "ics_host \<Rightarrow> env \<Rightarrow> ics_store \<Rightarrow> ics_store ics_res" where
  "update_balances h env s = (case sorted_list_of_fset (fmdom (CHANNEL_INFO s)) of
       [] \<Rightarrow> Inr s
     | [channel] \<Rightarrow>
         rfold (update_denom h (contract_addr env) channel) (channel_states channel s) s
     | _ \<Rightarrow> Inl (Err (CannotMigrate ''multiple channels open'')))"

section \<open>Migration\<close>

definition MIGRATE_MIN_VERSION :: string where
  "MIGRATE_MIN_VERSION = ''0.11.1''"

definition MIGRATE_VERSION_2 :: string where
  "MIGRATE_VERSION_2 = ''0.12.0-alpha1''"

definition MIGRATE_VERSION_3 :: string where
  "MIGRATE_VERSION_3 = ''0.13.0''"

definition version_ics :: "ics_host \<Rightarrow> string \<Rightarrow> string ics_res" where
  "version_ics h v = from_std Std_ics (parse_semver h v)"

definition migrate_v1 :: "ics_store \<Rightarrow> ics_store ics_res" where
  "migrate_v1 s =
     rbind (load_v1_config s) (\<lambda>old.
     Inr (s\<lparr>ADMIN := Some (v1_gov_contract old),
            ICS_CONFIG := Some (ConfigNow \<lparr>default_timeout = v1_default_timeout old,
              default_gas_limit = None\<rparr>)\<rparr>))"

definition set_default_gas_limit :: "u64 option \<Rightarrow> ics_store \<Rightarrow> ics_store ics_res" where
  "set_default_gas_limit limit s =
     (if limit = None then Inr s
      else
        rbind (load_config s) (\<lambda>old.
        Inr (s\<lparr>ICS_CONFIG := Some (ConfigNow (old\<lparr>default_gas_limit := limit\<rparr>))\<rparr>)))"

definition migrate_ics :: "ics_host \<Rightarrow> env \<Rightarrow> u64 option \<Rightarrow> ics_store \<Rightarrow> ics_result" where
  "migrate_ics h env gas_limit s =
     rbind (version_ics h CONTRACT_VERSION_ICS) (\<lambda>version.
     rbind (load_item (Std_ics (NotFound ''ContractVersion'')) (ICS_VERSION s)) (\<lambda>stored.
     rbind (version_ics h (snd stored)) (\<lambda>storage_version.
     if CONTRACT_NAME_ICS \<noteq> fst stored then Inl (Err (CannotMigrate (fst stored)))
     else if semver_less h version storage_version
       then Inl (Err (CannotMigrateVersion (snd stored)))
     else
     rbind (version_ics h MIGRATE_MIN_VERSION) (\<lambda>min_version.
     if semver_less h storage_version min_version
       then Inl (Err (CannotMigrateVersion (snd stored)))
     else
     rbind (version_ics h MIGRATE_VERSION_2) (\<lambda>version_2.
     rbind (if semver_less h version_2 storage_version then Inr s else migrate_v1 s) (\<lambda>s1.
     rbind (version_ics h MIGRATE_VERSION_3) (\<lambda>version_3.
     rbind (if semver_less h version_3 storage_version then Inr s1 else update_balances h env s1) (\<lambda>s2.
     rbind (set_default_gas_limit gas_limit s2) (\<lambda>s3.
     Inr (if semver_less h storage_version version
          then s3\<lparr>ICS_VERSION := Some (CONTRACT_NAME_ICS, CONTRACT_VERSION_ICS)\<rparr> else s3,
          respond [] []))))))))))"

section \<open>Queries\<close>

text \<open>The port, from the host.\<close>

definition query_port :: "ics_host \<Rightarrow> string ics_res" where
  "query_port h = from_std Std_ics (query_port_id h)"

definition query_list :: "ics_store \<Rightarrow> channel_info list ics_res" where
  "query_list s = Inr (concat (map (\<lambda>c. case fmlookup (CHANNEL_INFO s) c of
       None \<Rightarrow> [] | Some info \<Rightarrow> [info]) (sorted_list_of_fset (fmdom (CHANNEL_INFO s)))))"

definition query_channel :: "string \<Rightarrow> ics_store \<Rightarrow> channel_response ics_res" where
  "query_channel i s =
     rbind (load (Std_ics (NotFound ''ChannelInfo'')) (CHANNEL_INFO s) i) (\<lambda>info.
     let state = map (\<lambda>(denom, v). (from_parts denom (outstanding v), from_parts denom (total_sent v)))
           (channel_states i s) in
     Inr \<lparr>cr_info = info, cr_balances = map fst state, cr_total_sent = map snd state\<rparr>)"

text \<open>
  The admin is an item that holds an optional address. \<open>ADMIN\<close> is that address; the item itself is
  stored by the instantiation and by the migration and never removed, so the error of reading an
  item that is not there has no case here.
\<close>

definition query_config :: "ics_store \<Rightarrow> config_response ics_res" where
  "query_config s =
     rbind (load_config s) (\<lambda>cfg.
     Inr \<lparr>cf_default_timeout = default_timeout cfg, cf_default_gas_limit = default_gas_limit cfg,
       cf_gov_contract = (case ADMIN s of None \<Rightarrow> [] | Some a \<Rightarrow> a)\<rparr>)"

definition query_allowed :: "ics_host \<Rightarrow> string \<Rightarrow> ics_store \<Rightarrow> allowed_response ics_res" where
  "query_allowed h contract s =
     rbind (validate_addr h contract) (\<lambda>addr.
     Inr (case fmlookup (ALLOW_LIST s) addr of
         None \<Rightarrow> \<lparr>ar_is_allowed = False, ar_gas_limit = None\<rparr>
       | Some a \<Rightarrow> \<lparr>ar_is_allowed = True, ar_gas_limit = ai_gas_limit a\<rparr>))"

definition page_limit_ics :: "u32 option \<Rightarrow> nat" where
  "page_limit_ics limit = unat (min (case limit of None \<Rightarrow> 10 | Some l \<Rightarrow> l) (30 :: u32))"

text \<open>\<open>maybe_addr\<close>: the bound is checked as an address when there is one.\<close>

definition list_allowed ::
  "ics_host \<Rightarrow> string option \<Rightarrow> u32 option \<Rightarrow> ics_store \<Rightarrow> allowed_info list ics_res" where
  "list_allowed h start_after limit s =
     rbind (case start_after of
         None \<Rightarrow> Inr None
       | Some a \<Rightarrow> rbind (validate_addr h a) (\<lambda>addr. Inr (Some addr))) (\<lambda>start.
     Inr (concat (map (\<lambda>a. case fmlookup (ALLOW_LIST s) a of
         None \<Rightarrow> [] | Some info \<Rightarrow> [\<lparr>af_contract = a, af_gas_limit = ai_gas_limit info\<rparr>])
       (page (fmdom (ALLOW_LIST s)) start (page_limit_ics limit)))))"

datatype ics_query_response =
    RPort string
  | RChannels "channel_info list"
  | RChannel channel_response
  | RConfig config_response
  | RAdmin "addr option"
  | RAllowed allowed_response
  | RListAllowed "allowed_info list"

fun query_ics :: "ics_host \<Rightarrow> ics_query_msg \<Rightarrow> ics_store \<Rightarrow> ics_query_response ics_res" where
  "query_ics h Port s = rbind (query_port h) (\<lambda>r. Inr (RPort r))"
| "query_ics h ListChannels s = rbind (query_list s) (\<lambda>r. Inr (RChannels r))"
| "query_ics h (Channel i) s = rbind (query_channel i s) (\<lambda>r. Inr (RChannel r))"
| "query_ics h QConfig s = rbind (query_config s) (\<lambda>r. Inr (RConfig r))"
| "query_ics h (Allowed c) s = rbind (query_allowed h c s) (\<lambda>r. Inr (RAllowed r))"
| "query_ics h (ListAllowed b l) s = rbind (list_allowed h b l s) (\<lambda>r. Inr (RListAllowed r))"
| "query_ics h QAdmin s = Inr (RAdmin (ADMIN s))"

end
