(* ===== verification/Ics20_Ibc.thy ===== *)
theory Ics20_Ibc
  imports Ics20_Contract
begin

text \<open>
  contracts/cw20-ics20/src/ibc.rs: the handshake of a channel, the receipt of packets, the handling
  of acknowledgements and timeouts, and the replies of the messages that pay tokens out.
  \<open>ibc_packet_receive\<close> has no error: a failure of its body becomes an acknowledgement, and the
  storage keeps what the body wrote before it failed. The body therefore returns the storage with
  its outcome, and only a panic loses it.
\<close>

definition ICS20_VERSION :: string where
  "ICS20_VERSION = ''ics20-1''"

definition ICS20_ORDERING :: ibc_order where
  "ICS20_ORDERING = Unordered"

definition RECEIVE_ID :: u64 where
  "RECEIVE_ID = 1337"

definition ACK_FAILURE_ID :: u64 where
  "ACK_FAILURE_ID = 0xfa17"

text \<open>\<open>to_json_binary(..).unwrap()\<close>\<close>

definition encode_unwrap :: "ics_host \<Rightarrow> ics20_ack \<Rightarrow> ('e, binary) res" where
  "encode_unwrap h a = (case encode_ack h a of Inl _ \<Rightarrow> Inl (Panic UnwrapNone) | Inr b \<Rightarrow> Inr b)"

definition ack_success :: "ics_host \<Rightarrow> ('e, binary) res" where
  "ack_success h = encode_unwrap h (AckResult ''1'')"

definition ack_fail :: "ics_host \<Rightarrow> string \<Rightarrow> ('e, binary) res" where
  "ack_fail h err = encode_unwrap h (AckError err)"

section \<open>Replies\<close>

text \<open>The reply of a submessage: its result, of which only the text of a failure is used.\<close>

record reply_ics =
  reply_id :: u64
  reply_result :: "string + unit"

definition reply_ics20 ::
  "ics_host \<Rightarrow> reply_ics \<Rightarrow> ics_store \<Rightarrow> (ics_store \<times> binary option) ics_res" where
  "reply_ics20 h r s =
     (if reply_id r = RECEIVE_ID then
        (case reply_result r of
           Inr _ \<Rightarrow> Inr (s, None)
         | Inl err \<Rightarrow>
             rbind (load_item (Std_ics (NotFound ''ReplyArgs'')) (REPLY_ARGS s)) (\<lambda>args.
             rbind (undo_reduce_channel_balance (ra_channel args) (ra_denom args) (ra_amount args) s)
               (\<lambda>s'.
             rbind (ack_fail h err) (\<lambda>data. Inr (s', Some data)))))
      else if reply_id r = ACK_FAILURE_ID then
        (case reply_result r of
           Inr _ \<Rightarrow> Inr (s, None)
         | Inl err \<Rightarrow> rbind (ack_fail h err) (\<lambda>data. Inr (s, Some data)))
      else Inl (Err (UnknownReplyId (reply_id r))))"

section \<open>The handshake\<close>

definition enforce_order_and_version :: "ibc_channel \<Rightarrow> string option \<Rightarrow> unit ics_res" where
  "enforce_order_and_version channel counterparty_version =
     (if ch_version channel \<noteq> ICS20_VERSION
      then Inl (Err (InvalidIbcVersion (ch_version channel)))
      else
      rbind (case counterparty_version of
          None \<Rightarrow> Inr ()
        | Some v \<Rightarrow> if v \<noteq> ICS20_VERSION then Inl (Err (InvalidIbcVersion v)) else Inr ()) (\<lambda>_.
      if ch_order channel \<noteq> ICS20_ORDERING then Inl (Err OnlyOrderedChannel) else Inr ()))"

fun open_channel :: "channel_open_msg \<Rightarrow> ibc_channel" where
  "open_channel (OpenInit c) = c"
| "open_channel (OpenTry c v) = c"

fun open_version :: "channel_open_msg \<Rightarrow> string option" where
  "open_version (OpenInit c) = None"
| "open_version (OpenTry c v) = Some v"

fun connect_channel :: "channel_connect_msg \<Rightarrow> ibc_channel" where
  "connect_channel (OpenAck c v) = c"
| "connect_channel (OpenConfirm c) = c"

fun connect_version :: "channel_connect_msg \<Rightarrow> string option" where
  "connect_version (OpenAck c v) = Some v"
| "connect_version (OpenConfirm c) = None"

definition ibc_channel_open :: "channel_open_msg \<Rightarrow> ics_store \<Rightarrow> (ics_store \<times> unit) ics_res" where
  "ibc_channel_open m s =
     rbind (enforce_order_and_version (open_channel m) (open_version m)) (\<lambda>_. Inr (s, ()))"

definition ibc_channel_connect :: "channel_connect_msg \<Rightarrow> ics_store \<Rightarrow> ics_result" where
  "ibc_channel_connect m s =
     rbind (enforce_order_and_version (connect_channel m) (connect_version m)) (\<lambda>_.
     let channel = connect_channel m;
         info = \<lparr>ci_id = channel_id (ch_endpoint channel),
                 ci_counterparty_endpoint = ch_counterparty_endpoint channel,
                 ci_connection_id = ch_connection_id channel\<rparr> in
     Inr (s\<lparr>CHANNEL_INFO := fmupd (ci_id info) info (CHANNEL_INFO s)\<rparr>, respond [] []))"

definition ibc_channel_close :: "ics_store \<Rightarrow> ics_result" where
  "ibc_channel_close s = Inl (Panic NotImplemented)"

section \<open>Paying out\<close>

definition parse_voucher_denom :: "string \<Rightarrow> ibc_endpoint \<Rightarrow> string ics_res" where
  "parse_voucher_denom voucher_denom remote_endpoint =
     (case splitn3 CHR ''/'' voucher_denom of
        [port, channel, denom] \<Rightarrow>
          if port \<noteq> port_id remote_endpoint then Inl (Err (FromOtherPort port))
          else if channel \<noteq> channel_id remote_endpoint then Inl (Err (FromOtherChannel channel))
          else Inr denom
      | _ \<Rightarrow> Inl (Err NoForeignTokens))"

definition check_gas_limit :: "ics_host \<Rightarrow> amount \<Rightarrow> ics_store \<Rightarrow> u64 option ics_res" where
  "check_gas_limit h amt s = (case amt of
       Cw20 coin \<Rightarrow>
         rbind (validate_addr h (cc_address coin)) (\<lambda>addr.
         case fmlookup (ALLOW_LIST s) addr of
           Some allow \<Rightarrow> Inr (ai_gas_limit allow)
         | None \<Rightarrow>
             rbind (load_config s) (\<lambda>config.
             case default_gas_limit config of
               Some base \<Rightarrow> Inr (Some base)
             | None \<Rightarrow> Inl (Err NotOnAllowList)))
     | Native _ \<Rightarrow> Inr None)"

fun send_amount :: "amount \<Rightarrow> string \<Rightarrow> ics_msg" where
  "send_amount (Native coin) recipient = BankSend recipient [coin]"
| "send_amount (Cw20 coin) recipient =
     WasmExecute (cc_address coin) (Cw20Transfer recipient (cc_amount coin)) []"

section \<open>Receiving packets\<close>

record receive_response =
  rr_ack :: binary
  rr_messages :: "ics_msg sub_msg list"
  rr_attributes :: "attribute list"

text \<open>The second half of the body, after the balance is reduced and the reply is prepared.\<close>

definition receive_send ::
  "ics_host \<Rightarrow> ics20_packet \<Rightarrow> string \<Rightarrow> ics_store \<Rightarrow> receive_response ics_res" where
  "receive_send h m denom s =
     (let to_send = from_parts denom (p_amount m) in
      rbind (check_gas_limit h to_send s) (\<lambda>gas_limit.
      rbind (ack_success h) (\<lambda>ack.
      Inr \<lparr>rr_ack = ack,
        rr_messages = [reply_on_error (send_amount to_send (p_receiver m)) RECEIVE_ID gas_limit],
        rr_attributes =
          [(''action'', ''receive''), (''sender'', p_sender m), (''receiver'', p_receiver m),
           (''denom'', denom), (''amount'', to_string (p_amount m)), (''success'', ''true'')]\<rparr>)))"

definition do_ibc_packet_receive ::
  "ics_host \<Rightarrow> ibc_packet \<Rightarrow> ics_store \<Rightarrow> ics_store \<times> receive_response ics_res" where
  "do_ibc_packet_receive h packet s =
     (case from_std Std_ics (parse_packet h (pk_data packet)) of
        Inl e \<Rightarrow> (s, Inl e)
      | Inr m \<Rightarrow>
     (let channel = channel_id (pk_dest packet) in
      case parse_voucher_denom (p_denom m) (pk_src packet) of
        Inl e \<Rightarrow> (s, Inl e)
      | Inr denom \<Rightarrow>
     (case reduce_channel_balance channel denom (p_amount m) s of
        Inl e \<Rightarrow> (s, Inl e)
      | Inr s1 \<Rightarrow>
     (let s2 = s1\<lparr>REPLY_ARGS :=
            Some \<lparr>ra_channel = channel, ra_denom = denom, ra_amount = p_amount m\<rparr>\<rparr> in
      (s2, receive_send h m denom s2)))))"

definition failed_receive :: "ics_host \<Rightarrow> ics_error \<Rightarrow> receive_response ics_res" where
  "failed_receive h err =
     (let text = display_ics (std_text h) err in
      rbind (ack_fail h text) (\<lambda>ack.
      Inr \<lparr>rr_ack = ack, rr_messages = [],
        rr_attributes = [(''action'', ''receive''), (''success'', ''false''), (''error'', text)]\<rparr>))"

definition ibc_packet_receive ::
  "ics_host \<Rightarrow> ibc_packet \<Rightarrow> ics_store \<Rightarrow> (ics_store \<times> receive_response) ics_res" where
  "ibc_packet_receive h packet s =
     (case do_ibc_packet_receive h packet s of
        (s', Inr r) \<Rightarrow> Inr (s', r)
      | (s', Inl (Err e)) \<Rightarrow> rbind (failed_receive h e) (\<lambda>r. Inr (s', r))
      | (s', Inl (Panic p)) \<Rightarrow> Inl (Panic p))"

section \<open>Acknowledgements and timeouts\<close>

definition on_packet_success :: "ics_host \<Rightarrow> ibc_packet \<Rightarrow> ics_store \<Rightarrow> ics_result" where
  "on_packet_success h packet s =
     rbind (from_std Std_ics (parse_packet h (pk_data packet))) (\<lambda>m.
     Inr (s, respond []
       [(''action'', ''acknowledge''), (''sender'', p_sender m), (''receiver'', p_receiver m),
        (''denom'', p_denom m), (''amount'', to_string (p_amount m)), (''success'', ''true'')]))"

definition on_packet_failure :: "ics_host \<Rightarrow> ibc_packet \<Rightarrow> string \<Rightarrow> ics_store \<Rightarrow> ics_result" where
  "on_packet_failure h packet err s =
     rbind (from_std Std_ics (parse_packet h (pk_data packet))) (\<lambda>m.
     rbind (reduce_channel_balance (channel_id (pk_src packet)) (p_denom m) (p_amount m) s) (\<lambda>s'.
     let to_send = from_parts (p_denom m) (p_amount m) in
     rbind (check_gas_limit h to_send s') (\<lambda>gas_limit.
     Inr (s', respond [reply_on_error (send_amount to_send (p_sender m)) ACK_FAILURE_ID gas_limit]
       [(''action'', ''acknowledge''), (''sender'', p_sender m), (''receiver'', p_receiver m),
        (''denom'', p_denom m), (''amount'', to_string (p_amount m)), (''success'', ''false''),
        (''error'', err)]))))"

definition ibc_packet_ack ::
  "ics_host \<Rightarrow> binary \<Rightarrow> ibc_packet \<Rightarrow> ics_store \<Rightarrow> ics_result" where
  "ibc_packet_ack h acknowledgement original_packet s =
     rbind (from_std Std_ics (parse_ack h acknowledgement)) (\<lambda>ack.
     case ack of
       AckResult _ \<Rightarrow> on_packet_success h original_packet s
     | AckError err \<Rightarrow> on_packet_failure h original_packet err s)"

definition ibc_packet_timeout :: "ics_host \<Rightarrow> ibc_packet \<Rightarrow> ics_store \<Rightarrow> ics_result" where
  "ibc_packet_timeout h packet s = on_packet_failure h packet ''timeout'' s"

end
