(* ===== verification/Ics20_Ledger.thy ===== *)
theory Ics20_Ledger
  imports Ics20_Ibc
begin

text \<open>
  The ledger of the channels: what is outstanding and what was sent for a channel and a
  denomination, as numbers. The locale \<open>channel_ledger\<close> states the laws of the three operations of
  state.rs (a reduction is defined exactly when the outstanding balance covers it, undoing it gives
  the outstanding balances back, nothing but an increase changes what was sent); it is interpreted
  on the operations of the code. The sum over the channels of a denomination is \<open>owed\<close>.
\<close>

section \<open>Views of the ledger\<close>

type_synonym ledger_key = "string \<times> string"

definition outs :: "ics_store \<Rightarrow> ledger_key \<Rightarrow> nat" where
  "outs s k = (case fmlookup (CHANNEL_STATE s) k of None \<Rightarrow> 0 | Some st \<Rightarrow> unat (outstanding st))"

definition sent :: "ics_store \<Rightarrow> ledger_key \<Rightarrow> nat" where
  "sent s k = (case fmlookup (CHANNEL_STATE s) k of None \<Rightarrow> 0 | Some st \<Rightarrow> unat (total_sent st))"

definition entry :: "ics_store \<Rightarrow> ledger_key \<Rightarrow> bool" where
  "entry s k \<longleftrightarrow> fmlookup (CHANNEL_STATE s) k \<noteq> None"

text \<open>What all channels together owe in a denomination.\<close>

definition owed_map :: "ics_store \<Rightarrow> string \<Rightarrow> (ledger_key, u128) fmap" where
  "owed_map s d = fmfilter (\<lambda>k. snd k = d) (fmmap outstanding (CHANNEL_STATE s))"

definition owed :: "ics_store \<Rightarrow> string \<Rightarrow> nat" where
  "owed s d = map_total (owed_map s d)"

lemma fmfilter_fmupd:
  "fmfilter P (fmupd k v m) = (if P k then fmupd k v (fmfilter P m) else fmfilter P m)"
  by (rule fmap_ext) auto

lemma owed_upd:
  assumes "CHANNEL_STATE s' = fmupd k st (CHANNEL_STATE s)"
  shows "owed s' d + (if snd k = d then outs s k else 0)
       = owed s d + (if snd k = d then unat (outstanding st) else 0)"
proof -
  have old: "unat (get_or_zero (owed_map s (snd k)) k) = outs s k"
    by (simp add: owed_map_def get_or_zero_def outs_def split: option.split)
  have upd: "owed_map s' d = (if snd k = d then fmupd k (outstanding st) (owed_map s d)
      else owed_map s d)"
    unfolding owed_map_def assms fmmap_fmupd fmfilter_fmupd ..
  show ?thesis
    using map_total_upd [of k "outstanding st" "owed_map s d"] old
    by (auto simp: owed_def upd)
qed

lemma outs_le_owed: "outs s k \<le> owed s (snd k)"
proof -
  have "outs s k = unat (get_or_zero (owed_map s (snd k)) k)"
    by (simp add: owed_map_def get_or_zero_def outs_def split: option.split)
  then show ?thesis by (simp add: owed_def get_or_zero_le_total)
qed

text \<open>The views depend on the ledger alone.\<close>

lemma ledger_views:
  assumes "CHANNEL_STATE s = CHANNEL_STATE t"
  shows "outs s = outs t" "sent s = sent t" "entry s = entry t" "owed s = owed t"
  unfolding fun_eq_iff outs_def sent_def entry_def owed_def owed_map_def assms by (rule allI refl)+

section \<open>The operations\<close>

text \<open>
  Each operation changes the ledger at its key, and nothing else of the storage; the receipt of a
  packet also writes the arguments of its reply.
\<close>

definition ledger_only :: "ics_store \<Rightarrow> ics_store \<Rightarrow> bool" where
  "ledger_only s s' \<longleftrightarrow> s' = s\<lparr>CHANNEL_STATE := CHANNEL_STATE s', REPLY_ARGS := REPLY_ARGS s'\<rparr>"

lemma ledger_onlyD:
  assumes "ledger_only s s'"
  shows "ICS_VERSION s' = ICS_VERSION s" "ADMIN s' = ADMIN s" "ICS_CONFIG s' = ICS_CONFIG s"
    "CHANNEL_INFO s' = CHANNEL_INFO s" "ALLOW_LIST s' = ALLOW_LIST s"
  by (subst assms [unfolded ledger_only_def], simp)+

lemma ledger_only_args: "ledger_only s t \<Longrightarrow> ledger_only s (t\<lparr>REPLY_ARGS := x\<rparr>)"
  by (cases s, cases t) (simp add: ledger_only_def)

lemma increase_ok:
  assumes "increase_channel_balance c d a s = Inr s'"
  shows "outs s' k = outs s k + (if k = (c, d) then unat a else 0)"
    and "sent s' k = sent s k + (if k = (c, d) then unat a else 0)"
    and "owed s' e = owed s e + (if d = e then unat a else 0)"
    and "entry s' k \<longleftrightarrow> entry s k \<or> k = (c, d)"
    and "ledger_only s s'"
proof -
  from assms obtain st where st: "CHANNEL_STATE s' = fmupd (c, d) st (CHANNEL_STATE s)"
      "unat (outstanding st) = outs s (c, d) + unat a" "unat (total_sent st) = sent s (c, d) + unat a"
      "ledger_only s s'"
    by (fastforce simp: increase_channel_balance_def Let_def res_simps outs_def sent_def word_nat
        ledger_only_def default_channel_state_def split: option.splits)
  then show "outs s' k = outs s k + (if k = (c, d) then unat a else 0)"
    and "sent s' k = sent s k + (if k = (c, d) then unat a else 0)"
    and "entry s' k \<longleftrightarrow> entry s k \<or> k = (c, d)" and "ledger_only s s'"
    by (auto simp: outs_def sent_def entry_def)
  show "owed s' e = owed s e + (if d = e then unat a else 0)"
    using owed_upd [OF st(1), of e] st(2) by (auto split: if_splits)
qed

lemma reduce_ok:
  assumes "reduce_channel_balance c d a s = Inr s'"
  shows "unat a \<le> outs s (c, d)"
    and "outs s' k = outs s k - (if k = (c, d) then unat a else 0)"
    and "sent s' k = sent s k"
    and "owed s' e + (if d = e then unat a else 0) = owed s e"
    and "entry s (c, d)" and "entry s' k \<longleftrightarrow> entry s k"
    and "ledger_only s s'"
proof -
  from assms obtain cur where cur: "fmlookup (CHANNEL_STATE s) (c, d) = Some cur"
      "a \<le> outstanding cur"
      "s' = s\<lparr>CHANNEL_STATE := fmupd (c, d) (cur\<lparr>outstanding := outstanding cur - a\<rparr>)
         (CHANNEL_STATE s)\<rparr>"
    by (auto simp: reduce_channel_balance_def res_simps)
  then have le: "unat a \<le> unat (outstanding cur)" by (simp add: word_le_nat_alt)
  with cur show "unat a \<le> outs s (c, d)"
    and "outs s' k = outs s k - (if k = (c, d) then unat a else 0)"
    and "sent s' k = sent s k"
    and "entry s (c, d)" and "entry s' k \<longleftrightarrow> entry s k" and "ledger_only s s'"
    by (auto simp: outs_def sent_def entry_def ledger_only_def word_nat)
  show "owed s' e + (if d = e then unat a else 0) = owed s e"
    using owed_upd [of s' "(c, d)" "cur\<lparr>outstanding := outstanding cur - a\<rparr>" s e] cur le
    by (auto simp: outs_def word_nat split: if_splits)
qed

lemma reduce_defined:
  "(\<exists>s'. reduce_channel_balance c d a s = Inr s') \<longleftrightarrow> entry s (c, d) \<and> unat a \<le> outs s (c, d)"
  by (auto simp: reduce_channel_balance_def res_simps entry_def outs_def word_le_nat_alt)

lemma reduce_refused:
  "reduce_channel_balance c d a s = Inl e \<Longrightarrow> e = Err InsufficientFunds"
  by (auto simp: reduce_channel_balance_def rbind_eq_Inl checked_sub_def ok_or_def
      split: option.splits if_splits)

lemma undo_ok:
  assumes "undo_reduce_channel_balance c d a s = Inr s'"
  shows "outs s' k = outs s k + (if k = (c, d) then unat a else 0)"
    and "sent s' k = sent s k"
    and "owed s' e = owed s e + (if d = e then unat a else 0)"
    and "entry s' k \<longleftrightarrow> entry s k \<or> k = (c, d)"
    and "ledger_only s s'"
proof -
  from assms obtain st where st: "CHANNEL_STATE s' = fmupd (c, d) st (CHANNEL_STATE s)"
      "unat (outstanding st) = outs s (c, d) + unat a" "unat (total_sent st) = sent s (c, d)"
      "ledger_only s s'"
    by (fastforce simp: undo_reduce_channel_balance_def Let_def res_simps outs_def sent_def word_nat
        ledger_only_def default_channel_state_def split: option.splits)
  then show "outs s' k = outs s k + (if k = (c, d) then unat a else 0)"
    and "sent s' k = sent s k"
    and "entry s' k \<longleftrightarrow> entry s k \<or> k = (c, d)" and "ledger_only s s'"
    by (auto simp: outs_def sent_def entry_def)
  show "owed s' e = owed s e + (if d = e then unat a else 0)"
    using owed_upd [OF st(1), of e] st(2) by (auto split: if_splits)
qed

text \<open>Undoing a reduction is defined and gives back the very storage.\<close>

lemma reduce_undo:
  assumes "reduce_channel_balance c d a s = Inr s1" and "CHANNEL_STATE s2 = CHANNEL_STATE s1"
  shows "undo_reduce_channel_balance c d a s2 = Inr (s2\<lparr>CHANNEL_STATE := CHANNEL_STATE s\<rparr>)"
proof -
  from assms(1) obtain cur where cur: "fmlookup (CHANNEL_STATE s) (c, d) = Some cur"
      "a \<le> outstanding cur"
      "CHANNEL_STATE s1 = fmupd (c, d) (cur\<lparr>outstanding := outstanding cur - a\<rparr>) (CHANNEL_STATE s)"
    by (auto simp: reduce_channel_balance_def res_simps)
  have "unat (outstanding cur - a) + unat a = unat (outstanding cur)"
    using cur(2) by (simp add: word_nat word_le_nat_alt)
  then have add: "(uadd (outstanding cur - a) a :: u128 ics_res) = Inr (outstanding cur)"
    using unsigned_less [of "outstanding cur", where ?'a = nat] by (simp add: uadd_def)
  have same: "fmupd (c, d) cur (CHANNEL_STATE s) = CHANNEL_STATE s"
    by (rule fmap_ext) (auto simp: cur(1))
  show ?thesis
    by (simp add: undo_reduce_channel_balance_def Let_def assms(2) cur add same)
qed

section \<open>The interface\<close>

locale channel_ledger =
  fixes increase reduce undo :: "'k \<Rightarrow> u128 \<Rightarrow> 's \<Rightarrow> 'e + 's"
    and out_of total_of :: "'s \<Rightarrow> 'k \<Rightarrow> nat"
  assumes increase: "increase k a s = Inr s' \<Longrightarrow> out_of s' j = out_of s j + (if j = k then unat a else 0)
      \<and> total_of s' j = total_of s j + (if j = k then unat a else 0)"
    and reduce: "reduce k a s = Inr s' \<Longrightarrow> unat a \<le> out_of s k
      \<and> out_of s' j = out_of s j - (if j = k then unat a else 0) \<and> total_of s' j = total_of s j"
    and undo: "undo k a s = Inr s' \<Longrightarrow> out_of s' j = out_of s j + (if j = k then unat a else 0)
      \<and> total_of s' j = total_of s j"
begin

definition covered :: "'s \<Rightarrow> bool" where
  "covered s \<longleftrightarrow> (\<forall>k. out_of s k \<le> total_of s k)"

lemma increase_covered: "covered s \<Longrightarrow> increase k a s = Inr s' \<Longrightarrow> covered s'"
  using increase [of k a s s'] by (simp add: covered_def)

lemma reduce_covered: "covered s \<Longrightarrow> reduce k a s = Inr s' \<Longrightarrow> covered s'"
  using reduce [of k a s s'] unfolding covered_def by (metis diff_le_self le_trans)

lemma reduce_then_undo:
  assumes "reduce k a s = Inr s1" and "undo k a s1 = Inr s2"
  shows "out_of s2 j = out_of s j \<and> total_of s2 j = total_of s j"
  using reduce [OF assms(1), of j] undo [OF assms(2), of j] by auto

lemma undo_covered:
  "covered s \<Longrightarrow> reduce k a s = Inr s1 \<Longrightarrow> undo k a s1 = Inr s2 \<Longrightarrow> covered s2"
  by (simp add: covered_def reduce_then_undo)

lemma increase_then_reduce:
  assumes "increase k a s = Inr s1" and "reduce k a s1 = Inr s2"
  shows "out_of s2 j = out_of s j \<and> total_of s2 j = total_of s j + (if j = k then unat a else 0)"
  using increase [OF assms(1), of j] reduce [OF assms(2), of j] by auto

end

interpretation cl: channel_ledger
  "\<lambda>(c, d). increase_channel_balance c d" "\<lambda>(c, d). reduce_channel_balance c d"
  "\<lambda>(c, d). undo_reduce_channel_balance c d" outs sent
proof (unfold_locales, goal_cases)
  case (1 k a s s' j)
  then show ?case by (cases k) (simp add: increase_ok)
next
  case (2 k a s s' j)
  then show ?case by (cases k) (simp add: reduce_ok)
next
  case (3 k a s s' j)
  then show ?case by (cases k) (simp add: undo_ok)
qed

lemma covered_views:
  assumes "CHANNEL_STATE s = CHANNEL_STATE t"
  shows "cl.covered s = cl.covered t"
  unfolding cl.covered_def ledger_views [OF assms] ..

text \<open>The facts of the interface, for the operations of the code.\<close>

lemmas covered_iff = cl.covered_def

lemma ledger_covered:
  "cl.covered s \<Longrightarrow> increase_channel_balance c d a s = Inr s' \<Longrightarrow> cl.covered s'"
  "cl.covered s \<Longrightarrow> reduce_channel_balance c d a s = Inr s' \<Longrightarrow> cl.covered s'"
  using cl.increase_covered [of s "(c, d)" a s'] cl.reduce_covered [of s "(c, d)" a s'] by simp_all

end
