(* ===== verification/Ics20_World.thy ===== *)
theory Ics20_World
  imports Ics20_Ledger
begin

text \<open>
  The contract with its host: a state is the storage and what the account of the contract holds of
  each denomination (a cw20 token \<open>a\<close> stands under its local denomination \<open>cw20:a\<close>). A step is one
  transaction: an entry point, and then the messages it returned, each of which is carried out, or
  fails and is answered by \<open>reply\<close> when the message asks for it; a transaction that fails changes
  nothing. \<open>H\<close> is the set of cw20 contracts that keep the standard: they call \<open>Receive\<close> after moving
  the tokens, and transfer only what an account holds. Every other caller of \<open>Receive\<close> may lie.
  The bank holds no coin whose denomination starts with \<open>cw20:\<close>.
\<close>

type_synonym holdings = "string \<Rightarrow> nat"
type_synonym ics_world = "ics_store \<times> holdings"

section \<open>Money\<close>

definition debit :: "string \<Rightarrow> nat \<Rightarrow> holdings \<Rightarrow> holdings option" where
  "debit d n held = (if n \<le> held d then Some (held(d := held d - n)) else None)"

fun debit_coins :: "coin list \<Rightarrow> holdings \<Rightarrow> holdings option" where
  "debit_coins [] held = Some held"
| "debit_coins (c # cs) held = (case debit (c_denom c) (unat (c_amount c)) held of
       None \<Rightarrow> None | Some held' \<Rightarrow> debit_coins cs held')"

fun credit :: "(string \<times> nat) list \<Rightarrow> holdings \<Rightarrow> holdings" where
  "credit [] held = held"
| "credit ((d, n) # ds) held = credit ds (held(d := held d + n))"

text \<open>What comes in with a message: its coins, and the cw20 tokens a standard contract reports.\<close>

definition deposits :: "addr set \<Rightarrow> message_info \<Rightarrow> ics_execute_msg \<Rightarrow> (string \<times> nat) list" where
  "deposits H info m = (case m of
       Receive w \<Rightarrow> if sender info \<in> H then [(''cw20:'' @ sender info, unat (rw_amount w))] else []
     | _ \<Rightarrow> [])
     @ map (\<lambda>c. (c_denom c, unat (c_amount c))) (funds info)"

text \<open>A payment takes at most its amount; one to the account itself takes nothing.\<close>

definition at_least :: "holdings option \<Rightarrow> holdings \<Rightarrow> bool" where
  "at_least r held' \<longleftrightarrow> (case r of None \<Rightarrow> False | Some held \<Rightarrow> \<forall>d. held d \<le> held' d)"

fun paid :: "addr set \<Rightarrow> ics_msg \<Rightarrow> holdings \<Rightarrow> holdings \<Rightarrow> bool" where
  "paid H (SendPacket c d t) held held' = (held' = held)"
| "paid H (BankSend to cs) held held' = at_least (debit_coins cs held) held'"
| "paid H (WasmExecute a (Cw20Transfer to n) fs) held held' =
     (if a \<in> H then at_least (debit (''cw20:'' @ a) (unat n) held) held'
      else (\<forall>d. d \<noteq> ''cw20:'' @ a \<longrightarrow> held d \<le> held' d))"

section \<open>Transactions\<close>

inductive settle :: "ics_host \<Rightarrow> addr set \<Rightarrow> ics_msg sub_msg list \<Rightarrow> ics_world \<Rightarrow> ics_world \<Rightarrow> bool"
  for h :: ics_host and H :: "addr set" where
  settle_none: "settle h H [] w w"
| settle_paid: "paid H (sm_msg m) held held1 \<Longrightarrow> settle h H ms (s, held1) w
    \<Longrightarrow> settle h H (m # ms) (s, held) w"
| settle_failed: "sm_reply m = ReplyError
    \<Longrightarrow> reply_ics20 h \<lparr>reply_id = sm_id m, reply_result = Inl err\<rparr> s = Inr (s1, data)
    \<Longrightarrow> settle h H ms (s1, held) w \<Longrightarrow> settle h H (m # ms) (s, held) w"

inductive_simps settle_Nil [simp]: "settle h H [] w w'"
inductive_cases settle_ConsE: "settle h H (m # ms) (s, held) w'"

inductive ics_step :: "ics_host \<Rightarrow> addr set \<Rightarrow> ics_world \<Rightarrow> ics_world \<Rightarrow> bool"
  for h :: ics_host and H :: "addr set" where
  step_execute: "execute_ics h env info m s = Inr (s', r)
    \<Longrightarrow> (\<And>c. c \<in> set (funds info) \<Longrightarrow> \<not> prefix ''cw20:'' (c_denom c))
    \<Longrightarrow> settle h H (messages r) (s', credit (deposits H info m) held) w
    \<Longrightarrow> ics_step h H (s, held) w"
| step_connect: "ibc_channel_connect m s = Inr (s', r) \<Longrightarrow> settle h H (messages r) (s', held) w
    \<Longrightarrow> ics_step h H (s, held) w"
| step_receive: "ibc_packet_receive h p s = Inr (s', rr) \<Longrightarrow> settle h H (rr_messages rr) (s', held) w
    \<Longrightarrow> ics_step h H (s, held) w"
| step_ack: "ibc_packet_ack h a p s = Inr (s', r) \<Longrightarrow> settle h H (messages r) (s', held) w
    \<Longrightarrow> ics_step h H (s, held) w"
| step_timeout: "ibc_packet_timeout h p s = Inr (s', r) \<Longrightarrow> settle h H (messages r) (s', held) w
    \<Longrightarrow> ics_step h H (s, held) w"
| step_migrate: "migrate_ics h env g s = Inr (s', r) \<Longrightarrow> settle h H (messages r) (s', held) w
    \<Longrightarrow> ics_step h H (s, held) w"
| step_gift: "(\<And>d. held d \<le> held' d) \<Longrightarrow> ics_step h H (s, held) (s, held')"

inductive ics_reach :: "ics_host \<Rightarrow> addr set \<Rightarrow> ics_world \<Rightarrow> bool"
  for h :: ics_host and H :: "addr set" where
  reach_init: "instantiate_ics h m empty_ics = Inr (s, r) \<Longrightarrow> ics_reach h H (s, held)"
| reach_step: "ics_reach h H w \<Longrightarrow> ics_step h H w w' \<Longrightarrow> ics_reach h H w'"

lemma reach_steps: "(ics_step h H)\<^sup>*\<^sup>* w w' \<Longrightarrow> ics_reach h H w \<Longrightarrow> ics_reach h H w'"
  by (induction rule: rtranclp_induct) (auto intro: reach_step)

section \<open>What the host and the libraries promise\<close>

text \<open>
  \<open>one_coin\<close> accepts exactly one coin, and \<open>semver\<close> orders the version of this code after the
  releases whose storage the migration converts.
\<close>

definition ics_laws :: "ics_host \<Rightarrow> bool" where
  "ics_laws h \<longleftrightarrow> (\<forall>info c. one_coin h info = Inr c \<longrightarrow> funds info = [c])
     \<and> (\<exists>v v2 v3. parse_semver h CONTRACT_VERSION_ICS = Inr v
          \<and> parse_semver h MIGRATE_VERSION_2 = Inr v2 \<and> parse_semver h MIGRATE_VERSION_3 = Inr v3
          \<and> semver_less h v2 v \<and> semver_less h v3 v \<and> \<not> semver_less h v v)"

section \<open>Payments\<close>

text \<open>The denominations whose holdings mean something: native coins and tokens that keep the standard.\<close>

definition backed :: "addr set \<Rightarrow> string \<Rightarrow> bool" where
  "backed H d \<longleftrightarrow> \<not> prefix ''cw20:'' d \<or> (\<exists>a \<in> H. d = ''cw20:'' @ a)"

lemma credit_eq: "credit ds held d = held d + sum_list (map snd (filter (\<lambda>x. fst x = d) ds))"
  by (induction ds held rule: credit.induct) (simp_all add: fun_upd_def)

lemma credit_grows: "held d \<le> credit ds held d"
  by (simp add: credit_eq)

lemma credit_deposit: "(d, n) \<in> set ds \<Longrightarrow> held d + n \<le> credit ds held d"
  by (auto simp: credit_eq intro!: member_le_sum_list image_eqI [of _ _ "(d, n)"])

lemma cw20_denom_cases:
  obtains (native) "\<not> prefix ''cw20:'' d" | (cw20) x where "d = ''cw20:'' @ x"
  by (cases "prefix ''cw20:'' d") (auto simp: prefix_def)

lemma from_parts_native: "\<not> prefix ''cw20:'' d \<Longrightarrow> from_parts d a = amount_native a d"
  by (simp add: from_parts_def amount_native_def)

lemma from_parts_cw20: "from_parts (''cw20:'' @ x) a = amount_cw20 a x"
  by (simp add: from_parts_def amount_cw20_def)

lemma backed_cw20: "backed H (''cw20:'' @ x) \<longleftrightarrow> x \<in> H"
  by (auto simp: backed_def)

lemma at_least_debit:
  assumes "at_least (debit d n held) held'"
  shows "held d \<le> held' d + n" and "e \<noteq> d \<Longrightarrow> held e \<le> held' e"
proof -
  from assms have le: "(held(d := held d - n)) x \<le> held' x" for x
    by (auto simp: at_least_def debit_def split: if_splits)
  from le [of d] show "held d \<le> held' d + n" by simp
  from le [of e] show "e \<noteq> d \<Longrightarrow> held e \<le> held' e" by simp
qed

lemma paid_send:
  assumes "paid H (send_amount (from_parts d a) to) held held'"
  shows "(backed H d \<longrightarrow> held d \<le> held' d + unat a) \<and> (\<forall>e. e \<noteq> d \<longrightarrow> held e \<le> held' e)"
proof (cases d rule: cw20_denom_cases)
  case native
  with assms have "at_least (debit d (unat a) held) held'"
    unfolding from_parts_native [OF native] amount_native_def
    by (simp add: option.case_eq_if at_least_def split: if_splits)
  then show ?thesis by (auto dest: at_least_debit)
next
  case (cw20 x)
  then have p: "paid H (WasmExecute x (Cw20Transfer to a) []) held held'"
    using assms by (simp only: from_parts_cw20 amount_cw20_def send_amount.simps cw20_coin.select_convs)
  show ?thesis
  proof (cases "x \<in> H")
    case True
    with p have "at_least (debit d (unat a) held) held'"
      by (simp only: paid.simps cw20 if_True)
    then show ?thesis by (auto dest: at_least_debit)
  next
    case False
    with p have "\<forall>e. e \<noteq> d \<longrightarrow> held e \<le> held' e"
      by (simp only: paid.simps cw20 if_False)
    moreover from False have "\<not> backed H d" by (simp only: cw20 backed_cw20 not_False_eq_True)
    ultimately show ?thesis by blast
  qed
qed

text \<open>A transaction that sends only packets pays nothing out.\<close>

lemma settle_packet:
  assumes "settle h H [no_reply (SendPacket c b t)] (s, held) w"
  shows "w = (s, held)"
  using assms by (rule settle_ConsE) simp_all

lemma settle_send:
  assumes "settle h H [reply_on_error (send_amount (from_parts d a) to) i g] (s, held) (s', held')"
  shows "(\<exists>err data. held' = held
          \<and> reply_ics20 h \<lparr>reply_id = i, reply_result = Inl err\<rparr> s = Inr (s', data))
       \<or> (s' = s \<and> paid H (send_amount (from_parts d a) to) held held')"
  using assms
proof (rule settle_ConsE)
  fix held1
  assume "paid H (sm_msg (reply_on_error (send_amount (from_parts d a) to) i g)) held held1"
    "settle h H [] (s, held1) (s', held')"
  then show ?thesis by simp
next
  fix err s1 data
  assume "reply_ics20 h \<lparr>reply_id = sm_id (reply_on_error (send_amount (from_parts d a) to) i g),
      reply_result = Inl err\<rparr> s = Inr (s1, data)" "settle h H [] (s1, held) (s', held')"
  then show ?thesis by auto
qed

end
