(* ===== verification/Ics20_Reach.thy ===== *)
theory Ics20_Reach
  imports Ics20_World
begin

text \<open>
  What every reachable storage satisfies (\<open>conform\<close>), what only grows (\<open>extends\<close>), and the effect
  of a transaction on the ledger and the holdings: every step is a deposit, a payment, a refund that
  could not be paid out, or leaves the ledger alone (\<open>step_effect\<close>).
\<close>

section \<open>Conforming storages\<close>

definition default_set :: "ics_store \<Rightarrow> bool" where
  "default_set s \<longleftrightarrow> (\<exists>c. ICS_CONFIG s = Some (ConfigNow c) \<and> default_gas_limit c \<noteq> None)"

text \<open>A denomination the contract can pay out: native, or a cw20 token it may call.\<close>

definition sendable :: "ics_host \<Rightarrow> ics_store \<Rightarrow> string \<Rightarrow> bool" where
  "sendable h s d \<longleftrightarrow> (prefix ''cw20:'' d \<longrightarrow>
     (\<exists>a. addr_validate (h_api h) (drop 5 d) = Inr a
        \<and> (fmlookup (ALLOW_LIST s) a \<noteq> None \<or> default_set s)))"

definition conform :: "ics_host \<Rightarrow> ics_store \<Rightarrow> bool" where
  "conform h s \<longleftrightarrow> ICS_VERSION s = Some (CONTRACT_NAME_ICS, CONTRACT_VERSION_ICS)
     \<and> (\<exists>c. ICS_CONFIG s = Some (ConfigNow c))
     \<and> (\<forall>i info. fmlookup (CHANNEL_INFO s) i = Some info \<longrightarrow> ci_id info = i)
     \<and> (\<forall>k. entry s k \<longrightarrow> fmlookup (CHANNEL_INFO s) (fst k) \<noteq> None \<and> sendable h s (snd k))
     \<and> cl.covered s"

definition extends :: "ics_store \<Rightarrow> ics_store \<Rightarrow> bool" where
  "extends s s' \<longleftrightarrow>
     (\<forall>a i. fmlookup (ALLOW_LIST s) a = Some i \<longrightarrow> (\<exists>i'. fmlookup (ALLOW_LIST s') a = Some i'
        \<and> \<not> lowers_gas (ai_gas_limit i) (ai_gas_limit i')))
     \<and> (default_set s \<longrightarrow> default_set s')
     \<and> (\<forall>i. fmlookup (CHANNEL_INFO s) i \<noteq> None \<longrightarrow> fmlookup (CHANNEL_INFO s') i \<noteq> None)"

lemma lowers_gas_refl [simp]: "\<not> lowers_gas g g"
  by (simp add: lowers_gas_def split: option.split)

lemma lowers_gas_trans: "\<not> lowers_gas a b \<Longrightarrow> \<not> lowers_gas b c \<Longrightarrow> \<not> lowers_gas a c"
  by (auto simp: lowers_gas_def split: option.splits)

lemma extends_refl [simp]: "extends s s"
  by (auto simp: extends_def)

lemma extends_trans: "extends s t \<Longrightarrow> extends t u \<Longrightarrow> extends s u"
  unfolding extends_def by (meson lowers_gas_trans)

lemma default_set_ledger: "ledger_only s s' \<Longrightarrow> default_set s' = default_set s"
  by (simp add: default_set_def ledger_onlyD)

lemma extends_ledger: "ledger_only s s' \<Longrightarrow> extends s s'"
  by (auto simp: extends_def default_set_ledger ledger_onlyD)

lemma sendable_extends: "sendable h s d \<Longrightarrow> extends s s' \<Longrightarrow> sendable h s' d"
  unfolding sendable_def extends_def by (metis option.exhaust option.distinct(1))

lemma sendable_gas: "sendable h s d \<Longrightarrow> \<exists>g. check_gas_limit h (from_parts d a) s = Inr g"
  by (auto simp: sendable_def check_gas_limit_def from_parts_def default_set_def load_config_def
      split: option.split)

lemma conform_config: "conform h s \<Longrightarrow> \<exists>c. load_config s = Inr c"
  by (auto simp: conform_def load_config_def)

lemma conform_ledger:
  assumes "conform h s" and l: "ledger_only s s'" and "cl.covered s'"
    and "\<And>k. entry s' k \<Longrightarrow> entry s k
          \<or> (fmlookup (CHANNEL_INFO s) (fst k) \<noteq> None \<and> sendable h s (snd k))"
  shows "conform h s'"
proof -
  have "fmlookup (CHANNEL_INFO s) (fst k) \<noteq> None \<and> sendable h s (snd k)" if "entry s' k" for k
    using assms(1,4) that unfolding conform_def by blast
  then have "fmlookup (CHANNEL_INFO s') (fst k) \<noteq> None \<and> sendable h s' (snd k)"
    if "entry s' k" for k
    using that sendable_extends [OF _ extends_ledger [OF l]] by (simp add: ledger_onlyD [OF l])
  with assms(1,3) show ?thesis by (simp add: conform_def ledger_onlyD [OF l])
qed

section \<open>What the entry points do\<close>

lemma execute_transfer_effect:
  assumes "execute_transfer_ics h env m amt sndr s = Inr (s', r)"
  obtains config timeout data where
    "\<not> amount_is_empty amt" "fmlookup (CHANNEL_INFO s) (tm_channel m) \<noteq> None"
    "load_config s = Inr config" "check_sendable h config amt s = Inr ()"
    "unat (amount_amount amt) < 2 ^ 64"
    "increase_channel_balance (tm_channel m) (amount_denom amt) (amount_amount amt) s = Inr s'"
    "encode_packet h (with_memo (tm_memo m)
       (new_packet (amount_amount amt) (amount_denom amt) sndr (tm_remote_address m))) = Inr data"
    "plus_seconds (block_time env)
       (case tm_timeout m of Some t \<Rightarrow> t | None \<Rightarrow> default_timeout config)
       = (Inr timeout :: u64 ics_res)"
    "messages r = [no_reply (SendPacket (tm_channel m) data timeout)]"
  using assms unfolding execute_transfer_ics_def Let_def
  by (auto simp: res_simps validate_packet_def with_memo_def new_packet_def)

lemma check_sendable_ok:
  assumes "check_sendable h config amt s = Inr ()" and "load_config s = Inr config"
    and "\<And>c. amt = Native c \<Longrightarrow> \<not> prefix ''cw20:'' (c_denom c)"
  shows "sendable h s (amount_denom amt)"
  using assms
  by (auto simp: check_sendable_def sendable_def default_set_def load_config_def res_simps
      split: amount.splits if_splits option.splits stored_config.splits)

definition deposit_only :: "addr set \<Rightarrow> ics_host \<Rightarrow> ics_store \<Rightarrow> ics_store \<Rightarrow> (string \<times> nat) list \<Rightarrow> bool"
  where
  "deposit_only H h s s' ds \<longleftrightarrow> (\<exists>c d a. increase_channel_balance c d a s = Inr s'
     \<and> fmlookup (CHANNEL_INFO s) c \<noteq> None \<and> sendable h s d
     \<and> (backed H d \<longrightarrow> (d, unat a) \<in> set ds))"

lemma execute_receive_effect:
  assumes "execute_receive h env info w s = Inr (s', r)"
  obtains "deposit_only H h s s' (deposits H info (Receive w))"
    "\<exists>c b t. messages r = [no_reply (SendPacket c b t)]"
proof -
  let ?amt = "Cw20 \<lparr>cc_address = sender info, cc_amount = rw_amount w\<rparr>"
  from assms obtain m sndr where "execute_transfer_ics h env m ?amt sndr s = Inr (s', r)"
    by (auto simp: execute_receive_def Let_def res_simps)
  then obtain config timeout data where e:
      "fmlookup (CHANNEL_INFO s) (tm_channel m) \<noteq> None"
      "load_config s = Inr config" "check_sendable h config ?amt s = Inr ()"
      "increase_channel_balance (tm_channel m) (amount_denom ?amt) (amount_amount ?amt) s = Inr s'"
      "messages r = [no_reply (SendPacket (tm_channel m) data timeout)]"
    by (elim execute_transfer_effect) blast
  have "sendable h s (amount_denom ?amt)"
    by (rule check_sendable_ok [OF e(3,2)]) simp
  moreover have "backed H (amount_denom ?amt)
      \<longrightarrow> (amount_denom ?amt, unat (amount_amount ?amt)) \<in> set (deposits H info (Receive w))"
    by (auto simp: backed_def deposits_def)
  ultimately have "deposit_only H h s s' (deposits H info (Receive w))"
    unfolding deposit_only_def using e(1,4) by blast
  then show thesis using e(5) by (blast intro: that)
qed

lemma execute_native_effect:
  assumes "execute_ics h env info (TransferNative m) s = Inr (s', r)"
    and "ics_laws h" and nat: "\<And>c. c \<in> set (funds info) \<Longrightarrow> \<not> prefix ''cw20:'' (c_denom c)"
  obtains "deposit_only H h s s' (deposits H info (TransferNative m))"
    "\<exists>c b t. messages r = [no_reply (SendPacket c b t)]"
proof -
  from assms(1) obtain coin where coin: "one_coin h info = Inr coin"
      "execute_transfer_ics h env m (Native coin) (sender info) s = Inr (s', r)"
    by (auto simp: res_simps)
  with assms(2) have f: "funds info = [coin]" by (simp add: ics_laws_def)
  from coin(2) obtain config timeout data where e:
      "fmlookup (CHANNEL_INFO s) (tm_channel m) \<noteq> None"
      "load_config s = Inr config" "check_sendable h config (Native coin) s = Inr ()"
      "increase_channel_balance (tm_channel m) (c_denom coin) (c_amount coin) s = Inr s'"
      "messages r = [no_reply (SendPacket (tm_channel m) data timeout)]"
    by (elim execute_transfer_effect) simp
  have "sendable h s (c_denom coin)"
    using check_sendable_ok [OF e(3,2)] nat f by simp
  then have "deposit_only H h s s' (deposits H info (TransferNative m))"
    unfolding deposit_only_def using e(1,4) by (auto simp: deposits_def f)
  then show thesis using e(5) by (blast intro: that)
qed

text \<open>
  The payment of \<open>a\<close> of a denomination \<open>d\<close> out of a channel: the balance is reduced and a message
  pays the amount; a receipt remembers it for the reply, a refund does not.
\<close>

definition payout :: "ics_host \<Rightarrow> u64 \<Rightarrow> ics_store \<Rightarrow> ics_store \<Rightarrow> string \<Rightarrow> string \<Rightarrow> u128
    \<Rightarrow> ics_msg sub_msg list \<Rightarrow> bool" where
  "payout h i s s' c d a ms \<longleftrightarrow> (\<exists>s1 args to g. reduce_channel_balance c d a s = Inr s1
     \<and> s' = s1\<lparr>REPLY_ARGS := args\<rparr>
     \<and> ms = [reply_on_error (send_amount (from_parts d a) to) i g]
     \<and> (i = RECEIVE_ID \<longrightarrow> args = Some \<lparr>ra_channel = c, ra_denom = d, ra_amount = a\<rparr>))"

lemma payoutE:
  assumes "payout h i s s' c d a ms"
  obtains s1 args to g where "reduce_channel_balance c d a s = Inr s1"
    "s' = s1\<lparr>REPLY_ARGS := args\<rparr>" "CHANNEL_STATE s' = CHANNEL_STATE s1"
    "ms = [reply_on_error (send_amount (from_parts d a) to) i g]"
    "i = RECEIVE_ID \<Longrightarrow> REPLY_ARGS s' = Some \<lparr>ra_channel = c, ra_denom = d, ra_amount = a\<rparr>"
  using assms by (auto simp: payout_def)

lemma failed_receive_ok: "failed_receive h e = Inr rr \<Longrightarrow> rr_messages rr = []"
  by (auto simp: failed_receive_def Let_def res_simps)

text \<open>
  In a conforming storage a balance that covers the packet can be paid out, so the body of
  \<open>ibc_packet_receive\<close> does not fail after it has reduced the balance.
\<close>

lemma receive_effect:
  assumes "ibc_packet_receive h p s = Inr (s', rr)" and "conform h s"
  obtains (refused) e where "s' = s" "rr_messages rr = []" "failed_receive h e = Inr rr"
  | (sent) m d where "parse_packet h (pk_data p) = Inr m"
      "parse_voucher_denom (p_denom m) (pk_src p) = Inr d"
      "payout h RECEIVE_ID s s' (channel_id (pk_dest p)) d (p_amount m) (rr_messages rr)"
      "ack_success h = (Inr (rr_ack rr) :: binary ics_res)"
proof (cases "do_ibc_packet_receive h p s")
  case (Pair t r)
  show thesis
  proof (cases "\<exists>m d s1. parse_packet h (pk_data p) = Inr m
      \<and> parse_voucher_denom (p_denom m) (pk_src p) = Inr d
      \<and> reduce_channel_balance (channel_id (pk_dest p)) d (p_amount m) s = Inr s1")
    case False
    with Pair obtain e where r: "t = s" "r = Inl e"
      by (auto simp: do_ibc_packet_receive_def Let_def from_std_eq_Inr split: sum.splits)
    with assms(1) Pair obtain e' where ref: "s' = s" "failed_receive h e' = Inr rr"
      by (auto simp: ibc_packet_receive_def res_simps split: fail.splits)
    show thesis by (rule refused [OF ref(1) failed_receive_ok [OF ref(2)] ref(2)])
  next
    case True
    then obtain m d s1 where x: "parse_packet h (pk_data p) = Inr m"
        "parse_voucher_denom (p_denom m) (pk_src p) = Inr d"
        "reduce_channel_balance (channel_id (pk_dest p)) d (p_amount m) s = Inr s1" by blast
    let ?args = "\<lparr>ra_channel = channel_id (pk_dest p), ra_denom = d, ra_amount = p_amount m\<rparr>"
    let ?s2 = "s1\<lparr>REPLY_ARGS := Some ?args\<rparr>"
    have tr: "t = ?s2" "r = receive_send h m d ?s2"
      using Pair x by (auto simp: do_ibc_packet_receive_def Let_def)
    have "sendable h s d"
      using assms(2) reduce_ok(5) [OF x(3)] by (auto simp: conform_def)
    moreover have "ledger_only s ?s2"
      using reduce_ok(7) [OF x(3)] by (rule ledger_only_args)
    ultimately have "sendable h ?s2 d" by (blast intro: sendable_extends extends_ledger)
    then obtain g where "check_gas_limit h (from_parts d (p_amount m)) ?s2 = Inr g"
      using sendable_gas by blast
    then have rs: "receive_send h m d ?s2 = rbind (ack_success h) (\<lambda>ack. Inr \<lparr>rr_ack = ack,
        rr_messages = [reply_on_error (send_amount (from_parts d (p_amount m)) (p_receiver m))
          RECEIVE_ID g], rr_attributes =
          [(''action'', ''receive''), (''sender'', p_sender m), (''receiver'', p_receiver m),
           (''denom'', d), (''amount'', to_string (p_amount m)), (''success'', ''true'')]\<rparr>)"
      by (simp add: receive_send_def Let_def)
    have "\<exists>ack. (ack_success h :: binary ics_res) = Inr ack \<and> s' = ?s2 \<and> rr_ack rr = ack
        \<and> rr_messages rr = [reply_on_error (send_amount (from_parts d (p_amount m)) (p_receiver m))
            RECEIVE_ID g]"
      using assms(1) Pair tr rs
      by (cases "ack_success h :: binary ics_res")
         (auto simp: ibc_packet_receive_def ack_success_def encode_unwrap_def split: sum.splits)
    then have "payout h RECEIVE_ID s s' (channel_id (pk_dest p)) d (p_amount m) (rr_messages rr)"
        "ack_success h = (Inr (rr_ack rr) :: binary ics_res)"
      using x(3) by (auto simp: payout_def)
    with x(1,2) show thesis by (rule sent)
  qed
qed

lemma on_packet_failure_effect:
  assumes "on_packet_failure h p err s = Inr (s', r)"
  obtains m where "parse_packet h (pk_data p) = Inr m"
    "payout h ACK_FAILURE_ID s s' (channel_id (pk_src p)) (p_denom m) (p_amount m) (messages r)"
proof -
  from assms obtain m g where m: "parse_packet h (pk_data p) = Inr m"
      "reduce_channel_balance (channel_id (pk_src p)) (p_denom m) (p_amount m) s = Inr s'"
      "messages r = [reply_on_error (send_amount (from_parts (p_denom m) (p_amount m)) (p_sender m))
         ACK_FAILURE_ID g]"
    by (auto simp: on_packet_failure_def Let_def res_simps)
  have "payout h ACK_FAILURE_ID s s' (channel_id (pk_src p)) (p_denom m) (p_amount m) (messages r)"
    unfolding payout_def m(3) using m(2)
    by (auto simp: ACK_FAILURE_ID_def RECEIVE_ID_def intro!: exI [of _ "REPLY_ARGS s'"])
  with m(1) show thesis by (rule that)
qed

lemma ack_effect:
  assumes "ibc_packet_ack h a p s = Inr (s', r)"
  obtains (success) v where "parse_ack h a = Inr (AckResult v)" "s' = s" "messages r = []"
  | (failure) err m where "parse_ack h a = Inr (AckError err)" "parse_packet h (pk_data p) = Inr m"
      "payout h ACK_FAILURE_ID s s' (channel_id (pk_src p)) (p_denom m) (p_amount m) (messages r)"
proof -
  from assms obtain ack where ack: "parse_ack h a = Inr ack"
      "(case ack of AckResult _ \<Rightarrow> on_packet_success h p s
        | AckError err \<Rightarrow> on_packet_failure h p err s) = Inr (s', r)"
    by (auto simp: ibc_packet_ack_def res_simps)
  show thesis
  proof (cases ack)
    case (AckResult v)
    with ack show thesis by (auto simp: on_packet_success_def res_simps intro: success)
  next
    case (AckError err)
    with ack(2) have "on_packet_failure h p err s = Inr (s', r)" by simp
    then show thesis
      by (rule on_packet_failure_effect) (use ack(1) AckError failure in blast)
  qed
qed

section \<open>Payments and their failure\<close>

lemma payout_ledger:
  assumes "payout h i s s' c d a ms" and "conform h s"
  shows "ledger_only s s'" and "conform h s'"
proof -
  from assms(1) obtain s1 args where s1: "reduce_channel_balance c d a s = Inr s1"
      "s' = s1\<lparr>REPLY_ARGS := args\<rparr>" and cs: "CHANNEL_STATE s' = CHANNEL_STATE s1"
    by (rule payoutE)
  show l: "ledger_only s s'"
    by (subst s1(2)) (rule ledger_only_args [OF reduce_ok(7) [OF s1(1)]])
  have "cl.covered s1"
    using assms(2) ledger_covered(2) [OF _ s1(1)] by (simp add: conform_def)
  then have "cl.covered s'" by (simp add: covered_views [OF cs])
  then show "conform h s'"
    by (rule conform_ledger [OF assms(2) l])
       (simp add: ledger_views [OF cs] reduce_ok(6) [OF s1(1)])
qed

lemma payout_settled:
  assumes "payout h i s s1 c d a ms" and "settle h H ms (s1, held) (s', held')"
    and "i = RECEIVE_ID \<or> i = ACK_FAILURE_ID"
  obtains (paid) to where "s' = s1" "paid H (send_amount (from_parts d a) to) held held'"
  | (returned) "i = RECEIVE_ID" "held' = held" "s' = s1\<lparr>CHANNEL_STATE := CHANNEL_STATE s\<rparr>"
  | (stranded) "i = ACK_FAILURE_ID" "held' = held" "s' = s1"
proof -
  from assms(1) obtain t args to g where t: "reduce_channel_balance c d a s = Inr t"
      "s1 = t\<lparr>REPLY_ARGS := args\<rparr>" and cs: "CHANNEL_STATE s1 = CHANNEL_STATE t"
      and ms: "ms = [reply_on_error (send_amount (from_parts d a) to) i g]"
      and args: "i = RECEIVE_ID \<Longrightarrow> REPLY_ARGS s1 = Some \<lparr>ra_channel = c, ra_denom = d, ra_amount = a\<rparr>"
    by (rule payoutE) blast
  from settle_send [OF assms(2) [unfolded ms]] show thesis
  proof (elim disjE exE conjE)
    fix err data
    assume held: "held' = held"
      and r: "reply_ics20 h \<lparr>reply_id = i, reply_result = Inl err\<rparr> s1 = Inr (s', data)"
    show thesis
    proof (cases "i = RECEIVE_ID")
      case True
      with r args reduce_undo [OF t(1) cs] have "s' = s1\<lparr>CHANNEL_STATE := CHANNEL_STATE s\<rparr>"
        by (auto simp: reply_ics20_def res_simps)
      with True held show thesis by (rule returned)
    next
      case False
      with assms(3) have i: "i = ACK_FAILURE_ID" "ACK_FAILURE_ID \<noteq> RECEIVE_ID" by auto
      with r have "s' = s1" by (auto simp: reply_ics20_def res_simps)
      with i(1) held show thesis by (rule stranded)
    qed
  qed (rule paid)
qed

section \<open>Steps\<close>

text \<open>What a transaction does to the ledger and the holdings.\<close>

inductive ledger_move :: "addr set \<Rightarrow> ics_world \<Rightarrow> ics_world \<Rightarrow> bool" for H :: "addr set" where
  move_none: "CHANNEL_STATE s' = CHANNEL_STATE s \<Longrightarrow> (\<And>e. held e \<le> held' e)
    \<Longrightarrow> ledger_move H (s, held) (s', held')"
| move_deposit: "increase_channel_balance c d a s = Inr s' \<Longrightarrow> (\<And>e. held e \<le> held' e)
    \<Longrightarrow> (backed H d \<Longrightarrow> held d + unat a \<le> held' d) \<Longrightarrow> ledger_move H (s, held) (s', held')"
| move_paid: "reduce_channel_balance c d a s = Inr s1 \<Longrightarrow> CHANNEL_STATE s' = CHANNEL_STATE s1
    \<Longrightarrow> (backed H d \<Longrightarrow> held d \<le> held' d + unat a) \<Longrightarrow> (\<And>e. e \<noteq> d \<Longrightarrow> held e \<le> held' e)
    \<Longrightarrow> ledger_move H (s, held) (s', held')"
| move_stranded: "reduce_channel_balance c d a s = Inr s1 \<Longrightarrow> CHANNEL_STATE s' = CHANNEL_STATE s1
    \<Longrightarrow> ledger_move H (s, held) (s', held)"

lemma payout_move:
  assumes p: "payout h i s s1 c d a ms" and st: "settle h H ms (s1, held) (s', held')"
    and "i = RECEIVE_ID \<or> i = ACK_FAILURE_ID" and cf: "conform h s"
  shows "ledger_move H (s, held) (s', held') \<and> conform h s' \<and> extends s s'"
proof -
  from p obtain t where t: "reduce_channel_balance c d a s = Inr t"
      and cs: "CHANNEL_STATE s1 = CHANNEL_STATE t" by (rule payoutE)
  note s1 = payout_ledger [OF p cf] and ext = extends_ledger [OF payout_ledger(1) [OF p cf]]
  from p st assms(3) show ?thesis
  proof (cases rule: payout_settled)
    case (paid to)
    with paid_send [OF paid(2)] have "ledger_move H (s, held) (s', held')"
      using move_paid [OF t(1), of s' H held held'] cs by simp
    with s1 ext paid(1) show ?thesis by simp
  next
    case returned
    then have l: "ledger_only s s'"
      using s1(1) by (cases s, cases s1) (simp add: ledger_only_def)
    have cs': "CHANNEL_STATE s' = CHANNEL_STATE s" using returned by simp
    then have "conform h s'"
      using conform_ledger [OF cf l] cf
      by (simp add: ledger_views [OF cs'] covered_views [OF cs'] conform_def)
    moreover have "ledger_move H (s, held) (s', held')"
      using returned cs' by (auto intro: move_none)
    ultimately show ?thesis using extends_ledger [OF l] by simp
  next
    case stranded
    then have "ledger_move H (s, held) (s', held')"
      using move_stranded [OF t(1), of s' H held] cs by simp
    with s1 ext stranded(3) show ?thesis by simp
  qed
qed

lemma deposit_move:
  assumes "deposit_only H h s s' ds" and "\<exists>c b t. ms = [no_reply (SendPacket c b t)]"
    and "settle h H ms (s', credit ds held) (s2, held')" and cf: "conform h s"
  shows "ledger_move H (s, held) (s2, held') \<and> conform h s2 \<and> extends s s2"
proof -
  from assms(2,3) have eq: "s2 = s'" "held' = credit ds held"
    by (auto dest: settle_packet)
  from assms(1) obtain c d a where i: "increase_channel_balance c d a s = Inr s'"
      "fmlookup (CHANNEL_INFO s) c \<noteq> None" "sendable h s d"
      "backed H d \<Longrightarrow> (d, unat a) \<in> set ds"
    by (auto simp: deposit_only_def)
  have l: "ledger_only s s'" by (rule increase_ok(5) [OF i(1)])
  have "cl.covered s'" using cf ledger_covered(1) [OF _ i(1)] by (simp add: conform_def)
  then have "conform h s'"
    by (rule conform_ledger [OF cf l]) (use increase_ok(4) [OF i(1)] i(2,3) in auto)
  moreover have "ledger_move H (s, held) (s', credit ds held)"
    using i(1) by (rule move_deposit) (simp_all add: credit_grows credit_deposit i(4))
  ultimately show ?thesis using eq extends_ledger [OF l] by simp
qed

text \<open>Steps that leave the ledger alone.\<close>

definition quiet_step :: "ics_store \<Rightarrow> ics_store \<Rightarrow> bool" where
  "quiet_step s s' \<longleftrightarrow> CHANNEL_STATE s' = CHANNEL_STATE s \<and> ICS_VERSION s' = ICS_VERSION s
     \<and> ((\<exists>c. ICS_CONFIG s = Some (ConfigNow c)) \<longrightarrow> (\<exists>c. ICS_CONFIG s' = Some (ConfigNow c)))
     \<and> (\<forall>i info. fmlookup (CHANNEL_INFO s') i = Some info
          \<longrightarrow> fmlookup (CHANNEL_INFO s) i = Some info \<or> ci_id info = i)
     \<and> extends s s'"

lemma quiet_step_refl [simp]: "quiet_step s s"
  by (simp add: quiet_step_def)

lemma quiet_step_move:
  assumes q: "quiet_step s s1" and "settle h H [] (s1, held1) (s', held')"
    and "\<And>e. held e \<le> held1 e" and cf: "conform h s"
  shows "ledger_move H (s, held) (s', held') \<and> conform h s' \<and> extends s s'"
proof -
  from assms(2) have eq: "s' = s1" "held' = held1" by auto
  have cs: "CHANNEL_STATE s1 = CHANNEL_STATE s" and ext: "extends s s1"
    using q by (simp_all add: quiet_step_def)
  have "fmlookup (CHANNEL_INFO s1) (fst k) \<noteq> None \<and> sendable h s1 (snd k)" if "entry s k" for k
  proof -
    from that cf have "fmlookup (CHANNEL_INFO s) (fst k) \<noteq> None" "sendable h s (snd k)"
      unfolding conform_def by blast+
    then show ?thesis using ext sendable_extends by (auto simp: extends_def)
  qed
  moreover have "ci_id info = i" if "fmlookup (CHANNEL_INFO s1) i = Some info" for i info
    using that q cf unfolding quiet_step_def conform_def by blast
  ultimately have "conform h s1"
    using cf q by (simp add: conform_def ledger_views [OF cs] covered_views [OF cs] quiet_step_def)
  moreover have "ledger_move H (s, held) (s1, held1)"
    using cs assms(3) by (rule move_none)
  ultimately show ?thesis using eq ext by simp
qed

lemma execute_allow_quiet:
  assumes "execute_allow h info allow s = Inr (s', r)"
  shows "quiet_step s s' \<and> messages r = []"
proof -
  from assms obtain contract new where n: "allow_update allow (fmlookup (ALLOW_LIST s) contract) = Inr new"
      "s' = s\<lparr>ALLOW_LIST := fmupd contract new (ALLOW_LIST s)\<rparr>" "messages r = []"
    by (auto simp: execute_allow_def Let_def res_simps)
  have "\<not> lowers_gas (ai_gas_limit i) (ai_gas_limit new)"
    if "fmlookup (ALLOW_LIST s) contract = Some i" for i
    using n(1) that by (auto simp: allow_update_def split: if_splits)
  then show ?thesis
    using n(2,3) by (auto simp: quiet_step_def extends_def default_set_def)
qed

lemma update_admin_quiet:
  "execute_ics h env info (UpdateAdmin a) s = Inr (s', r) \<Longrightarrow> \<exists>c. s' = s\<lparr>ADMIN := c\<rparr> \<and> messages r = []"
  by (auto simp: res_simps split: prod.splits)

lemma connect_quiet:
  "ibc_channel_connect m s = Inr (s', r) \<Longrightarrow> quiet_step s s' \<and> messages r = []"
  by (auto simp: ibc_channel_connect_def Let_def res_simps quiet_step_def extends_def default_set_def
      split: if_splits)

text \<open>On a storage of this release the migration converts nothing.\<close>

lemma migrate_current:
  assumes "ics_laws h" and "conform h s" and "migrate_ics h env g s = Inr (s', r)"
  shows "set_default_gas_limit g s = Inr s' \<and> messages r = []"
  using assms
  by (auto simp: migrate_ics_def ics_laws_def conform_def version_ics_def res_simps)

lemma set_default_quiet:
  assumes "set_default_gas_limit g s = Inr s'"
  shows "quiet_step s s'"
  using assms
  by (auto simp: set_default_gas_limit_def res_simps quiet_step_def extends_def default_set_def
      split: if_splits)

lemma migrate_quiet:
  "ics_laws h \<Longrightarrow> conform h s \<Longrightarrow> migrate_ics h env g s = Inr (s', r)
    \<Longrightarrow> quiet_step s s' \<and> messages r = []"
  using migrate_current set_default_quiet by blast

lemma step_effect:
  assumes "ics_step h H (s, held) (s', held')" and laws: "ics_laws h" and cf: "conform h s"
  shows "ledger_move H (s, held) (s', held') \<and> conform h s' \<and> extends s s'"
  using assms(1)
proof (cases rule: ics_step.cases)
  case (step_execute env info m s1 r)
  show ?thesis
  proof (cases m)
    case (Receive w)
    with step_execute(1) have "execute_receive h env info w s = Inr (s1, r)" by simp
    then show ?thesis
      by (rule execute_receive_effect) (rule deposit_move, assumption+, use step_execute(3) Receive cf in simp_all)
  next
    case (TransferNative tm)
    with step_execute(1) have "execute_ics h env info (TransferNative tm) s = Inr (s1, r)" by simp
    then show ?thesis using laws step_execute(2)
      by (rule execute_native_effect)
         (assumption, rule deposit_move, assumption+, use step_execute(3) TransferNative cf in simp_all)
  next
    case (Allow a)
    with step_execute(1) have q: "quiet_step s s1 \<and> messages r = []"
      using execute_allow_quiet by simp
    show ?thesis
      by (rule quiet_step_move [of s s1]) (use q step_execute(3) cf credit_grows in auto)
  next
    case (UpdateAdmin a)
    with step_execute(1) obtain c where "s1 = s\<lparr>ADMIN := c\<rparr>" "messages r = []"
      using update_admin_quiet by blast
    then have q: "quiet_step s s1 \<and> messages r = []"
      by (auto simp: quiet_step_def extends_def default_set_def)
    show ?thesis
      by (rule quiet_step_move [of s s1]) (use q step_execute(3) cf credit_grows in auto)
  qed
next
  case (step_connect m s1 r)
  with connect_quiet show ?thesis
    by (intro quiet_step_move [OF _ _ _ cf, of s1 H held]) auto
next
  case (step_receive p s1 rr)
  from step_receive(1) cf show ?thesis
  proof (cases rule: receive_effect)
    case (refused e)
    with step_receive(2) show ?thesis
      by (intro quiet_step_move [OF _ _ _ cf, of s1 H held]) auto
  next
    case (sent m d)
    from sent(3) step_receive(2) show ?thesis by (rule payout_move) (use cf in simp_all)
  qed
next
  case (step_ack a p s1 r)
  from step_ack(1) show ?thesis
  proof (cases rule: ack_effect)
    case (success v)
    with step_ack(2) show ?thesis
      by (intro quiet_step_move [OF _ _ _ cf, of s1 H held]) auto
  next
    case (failure err m)
    from failure(3) step_ack(2) show ?thesis by (rule payout_move) (use cf in simp_all)
  qed
next
  case (step_timeout p s1 r)
  from step_timeout(1) [unfolded ibc_packet_timeout_def] show ?thesis
  proof (cases rule: on_packet_failure_effect)
    case (1 m)
    from "1"(2) step_timeout(2) show ?thesis by (rule payout_move) (use cf in simp_all)
  qed
next
  case (step_migrate env g s1 r)
  with migrate_quiet [OF laws cf] show ?thesis
    by (intro quiet_step_move [OF _ _ _ cf, of s1 H held]) auto
next
  case step_gift
  then show ?thesis using cf by (auto intro: move_none)
qed

section \<open>Reachable states\<close>

lemma save_allowed_frame:
  "save_allowed h a s = Inr s' \<Longrightarrow> \<exists>m. s' = s\<lparr>ALLOW_LIST := m\<rparr>"
  by (auto simp: save_allowed_def res_simps)

lemma instantiate_conform:
  assumes "instantiate_ics h m empty_ics = Inr (s, r)"
  shows "conform h s \<and> CHANNEL_STATE s = fmempty"
proof -
  define I where "I t \<longleftrightarrow> CHANNEL_STATE t = fmempty \<and> CHANNEL_INFO t = fmempty
     \<and> ICS_VERSION t = Some (CONTRACT_NAME_ICS, CONTRACT_VERSION_ICS)
     \<and> (\<exists>c. ICS_CONFIG t = Some (ConfigNow c))" for t :: ics_store
  from assms obtain t where t: "rfold (save_allowed h) (im_allowlist m) t = Inr s" and "I t"
    by (auto simp: instantiate_ics_def Let_def res_simps I_def empty_ics_def)
  from t \<open>I t\<close> have "I s"
    by (rule rfold_invariant) (auto dest!: save_allowed_frame simp: I_def)
  then show ?thesis
    by (simp add: I_def conform_def entry_def cl.covered_def outs_def sent_def)
qed

lemma reach_conform:
  assumes "ics_reach h H w" and "ics_laws h"
  shows "conform h (fst w)"
  using assms(1)
proof induction
  case (reach_init m s r held)
  then show ?case by (simp add: instantiate_conform)
next
  case (reach_step w w')
  then show ?case using step_effect [of h H "fst w" "snd w" "fst w'" "snd w'"] assms(2) by simp
qed

lemma steps_extend:
  assumes "(ics_step h H)\<^sup>*\<^sup>* w w'" and "ics_reach h H w" and "ics_laws h"
  shows "extends (fst w) (fst w')"
  using assms
proof induction
  case (step w1 w2)
  then have "ics_reach h H w1" using reach_steps by blast
  with step(2) assms(3) have "extends (fst w1) (fst w2)"
    using step_effect [of h H "fst w1" "snd w1" "fst w2" "snd w2"] reach_conform by simp
  with step show ?case by (blast intro: extends_trans)
qed simp

text \<open>The holdings cover what is owed in every backed denomination.\<close>

definition solvent :: "addr set \<Rightarrow> ics_world \<Rightarrow> bool" where
  "solvent H w \<longleftrightarrow> (\<forall>d. backed H d \<longrightarrow> owed (fst w) d \<le> snd w d)"

lemma move_solvent:
  assumes "ledger_move H w w'" and sol: "solvent H w"
  shows "solvent H w'"
  using assms(1)
proof cases
  case (move_none s' s held held')
  then show ?thesis
    using sol ledger_views(4) [OF move_none(3)] by (auto simp: solvent_def intro: order_trans)
next
  case (move_deposit c d a s s' held held')
  have "owed s' e \<le> held' e" if "backed H e" for e
    using sol that move_deposit(1,4,5) increase_ok(3) [OF move_deposit(3), of e]
    by (cases "e = d") (auto simp: solvent_def intro: order_trans [rotated])
  with move_deposit show ?thesis by (simp add: solvent_def)
next
  case (move_paid c d a s s1 s' held held')
  have "owed s' e \<le> held' e" if "backed H e" for e
    using sol that move_paid(1,5,6) reduce_ok(4) [OF move_paid(3), of e] ledger_views(4) [OF move_paid(4)]
    by (cases "e = d") (force simp: solvent_def intro: order_trans)+
  with move_paid show ?thesis by (simp add: solvent_def)
next
  case (move_stranded c d a s s1 s' held)
  have "owed s' e \<le> held e" if "backed H e" for e
    using sol that move_stranded(1) reduce_ok(4) [OF move_stranded(3), of e]
      ledger_views(4) [OF move_stranded(4)]
    by (auto simp: solvent_def intro: order_trans [rotated])
  with move_stranded show ?thesis by (simp add: solvent_def)
qed

lemma reach_solvent:
  assumes "ics_reach h H w" and "ics_laws h"
  shows "solvent H w"
  using assms(1)
proof induction
  case (reach_init m s r held)
  have "owed s d = 0" for d
    unfolding owed_def owed_map_def conjunct2 [OF instantiate_conform [OF reach_init]] by simp
  then show ?case by (simp add: solvent_def)
next
  case (reach_step w w')
  then have "ledger_move H w w'"
    using step_effect [of h H "fst w" "snd w" "fst w'" "snd w'"] reach_conform assms(2) by simp
  with reach_step(3) show ?case using move_solvent by blast
qed

end
