(* ===== verification/Lsd_State.thy ===== *)
theory Lsd_State
  imports Chain
begin

text \<open>
  The data of the liquid-staking token (contracts/lsd\_token: state.rs, error.rs, msg.rs): the token
  information with the minter set, the storage of the contract, its errors and its messages.
  Constructors and functions whose name another contract also uses carry the suffix \<open>_lsd\<close>.
\<close>

section \<open>state.rs\<close>

record minter_data =
  md_admin :: addr
  md_minters :: "addr list"
  md_cap :: "u128 option"

record token_info =
  ti_name :: string
  ti_symbol :: string
  ti_decimals :: u8
  ti_total_supply :: u128
  ti_mint :: "minter_data option"

definition get_cap :: "token_info \<Rightarrow> u128 option" where
  "get_cap t = Option.bind (ti_mint t) md_cap"

record allowance =
  al_allowance :: u128
  al_expires :: expiration

definition default_allowance :: allowance where
  "default_allowance = \<lparr>al_allowance = 0, al_expires = Never\<rparr>"

datatype embedded_logo = Svg string | Png string

datatype logo = Url string | Embedded embedded_logo

datatype logo_info = UrlInfo string | EmbeddedInfo

record marketing =
  mk_project :: "string option"
  mk_description :: "string option"
  mk_logo :: "logo_info option"
  mk_marketing :: "addr option"

definition default_marketing :: marketing where
  "default_marketing =
     \<lparr>mk_project = None, mk_description = None, mk_logo = None, mk_marketing = None\<rparr>"

record lsd_store =
  LSD_VERSION :: "(string \<times> string) option"
  TOKEN_INFO :: "token_info option"
  MARKETING_INFO :: "marketing option"
  LOGO :: "logo option"
  BALANCES :: "(addr, u128) fmap"
  ALLOWANCES :: "(addr \<times> addr, allowance) fmap"
  ALLOWANCES_SPENDER :: "(addr \<times> addr, allowance) fmap"

definition empty_lsd :: lsd_store where
  "empty_lsd = \<lparr>LSD_VERSION = None, TOKEN_INFO = None, MARKETING_INFO = None, LOGO = None,
     BALANCES = fmempty, ALLOWANCES = fmempty, ALLOWANCES_SPENDER = fmempty\<rparr>"

section \<open>error.rs\<close>

datatype lsd_error =
    Std_lsd std_error
  | Unauthorized_lsd
  | CannotSetOwnAccount
  | InvalidZeroAmount
  | Expired
  | NoAllowance
  | CannotExceedCap
  | LogoTooBig
  | InvalidXmlPreamble
  | InvalidPngHeader
  | InvalidExpiration
  | DuplicateInitialBalanceAddresses
  | InvalidAddress_lsd

section \<open>msg.rs\<close>

record instantiate_marketing_info =
  im_project :: "string option"
  im_description :: "string option"
  im_marketing :: "string option"
  im_logo :: "logo option"

record instantiate_minter_data =
  imd_admin :: string
  imd_minter :: string
  imd_cap :: "u128 option"

record cw20_coin =
  cw_address :: string
  cw_amount :: u128

record instantiate_msg_lsd =
  in_name :: string
  in_symbol :: string
  in_decimals :: u8
  in_initial_balances :: "cw20_coin list"
  in_mint :: "instantiate_minter_data option"
  in_marketing :: "instantiate_marketing_info option"

definition instantiate_get_cap :: "instantiate_msg_lsd \<Rightarrow> u128 option" where
  "instantiate_get_cap m = Option.bind (in_mint m) imd_cap"

definition has_valid_name :: "instantiate_msg_lsd \<Rightarrow> bool" where
  "has_valid_name m = (\<not> (length (in_name m) < 3 \<or> 50 < length (in_name m)))"

definition valid_symbol_byte :: "char \<Rightarrow> bool" where
  "valid_symbol_byte c =
     (\<not> (byte c \<noteq> 45 \<and> (byte c < 65 \<or> 90 < byte c) \<and> (byte c < 97 \<or> 122 < byte c)))"

definition has_valid_symbol :: "instantiate_msg_lsd \<Rightarrow> bool" where
  "has_valid_symbol m =
     (if length (in_symbol m) < 3 \<or> 12 < length (in_symbol m) then False
      else list_all valid_symbol_byte (in_symbol m))"

definition validate_instantiate :: "instantiate_msg_lsd \<Rightarrow> (lsd_error, unit) res" where
  "validate_instantiate m =
     (if \<not> has_valid_name m then
        Inl (Err (Std_lsd (GenericErr ''Name is not in the expected format (3-50 UTF-8 bytes)'')))
      else if \<not> has_valid_symbol m then
        Inl (Err (Std_lsd (GenericErr
          (''Ticker symbol is not in expected format [a-zA-Z'' @ [CHR 0x5C] @ ''-]{3,12}''))))
      else if 18 < in_decimals m then
        Inl (Err (Std_lsd (GenericErr ''Decimals must not exceed 18'')))
      else Inr ())"

datatype lsd_execute_msg =
    Transfer string u128  \<comment> \<open>recipient, amount\<close>
  | Burn u128
  | Send string u128 string  \<comment> \<open>contract, amount, msg\<close>
  | IncreaseAllowance string u128 "expiration option"  \<comment> \<open>spender, amount, expires\<close>
  | DecreaseAllowance string u128 "expiration option"
  | TransferFrom string string u128  \<comment> \<open>owner, recipient, amount\<close>
  | SendFrom string string u128 string  \<comment> \<open>owner, contract, amount, msg\<close>
  | BurnFrom string u128  \<comment> \<open>owner, amount\<close>
  | Mint string u128  \<comment> \<open>recipient, amount\<close>
  | AddMinter string
  | RemoveMinter string
  | TransferAdmin_lsd string
  | UpdateMarketing "string option" "string option" "string option"
      \<comment> \<open>project, description, marketing\<close>
  | UploadLogo logo

text \<open>
  The messages the token sends: the \<open>Cw20ReceiveMsg\<close> of a send, addressed to a contract, with the
  sender, the amount and the payload.
\<close>

datatype lsd_out = Cw20Receive addr addr u128 string

datatype lsd_query_msg =
    QBalance string
  | QTokenInfo
  | QMinter
  | QAllowance string string
  | QAllAllowances string "string option" "u32 option"
  | QAllSpenderAllowances string "string option" "u32 option"
  | QAllAccounts "string option" "u32 option"
  | QMarketingInfo
  | QDownloadLogo

type_synonym 'a lsd_res = "(lsd_error, 'a) res"
type_synonym lsd_result = "(lsd_store \<times> lsd_out response) lsd_res"

end
