(* ===== verification/Lsd_Allowances.thy ===== *)
theory Lsd_Allowances
  imports Lsd_State
begin

text \<open>
  contracts/lsd\_token/src/allowances.rs: the balance updates the token's messages share, and the
  messages that work on allowances. An allowance is stored twice, under (owner, spender) in
  \<open>ALLOWANCES\<close> and under (spender, owner) in \<open>ALLOWANCES_SPENDER\<close>; every handler updates both.
\<close>

section \<open>Balance updates\<close>

text \<open>The closures of \<open>BALANCES.update\<close> and \<open>TOKEN_INFO.update\<close>, which the handlers repeat.\<close>

definition lower_balance :: "addr \<Rightarrow> u128 \<Rightarrow> lsd_store \<Rightarrow> lsd_store lsd_res" where
  "lower_balance a amt s =
     rbind (checked_sub (Std_lsd OverflowErr) (get_or_zero (BALANCES s) a) amt)
       (\<lambda>b. Inr (s\<lparr>BALANCES := fmupd a b (BALANCES s)\<rparr>))"

definition raise_balance :: "addr \<Rightarrow> u128 \<Rightarrow> lsd_store \<Rightarrow> lsd_store lsd_res" where
  "raise_balance a amt s =
     rbind (uadd (get_or_zero (BALANCES s) a) amt)
       (\<lambda>b. Inr (s\<lparr>BALANCES := fmupd a b (BALANCES s)\<rparr>))"

definition lower_supply :: "u128 \<Rightarrow> lsd_store \<Rightarrow> lsd_store lsd_res" where
  "lower_supply amt s =
     rbind (load_item (Std_lsd (NotFound ''token_info'')) (TOKEN_INFO s)) (\<lambda>ti.
     rbind (checked_sub (Std_lsd OverflowErr) (ti_total_supply ti) amt) (\<lambda>t.
     Inr (s\<lparr>TOKEN_INFO := Some (ti\<lparr>ti_total_supply := t\<rparr>)\<rparr>)))"

section \<open>Granting allowances\<close>

definition increase_fn ::
  "api \<Rightarrow> env \<Rightarrow> u128 \<Rightarrow> expiration option \<Rightarrow> allowance option \<Rightarrow> allowance lsd_res" where
  "increase_fn api env amt exp allow =
     (let val = (case allow of None \<Rightarrow> default_allowance | Some v \<Rightarrow> v) in
      rbind (case exp of
          None \<Rightarrow> Inr val
        | Some e \<Rightarrow> if is_expired api e env then Inl (Err InvalidExpiration)
                   else Inr (val\<lparr>al_expires := e\<rparr>)) (\<lambda>val.
      rbind (uadd (al_allowance val) amt) (\<lambda>a.
      Inr (val\<lparr>al_allowance := a\<rparr>))))"

definition execute_increase_allowance ::
  "api \<Rightarrow> env \<Rightarrow> message_info \<Rightarrow> string \<Rightarrow> u128 \<Rightarrow> expiration option \<Rightarrow> lsd_store \<Rightarrow> lsd_result" where
  "execute_increase_allowance api env info spender amt exp s =
     rbind (from_std Std_lsd (addr_validate api spender)) (\<lambda>spender_addr.
     if spender_addr = sender info then Inl (Err CannotSetOwnAccount)
     else
     rbind (increase_fn api env amt exp (fmlookup (ALLOWANCES s) (sender info, spender_addr)))
       (\<lambda>v.
     let s = s\<lparr>ALLOWANCES := fmupd (sender info, spender_addr) v (ALLOWANCES s)\<rparr> in
     rbind (increase_fn api env amt exp
             (fmlookup (ALLOWANCES_SPENDER s) (spender_addr, sender info))) (\<lambda>v.
     let s = s\<lparr>ALLOWANCES_SPENDER := fmupd (spender_addr, sender info) v (ALLOWANCES_SPENDER s)\<rparr> in
     Inr (s, respond [] [(''action'', ''increase_allowance''), (''owner'', sender info),
       (''spender'', spender), (''amount'', to_string amt)]))))"

definition execute_decrease_allowance ::
  "api \<Rightarrow> env \<Rightarrow> message_info \<Rightarrow> string \<Rightarrow> u128 \<Rightarrow> expiration option \<Rightarrow> lsd_store \<Rightarrow> lsd_result" where
  "execute_decrease_allowance api env info spender amt exp s =
     rbind (from_std Std_lsd (addr_validate api spender)) (\<lambda>spender_addr.
     if spender_addr = sender info then Inl (Err CannotSetOwnAccount)
     else
     let key = (sender info, spender_addr); rkey = (spender_addr, sender info) in
     rbind (load (Std_lsd (NotFound ''allowance'')) (ALLOWANCES s) key) (\<lambda>al.
     rbind
       (if amt < al_allowance al then
          rbind (checked_sub (Std_lsd OverflowErr) (al_allowance al) amt) (\<lambda>a.
          let al = al\<lparr>al_allowance := a\<rparr> in
          rbind (case exp of
              None \<Rightarrow> Inr al
            | Some e \<Rightarrow> if is_expired api e env then Inl (Err InvalidExpiration)
                       else Inr (al\<lparr>al_expires := e\<rparr>)) (\<lambda>al.
          Inr (s\<lparr>ALLOWANCES := fmupd key al (ALLOWANCES s),
                 ALLOWANCES_SPENDER := fmupd rkey al (ALLOWANCES_SPENDER s)\<rparr>)))
        else
          Inr (s\<lparr>ALLOWANCES := fmdrop key (ALLOWANCES s),
                 ALLOWANCES_SPENDER := fmdrop rkey (ALLOWANCES_SPENDER s)\<rparr>)) (\<lambda>s.
     Inr (s, respond [] [(''action'', ''decrease_allowance''), (''owner'', sender info),
       (''spender'', spender), (''amount'', to_string amt)]))))"

section \<open>Spending allowances\<close>

definition deduct_fn :: "api \<Rightarrow> env \<Rightarrow> u128 \<Rightarrow> allowance option \<Rightarrow> allowance lsd_res" where
  "deduct_fn api env amt current =
     (case current of
        Some a \<Rightarrow>
          if is_expired api (al_expires a) env then Inl (Err Expired)
          else rbind (checked_sub (Std_lsd OverflowErr) (al_allowance a) amt)
                 (\<lambda>b. Inr (a\<lparr>al_allowance := b\<rparr>))
      | None \<Rightarrow> Inl (Err NoAllowance))"

definition deduct_allowance ::
  "api \<Rightarrow> env \<Rightarrow> addr \<Rightarrow> addr \<Rightarrow> u128 \<Rightarrow> lsd_store \<Rightarrow> lsd_store lsd_res" where
  "deduct_allowance api env owner spender amt s =
     rbind (deduct_fn api env amt (fmlookup (ALLOWANCES s) (owner, spender))) (\<lambda>v.
     let s = s\<lparr>ALLOWANCES := fmupd (owner, spender) v (ALLOWANCES s)\<rparr> in
     rbind (deduct_fn api env amt (fmlookup (ALLOWANCES_SPENDER s) (spender, owner))) (\<lambda>v.
     Inr (s\<lparr>ALLOWANCES_SPENDER := fmupd (spender, owner) v (ALLOWANCES_SPENDER s)\<rparr>)))"

definition execute_transfer_from ::
  "api \<Rightarrow> env \<Rightarrow> message_info \<Rightarrow> string \<Rightarrow> string \<Rightarrow> u128 \<Rightarrow> lsd_store \<Rightarrow> lsd_result" where
  "execute_transfer_from api env info owner recipient amt s =
     rbind (from_std Std_lsd (addr_validate api recipient)) (\<lambda>rcpt_addr.
     rbind (from_std Std_lsd (addr_validate api owner)) (\<lambda>owner_addr.
     rbind (deduct_allowance api env owner_addr (sender info) amt s) (\<lambda>s.
     rbind (lower_balance owner_addr amt s) (\<lambda>s.
     rbind (raise_balance rcpt_addr amt s) (\<lambda>s.
     Inr (s, respond [] [(''action'', ''transfer_from''), (''from'', owner), (''to'', recipient),
       (''by'', sender info), (''amount'', to_string amt)]))))))"

definition execute_burn_from ::
  "api \<Rightarrow> env \<Rightarrow> message_info \<Rightarrow> string \<Rightarrow> u128 \<Rightarrow> lsd_store \<Rightarrow> lsd_result" where
  "execute_burn_from api env info owner amt s =
     rbind (from_std Std_lsd (addr_validate api owner)) (\<lambda>owner_addr.
     rbind (deduct_allowance api env owner_addr (sender info) amt s) (\<lambda>s.
     rbind (lower_balance owner_addr amt s) (\<lambda>s.
     rbind (lower_supply amt s) (\<lambda>s.
     Inr (s, respond [] [(''action'', ''burn_from''), (''from'', owner),
       (''by'', sender info), (''amount'', to_string amt)])))))"

definition execute_send_from ::
  "api \<Rightarrow> env \<Rightarrow> message_info \<Rightarrow> string \<Rightarrow> string \<Rightarrow> u128 \<Rightarrow> string \<Rightarrow> lsd_store \<Rightarrow> lsd_result" where
  "execute_send_from api env info owner contract amt msg s =
     rbind (from_std Std_lsd (addr_validate api contract)) (\<lambda>rcpt_addr.
     rbind (from_std Std_lsd (addr_validate api owner)) (\<lambda>owner_addr.
     rbind (deduct_allowance api env owner_addr (sender info) amt s) (\<lambda>s.
     rbind (lower_balance owner_addr amt s) (\<lambda>s.
     rbind (raise_balance rcpt_addr amt s) (\<lambda>s.
     Inr (s, respond [no_reply (Cw20Receive contract (sender info) amt msg)]
       [(''action'', ''send_from''), (''from'', owner), (''to'', contract),
        (''by'', sender info), (''amount'', to_string amt)]))))))"

definition query_allowance ::
  "api \<Rightarrow> string \<Rightarrow> string \<Rightarrow> lsd_store \<Rightarrow> allowance lsd_res" where
  "query_allowance api owner spender s =
     rbind (from_std Std_lsd (addr_validate api owner)) (\<lambda>owner_addr.
     rbind (from_std Std_lsd (addr_validate api spender)) (\<lambda>spender_addr.
     Inr (case fmlookup (ALLOWANCES s) (owner_addr, spender_addr) of
            None \<Rightarrow> default_allowance | Some a \<Rightarrow> a)))"

end
