(* ===== verification/Lsd_Contract.thy ===== *)
theory Lsd_Contract
  imports Lsd_Allowances
begin

text \<open>
  contracts/lsd\_token/src/contract.rs: instantiation, the messages on balances, the minter set and
  the marketing data, the dispatch of \<open>execute\<close>, the queries and the migration.
\<close>

section \<open>Logos\<close>

definition LOGO_SIZE_CAP :: nat where
  "LOGO_SIZE_CAP = 5 * 1024"

text \<open>The first piece of \<open>split_inclusive\<close>: up to and with the first separator.\<close>

definition first_inclusive :: "char \<Rightarrow> string \<Rightarrow> string option" where
  "first_inclusive c xs =
     (if xs = [] then None
      else Some (takeWhile (\<lambda>x. x \<noteq> c) xs @ (if c \<in> set xs then [c] else [])))"

definition verify_xml_preamble :: "string \<Rightarrow> unit lsd_res" where
  "verify_xml_preamble data =
     rbind (ok_or (Err InvalidXmlPreamble) (first_inclusive CHR ''>'' data)) (\<lambda>preamble.
     if \<not> (prefix ''<?xml '' preamble \<and> suffix ''?>'' preamble) then Inl (Err InvalidXmlPreamble)
     else Inr ())"

definition verify_xml_logo :: "string \<Rightarrow> unit lsd_res" where
  "verify_xml_logo l =
     rbind (verify_xml_preamble l) (\<lambda>_.
     if LOGO_SIZE_CAP < length l then Inl (Err LogoTooBig) else Inr ())"

definition png_header :: string where
  "png_header = map char_of [0x89::nat, 80, 78, 71, 0x0d, 0x0a, 0x1a, 0x0a]"

definition verify_png_logo :: "string \<Rightarrow> unit lsd_res" where
  "verify_png_logo l =
     (if LOGO_SIZE_CAP < length l then Inl (Err LogoTooBig)
      else if \<not> prefix png_header l then Inl (Err InvalidPngHeader)
      else Inr ())"

fun verify_logo :: "logo \<Rightarrow> unit lsd_res" where
  "verify_logo (Embedded (Svg l)) = verify_xml_logo l"
| "verify_logo (Embedded (Png l)) = verify_png_logo l"
| "verify_logo (Url _) = Inr ()"

fun logo_info_of :: "logo \<Rightarrow> logo_info" where
  "logo_info_of (Url url) = UrlInfo url"
| "logo_info_of (Embedded _) = EmbeddedInfo"

section \<open>Instantiation\<close>

definition CONTRACT_NAME_lsd :: string where
  "CONTRACT_NAME_lsd = ''crates.io:lsd_token''"

definition CONTRACT_VERSION_lsd :: string where
  "CONTRACT_VERSION_lsd = ''0.1.0''"

text \<open>\<open>sort\<close> and \<open>dedup\<close> on the raw addresses, then a comparison of the lengths.\<close>

definition validate_accounts :: "cw20_coin list \<Rightarrow> unit lsd_res" where
  "validate_accounts accounts =
     (if length (remdups_adj (sort (map cw_address accounts))) \<noteq> length accounts
      then Inl (Err DuplicateInitialBalanceAddresses) else Inr ())"

definition create_account ::
  "api \<Rightarrow> cw20_coin \<Rightarrow> lsd_store \<times> u128 \<Rightarrow> (lsd_store \<times> u128) lsd_res" where
  "create_account api row = (\<lambda>(s, total).
     rbind (from_std Std_lsd (addr_validate api (cw_address row))) (\<lambda>address.
     rbind (uadd total (cw_amount row)) (\<lambda>total.
     Inr (s\<lparr>BALANCES := fmupd address (cw_amount row) (BALANCES s)\<rparr>, total))))"

definition create_accounts ::
  "api \<Rightarrow> cw20_coin list \<Rightarrow> lsd_store \<Rightarrow> (lsd_store \<times> u128) lsd_res" where
  "create_accounts api accounts s =
     rbind (validate_accounts accounts) (\<lambda>_. rfold (create_account api) accounts (s, 0))"

definition instantiate_mint ::
  "api \<Rightarrow> instantiate_minter_data option \<Rightarrow> minter_data option lsd_res" where
  "instantiate_mint api m = (case m of
       Some m \<Rightarrow>
         rbind (from_std Std_lsd (addr_validate api (imd_admin m))) (\<lambda>admin.
         rbind (from_std Std_lsd (addr_validate api (imd_minter m))) (\<lambda>minter.
         Inr (Some \<lparr>md_admin = admin, md_minters = [minter], md_cap = imd_cap m\<rparr>)))
     | None \<Rightarrow> Inr None)"

definition instantiate_marketing ::
  "api \<Rightarrow> instantiate_marketing_info \<Rightarrow> lsd_store \<Rightarrow> lsd_store lsd_res" where
  "instantiate_marketing api mi s =
     rbind (case im_logo mi of
         Some l \<Rightarrow> rbind (verify_logo l) (\<lambda>_. Inr (s\<lparr>LOGO := Some l\<rparr>, Some (logo_info_of l)))
       | None \<Rightarrow> Inr (s, None)) (\<lambda>(s, logo).
     rbind (case im_marketing mi of
         Some a \<Rightarrow> rbind (from_std Std_lsd (addr_validate api a)) (\<lambda>a. Inr (Some a))
       | None \<Rightarrow> Inr None) (\<lambda>marketing.
     Inr (s\<lparr>MARKETING_INFO := Some \<lparr>mk_project = im_project mi,
       mk_description = im_description mi, mk_logo = logo, mk_marketing = marketing\<rparr>\<rparr>)))"

definition instantiate_lsd :: "api \<Rightarrow> instantiate_msg_lsd \<Rightarrow> lsd_store \<Rightarrow> lsd_result" where
  "instantiate_lsd api msg s =
     (let s = s\<lparr>LSD_VERSION := Some (CONTRACT_NAME_lsd, CONTRACT_VERSION_lsd)\<rparr> in
      rbind (validate_instantiate msg) (\<lambda>_.
      rbind (create_accounts api (in_initial_balances msg) s) (\<lambda>(s, total_supply).
      if (case instantiate_get_cap msg of Some limit \<Rightarrow> limit < total_supply | None \<Rightarrow> False)
      then Inl (Err (Std_lsd (GenericErr ''Initial supply greater than cap'')))
      else
      rbind (instantiate_mint api (in_mint msg)) (\<lambda>mint.
      let s = s\<lparr>TOKEN_INFO := Some \<lparr>ti_name = in_name msg, ti_symbol = in_symbol msg,
        ti_decimals = in_decimals msg, ti_total_supply = total_supply, ti_mint = mint\<rparr>\<rparr> in
      rbind (case in_marketing msg of
          Some mi \<Rightarrow> instantiate_marketing api mi s
        | None \<Rightarrow> Inr s) (\<lambda>s.
      Inr (s, respond [] []))))))"

section \<open>Balances\<close>

definition execute_transfer_lsd ::
  "api \<Rightarrow> message_info \<Rightarrow> string \<Rightarrow> u128 \<Rightarrow> lsd_store \<Rightarrow> lsd_result" where
  "execute_transfer_lsd api info recipient amt s =
     rbind (from_std Std_lsd (addr_validate api recipient)) (\<lambda>rcpt_addr.
     rbind (lower_balance (sender info) amt s) (\<lambda>s.
     rbind (raise_balance rcpt_addr amt s) (\<lambda>s.
     Inr (s, respond [] [(''action'', ''transfer''), (''from'', sender info), (''to'', recipient),
       (''amount'', to_string amt)]))))"

definition execute_burn :: "message_info \<Rightarrow> u128 \<Rightarrow> lsd_store \<Rightarrow> lsd_result" where
  "execute_burn info amt s =
     rbind (lower_balance (sender info) amt s) (\<lambda>s.
     rbind (lower_supply amt s) (\<lambda>s.
     Inr (s, respond [] [(''action'', ''burn''), (''from'', sender info),
       (''amount'', to_string amt)])))"

definition execute_mint ::
  "api \<Rightarrow> message_info \<Rightarrow> string \<Rightarrow> u128 \<Rightarrow> lsd_store \<Rightarrow> lsd_result" where
  "execute_mint api info recipient amt s =
     rbind (ok_or (Err Unauthorized_lsd) (TOKEN_INFO s)) (\<lambda>config.
     rbind (ok_or (Err Unauthorized_lsd) (ti_mint config)) (\<lambda>mint.
     if sender info \<notin> set (md_minters mint) then Inl (Err Unauthorized_lsd)
     else
     rbind (uadd (ti_total_supply config) amt) (\<lambda>supply.
     let config = config\<lparr>ti_total_supply := supply\<rparr> in
     if (case get_cap config of Some limit \<Rightarrow> limit < ti_total_supply config | None \<Rightarrow> False)
     then Inl (Err CannotExceedCap)
     else
     let s = s\<lparr>TOKEN_INFO := Some config\<rparr> in
     rbind (from_std Std_lsd (addr_validate api recipient)) (\<lambda>rcpt_addr.
     rbind (raise_balance rcpt_addr amt s) (\<lambda>s.
     Inr (s, respond [] [(''action'', ''mint''), (''to'', recipient),
       (''amount'', to_string amt)]))))))"

definition execute_send ::
  "api \<Rightarrow> message_info \<Rightarrow> string \<Rightarrow> u128 \<Rightarrow> string \<Rightarrow> lsd_store \<Rightarrow> lsd_result" where
  "execute_send api info contract amt msg s =
     rbind (from_std Std_lsd (addr_validate api contract)) (\<lambda>rcpt_addr.
     rbind (lower_balance (sender info) amt s) (\<lambda>s.
     rbind (raise_balance rcpt_addr amt s) (\<lambda>s.
     Inr (s, respond [no_reply (Cw20Receive contract (sender info) amt msg)]
       [(''action'', ''send''), (''from'', sender info), (''to'', contract),
        (''amount'', to_string amt)]))))"

section \<open>The minter set\<close>

definition execute_add_minter ::
  "api \<Rightarrow> message_info \<Rightarrow> string \<Rightarrow> lsd_store \<Rightarrow> lsd_result" where
  "execute_add_minter api info new_minter s =
     rbind (ok_or (Err Unauthorized_lsd) (TOKEN_INFO s)) (\<lambda>config.
     rbind (ok_or (Err Unauthorized_lsd) (ti_mint config)) (\<lambda>mint.
     if md_admin mint \<noteq> sender info then Inl (Err Unauthorized_lsd)
     else (case addr_validate api new_minter of
         Inl _ \<Rightarrow> Inl (Err InvalidAddress_lsd)
       | Inr a \<Rightarrow>
           Inr (s\<lparr>TOKEN_INFO := Some (config\<lparr>ti_mint :=
                 Some (mint\<lparr>md_minters := md_minters mint @ [a]\<rparr>)\<rparr>)\<rparr>,
               respond [] [(''action'', ''add_minter'')]))))"

definition execute_remove_minter ::
  "message_info \<Rightarrow> string \<Rightarrow> lsd_store \<Rightarrow> lsd_result" where
  "execute_remove_minter info remove_minter s =
     rbind (ok_or (Err Unauthorized_lsd) (TOKEN_INFO s)) (\<lambda>config.
     rbind (ok_or (Err Unauthorized_lsd) (ti_mint config)) (\<lambda>mint.
     if md_admin mint \<noteq> sender info then Inl (Err Unauthorized_lsd)
     else
       Inr (s\<lparr>TOKEN_INFO := Some (config\<lparr>ti_mint :=
             Some (mint\<lparr>md_minters := retain (\<lambda>m. m \<noteq> remove_minter) (md_minters mint)\<rparr>)\<rparr>)\<rparr>,
           respond [] [(''action'', ''remove_minter'')])))"

definition execute_transfer_admin_lsd ::
  "api \<Rightarrow> message_info \<Rightarrow> string \<Rightarrow> lsd_store \<Rightarrow> lsd_result" where
  "execute_transfer_admin_lsd api info new_admin s =
     rbind (ok_or (Err Unauthorized_lsd) (TOKEN_INFO s)) (\<lambda>config.
     rbind (ok_or (Err Unauthorized_lsd) (ti_mint config)) (\<lambda>mint.
     if md_admin mint \<noteq> sender info then Inl (Err Unauthorized_lsd)
     else (case addr_validate api new_admin of
         Inl _ \<Rightarrow> Inl (Err InvalidAddress_lsd)
       | Inr a \<Rightarrow>
           Inr (s\<lparr>TOKEN_INFO := Some (config\<lparr>ti_mint := Some (mint\<lparr>md_admin := a\<rparr>)\<rparr>)\<rparr>,
               respond [] [(''action'', ''transfer_admin'')]))))"

section \<open>Marketing\<close>

text \<open>\<open>None\<close> keeps the field, blank text clears it, other text replaces it.\<close>

definition update_text :: "string option \<Rightarrow> string option \<Rightarrow> string option" where
  "update_text new old = (case new of
       Some t \<Rightarrow> if trim_is_empty t then None else Some t
     | None \<Rightarrow> old)"

definition execute_update_marketing ::
  "api \<Rightarrow> message_info \<Rightarrow> string option \<Rightarrow> string option \<Rightarrow> string option \<Rightarrow> lsd_store
     \<Rightarrow> lsd_result" where
  "execute_update_marketing api info proj desc mark s =
     rbind (ok_or (Err Unauthorized_lsd) (MARKETING_INFO s)) (\<lambda>mi.
     rbind (ok_or (Err Unauthorized_lsd) (mk_marketing mi)) (\<lambda>who.
     if who \<noteq> sender info then Inl (Err Unauthorized_lsd)
     else
     let mi = mi\<lparr>mk_project := update_text proj (mk_project mi)\<rparr>;
         mi = mi\<lparr>mk_description := update_text desc (mk_description mi)\<rparr> in
     rbind (case mark of
         Some t \<Rightarrow>
           if trim_is_empty t then Inr (mi\<lparr>mk_marketing := None\<rparr>)
           else rbind (from_std Std_lsd (addr_validate api t)) (\<lambda>a.
                  Inr (mi\<lparr>mk_marketing := Some a\<rparr>))
       | None \<Rightarrow> Inr mi) (\<lambda>mi.
     let s = (if mk_project mi = None \<and> mk_description mi = None
                \<and> mk_marketing mi = None \<and> mk_logo mi = None
              then s\<lparr>MARKETING_INFO := None\<rparr>
              else s\<lparr>MARKETING_INFO := Some mi\<rparr>) in
     Inr (s, respond [] [(''action'', ''update_marketing'')]))))"

definition execute_upload_logo :: "message_info \<Rightarrow> logo \<Rightarrow> lsd_store \<Rightarrow> lsd_result" where
  "execute_upload_logo info l s =
     rbind (ok_or (Err Unauthorized_lsd) (MARKETING_INFO s)) (\<lambda>mi.
     rbind (verify_logo l) (\<lambda>_.
     rbind (ok_or (Err Unauthorized_lsd) (mk_marketing mi)) (\<lambda>who.
     if who \<noteq> sender info then Inl (Err Unauthorized_lsd)
     else
       Inr (s\<lparr>LOGO := Some l, MARKETING_INFO := Some (mi\<lparr>mk_logo := Some (logo_info_of l)\<rparr>)\<rparr>,
           respond [] [(''action'', ''upload_logo'')]))))"

section \<open>Dispatch\<close>

fun execute_lsd ::
  "api \<Rightarrow> env \<Rightarrow> message_info \<Rightarrow> lsd_execute_msg \<Rightarrow> lsd_store \<Rightarrow> lsd_result" where
  "execute_lsd api env info (Transfer r n) s = execute_transfer_lsd api info r n s"
| "execute_lsd api env info (Burn n) s = execute_burn info n s"
| "execute_lsd api env info (Send c n m) s = execute_send api info c n m s"
| "execute_lsd api env info (Mint r n) s = execute_mint api info r n s"
| "execute_lsd api env info (IncreaseAllowance sp n e) s =
     execute_increase_allowance api env info sp n e s"
| "execute_lsd api env info (DecreaseAllowance sp n e) s =
     execute_decrease_allowance api env info sp n e s"
| "execute_lsd api env info (TransferFrom ow r n) s = execute_transfer_from api env info ow r n s"
| "execute_lsd api env info (BurnFrom ow n) s = execute_burn_from api env info ow n s"
| "execute_lsd api env info (SendFrom ow c n m) s = execute_send_from api env info ow c n m s"
| "execute_lsd api env info (UpdateMarketing p d m) s = execute_update_marketing api info p d m s"
| "execute_lsd api env info (UploadLogo l) s = execute_upload_logo info l s"
| "execute_lsd api env info (AddMinter m) s = execute_add_minter api info m s"
| "execute_lsd api env info (RemoveMinter m) s = execute_remove_minter info m s"
| "execute_lsd api env info (TransferAdmin_lsd a) s = execute_transfer_admin_lsd api info a s"

section \<open>Queries and migration\<close>

definition query_balance :: "api \<Rightarrow> string \<Rightarrow> lsd_store \<Rightarrow> u128 lsd_res" where
  "query_balance api address s =
     rbind (from_std Std_lsd (addr_validate api address)) (\<lambda>a. Inr (get_or_zero (BALANCES s) a))"

definition query_token_info ::
  "lsd_store \<Rightarrow> (string \<times> string \<times> u8 \<times> u128) lsd_res" where
  "query_token_info s =
     rbind (load_item (Std_lsd (NotFound ''token_info'')) (TOKEN_INFO s)) (\<lambda>i.
     Inr (ti_name i, ti_symbol i, ti_decimals i, ti_total_supply i))"

definition query_minter :: "lsd_store \<Rightarrow> minter_data option lsd_res" where
  "query_minter s =
     rbind (load_item (Std_lsd (NotFound ''token_info'')) (TOKEN_INFO s)) (\<lambda>meta.
     Inr (case ti_mint meta of
         Some m \<Rightarrow> Some \<lparr>md_admin = md_admin m, md_minters = md_minters m, md_cap = md_cap m\<rparr>
       | None \<Rightarrow> None))"

definition query_marketing_info :: "lsd_store \<Rightarrow> marketing lsd_res" where
  "query_marketing_info s =
     Inr (case MARKETING_INFO s of None \<Rightarrow> default_marketing | Some m \<Rightarrow> m)"

definition query_download_logo :: "lsd_store \<Rightarrow> (string \<times> string) lsd_res" where
  "query_download_logo s =
     rbind (load_item (Std_lsd (NotFound ''logo'')) (LOGO s)) (\<lambda>l.
     case l of
       Embedded (Svg d) \<Rightarrow> Inr (''image/svg+xml'', d)
     | Embedded (Png d) \<Rightarrow> Inr (''image/png'', d)
     | Url _ \<Rightarrow> Inl (Err (Std_lsd (NotFound ''logo''))))"

text \<open>
  \<open>migrate\<close>. The version check is \<open>cw2::ensure_from_older_version\<close>, an argument: from the name and
  the version of the code and the stored version it returns the original version and the version to
  store, or an error; \<open>lt\<close> compares semantic versions. Every allowance is copied once; the copies go to distinct keys, so the order of
  the iteration does not matter.
\<close>

definition copy_allowance ::
  "addr \<times> addr \<Rightarrow> lsd_store \<Rightarrow> lsd_store lsd_res" where
  "copy_allowance k s = (case fmlookup (ALLOWANCES s) k of
       None \<Rightarrow> Inr s
     | Some a \<Rightarrow>
         Inr (s\<lparr>ALLOWANCES_SPENDER := fmupd (snd k, fst k) a (ALLOWANCES_SPENDER s)\<rparr>))"

definition allowance_keys :: "lsd_store \<Rightarrow> (addr \<times> addr) list" where
  "allowance_keys s = concat (map (\<lambda>ow. map (\<lambda>sp. (ow, sp))
       (sorted_list_of_fset (snd |`| ffilter (\<lambda>k. fst k = ow) (fmdom (ALLOWANCES s)))))
     (sorted_list_of_fset (fst |`| fmdom (ALLOWANCES s))))"

type_synonym 'v version_check =
  "string \<Rightarrow> string \<Rightarrow> (string \<times> string) option \<Rightarrow> std_error + ('v \<times> (string \<times> string) option)"

definition migrate_lsd ::
  "'v version_check \<Rightarrow> ('v \<Rightarrow> string \<Rightarrow> bool) \<Rightarrow> lsd_store \<Rightarrow> lsd_result" where
  "migrate_lsd ensure_from_older_version lt s =
     rbind (from_std Std_lsd (ensure_from_older_version CONTRACT_NAME_lsd CONTRACT_VERSION_lsd
         (LSD_VERSION s)))
       (\<lambda>(original_version, v).
     let s = s\<lparr>LSD_VERSION := v\<rparr> in
     rbind (if lt original_version ''0.14.0''
            then rfold copy_allowance (allowance_keys s) s else Inr s) (\<lambda>s.
     Inr (s, respond [] [])))"

end
