(* ===== verification/Lsd_Enumerable.thy ===== *)
theory Lsd_Enumerable
  imports Lsd_Contract Pages
begin

text \<open>
  contracts/lsd\_token/src/enumerable.rs: the paginated queries over allowances and accounts, and
  the dispatch of \<open>query\<close>. A page holds the first \<open>limit\<close> keys after the exclusive bound
  \<open>start_after\<close> in ascending order of bytes (theory \<open>Pages\<close>); the limit is 10 by default and 30 at
  most.
\<close>

definition MAX_LIMIT :: u32 where
  "MAX_LIMIT = 30"

definition DEFAULT_LIMIT :: u32 where
  "DEFAULT_LIMIT = 10"

definition page_limit :: "u32 option \<Rightarrow> nat" where
  "page_limit limit = unat (min (case limit of None \<Rightarrow> DEFAULT_LIMIT | Some l \<Rightarrow> l) MAX_LIMIT)"

definition page_entries ::
  "(addr \<times> addr, allowance) fmap \<Rightarrow> addr \<Rightarrow> string list \<Rightarrow> (addr \<times> u128 \<times> expiration) list" where
  "page_entries m a ks = concat (map (\<lambda>k. case fmlookup m (a, k) of
       None \<Rightarrow> [] | Some al \<Rightarrow> [(k, al_allowance al, al_expires al)]) ks)"

definition query_owner_allowances ::
  "api \<Rightarrow> string \<Rightarrow> string option \<Rightarrow> u32 option \<Rightarrow> lsd_store
     \<Rightarrow> (addr \<times> u128 \<times> expiration) list lsd_res" where
  "query_owner_allowances api owner start_after limit s =
     rbind (from_std Std_lsd (addr_validate api owner)) (\<lambda>owner_addr.
     Inr (page_entries (ALLOWANCES s) owner_addr
       (page (second_keys (ALLOWANCES s) owner_addr) start_after (page_limit limit))))"

definition query_spender_allowances ::
  "api \<Rightarrow> string \<Rightarrow> string option \<Rightarrow> u32 option \<Rightarrow> lsd_store
     \<Rightarrow> (addr \<times> u128 \<times> expiration) list lsd_res" where
  "query_spender_allowances api spender start_after limit s =
     rbind (from_std Std_lsd (addr_validate api spender)) (\<lambda>spender_addr.
     Inr (page_entries (ALLOWANCES_SPENDER s) spender_addr
       (page (second_keys (ALLOWANCES_SPENDER s) spender_addr) start_after (page_limit limit))))"

definition query_all_accounts ::
  "string option \<Rightarrow> u32 option \<Rightarrow> lsd_store \<Rightarrow> addr list lsd_res" where
  "query_all_accounts start_after limit s =
     Inr (page (fmdom (BALANCES s)) start_after (page_limit limit))"

datatype lsd_query_response =
    RBalance u128
  | RTokenInfo "string \<times> string \<times> u8 \<times> u128"
  | RMinter "minter_data option"
  | RAllowance allowance
  | RAllowances "(addr \<times> u128 \<times> expiration) list"
  | RAccounts "addr list"
  | RMarketing marketing
  | RLogo "string \<times> string"

definition rmap1 :: "('a \<Rightarrow> 'b) \<Rightarrow> ('e, 'a) res \<Rightarrow> ('e, 'b) res" where
  "rmap1 f m = rbind m (\<lambda>x. Inr (f x))"

fun query_lsd :: "api \<Rightarrow> lsd_query_msg \<Rightarrow> lsd_store \<Rightarrow> lsd_query_response lsd_res" where
  "query_lsd api (QBalance a) s = rmap1 RBalance (query_balance api a s)"
| "query_lsd api QTokenInfo s = rmap1 RTokenInfo (query_token_info s)"
| "query_lsd api QMinter s = rmap1 RMinter (query_minter s)"
| "query_lsd api (QAllowance ow sp) s = rmap1 RAllowance (query_allowance api ow sp s)"
| "query_lsd api (QAllAllowances ow b l) s =
     rmap1 RAllowances (query_owner_allowances api ow b l s)"
| "query_lsd api (QAllSpenderAllowances sp b l) s =
     rmap1 RAllowances (query_spender_allowances api sp b l s)"
| "query_lsd api (QAllAccounts b l) s = rmap1 RAccounts (query_all_accounts b l s)"
| "query_lsd api QMarketingInfo s = rmap1 RMarketing (query_marketing_info s)"
| "query_lsd api QDownloadLogo s = rmap1 RLogo (query_download_logo s)"

section \<open>Pages\<close>

lemma page_limit_le: "page_limit limit \<le> 30"
proof -
  have "min l MAX_LIMIT \<le> MAX_LIMIT" for l :: u32
    by simp
  then have "unat (min l MAX_LIMIT) \<le> 30" for l :: u32
    by (simp add: word_le_nat_alt MAX_LIMIT_def)
  then show ?thesis by (simp add: page_limit_def split: option.splits)
qed

end
