(* ===== verification/Lsd_Ledger.thy ===== *)
theory Lsd_Ledger
  imports Lsd_Enumerable
begin

text \<open>
  What the token contract guarantees: the balances add up to the total supply, the supply stays
  within the cap and grows only through a minter, the two allowance maps mirror each other, and an
  account loses tokens only by its own message or through an allowance it granted.
\<close>

section \<open>Measures and invariants\<close>

definition supply_of :: "lsd_store \<Rightarrow> nat" where
  "supply_of s = (case TOKEN_INFO s of None \<Rightarrow> 0 | Some ti \<Rightarrow> unat (ti_total_supply ti))"

definition circulating :: "lsd_store \<Rightarrow> nat" where
  "circulating s = map_total (BALANCES s)"

definition bal :: "lsd_store \<Rightarrow> addr \<Rightarrow> nat" where
  "bal s a = unat (get_or_zero (BALANCES s) a)"

definition minters :: "lsd_store \<Rightarrow> addr list" where
  "minters s = (case Option.bind (TOKEN_INFO s) ti_mint of None \<Rightarrow> [] | Some m \<Rightarrow> md_minters m)"

definition mint_admin :: "lsd_store \<Rightarrow> addr option" where
  "mint_admin s = map_option md_admin (Option.bind (TOKEN_INFO s) ti_mint)"

definition mint_cap :: "lsd_store \<Rightarrow> u128 option" where
  "mint_cap s = Option.bind (TOKEN_INFO s) get_cap"

definition allowed :: "lsd_store \<Rightarrow> addr \<Rightarrow> addr \<Rightarrow> nat" where
  "allowed s ow sp = (case fmlookup (ALLOWANCES s) (ow, sp) of
       None \<Rightarrow> 0 | Some a \<Rightarrow> unat (al_allowance a))"

definition within_cap :: "lsd_store \<Rightarrow> bool" where
  "within_cap s \<longleftrightarrow> (\<forall>c. mint_cap s = Some c \<longrightarrow> supply_of s \<le> unat c)"

definition mirrored :: "lsd_store \<Rightarrow> bool" where
  "mirrored s = (\<forall>ow sp. fmlookup (ALLOWANCES_SPENDER s) (sp, ow) = fmlookup (ALLOWANCES s) (ow, sp))"

definition lsd_inv :: "lsd_store \<Rightarrow> bool" where
  "lsd_inv s \<longleftrightarrow> TOKEN_INFO s \<noteq> None \<and> circulating s = supply_of s \<and> within_cap s \<and> mirrored s"

section \<open>The balance updates\<close>

lemma lower_balance_ok:
  assumes "lower_balance a n s = Inr s'"
  shows "s' = s\<lparr>BALANCES := BALANCES s'\<rparr>" and "circulating s' + unat n = circulating s"
    and "bal s' a + unat n = bal s a" and "b \<noteq> a \<Longrightarrow> bal s' b = bal s b"
proof -
  let ?v = "get_or_zero (BALANCES s) a"
  from assms have le: "n \<le> ?v" and s': "s' = s\<lparr>BALANCES := fmupd a (?v - n) (BALANCES s)\<rparr>"
    by (auto simp: lower_balance_def res_simps)
  from le have n: "unat (?v - n) + unat n = unat ?v"
    by (simp add: unat_sub_exact word_le_nat_alt)
  show "s' = s\<lparr>BALANCES := BALANCES s'\<rparr>" by (simp add: s')
  show "circulating s' + unat n = circulating s"
    using map_total_upd [of a "?v - n" "BALANCES s"] n by (simp add: s' circulating_def)
  show "bal s' a + unat n = bal s a" using n by (simp add: s' bal_def)
  show "b \<noteq> a \<Longrightarrow> bal s' b = bal s b" by (simp add: s' bal_def get_or_zero_upd)
qed

lemma raise_balance_ok:
  assumes "raise_balance a n s = Inr s'"
  shows "s' = s\<lparr>BALANCES := BALANCES s'\<rparr>" and "circulating s' = circulating s + unat n"
    and "bal s' a = bal s a + unat n" and "b \<noteq> a \<Longrightarrow> bal s' b = bal s b"
proof -
  let ?v = "get_or_zero (BALANCES s) a"
  from assms have lt: "unat ?v + unat n < 2 ^ LENGTH(128)"
    and s': "s' = s\<lparr>BALANCES := fmupd a (?v + n) (BALANCES s)\<rparr>"
    by (auto simp: raise_balance_def res_simps)
  from lt have n: "unat (?v + n) = unat ?v + unat n"
    by (rule unat_add_exact)
  show "s' = s\<lparr>BALANCES := BALANCES s'\<rparr>" by (simp add: s')
  show "circulating s' = circulating s + unat n"
    using map_total_upd [of a "?v + n" "BALANCES s"] n by (simp add: s' circulating_def)
  show "bal s' a = bal s a + unat n" using n by (simp add: s' bal_def)
  show "b \<noteq> a \<Longrightarrow> bal s' b = bal s b" by (simp add: s' bal_def get_or_zero_upd)
qed

lemma lower_supply_ok:
  assumes "lower_supply n s = Inr s'"
  shows "BALANCES s' = BALANCES s" and "ALLOWANCES s' = ALLOWANCES s"
    and "ALLOWANCES_SPENDER s' = ALLOWANCES_SPENDER s"
    and "supply_of s' + unat n = supply_of s" and "TOKEN_INFO s' \<noteq> None"
    and "minters s' = minters s" and "mint_admin s' = mint_admin s" and "mint_cap s' = mint_cap s"
  using assms
  by (auto simp: lower_supply_def res_simps supply_of_def minters_def mint_admin_def mint_cap_def
      get_cap_def unat_sub_exact word_le_nat_alt)

text \<open>
  One record of what a step of the contract may change: the ledger, by the amounts; and not the
  minter data, which only the admin's messages change.
\<close>

definition same_token :: "lsd_store \<Rightarrow> lsd_store \<Rightarrow> bool" where
  "same_token s s' \<longleftrightarrow> TOKEN_INFO s' = TOKEN_INFO s"

definition same_allowances :: "lsd_store \<Rightarrow> lsd_store \<Rightarrow> bool" where
  "same_allowances s s' \<longleftrightarrow>
     ALLOWANCES s' = ALLOWANCES s \<and> ALLOWANCES_SPENDER s' = ALLOWANCES_SPENDER s"

lemma lower_balance_frame:
  "lower_balance a n s = Inr s' \<Longrightarrow> same_token s s' \<and> same_allowances s s'"
  by (auto simp: lower_balance_def res_simps same_token_def same_allowances_def)

lemma raise_balance_frame:
  "raise_balance a n s = Inr s' \<Longrightarrow> same_token s s' \<and> same_allowances s s'"
  by (auto simp: raise_balance_def res_simps same_token_def same_allowances_def)

lemma deduct_allowance_frame:
  "deduct_allowance api env ow sp n s = Inr s' \<Longrightarrow> same_token s s' \<and> BALANCES s' = BALANCES s"
  by (auto simp: deduct_allowance_def res_simps same_token_def Let_def)

lemma same_token_facts:
  assumes "same_token s s'"
  shows "supply_of s' = supply_of s" "minters s' = minters s" "mint_admin s' = mint_admin s"
    "mint_cap s' = mint_cap s" "TOKEN_INFO s' = TOKEN_INFO s"
  using assms by (simp_all add: same_token_def supply_of_def minters_def mint_admin_def mint_cap_def)

lemma deduct_allowance_ok:
  assumes "deduct_allowance api env ow sp n s = Inr s'"
  shows "allowed s' ow sp + unat n = allowed s ow sp"
    and "\<exists>a. fmlookup (ALLOWANCES s) (ow, sp) = Some a \<and> \<not> is_expired api (al_expires a) env"
    and "mirrored s \<Longrightarrow> mirrored s'"
proof -
  from assms obtain a where a: "fmlookup (ALLOWANCES s) (ow, sp) = Some a"
    "\<not> is_expired api (al_expires a) env" "n \<le> al_allowance a"
    and s': "\<exists>v. deduct_fn api env n (fmlookup (ALLOWANCES_SPENDER s) (sp, ow)) = Inr v
      \<and> s' = s\<lparr>ALLOWANCES := fmupd (ow, sp) (a\<lparr>al_allowance := al_allowance a - n\<rparr>) (ALLOWANCES s),
               ALLOWANCES_SPENDER := fmupd (sp, ow) v (ALLOWANCES_SPENDER s)\<rparr>"
    by (auto simp: deduct_allowance_def res_simps deduct_fn_def Let_def split: option.splits)
  then show "allowed s' ow sp + unat n = allowed s ow sp"
    by (auto simp: allowed_def unat_sub_exact word_le_nat_alt)
  show "\<exists>a. fmlookup (ALLOWANCES s) (ow, sp) = Some a \<and> \<not> is_expired api (al_expires a) env"
    using a by blast
  show "mirrored s'" if "mirrored s"
    using s' a that by (auto simp: mirrored_def deduct_fn_def checked_sub_def)
qed

section \<open>Moving and burning tokens\<close>

text \<open>
  Six handlers move tokens and two burn them, always by the same two updates. These two lemmas say
  what the pair of updates does to the whole ledger.
\<close>

lemma move_ok:
  assumes "lower_balance a n s = Inr s1" and "raise_balance b n s1 = Inr s'"
  shows "circulating s' = circulating s" and "same_token s s'" and "same_allowances s s'"
    and "c \<noteq> a \<Longrightarrow> bal s c \<le> bal s' c"
    and "bal s' a < bal s a \<Longrightarrow> bal s' a + unat n = bal s a"
    and "a \<noteq> b \<Longrightarrow> bal s' a + unat n = bal s a \<and> bal s' b = bal s b + unat n"
    and "c \<noteq> a \<Longrightarrow> c \<noteq> b \<Longrightarrow> bal s' c = bal s c"
    and "a = b \<Longrightarrow> bal s' a = bal s a"
proof -
  note l = lower_balance_ok [OF assms(1)] and r = raise_balance_ok [OF assms(2)]
  note lf = lower_balance_frame [OF assms(1)] and rf = raise_balance_frame [OF assms(2)]
  show "circulating s' = circulating s" using l(2) r(2) by simp
  show "same_token s s'" "same_allowances s s'"
    using lf rf by (simp_all add: same_token_def same_allowances_def)
  show "c \<noteq> a \<Longrightarrow> bal s c \<le> bal s' c"
    by (cases "c = b") (use l(4) r(3,4) in auto)
  show "bal s' a < bal s a \<Longrightarrow> bal s' a + unat n = bal s a"
    by (cases "a = b") (use l(3) r(3,4) in auto)
  show "a \<noteq> b \<Longrightarrow> bal s' a + unat n = bal s a \<and> bal s' b = bal s b + unat n"
    using l(3,4) r(3,4) by auto
  show "c \<noteq> a \<Longrightarrow> c \<noteq> b \<Longrightarrow> bal s' c = bal s c"
    using l(4) r(4) by auto
  show "a = b \<Longrightarrow> bal s' a = bal s a"
    using l(3) r(3) by auto
qed

lemma burn_ok:
  assumes "lower_balance a n s = Inr s1" and "lower_supply n s1 = Inr s'"
  shows "circulating s' + unat n = circulating s" and "supply_of s' + unat n = supply_of s"
    and "same_allowances s s'" and "TOKEN_INFO s' \<noteq> None"
    and "minters s' = minters s" and "mint_admin s' = mint_admin s" and "mint_cap s' = mint_cap s"
    and "bal s' a + unat n = bal s a" and "c \<noteq> a \<Longrightarrow> bal s' c = bal s c"
proof -
  note l = lower_balance_ok [OF assms(1)] and t = lower_supply_ok [OF assms(2)]
  note lf = lower_balance_frame [OF assms(1)]
  note st = same_token_facts [OF lf [THEN conjunct1]]
  have b: "bal s' = bal s1" "circulating s' = circulating s1"
    using t(1) by (simp_all add: bal_def fun_eq_iff circulating_def)
  show "circulating s' + unat n = circulating s" using l(2) b by simp
  show "supply_of s' + unat n = supply_of s" using t(4) st(1) by simp
  show "same_allowances s s'" using lf t(2,3) by (simp add: same_allowances_def)
  show "TOKEN_INFO s' \<noteq> None" by (rule t(5))
  show "minters s' = minters s" "mint_admin s' = mint_admin s" "mint_cap s' = mint_cap s"
    using t(6-8) st by simp_all
  show "bal s' a + unat n = bal s a" using l(3) b by simp
  show "c \<noteq> a \<Longrightarrow> bal s' c = bal s c" using l(4) b by simp
qed

lemma mint_ok:
  assumes "execute_mint api info recipient n s = Inr (s', r)"
  obtains a where "addr_validate api recipient = Inr a"
    and "sender info \<in> set (minters s)" and "supply_of s' = supply_of s + unat n"
    and "circulating s' = circulating s + unat n" and "within_cap s'"
    and "same_allowances s s'" and "TOKEN_INFO s' \<noteq> None"
    and "minters s' = minters s" and "mint_admin s' = mint_admin s" and "mint_cap s' = mint_cap s"
    and "bal s' a = bal s a + unat n" and "\<And>c. c \<noteq> a \<Longrightarrow> bal s' c = bal s c"
proof -
  from assms obtain config mint a where c: "TOKEN_INFO s = Some config" "ti_mint config = Some mint"
    and m: "sender info \<in> set (md_minters mint)"
    and o: "unat (ti_total_supply config) + unat n < 2 ^ 128"
    and cap: "\<not> (case get_cap config of None \<Rightarrow> False
        | Some limit \<Rightarrow> limit < ti_total_supply (config\<lparr>ti_total_supply := ti_total_supply config + n\<rparr>))"
    and a: "addr_validate api recipient = Inr a"
    and s': "raise_balance a n
      (s\<lparr>TOKEN_INFO := Some (config\<lparr>ti_total_supply := ti_total_supply config + n\<rparr>)\<rparr>) = Inr s'"
    by (auto simp: execute_mint_def res_simps Let_def get_cap_def)
  let ?s1 = "s\<lparr>TOKEN_INFO := Some (config\<lparr>ti_total_supply := ti_total_supply config + n\<rparr>)\<rparr>"
  have n: "unat (ti_total_supply config + n) = unat (ti_total_supply config) + unat n"
    by (rule unat_add_exact) (use o in simp)
  note rb = raise_balance_ok [OF s'] and rf = raise_balance_frame [OF s']
  note st = same_token_facts [OF rf [THEN conjunct1]]
  have b: "bal ?s1 = bal s" "circulating ?s1 = circulating s"
    by (simp_all add: bal_def fun_eq_iff circulating_def)
  show ?thesis
  proof (rule that [OF a])
    show "sender info \<in> set (minters s)" using c m by (simp add: minters_def)
    show "supply_of s' = supply_of s + unat n" using st c n by (simp add: supply_of_def)
    show "circulating s' = circulating s + unat n" using rb(2) b by simp
    show "within_cap s'" using st c n cap
      by (auto simp: within_cap_def mint_cap_def get_cap_def supply_of_def word_le_nat_alt not_less
          split: option.splits)
    show "same_allowances s s'" using rf by (simp add: same_allowances_def)
    show "TOKEN_INFO s' \<noteq> None" using st by simp
    show "minters s' = minters s" "mint_admin s' = mint_admin s" "mint_cap s' = mint_cap s"
      using st c by (simp_all add: minters_def mint_admin_def mint_cap_def get_cap_def)
    show "bal s' a = bal s a + unat n" using rb(3) b by simp
    show "bal s' c = bal s c" if "c \<noteq> a" for c using rb(4) [OF that] b by simp
  qed
qed

section \<open>The abstract ledger\<close>

text \<open>
  The contract the token offers its clients: a ledger of balances in natural numbers and a supply,
  changed by moves, by creation and by destruction of tokens. Every message of the token is one of
  these events on the abstraction (\<open>bal\<close>, \<open>supply_of\<close>) of its storage.
\<close>

datatype ledger_event = Move addr addr nat | Create addr nat | Destroy addr nat | Idle

fun ledger_apply ::
  "ledger_event \<Rightarrow> (addr \<Rightarrow> nat) \<times> nat \<Rightarrow> ((addr \<Rightarrow> nat) \<times> nat) option" where
  "ledger_apply (Move a b n) (f, t) =
     (if n \<le> f a then let g = f(a := f a - n) in Some (g(b := g b + n), t) else None)"
| "ledger_apply (Create a n) (f, t) = Some (f(a := f a + n), t + n)"
| "ledger_apply (Destroy a n) (f, t) =
     (if n \<le> f a \<and> n \<le> t then Some (f(a := f a - n), t - n) else None)"
| "ledger_apply Idle (f, t) = Some (f, t)"

definition valid_addr :: "api \<Rightarrow> string \<Rightarrow> (addr \<Rightarrow> ledger_event) \<Rightarrow> ledger_event" where
  "valid_addr api a k = (case addr_validate api a of Inl _ \<Rightarrow> Idle | Inr b \<Rightarrow> k b)"

fun event_of :: "api \<Rightarrow> message_info \<Rightarrow> lsd_execute_msg \<Rightarrow> ledger_event" where
  "event_of api info (Transfer r n) = valid_addr api r (\<lambda>b. Move (sender info) b (unat n))"
| "event_of api info (Send c n _) = valid_addr api c (\<lambda>b. Move (sender info) b (unat n))"
| "event_of api info (TransferFrom ow r n) =
     valid_addr api ow (\<lambda>a. valid_addr api r (\<lambda>b. Move a b (unat n)))"
| "event_of api info (SendFrom ow c n _) =
     valid_addr api ow (\<lambda>a. valid_addr api c (\<lambda>b. Move a b (unat n)))"
| "event_of api info (Burn n) = Destroy (sender info) (unat n)"
| "event_of api info (BurnFrom ow n) = valid_addr api ow (\<lambda>a. Destroy a (unat n))"
| "event_of api info (Mint r n) = valid_addr api r (\<lambda>b. Create b (unat n))"
| "event_of api info _ = Idle"

definition ledger_of :: "lsd_store \<Rightarrow> (addr \<Rightarrow> nat) \<times> nat" where
  "ledger_of s = (bal s, supply_of s)"

lemma lower_bal: "lower_balance a n s = Inr s' \<Longrightarrow>
    unat n \<le> bal s a \<and> bal s' = (bal s)(a := bal s a - unat n)"
  using lower_balance_ok(3,4) by (fastforce simp: fun_eq_iff)

lemma raise_bal: "raise_balance a n s = Inr s' \<Longrightarrow> bal s' = (bal s)(a := bal s a + unat n)"
  using raise_balance_ok(3,4) by (fastforce simp: fun_eq_iff)

lemma move_refines:
  assumes "lower_balance a n s = Inr s1" and "raise_balance b n s1 = Inr s'"
  shows "ledger_apply (Move a b (unat n)) (ledger_of s) = Some (ledger_of s')"
  using lower_bal [OF assms(1)] raise_bal [OF assms(2)] move_ok(2) [OF assms]
  by (simp add: ledger_of_def Let_def same_token_facts)

lemma burn_refines:
  assumes "lower_balance a n s = Inr s1" and "lower_supply n s1 = Inr s'"
  shows "ledger_apply (Destroy a (unat n)) (ledger_of s) = Some (ledger_of s')"
proof -
  have "bal s' = bal s1"
    using lower_supply_ok(1) [OF assms(2)] by (simp add: bal_def fun_eq_iff)
  with lower_bal [OF assms(1)] burn_ok(2) [OF assms] show ?thesis
    by (auto simp: ledger_of_def)
qed

lemma same_ledger:
  "BALANCES s1 = BALANCES s \<Longrightarrow> same_token s s1 \<Longrightarrow> ledger_of s1 = ledger_of s"
  by (simp add: ledger_of_def bal_def fun_eq_iff same_token_facts)

lemma idle_refines:
  "BALANCES s1 = BALANCES s \<Longrightarrow> supply_of s1 = supply_of s \<Longrightarrow>
   ledger_apply Idle (ledger_of s) = Some (ledger_of s1)"
  by (simp add: ledger_of_def bal_def fun_eq_iff)

text \<open>The messages that leave the ledger alone.\<close>

lemma increase_frame:
  "execute_increase_allowance api env info sp n e s = Inr (s', r) \<Longrightarrow>
   BALANCES s' = BALANCES s \<and> same_token s s'"
  by (auto simp: execute_increase_allowance_def res_simps Let_def same_token_def)

lemma decrease_frame:
  "execute_decrease_allowance api env info sp n e s = Inr (s', r) \<Longrightarrow>
   BALANCES s' = BALANCES s \<and> same_token s s'"
  by (auto simp: execute_decrease_allowance_def res_simps Let_def same_token_def
      split: if_splits)

lemma update_marketing_frame:
  "execute_update_marketing api info p d m s = Inr (s', r) \<Longrightarrow>
   BALANCES s' = BALANCES s \<and> same_token s s' \<and> same_allowances s s'"
  by (auto simp: execute_update_marketing_def res_simps Let_def same_token_def same_allowances_def)

lemma upload_logo_frame:
  "execute_upload_logo info l s = Inr (s', r) \<Longrightarrow>
   BALANCES s' = BALANCES s \<and> same_token s s' \<and> same_allowances s s'"
  by (auto simp: execute_upload_logo_def res_simps Let_def same_token_def same_allowances_def)

text \<open>The three messages of the mint admin change the minter data only.\<close>

definition minter_change :: "message_info \<Rightarrow> lsd_store \<Rightarrow> lsd_store \<Rightarrow> bool" where
  "minter_change info s s' \<longleftrightarrow>
     BALANCES s' = BALANCES s \<and> same_allowances s s' \<and> supply_of s' = supply_of s
     \<and> mint_cap s' = mint_cap s \<and> TOKEN_INFO s \<noteq> None \<and> TOKEN_INFO s' \<noteq> None
     \<and> mint_admin s = Some (sender info)"

lemmas minter_change_simps =
  minter_change_def same_allowances_def supply_of_def mint_cap_def get_cap_def mint_admin_def
  minters_def res_simps

lemma add_minter_ok:
  "execute_add_minter api info m s = Inr (s', r) \<Longrightarrow>
   minter_change info s s' \<and> mint_admin s' = mint_admin s
   \<and> (\<exists>a. addr_validate api m = Inr a \<and> minters s' = minters s @ [a])"
  by (auto simp: execute_add_minter_def minter_change_simps)

lemma remove_minter_ok:
  "execute_remove_minter info m s = Inr (s', r) \<Longrightarrow>
   minter_change info s s' \<and> mint_admin s' = mint_admin s
   \<and> minters s' = retain (\<lambda>x. x \<noteq> m) (minters s)"
  by (auto simp: execute_remove_minter_def minter_change_simps)

lemma transfer_admin_ok:
  "execute_transfer_admin_lsd api info m s = Inr (s', r) \<Longrightarrow>
   minter_change info s s' \<and> minters s' = minters s
   \<and> (\<exists>a. addr_validate api m = Inr a \<and> mint_admin s' = Some a)"
  by (auto simp: execute_transfer_admin_lsd_def minter_change_simps)

section \<open>Steps of the contract\<close>

text \<open>
  The fact every proof about \<open>execute_lsd\<close> starts from: a call is a move, a destruction or a
  creation of tokens, or leaves the ledger alone.
\<close>

lemma execute_transfer_steps:
  "execute_transfer_lsd api info rc n s = Inr (s', r) \<Longrightarrow>
   \<exists>b s1. addr_validate api rc = Inr b \<and> lower_balance (sender info) n s = Inr s1
     \<and> raise_balance b n s1 = Inr s'"
  by (auto simp: execute_transfer_lsd_def res_simps)

lemma execute_send_steps:
  "execute_send api info rc n m s = Inr (s', r) \<Longrightarrow>
   \<exists>b s1. addr_validate api rc = Inr b \<and> lower_balance (sender info) n s = Inr s1
     \<and> raise_balance b n s1 = Inr s'"
  by (auto simp: execute_send_def res_simps)

lemma execute_burn_steps:
  "execute_burn info n s = Inr (s', r) \<Longrightarrow>
   \<exists>s1. lower_balance (sender info) n s = Inr s1 \<and> lower_supply n s1 = Inr s'"
  by (auto simp: execute_burn_def res_simps)

lemma execute_transfer_from_steps:
  "execute_transfer_from api env info ow rc n s = Inr (s', r) \<Longrightarrow>
   \<exists>a b s0 s1. addr_validate api ow = Inr a \<and> addr_validate api rc = Inr b
     \<and> deduct_allowance api env a (sender info) n s = Inr s0
     \<and> lower_balance a n s0 = Inr s1 \<and> raise_balance b n s1 = Inr s'"
  by (auto simp: execute_transfer_from_def res_simps)

lemma execute_send_from_steps:
  "execute_send_from api env info ow rc n m s = Inr (s', r) \<Longrightarrow>
   \<exists>a b s0 s1. addr_validate api ow = Inr a \<and> addr_validate api rc = Inr b
     \<and> deduct_allowance api env a (sender info) n s = Inr s0
     \<and> lower_balance a n s0 = Inr s1 \<and> raise_balance b n s1 = Inr s'"
  by (auto simp: execute_send_from_def res_simps)

lemma execute_burn_from_steps:
  "execute_burn_from api env info ow n s = Inr (s', r) \<Longrightarrow>
   \<exists>a s0 s1. addr_validate api ow = Inr a
     \<and> deduct_allowance api env a (sender info) n s = Inr s0
     \<and> lower_balance a n s0 = Inr s1 \<and> lower_supply n s1 = Inr s'"
  by (auto simp: execute_burn_from_def res_simps)

section \<open>Every step keeps the invariant\<close>

lemma inv_same:
  "lsd_inv s \<Longrightarrow> same_token s s' \<Longrightarrow> circulating s' = circulating s \<Longrightarrow> mirrored s' \<Longrightarrow> lsd_inv s'"
  by (simp add: lsd_inv_def within_cap_def same_token_facts)

lemma mirrored_same: "mirrored s \<Longrightarrow> same_allowances s s' \<Longrightarrow> mirrored s'"
  by (simp add: mirrored_def same_allowances_def)

lemma frame_inv:
  "lsd_inv s \<Longrightarrow> BALANCES s' = BALANCES s \<Longrightarrow> same_token s s' \<Longrightarrow> mirrored s' \<Longrightarrow> lsd_inv s'"
  by (rule inv_same) (simp_all add: circulating_def)

lemma circulating_same: "BALANCES s' = BALANCES s \<Longrightarrow> circulating s' = circulating s"
  by (simp add: circulating_def)

lemma inv_mirrored: "lsd_inv s \<Longrightarrow> mirrored s"
  by (simp add: lsd_inv_def)

lemma move_inv:
  assumes "lower_balance a n s = Inr s1" "raise_balance b n s1 = Inr s'" "lsd_inv s"
  shows "lsd_inv s'"
  using move_ok(1-3) [OF assms(1,2)] assms(3)
  by (blast intro: inv_same mirrored_same inv_mirrored)

lemma burn_inv:
  assumes "lower_balance a n s = Inr s1" "lower_supply n s1 = Inr s'" "lsd_inv s"
  shows "lsd_inv s'"
  using burn_ok [OF assms(1,2)] assms(3)
  by (auto simp: lsd_inv_def within_cap_def intro: mirrored_same)

lemma deduct_inv: "deduct_allowance api env a sp n s = Inr s' \<Longrightarrow> lsd_inv s \<Longrightarrow> lsd_inv s'"
  using deduct_allowance_frame deduct_allowance_ok(3)
  by (blast intro: inv_same circulating_same inv_mirrored)

lemma mint_inv: "execute_mint api info rc n s = Inr (s', r) \<Longrightarrow> lsd_inv s \<Longrightarrow> lsd_inv s'"
  by (erule mint_ok) (auto simp: lsd_inv_def intro: mirrored_same)

lemma minter_change_inv: "minter_change info s s' \<Longrightarrow> lsd_inv s \<Longrightarrow> lsd_inv s'"
  by (auto simp: minter_change_def lsd_inv_def within_cap_def circulating_def intro: mirrored_same)

lemma mirrored_upd:
  "mirrored s \<Longrightarrow> mirrored (s\<lparr>ALLOWANCES := fmupd (ow, sp) v (ALLOWANCES s),
     ALLOWANCES_SPENDER := fmupd (sp, ow) v (ALLOWANCES_SPENDER s)\<rparr>)"
  by (auto simp: mirrored_def)

lemma mirrored_drop:
  "mirrored s \<Longrightarrow> mirrored (s\<lparr>ALLOWANCES := fmdrop (ow, sp) (ALLOWANCES s),
     ALLOWANCES_SPENDER := fmdrop (sp, ow) (ALLOWANCES_SPENDER s)\<rparr>)"
  by (auto simp: mirrored_def)

lemma increase_mirrored:
  assumes "execute_increase_allowance api env info sp n e s = Inr (s', r)" "mirrored s"
  shows "mirrored s'"
proof -
  from assms obtain b v where s': "increase_fn api env n e (fmlookup (ALLOWANCES s) (sender info, b)) = Inr v"
    "s' = s\<lparr>ALLOWANCES := fmupd (sender info, b) v (ALLOWANCES s),
           ALLOWANCES_SPENDER := fmupd (b, sender info) v (ALLOWANCES_SPENDER s)\<rparr>"
    by (auto simp: execute_increase_allowance_def res_simps Let_def mirrored_def)
  with assms(2) show ?thesis by (simp add: mirrored_upd)
qed

lemma decrease_mirrored:
  assumes "execute_decrease_allowance api env info sp n e s = Inr (s', r)" "mirrored s"
  shows "mirrored s'"
  using assms
  by (auto simp: execute_decrease_allowance_def res_simps Let_def mirrored_upd mirrored_drop
      split: if_splits)

lemma execute_lsd_inv:
  assumes "execute_lsd api env info msg s = Inr (s', r)" and "lsd_inv s"
  shows "lsd_inv s'"
proof (cases msg)
  case (Transfer rc n)
  with assms show ?thesis by (auto dest!: execute_transfer_steps intro: move_inv)
next
  case (Send rc n m)
  with assms show ?thesis by (auto dest!: execute_send_steps intro: move_inv)
next
  case (TransferFrom ow rc n)
  with assms show ?thesis
    by (auto dest!: execute_transfer_from_steps intro: move_inv deduct_inv)
next
  case (SendFrom ow rc n m)
  with assms show ?thesis
    by (auto dest!: execute_send_from_steps intro: move_inv deduct_inv)
next
  case (Burn n)
  with assms show ?thesis by (auto dest!: execute_burn_steps intro: burn_inv)
next
  case (BurnFrom ow n)
  with assms show ?thesis
    by (auto dest!: execute_burn_from_steps intro: burn_inv deduct_inv)
next
  case (Mint rc n)
  with assms show ?thesis using mint_inv by simp
next
  case (IncreaseAllowance sp n e)
  with assms have h: "execute_increase_allowance api env info sp n e s = Inr (s', r)" by simp
  show ?thesis
    using increase_frame [OF h] increase_mirrored [OF h] assms(2)
    by (blast intro: frame_inv inv_mirrored)
next
  case (DecreaseAllowance sp n e)
  with assms have h: "execute_decrease_allowance api env info sp n e s = Inr (s', r)" by simp
  show ?thesis
    using decrease_frame [OF h] decrease_mirrored [OF h] assms(2)
    by (blast intro: frame_inv inv_mirrored)
next
  case (UpdateMarketing p d m)
  with assms have h: "execute_update_marketing api info p d m s = Inr (s', r)" by simp
  show ?thesis
    using update_marketing_frame [OF h] assms(2)
    by (blast intro: frame_inv mirrored_same inv_mirrored)
next
  case (UploadLogo l)
  with assms have h: "execute_upload_logo info l s = Inr (s', r)" by simp
  show ?thesis
    using upload_logo_frame [OF h] assms(2)
    by (blast intro: frame_inv mirrored_same inv_mirrored)
next
  case (AddMinter m)
  with assms show ?thesis using add_minter_ok minter_change_inv by fastforce
next
  case (RemoveMinter m)
  with assms show ?thesis using remove_minter_ok minter_change_inv by fastforce
next
  case (TransferAdmin_lsd m)
  with assms show ?thesis using transfer_admin_ok minter_change_inv by fastforce
qed

end
