(* ===== verification/Lsd_Properties.thy ===== *)
theory Lsd_Properties
  imports Lsd_Ledger
begin

text \<open>
  The properties of the token contract: refinement of the abstract ledger, the invariant of every
  reachable storage, who may create tokens and who may spend them, success conditions, pagination
  and migration.
\<close>

section \<open>Refinement\<close>

lemma deduct_ledger:
  "deduct_allowance api env a sp n s = Inr s0 \<Longrightarrow> ledger_of s0 = ledger_of s"
  by (drule deduct_allowance_frame) (simp add: same_ledger)

lemma minter_change_ledger: "minter_change info s s' \<Longrightarrow> ledger_of s' = ledger_of s"
  by (simp add: minter_change_def ledger_of_def bal_def fun_eq_iff)

lemma mint_refines:
  assumes "execute_mint api info rc n s = Inr (s', r)"
  shows "ledger_apply (event_of api info (Mint rc n)) (ledger_of s) = Some (ledger_of s')"
  using assms
proof (rule mint_ok)
  fix a
  assume "addr_validate api rc = Inr a" "bal s' a = bal s a + unat n"
    "\<And>c. c \<noteq> a \<Longrightarrow> bal s' c = bal s c" "supply_of s' = supply_of s + unat n"
  then show ?thesis
    by (auto simp: ledger_of_def valid_addr_def fun_eq_iff)
qed

lemma execute_lsd_ledger:
  assumes "execute_lsd api env info msg s = Inr (s', r)"
  shows "ledger_apply (event_of api info msg) (ledger_of s) = Some (ledger_of s')"
proof (cases msg)
  case (Transfer rc n)
  with assms show ?thesis
    by (auto dest!: execute_transfer_steps simp: valid_addr_def move_refines simp del: ledger_apply.simps)
next
  case (Send rc n m)
  with assms show ?thesis
    by (auto dest!: execute_send_steps simp: valid_addr_def move_refines simp del: ledger_apply.simps)
next
  case (TransferFrom ow rc n)
  with assms show ?thesis
    by (auto dest!: execute_transfer_from_steps
        simp: valid_addr_def move_refines deduct_ledger [symmetric] simp del: ledger_apply.simps)
next
  case (SendFrom ow rc n m)
  with assms show ?thesis
    by (auto dest!: execute_send_from_steps
        simp: valid_addr_def move_refines deduct_ledger [symmetric] simp del: ledger_apply.simps)
next
  case (Burn n)
  with assms show ?thesis
    by (auto dest!: execute_burn_steps simp: burn_refines simp del: ledger_apply.simps)
next
  case (BurnFrom ow n)
  with assms show ?thesis
    by (auto dest!: execute_burn_from_steps
        simp: valid_addr_def burn_refines deduct_ledger [symmetric] simp del: ledger_apply.simps)
next
  case (Mint rc n)
  with assms show ?thesis using mint_refines by simp
next
  case (IncreaseAllowance sp n e)
  with assms show ?thesis
    using increase_frame same_ledger by (fastforce simp: ledger_of_def)
next
  case (DecreaseAllowance sp n e)
  with assms show ?thesis
    using decrease_frame same_ledger by (fastforce simp: ledger_of_def)
next
  case (UpdateMarketing p d m)
  with assms show ?thesis
    using update_marketing_frame same_ledger by (fastforce simp: ledger_of_def)
next
  case (UploadLogo l)
  with assms show ?thesis
    using upload_logo_frame same_ledger by (fastforce simp: ledger_of_def)
next
  case (AddMinter m)
  with assms show ?thesis
    using add_minter_ok minter_change_ledger by (fastforce simp: ledger_of_def)
next
  case (RemoveMinter m)
  with assms show ?thesis
    using remove_minter_ok minter_change_ledger by (fastforce simp: ledger_of_def)
next
  case (TransferAdmin_lsd m)
  with assms show ?thesis
    using transfer_admin_ok minter_change_ledger by (fastforce simp: ledger_of_def)
qed

section \<open>Instantiation\<close>

text \<open>\<open>Api::addr_validate\<close> returns the address it was given, when that is a normalised address.\<close>

definition validates_normal :: "api \<Rightarrow> bool" where
  "validates_normal api \<longleftrightarrow> (\<forall>x a. addr_validate api x = Inr a \<longrightarrow> a = x)"

lemma validates_normalD: "validates_normal api \<Longrightarrow> addr_validate api x = Inr a \<Longrightarrow> a = x"
  by (simp add: validates_normal_def)

lemma accept_all_normal [simp]: "validates_normal accept_all"
  by (simp add: validates_normal_def)

lemma remdups_adj_length_le: "length (remdups_adj xs) \<le> length xs"
  by (induction xs rule: remdups_adj.induct) auto

lemma dedup_distinct:
  "sorted (ys :: 'a::linorder list) \<Longrightarrow> length (remdups_adj ys) = length ys \<Longrightarrow> distinct ys"
proof (induction ys rule: remdups_adj.induct)
  case (3 x y ys)
  have "x \<noteq> y"
    using 3(4) remdups_adj_length_le [of "y # ys"] by auto
  with 3 have "distinct (y # ys)" "\<forall>z \<in> set (y # ys). x \<le> z" "\<forall>z \<in> set ys. y \<le> z" by auto
  with \<open>x \<noteq> y\<close> show ?case by force
qed auto

lemma validate_accounts_distinct:
  "validate_accounts rows = Inr u \<Longrightarrow> distinct (map cw_address rows)"
  using dedup_distinct [of "sort (map cw_address rows)"]
  by (simp add: validate_accounts_def res_simps)

lemma create_account_ok:
  assumes "create_account api row (s, t) = Inr (s', t')" and "validates_normal api"
    and "cw_address row \<notin> fmdom' (BALANCES s)" and "circulating s = unat t"
  shows "same_allowances s s'" and "circulating s' = unat t'"
    and "fmdom' (BALANCES s') = insert (cw_address row) (fmdom' (BALANCES s))"
proof -
  let ?k = "cw_address row" and ?v = "cw_amount row"
  from assms(1,2) have s': "s' = s\<lparr>BALANCES := fmupd ?k ?v (BALANCES s)\<rparr>"
    and t': "uadd t ?v = Inr t'"
    by (auto simp: create_account_def res_simps dest: validates_normalD)
  from assms(3) have "get_or_zero (BALANCES s) ?k = 0"
    by (simp add: get_or_zero_def fmdom'_notD)
  then show "circulating s' = unat t'"
    using map_total_upd [of ?k ?v "BALANCES s"] assms(4) uadd_unat [OF t'] s'
    by (simp add: circulating_def)
  show "same_allowances s s'"
    and "fmdom' (BALANCES s') = insert (cw_address row) (fmdom' (BALANCES s))"
    using s' by (simp_all add: same_allowances_def)
qed

lemma create_accounts_total:
  assumes "rfold (create_account api) rows (s, t) = Inr (s', t')" and "validates_normal api"
    and "distinct (map cw_address rows)" and "cw_address ` set rows \<inter> fmdom' (BALANCES s) = {}"
    and "circulating s = unat t"
  shows "same_allowances s s' \<and> circulating s' = unat t'"
  using assms
proof (induction rows arbitrary: s t)
  case (Cons row rows)
  from Cons.prems(1) obtain s1 t1 where step: "create_account api row (s, t) = Inr (s1, t1)"
    and rest: "rfold (create_account api) rows (s1, t1) = Inr (s', t')"
    by (auto simp: res_simps)
  note ok = create_account_ok [OF step Cons.prems(2)]
  have fresh: "cw_address row \<notin> fmdom' (BALANCES s)" using Cons.prems(4) by auto
  from ok(3) [OF fresh Cons.prems(5)] Cons.prems(3,4)
  have "cw_address ` set rows \<inter> fmdom' (BALANCES s1) = {}" by auto
  with Cons.IH [OF rest Cons.prems(2)] ok(2) [OF fresh Cons.prems(5)] Cons.prems(3)
  have "same_allowances s1 s' \<and> circulating s' = unat t'" by simp
  with ok(1) [OF fresh Cons.prems(5)] show ?case by (simp add: same_allowances_def)
qed (simp add: same_allowances_def)

lemma instantiate_marketing_frame:
  "instantiate_marketing api mi s = Inr s' \<Longrightarrow>
   BALANCES s' = BALANCES s \<and> same_token s s' \<and> same_allowances s s'"
  by (auto simp: instantiate_marketing_def res_simps same_token_def same_allowances_def
      split: option.splits)

lemma instantiate_inv:
  assumes "instantiate_lsd api msg empty_lsd = Inr (s', r)" and "validates_normal api"
  shows "lsd_inv s'"
proof -
  let ?s0 = "empty_lsd\<lparr>LSD_VERSION := Some (CONTRACT_NAME_lsd, CONTRACT_VERSION_lsd)\<rparr>"
  from assms(1) obtain s1 t mint where acc: "create_accounts api (in_initial_balances msg) ?s0 = Inr (s1, t)"
    and cap: "\<not> (case instantiate_get_cap msg of Some limit \<Rightarrow> limit < t | None \<Rightarrow> False)"
    and mint: "instantiate_mint api (in_mint msg) = Inr mint"
    and mkt: "(case in_marketing msg of
        Some mi \<Rightarrow> instantiate_marketing api mi (s1\<lparr>TOKEN_INFO := Some \<lparr>ti_name = in_name msg,
          ti_symbol = in_symbol msg, ti_decimals = in_decimals msg, ti_total_supply = t,
          ti_mint = mint\<rparr>\<rparr>)
      | None \<Rightarrow> Inr (s1\<lparr>TOKEN_INFO := Some \<lparr>ti_name = in_name msg,
          ti_symbol = in_symbol msg, ti_decimals = in_decimals msg, ti_total_supply = t,
          ti_mint = mint\<rparr>\<rparr>)) = Inr s'"
    by (auto simp: instantiate_lsd_def res_simps Let_def)
  let ?ti = "\<lparr>ti_name = in_name msg, ti_symbol = in_symbol msg, ti_decimals = in_decimals msg,
    ti_total_supply = t, ti_mint = mint\<rparr>"
  from acc have v: "distinct (map cw_address (in_initial_balances msg))"
    and f: "rfold (create_account api) (in_initial_balances msg) (?s0, 0) = Inr (s1, t)"
    by (auto simp: create_accounts_def res_simps validate_accounts_distinct)
  have "same_allowances ?s0 s1 \<and> circulating s1 = unat t"
    by (rule create_accounts_total [OF f assms(2) v]) (simp_all add: empty_lsd_def circulating_def)
  then have c: "circulating s1 = unat t" and m: "mirrored s1"
    by (simp_all add: same_allowances_def mirrored_def empty_lsd_def)
  from mint have "Option.bind mint md_cap = instantiate_get_cap msg"
    by (auto simp: instantiate_mint_def instantiate_get_cap_def res_simps split: option.splits)
  with cap c m have base: "lsd_inv (s1\<lparr>TOKEN_INFO := Some ?ti\<rparr>)"
    by (auto simp: lsd_inv_def circulating_def supply_of_def within_cap_def mint_cap_def get_cap_def
        mirrored_def not_less word_le_nat_alt split: option.splits)
  show ?thesis
  proof (cases "in_marketing msg")
    case None
    with mkt base show ?thesis by simp
  next
    case (Some mi)
    with mkt have "instantiate_marketing api mi (s1\<lparr>TOKEN_INFO := Some ?ti\<rparr>) = Inr s'" by simp
    from instantiate_marketing_frame [OF this] base show ?thesis
      by (blast intro: frame_inv mirrored_same inv_mirrored)
  qed
qed

section \<open>Migration\<close>

lemma copy_allowance_ok:
  assumes "copy_allowance k s = Inr s'"
  shows "BALANCES s' = BALANCES s" and "same_token s s'" and "ALLOWANCES s' = ALLOWANCES s"
    and "fmlookup (ALLOWANCES_SPENDER s') (sp, ow)
      = (if k = (ow, sp) \<and> fmlookup (ALLOWANCES s) k \<noteq> None
         then fmlookup (ALLOWANCES s) k else fmlookup (ALLOWANCES_SPENDER s) (sp, ow))"
  using assms
  by (cases k; auto simp: copy_allowance_def same_token_def split: option.splits)+

lemma copy_allowances_ok:
  assumes "rfold copy_allowance ks s = Inr s'"
  shows "BALANCES s' = BALANCES s \<and> same_token s s' \<and> ALLOWANCES s' = ALLOWANCES s
    \<and> (\<forall>ow sp. fmlookup (ALLOWANCES_SPENDER s') (sp, ow)
        = (if (ow, sp) \<in> set ks \<and> fmlookup (ALLOWANCES s) (ow, sp) \<noteq> None
           then fmlookup (ALLOWANCES s) (ow, sp) else fmlookup (ALLOWANCES_SPENDER s) (sp, ow)))"
  using assms
proof (induction ks arbitrary: s)
  case (Cons k ks)
  then obtain s1 where s1: "copy_allowance k s = Inr s1" "rfold copy_allowance ks s1 = Inr s'"
    by (auto simp: res_simps)
  note IH = Cons.IH [OF s1(2)] and ok = copy_allowance_ok [OF s1(1)]
  have "fmlookup (ALLOWANCES_SPENDER s') (sp, ow)
      = (if (ow, sp) \<in> set (k # ks) \<and> fmlookup (ALLOWANCES s) (ow, sp) \<noteq> None
         then fmlookup (ALLOWANCES s) (ow, sp) else fmlookup (ALLOWANCES_SPENDER s) (sp, ow))" for ow sp
    using IH ok(3) ok(4) [of sp ow] by auto
  with IH ok(1-3) show ?case by (simp add: same_token_def)
qed (simp add: same_token_def)

lemma set_allowance_keys: "set (allowance_keys s) = fmdom' (ALLOWANCES s)"
proof -
  have "set (allowance_keys s) = (\<Union>ow \<in> fst ` fset (fmdom (ALLOWANCES s)).
      Pair ow ` snd ` {k \<in> fset (fmdom (ALLOWANCES s)). fst k = ow})"
    by (simp add: allowance_keys_def sorted_list_of_fset.rep_eq Int_def conj_commute)
  also have "\<dots> = fset (fmdom (ALLOWANCES s))"
    by (auto simp: image_iff)
  finally show ?thesis by (simp add: fmdom'_alt_def)
qed

lemma migrate_cases:
  assumes "migrate_lsd ensure lt s = Inr (s', r)"
  obtains ov v where "ensure CONTRACT_NAME_lsd CONTRACT_VERSION_lsd (LSD_VERSION s) = Inr (ov, v)"
    and "\<not> lt ov ''0.14.0'' \<Longrightarrow> s' = s\<lparr>LSD_VERSION := v\<rparr>"
    and "lt ov ''0.14.0'' \<Longrightarrow>
      rfold copy_allowance (allowance_keys s) (s\<lparr>LSD_VERSION := v\<rparr>) = Inr s'"
  using assms
  by (auto simp: migrate_lsd_def res_simps Let_def allowance_keys_def split: if_splits)

lemma migrate_inv: "migrate_lsd ensure lt s = Inr (s', r) \<Longrightarrow> lsd_inv s \<Longrightarrow> lsd_inv s'"
proof (erule migrate_cases)
  fix ov v
  assume inv: "lsd_inv s" and no: "\<not> lt ov ''0.14.0'' \<Longrightarrow> s' = s\<lparr>LSD_VERSION := v\<rparr>"
    and yes: "lt ov ''0.14.0'' \<Longrightarrow>
      rfold copy_allowance (allowance_keys s) (s\<lparr>LSD_VERSION := v\<rparr>) = Inr s'"
  have v: "lsd_inv (s\<lparr>LSD_VERSION := v\<rparr>)"
    using inv by (rule frame_inv) (use inv in \<open>auto simp: same_token_def lsd_inv_def mirrored_def\<close>)
  show "lsd_inv s'"
  proof (cases "lt ov ''0.14.0''")
    case True
    note c = copy_allowances_ok [OF yes [OF True]]
    have look: "fmlookup (ALLOWANCES_SPENDER s') (sp, ow) = fmlookup (ALLOWANCES s) (ow, sp)" for ow sp
      using c inv by (auto simp: lsd_inv_def mirrored_def)
    have "BALANCES s' = BALANCES s" "same_token s s'"
      using c by (simp_all add: same_token_def)
    moreover have "mirrored s'" using look c by (simp add: mirrored_def)
    ultimately show ?thesis using inv by (blast intro: frame_inv)
  next
    case False
    with no v show ?thesis by simp
  qed
qed

section \<open>Reachable storages\<close>

text \<open>
  The storages of a token contract: instantiation on empty storage, then any messages by any
  senders (a failing one is rolled back by the host) and any migrations.
\<close>

inductive lsd_reachable :: "api \<Rightarrow> lsd_store \<Rightarrow> bool" for a where
  start: "instantiate_lsd a msg empty_lsd = Inr (s, r) \<Longrightarrow> lsd_reachable a s"
| call: "lsd_reachable a s \<Longrightarrow> lsd_reachable a (commit s (execute_lsd a env info msg s))"
| migration: "lsd_reachable a s \<Longrightarrow> lsd_reachable a (commit s (migrate_lsd ensure (lt :: string \<Rightarrow> string \<Rightarrow> bool) s))"

lemma lsd_reachable_inv: "lsd_reachable api s \<Longrightarrow> validates_normal api \<Longrightarrow> lsd_inv s"
proof (induction rule: lsd_reachable.induct)
  case (start msg s r)
  then show ?case by (rule instantiate_inv)
next
  case (call s env info msg)
  then show ?case by (auto intro: commit_invariant execute_lsd_inv)
next
  case (migration s ensure lt)
  then show ?case by (auto intro: commit_invariant migrate_inv)
qed

section \<open>Who may change what\<close>

lemma ledger_supply: "ledger_of s = (f, t) \<Longrightarrow> supply_of s = t"
  by (simp add: ledger_of_def)

lemma execute_lsd_supply:
  assumes "execute_lsd api env info msg s = Inr (s', r)" and "supply_of s < supply_of s'"
  shows "\<exists>rc n. msg = Mint rc n \<and> sender info \<in> set (minters s)
    \<and> supply_of s' = supply_of s + unat n"
proof (cases msg)
  case (Mint rc n)
  with assms(1) have "execute_mint api info rc n s = Inr (s', r)" by simp
  then show ?thesis by (rule mint_ok) (use Mint in simp)
qed (use execute_lsd_ledger [OF assms(1)] assms(2) in
  \<open>auto simp: valid_addr_def ledger_of_def Let_def split: sum.splits if_splits\<close>)

text \<open>The minter set and the mint admin change by three messages only, all of the admin.\<close>

lemma same_token_minters:
  "same_token s s' \<Longrightarrow> minters s' = minters s \<and> mint_admin s' = mint_admin s"
  by (simp add: same_token_facts)

lemma deduct_move_minters:
  assumes "deduct_allowance api env a sp n s = Inr s0" and "lower_balance a n s0 = Inr s1"
    and "raise_balance b n s1 = Inr s'"
  shows "minters s' = minters s \<and> mint_admin s' = mint_admin s"
  using deduct_allowance_frame [OF assms(1)] move_ok(2) [OF assms(2,3)] same_token_minters by metis

lemma deduct_burn_minters:
  assumes "deduct_allowance api env a sp n s = Inr s0" and "lower_balance a n s0 = Inr s1"
    and "lower_supply n s1 = Inr s'"
  shows "minters s' = minters s \<and> mint_admin s' = mint_admin s"
  using deduct_allowance_frame [OF assms(1)] burn_ok(5,6) [OF assms(2,3)] same_token_minters by metis

fun changes_minters :: "lsd_execute_msg \<Rightarrow> bool" where
  "changes_minters (AddMinter _) = True"
| "changes_minters (RemoveMinter _) = True"
| "changes_minters (TransferAdmin_lsd _) = True"
| "changes_minters _ = False"

lemma execute_lsd_keeps_minters:
  assumes "execute_lsd api env info msg s = Inr (s', r)" and "\<not> changes_minters msg"
  shows "minters s' = minters s \<and> mint_admin s' = mint_admin s"
proof (cases msg)
  case (Transfer rc n)
  with assms show ?thesis
    by (auto dest!: execute_transfer_steps dest: move_ok(2) same_token_minters)
next
  case (Send rc n m)
  with assms show ?thesis
    by (auto dest!: execute_send_steps dest: move_ok(2) same_token_minters)
next
  case (TransferFrom ow rc n)
  with assms show ?thesis
    by (auto dest!: execute_transfer_from_steps dest: deduct_move_minters)
next
  case (SendFrom ow rc n m)
  with assms show ?thesis
    by (auto dest!: execute_send_from_steps dest: deduct_move_minters)
next
  case (Burn n)
  with assms show ?thesis
    by (auto dest!: execute_burn_steps dest: burn_ok(5,6))
next
  case (BurnFrom ow n)
  with assms show ?thesis
    by (auto dest!: execute_burn_from_steps dest: deduct_burn_minters)
next
  case (Mint rc n)
  with assms have "execute_mint api info rc n s = Inr (s', r)" by simp
  then show ?thesis by (rule mint_ok) simp
next
  case (IncreaseAllowance sp n e)
  with assms show ?thesis
    using increase_frame same_token_minters by (metis execute_lsd.simps(5))
next
  case (DecreaseAllowance sp n e)
  with assms show ?thesis
    using decrease_frame same_token_minters by (metis execute_lsd.simps(6))
next
  case (UpdateMarketing p d m)
  with assms show ?thesis
    using update_marketing_frame same_token_minters by (metis execute_lsd.simps(10))
next
  case (UploadLogo l)
  with assms show ?thesis
    using upload_logo_frame same_token_minters by (metis execute_lsd.simps(11))
qed (use assms(2) in simp_all)

lemma execute_lsd_minters:
  assumes "execute_lsd api env info msg s = Inr (s', r)"
    and "minters s' \<noteq> minters s \<or> mint_admin s' \<noteq> mint_admin s"
  shows "mint_admin s = Some (sender info)"
proof -
  have "changes_minters msg" using execute_lsd_keeps_minters [OF assms(1)] assms(2) by blast
  then consider m where "msg = AddMinter m" | m where "msg = RemoveMinter m"
    | m where "msg = TransferAdmin_lsd m" by (cases msg) auto
  then have "minter_change info s s'"
    using assms(1) by cases (auto dest: add_minter_ok remove_minter_ok transfer_admin_ok)
  then show ?thesis by (simp add: minter_change_def)
qed

text \<open>Without a message that adds one, the set of minters never grows.\<close>

lemma execute_lsd_no_new_minter:
  assumes "execute_lsd api env info msg s = Inr (s', r)" and "\<And>m. msg \<noteq> AddMinter m"
  shows "set (minters s') \<subseteq> set (minters s)"
proof (cases "changes_minters msg")
  case True
  with assms show ?thesis
    by (cases msg) (auto dest!: remove_minter_ok transfer_admin_ok)
qed (use execute_lsd_keeps_minters [OF assms(1)] in simp)

lemma migrate_token:
  assumes "migrate_lsd ensure lt s = Inr (s', r)"
  shows "TOKEN_INFO s' = TOKEN_INFO s"
  using assms
proof (rule migrate_cases)
  fix ov v
  assume "\<not> lt ov ''0.14.0'' \<Longrightarrow> s' = s\<lparr>LSD_VERSION := v\<rparr>"
    and "lt ov ''0.14.0'' \<Longrightarrow> rfold copy_allowance (allowance_keys s) (s\<lparr>LSD_VERSION := v\<rparr>) = Inr s'"
  then show ?thesis
    using copy_allowances_ok [of _ "s\<lparr>LSD_VERSION := v\<rparr>" s']
    by (cases "lt ov ''0.14.0''") (auto simp: same_token_def)
qed

text \<open>A balance falls by its owner's message or by a live allowance of the sender.\<close>

definition spends_allowance ::
  "api \<Rightarrow> env \<Rightarrow> lsd_store \<Rightarrow> lsd_store \<Rightarrow> addr \<Rightarrow> addr \<Rightarrow> bool" where
  "spends_allowance api env s s' ow sp \<longleftrightarrow>
     (\<exists>a. fmlookup (ALLOWANCES s) (ow, sp) = Some a \<and> \<not> is_expired api (al_expires a) env
        \<and> allowed s' ow sp + (bal s ow - bal s' ow) = allowed s ow sp)"

lemma deduct_spends:
  assumes "deduct_allowance api env ow sp n s = Inr s0" and "same_allowances s0 s'"
    and "bal s' ow + unat n = bal s ow"
  shows "spends_allowance api env s s' ow sp"
proof -
  from assms(2) have "allowed s' ow sp = allowed s0 ow sp"
    by (simp add: same_allowances_def allowed_def)
  with deduct_allowance_ok(1,2) [OF assms(1)] assms(3) show ?thesis
    by (auto simp: spends_allowance_def)
qed

lemma deduct_bal: "deduct_allowance api env ow sp n s = Inr s0 \<Longrightarrow> bal s0 = bal s"
  by (drule deduct_allowance_frame) (simp add: bal_def fun_eq_iff)

lemma spend_move:
  assumes "deduct_allowance api env ow sp n s = Inr s0" and "lower_balance ow n s0 = Inr s1"
    and "raise_balance rc n s1 = Inr s'" and "bal s' a < bal s a"
  shows "spends_allowance api env s s' a sp"
proof -
  note mv = move_ok [OF assms(2,3)]
  have b: "bal s0 = bal s" by (rule deduct_bal [OF assms(1)])
  have a: "a = ow" using mv(4) [of a] assms(4) b by fastforce
  with mv(5) assms(4) b have "bal s' ow + unat n = bal s ow" by simp
  with deduct_spends [OF assms(1) mv(3)] a show ?thesis by simp
qed

lemma spend_burn:
  assumes "deduct_allowance api env ow sp n s = Inr s0" and "lower_balance ow n s0 = Inr s1"
    and "lower_supply n s1 = Inr s'" and "bal s' a < bal s a"
  shows "spends_allowance api env s s' a sp"
proof -
  note bn = burn_ok [OF assms(2,3)]
  have b: "bal s0 = bal s" by (rule deduct_bal [OF assms(1)])
  have "a = ow" using bn(9) [of a] assms(4) b by fastforce
  with deduct_spends [OF assms(1) bn(3)] bn(8) b show ?thesis by simp
qed

lemma ledger_falls:
  assumes "ledger_apply ev L = Some L'" and "fst L' a < fst L a"
  shows "(\<exists>b n. ev = Move a b n) \<or> (\<exists>n. ev = Destroy a n)"
  using assms by (cases ev; cases L) (auto simp: Let_def split: if_splits)

lemma execute_lsd_falls:
  assumes "execute_lsd api env info msg s = Inr (s', r)" and "bal s' a < bal s a"
  shows "(\<exists>b n. event_of api info msg = Move a b n) \<or> (\<exists>n. event_of api info msg = Destroy a n)"
  by (rule ledger_falls [OF execute_lsd_ledger [OF assms(1)]]) (simp add: ledger_of_def assms(2))

lemma execute_lsd_spends:
  assumes "execute_lsd api env info msg s = Inr (s', r)"
    and "bal s' a < bal s a" and "a \<noteq> sender info"
  shows "spends_allowance api env s s' a (sender info)"
proof (cases msg)
  case (TransferFrom ow rc n)
  with assms show ?thesis by (auto dest!: execute_transfer_from_steps intro: spend_move)
next
  case (SendFrom ow rc n m)
  with assms show ?thesis by (auto dest!: execute_send_from_steps intro: spend_move)
next
  case (BurnFrom ow n)
  with assms show ?thesis by (auto dest!: execute_burn_from_steps intro: spend_burn)
qed (use execute_lsd_falls [OF assms(1,2)] assms(3) in
  \<open>auto simp: valid_addr_def split: sum.splits\<close>)

section \<open>When a transfer succeeds\<close>

lemma raise_succeeds:
  assumes "bal s a + unat n < 2 ^ 128"
  shows "\<exists>s'. raise_balance a n s = Inr s'"
  using assms by (simp add: raise_balance_def bal_def uadd_def)

lemma inv_bal_lt: "lsd_inv s \<Longrightarrow> circulating s < 2 ^ 128"
  by (auto simp: lsd_inv_def supply_of_def unsigned_less [where 'b = 128, simplified])

lemma transfer_succeeds:
  assumes "lsd_inv s"
  shows "(\<exists>s' r. execute_transfer_lsd api info rc n s = Inr (s', r))
    \<longleftrightarrow> (\<exists>b. addr_validate api rc = Inr b) \<and> unat n \<le> bal s (sender info)"
proof
  assume "\<exists>s' r. execute_transfer_lsd api info rc n s = Inr (s', r)"
  then show "(\<exists>b. addr_validate api rc = Inr b) \<and> unat n \<le> bal s (sender info)"
    by (auto dest!: execute_transfer_steps lower_bal)
next
  assume "(\<exists>b. addr_validate api rc = Inr b) \<and> unat n \<le> bal s (sender info)"
  then obtain b where b: "addr_validate api rc = Inr b" and n: "unat n \<le> bal s (sender info)" by blast
  from n obtain s1 where s1: "lower_balance (sender info) n s = Inr s1"
    by (auto simp: lower_balance_def checked_sub_def bal_def word_le_nat_alt)
  have "bal s1 b + unat n \<le> circulating s1 + unat n"
    using get_or_zero_le_total [of "BALANCES s1" b] by (simp add: bal_def circulating_def)
  also have "\<dots> = circulating s" by (rule lower_balance_ok(2) [OF s1])
  also have "\<dots> < 2 ^ 128" by (rule inv_bal_lt [OF assms])
  finally obtain s' where "raise_balance b n s1 = Inr s'" using raise_succeeds by blast
  with b s1 show "\<exists>s' r. execute_transfer_lsd api info rc n s = Inr (s', r)"
    by (simp add: execute_transfer_lsd_def)
qed

section \<open>Listing the accounts\<close>

text \<open>
  A client that lists the accounts: it asks for pages after the last account it saw until a page is
  empty. The fuel bounds the number of queries.
\<close>

fun list_accounts :: "nat \<Rightarrow> string option \<Rightarrow> u32 option \<Rightarrow> lsd_store \<Rightarrow> addr list option" where
  "list_accounts 0 start limit s = None"
| "list_accounts (Suc k) start limit s = (case query_all_accounts start limit s of
       Inl _ \<Rightarrow> None
     | Inr [] \<Rightarrow> Some []
     | Inr (x # xs) \<Rightarrow>
         map_option ((@) (x # xs)) (list_accounts k (Some (last (x # xs))) limit s))"

lemma list_accounts_rest:
  assumes "0 < page_limit limit"
    and "length (filter (after_bound start) (sorted_list_of_fset (fmdom (BALANCES s)))) < k"
  shows "list_accounts k start limit s
    = Some (filter (after_bound start) (sorted_list_of_fset (fmdom (BALANCES s))))"
  using assms(2)
proof (induction k arbitrary: start)
  case (Suc k)
  let ?keys = "fmdom (BALANCES s)"
  let ?n = "page_limit limit" and ?xs = "filter (after_bound start) (sorted_list_of_fset ?keys)"
  show ?case
  proof (cases "?xs = []")
    case True
    then show ?thesis by (simp add: query_all_accounts_def page_def)
  next
    case False
    let ?p = "page ?keys start ?n"
    have p: "?p = take ?n ?xs" by (simp add: page_def)
    with False assms(1) obtain y ys where yys: "?p = y # ys" by (cases ?xs; cases ?n) auto
    let ?rest = "filter (after_bound (Some (last ?p))) (sorted_list_of_fset ?keys)"
    have cont: "?xs = ?p @ ?rest"
    proof (cases "?n \<le> length ?xs")
      case True
      with page_continues assms(1) show ?thesis by blast
    next
      case f: False
      then have "page ?keys start ?n = page ?keys start (length ?xs)"
        by (simp add: page_def)
      moreover from False have "0 < length ?xs" by simp
      ultimately show ?thesis using page_continues [of "length ?xs" start ?keys] by simp
    qed
    have "length ?rest < k"
      using arg_cong [OF cont, of length] Suc.prems yys by simp
    from Suc.IH [OF this] cont yys show ?thesis
      by (simp add: query_all_accounts_def)
  qed
qed simp

section \<open>Properties\<close>

text \<open>
  The token of the witnesses: 1000 tokens of \<open>alice\<close>, the minter \<open>mgr\<close>, the admin \<open>gov\<close>, no
  cap.
\<close>

definition demo_env :: env where
  "demo_env = \<lparr>block_height = 10, block_time = 5000000000, contract_addr = ''token''\<rparr>"

definition demo_from :: "string \<Rightarrow> message_info" where
  "demo_from who = \<lparr>sender = who, funds = []\<rparr>"

definition demo_token_msg :: instantiate_msg_lsd where
  "demo_token_msg = \<lparr>in_name = ''rATOM'', in_symbol = ''rATOM'', in_decimals = 6,
     in_initial_balances = [\<lparr>cw_address = ''alice'', cw_amount = 1000\<rparr>],
     in_mint = Some \<lparr>imd_admin = ''gov'', imd_minter = ''mgr'', imd_cap = None\<rparr>,
     in_marketing = None\<rparr>"

definition demo_token :: lsd_store where
  "demo_token = \<lparr>LSD_VERSION = Some (CONTRACT_NAME_lsd, CONTRACT_VERSION_lsd),
     TOKEN_INFO = Some \<lparr>ti_name = ''rATOM'', ti_symbol = ''rATOM'', ti_decimals = 6,
       ti_total_supply = 1000, ti_mint = Some \<lparr>md_admin = ''gov'', md_minters = [''mgr''],
       md_cap = None\<rparr>\<rparr>,
     MARKETING_INFO = None, LOGO = None, BALANCES = fmupd ''alice'' 1000 fmempty,
     ALLOWANCES = fmempty, ALLOWANCES_SPENDER = fmempty\<rparr>"

lemma demo_token_instantiate:
  "instantiate_lsd accept_all demo_token_msg empty_lsd = Inr (demo_token, respond [] [])"
  by (simp add: instantiate_lsd_def demo_token_msg_def demo_token_def empty_lsd_def Let_def
      validate_instantiate_def has_valid_name_def has_valid_symbol_def valid_symbol_byte_def byte_def
      create_accounts_def validate_accounts_def create_account_def instantiate_get_cap_def
      instantiate_mint_def)

lemma demo_token_inv: "lsd_inv demo_token"
  using demo_token_instantiate by (rule instantiate_inv) simp

lemma demo_transfer:
  "execute_lsd accept_all demo_env (demo_from ''alice'') (Transfer ''bob'' 400) demo_token
   = Inr (demo_token\<lparr>BALANCES := fmupd ''bob'' 400 (fmupd ''alice'' 600 fmempty)\<rparr>,
       respond [] [(''action'', ''transfer''), (''from'', ''alice''), (''to'', ''bob''),
         (''amount'', to_string (400 :: u128))])"
  by (simp add: execute_transfer_lsd_def lower_balance_def raise_balance_def checked_sub_def uadd_def
      demo_token_def demo_from_def get_or_zero_def fmupd_reorder_neq)

text \<open>C5: every message the token accepts is one event of the abstract ledger on its balances and
  its supply: a transfer or a send moves exactly the amount from the sender (or the owner) to the
  recipient, a burn destroys it, a mint creates it, and every other message leaves the ledger
  alone; and an accepted move or burn never exceeds the balance.\<close>

theorem token_refines_ledger:
  assumes "execute_lsd api env info msg s = Inr (s', r)"
  shows "ledger_apply (event_of api info msg) (ledger_of s) = Some (ledger_of s')"
  using assms by (rule execute_lsd_ledger)

theorem token_refines_ledger_witness:
  "ledger_apply (event_of accept_all (demo_from ''alice'') (Transfer ''bob'' 400))
     (ledger_of demo_token)
   = Some (ledger_of (demo_token\<lparr>BALANCES := fmupd ''bob'' 400 (fmupd ''alice'' 600 fmempty)\<rparr>))"
  by (rule token_refines_ledger [OF demo_transfer])

text \<open>C4: in every storage a token contract can reach, from instantiation through messages of
  any senders (refused ones rolled back) and migrations, the balances add up to the total supply,
  the supply respects the cap, and the two allowance maps hold the same allowances.\<close>

theorem reachable_token_solvent:
  assumes "lsd_reachable api s" and "validates_normal api"
  shows "circulating s = supply_of s \<and> within_cap s \<and> mirrored s"
  using lsd_reachable_inv [OF assms] by (simp add: lsd_inv_def)

theorem reachable_token_solvent_witness:
  "circulating demo_token = supply_of demo_token \<and> within_cap demo_token \<and> mirrored demo_token"
  by (rule reachable_token_solvent [of accept_all])
    (auto intro: lsd_reachable.start [OF demo_token_instantiate])

text \<open>C6: the supply of the token grows only when a current minter mints, by the amount it asked
  for.\<close>

theorem supply_grows_by_minters_only:
  assumes "execute_lsd api env info msg s = Inr (s', r)" and "supply_of s < supply_of s'"
  shows "\<exists>rc n. msg = Mint rc n \<and> sender info \<in> set (minters s)
    \<and> supply_of s' = supply_of s + unat n"
  using assms by (rule execute_lsd_supply)

lemma demo_mint:
  "execute_lsd accept_all demo_env (demo_from ''mgr'') (Mint ''bob'' 50) demo_token
   = Inr (demo_token\<lparr>TOKEN_INFO := map_option (\<lambda>t. t\<lparr>ti_total_supply := 1050\<rparr>) (TOKEN_INFO demo_token),
         BALANCES := fmupd ''bob'' 50 (fmupd ''alice'' 1000 fmempty)\<rparr>,
       respond [] [(''action'', ''mint''), (''to'', ''bob''), (''amount'', to_string (50 :: u128))])"
  by (simp add: execute_mint_def raise_balance_def uadd_def get_cap_def Let_def
      demo_token_def demo_from_def get_or_zero_def)

theorem supply_grows_by_minters_only_witness:
  "\<exists>rc n. Mint ''bob'' 50 = Mint rc n \<and> sender (demo_from ''mgr'') \<in> set (minters demo_token)
    \<and> supply_of (demo_token\<lparr>TOKEN_INFO := map_option (\<lambda>t. t\<lparr>ti_total_supply := 1050\<rparr>) (TOKEN_INFO demo_token),
         BALANCES := fmupd ''bob'' 50 (fmupd ''alice'' 1000 fmempty)\<rparr>) = supply_of demo_token + unat n"
  by (rule supply_grows_by_minters_only [OF demo_mint]) (simp add: supply_of_def demo_token_def)

text \<open>Only the mint admin changes the minter set or hands the admin role on.\<close>

theorem minters_change_by_admin_only:
  assumes "execute_lsd api env info msg s = Inr (s', r)"
    and "minters s' \<noteq> minters s \<or> mint_admin s' \<noteq> mint_admin s"
  shows "mint_admin s = Some (sender info)"
  using assms by (rule execute_lsd_minters)

definition demo_token2 :: lsd_store where
  "demo_token2 = demo_token\<lparr>TOKEN_INFO := Some \<lparr>ti_name = ''rATOM'', ti_symbol = ''rATOM'',
     ti_decimals = 6, ti_total_supply = 1000, ti_mint = Some \<lparr>md_admin = ''gov'',
     md_minters = [''mgr'', ''mgr2''], md_cap = None\<rparr>\<rparr>\<rparr>"

theorem minters_change_by_admin_only_witness:
  "mint_admin demo_token = Some (sender (demo_from ''gov''))"
proof (rule minters_change_by_admin_only)
  show "execute_lsd accept_all demo_env (demo_from ''gov'') (AddMinter ''mgr2'') demo_token
    = Inr (demo_token2, respond [] [(''action'', ''add_minter'')])"
    by (simp add: execute_add_minter_def demo_token_def demo_token2_def demo_from_def)
  show "minters demo_token2 \<noteq> minters demo_token \<or> mint_admin demo_token2 \<noteq> mint_admin demo_token"
    by (simp add: minters_def demo_token_def demo_token2_def)
qed

text \<open>C7: an account other than the sender loses tokens only through an allowance it granted to
  the sender, which has not expired and falls by exactly what the account lost.\<close>

theorem balance_falls_by_allowance_only:
  assumes "execute_lsd api env info msg s = Inr (s', r)"
    and "bal s' a < bal s a" and "a \<noteq> sender info"
  shows "\<exists>al. fmlookup (ALLOWANCES s) (a, sender info) = Some al
    \<and> \<not> is_expired api (al_expires al) env
    \<and> allowed s' a (sender info) + (bal s a - bal s' a) = allowed s a (sender info)"
  using execute_lsd_spends [OF assms] by (simp add: spends_allowance_def)

definition demo_allowance :: lsd_store where
  "demo_allowance = demo_token\<lparr>
     ALLOWANCES := fmupd (''alice'', ''mgr'') \<lparr>al_allowance = 70, al_expires = AtHeight 20\<rparr> fmempty,
     ALLOWANCES_SPENDER :=
       fmupd (''mgr'', ''alice'') \<lparr>al_allowance = 70, al_expires = AtHeight 20\<rparr> fmempty\<rparr>"

definition demo_burned :: lsd_store where
  "demo_burned = \<lparr>LSD_VERSION = Some (CONTRACT_NAME_lsd, CONTRACT_VERSION_lsd),
     TOKEN_INFO = Some \<lparr>ti_name = ''rATOM'', ti_symbol = ''rATOM'', ti_decimals = 6,
       ti_total_supply = 970, ti_mint = Some \<lparr>md_admin = ''gov'', md_minters = [''mgr''],
       md_cap = None\<rparr>\<rparr>,
     MARKETING_INFO = None, LOGO = None, BALANCES = fmupd ''alice'' 970 fmempty,
     ALLOWANCES = fmupd (''alice'', ''mgr'') \<lparr>al_allowance = 40, al_expires = AtHeight 20\<rparr> fmempty,
     ALLOWANCES_SPENDER =
       fmupd (''mgr'', ''alice'') \<lparr>al_allowance = 40, al_expires = AtHeight 20\<rparr> fmempty\<rparr>"

lemma demo_burn_from:
  "execute_lsd accept_all demo_env (demo_from ''mgr'') (BurnFrom ''alice'' 30) demo_allowance
   = Inr (demo_burned, respond [] [(''action'', ''burn_from''), (''from'', ''alice''),
       (''by'', ''mgr''), (''amount'', to_string (30 :: u128))])"
  by (simp add: execute_burn_from_def deduct_allowance_def deduct_fn_def lower_balance_def
      lower_supply_def checked_sub_def demo_allowance_def demo_burned_def demo_token_def demo_from_def
      demo_env_def get_or_zero_def Let_def)

theorem balance_falls_by_allowance_only_witness:
  "\<exists>al. fmlookup (ALLOWANCES demo_allowance) (''alice'', sender (demo_from ''mgr'')) = Some al
    \<and> \<not> is_expired accept_all (al_expires al) demo_env
    \<and> allowed demo_burned ''alice'' (sender (demo_from ''mgr''))
        + (bal demo_allowance ''alice'' - bal demo_burned ''alice'')
      = allowed demo_allowance ''alice'' (sender (demo_from ''mgr''))"
  by (rule balance_falls_by_allowance_only [OF demo_burn_from])
    (simp_all add: bal_def demo_allowance_def demo_burned_def demo_token_def demo_from_def get_or_zero_def)

text \<open>In a storage that keeps the invariant a transfer succeeds exactly when the recipient is
  a valid address and the sender holds the amount; the addition on the recipient's side cannot
  overflow.\<close>

theorem transfer_succeeds_iff:
  assumes "lsd_inv s"
  shows "(\<exists>s' r. execute_lsd api env info (Transfer rc n) s = Inr (s', r))
    \<longleftrightarrow> (\<exists>b. addr_validate api rc = Inr b) \<and> unat n \<le> bal s (sender info)"
  using transfer_succeeds [OF assms] by simp

theorem transfer_succeeds_iff_witness:
  "(\<exists>s' r. execute_lsd accept_all demo_env (demo_from ''alice'') (Transfer ''bob'' 1001) demo_token
      = Inr (s', r))
    \<longleftrightarrow> (\<exists>b. addr_validate accept_all ''bob'' = Inr b)
      \<and> unat (1001 :: u128) \<le> bal demo_token (sender (demo_from ''alice''))"
  by (rule transfer_succeeds_iff [OF demo_token_inv])

text \<open>C8: a client that follows the pages of \<open>AllAccounts\<close>, whatever limit it asks for (a limit
  of zero apart), gets every account that ever held tokens, once and in order, and its loop ends
  after at most one query more than there are accounts.\<close>

theorem accounts_pagination_complete:
  assumes "0 < page_limit limit"
  shows "list_accounts (Suc (size (fmdom (BALANCES s)))) None limit s
    = Some (sorted_list_of_fset (fmdom (BALANCES s)))"
proof -
  have all: "filter (after_bound None) xs = xs" for xs
    by (simp add: after_bound_def)
  have "length (sorted_list_of_fset (fmdom (BALANCES s))) = size (fmdom (BALANCES s))"
    by (simp add: sorted_list_of_fset.rep_eq)
  then show ?thesis
    using list_accounts_rest [OF assms, of None s "Suc (size (fmdom (BALANCES s)))"]
    by (simp add: all)
qed

theorem accounts_pagination_complete_witness:
  "list_accounts (Suc (size (fmdom (BALANCES demo_token)))) None (Some 1) demo_token
    = Some (sorted_list_of_fset (fmdom (BALANCES demo_token)))"
  by (rule accounts_pagination_complete) (simp add: page_limit_def MAX_LIMIT_def min_def word_le_nat_alt)

text \<open>
  What \<open>cw2::ensure_from_older_version\<close> documents: it accepts a stored version of the same contract
  that is not newer than the code, returns it, and leaves the version of the code in the storage.
  Semantic versions are ordered, 0.1.0 before 0.14.0.
\<close>

definition cw2_check :: "string version_check \<Rightarrow> (string \<Rightarrow> string \<Rightarrow> bool) \<Rightarrow> bool" where
  "cw2_check ensure lt \<longleftrightarrow> transp lt \<and> lt ''0.1.0'' ''0.14.0''
     \<and> (\<forall>name new st old st'. ensure name new st = Inr (old, st') \<longrightarrow>
          st = Some (name, old) \<and> (old = new \<or> lt old new) \<and> st' = Some (name, new))"

lemma copy_allowances_only:
  "rfold copy_allowance ks s = Inr s' \<Longrightarrow> s' = s\<lparr>ALLOWANCES_SPENDER := ALLOWANCES_SPENDER s'\<rparr>"
proof (induction ks arbitrary: s)
  case (Cons k ks)
  then obtain s1 where c: "copy_allowance k s = Inr s1"
    and s': "s' = s1\<lparr>ALLOWANCES_SPENDER := ALLOWANCES_SPENDER s'\<rparr>" by (auto simp: rbind_eq_Inr)
  from c have "s1 = s\<lparr>ALLOWANCES_SPENDER := ALLOWANCES_SPENDER s1\<rparr>"
    by (auto simp: copy_allowance_def split: option.splits)
  with s' show ?case by (metis lsd_store.surjective lsd_store.update_convs(7))
qed simp

text \<open>C9: every migration that this release of the contract accepts comes from the same contract in a
  version that is not newer than its own 0.1.0, hence from before 0.14.0, so it gives every
  allowance its copy under the spender. It keeps the copies that were there under other keys, stores the version
  of the release, sends nothing, and changes nothing else: balances, token information, marketing
  information, logo and the allowances themselves are as they were.\<close>

theorem migration_fills_spender_allowances:
  assumes "migrate_lsd ensure lt s = Inr (s', r)" and "cw2_check ensure lt"
  shows "(\<exists>old. LSD_VERSION s = Some (''crates.io:lsd_token'', old) \<and> (old = ''0.1.0'' \<or> lt old ''0.1.0''))
    \<and> (\<forall>ow sp. fmlookup (ALLOWANCES_SPENDER s') (sp, ow)
        = (case fmlookup (ALLOWANCES s) (ow, sp) of
             Some a \<Rightarrow> Some a | None \<Rightarrow> fmlookup (ALLOWANCES_SPENDER s) (sp, ow)))
    \<and> s' = s\<lparr>LSD_VERSION := Some (''crates.io:lsd_token'', ''0.1.0''),
             ALLOWANCES_SPENDER := ALLOWANCES_SPENDER s'\<rparr>
    \<and> messages r = []"
proof -
  have m: "messages r = []" using assms(1) by (auto simp: migrate_lsd_def res_simps Let_def)
  show ?thesis
    using assms(1)
  proof (rule migrate_cases)
    fix ov v
    assume e: "ensure CONTRACT_NAME_lsd CONTRACT_VERSION_lsd (LSD_VERSION s) = Inr (ov, v)"
      and c: "lt ov ''0.14.0'' \<Longrightarrow>
        rfold copy_allowance (allowance_keys s) (s\<lparr>LSD_VERSION := v\<rparr>) = Inr s'"
    from e assms(2) have from_old: "LSD_VERSION s = Some (CONTRACT_NAME_lsd, ov)"
      "ov = CONTRACT_VERSION_lsd \<or> lt ov CONTRACT_VERSION_lsd"
      and v: "v = Some (CONTRACT_NAME_lsd, CONTRACT_VERSION_lsd)"
      unfolding cw2_check_def by blast+
    have "lt ov ''0.14.0''"
      using from_old(2) assms(2) by (auto simp: cw2_check_def CONTRACT_VERSION_lsd_def dest: transpD)
    note copied = c [OF this]
    have "s' = s\<lparr>LSD_VERSION := v, ALLOWANCES_SPENDER := ALLOWANCES_SPENDER s'\<rparr>"
      using copy_allowances_only [OF copied] by simp
    moreover have "fmlookup (ALLOWANCES_SPENDER s') (sp, ow) = (case fmlookup (ALLOWANCES s) (ow, sp) of
        Some a \<Rightarrow> Some a | None \<Rightarrow> fmlookup (ALLOWANCES_SPENDER s) (sp, ow))" for ow sp
      using copy_allowances_ok [OF copied] by (auto simp: set_allowance_keys split: option.splits)
    ultimately show ?thesis
      using from_old v m by (auto simp: CONTRACT_NAME_lsd_def CONTRACT_VERSION_lsd_def)
  qed
qed

text \<open>A version check on the versions 0.0.9, 0.1.0 and 0.14.0, and a token of release 0.0.9.\<close>

definition demo_lt :: "string \<Rightarrow> string \<Rightarrow> bool" where
  "demo_lt v w \<longleftrightarrow> (v, w) \<in> {(''0.0.9'', ''0.1.0''), (''0.0.9'', ''0.14.0''), (''0.1.0'', ''0.14.0'')}"

definition demo_ensure :: "string version_check" where
  "demo_ensure name new st = (case st of
       None \<Rightarrow> Inl (NotFound ''cw2::ContractVersion'')
     | Some (n, old) \<Rightarrow>
         if n = name \<and> (old = new \<or> demo_lt old new) then Inr (old, Some (name, new))
         else Inl (GenericErr ''Cannot migrate from newer version''))"

lemma demo_check: "cw2_check demo_ensure demo_lt"
  by (auto simp: cw2_check_def demo_ensure_def demo_lt_def transp_def split: option.splits if_splits)

definition demo_old :: lsd_store where
  "demo_old = demo_token\<lparr>LSD_VERSION := Some (CONTRACT_NAME_lsd, ''0.0.9''),
     ALLOWANCES := fmupd (''alice'', ''mgr'') default_allowance fmempty\<rparr>"

definition demo_migrated :: lsd_store where
  "demo_migrated = demo_old\<lparr>LSD_VERSION := Some (CONTRACT_NAME_lsd, ''0.1.0''),
     ALLOWANCES_SPENDER := fmupd (''mgr'', ''alice'') default_allowance fmempty\<rparr>"

lemma demo_migration: "migrate_lsd demo_ensure demo_lt demo_old = Inr (demo_migrated, respond [] [])"
proof -
  have "fst |`| fmdom (ALLOWANCES demo_old) = {|''alice''|}"
    and "snd |`| ffilter (\<lambda>k. fst k = ''alice'') (fmdom (ALLOWANCES demo_old)) = {|''mgr''|}"
    by (auto simp: demo_old_def)
  moreover have "sorted_list_of_fset {|x|} = [x]" for x :: string
    by (simp add: sorted_list_of_fset.rep_eq)
  ultimately have "allowance_keys demo_old = [(''alice'', ''mgr'')]"
    by (simp add: allowance_keys_def)
  moreover have "allowance_keys (demo_old\<lparr>LSD_VERSION := w\<rparr>) = allowance_keys demo_old" for w
    by (simp add: allowance_keys_def)
  moreover have "demo_ensure CONTRACT_NAME_lsd CONTRACT_VERSION_lsd (LSD_VERSION demo_old)
      = Inr (''0.0.9'', Some (CONTRACT_NAME_lsd, ''0.1.0''))"
    by (simp add: demo_ensure_def demo_old_def demo_lt_def CONTRACT_VERSION_lsd_def)
  ultimately show ?thesis
    by (simp add: migrate_lsd_def copy_allowance_def demo_lt_def)
      (simp add: demo_old_def demo_migrated_def demo_token_def)
qed

theorem migration_fills_spender_allowances_witness:
  "(\<exists>old. LSD_VERSION demo_old = Some (''crates.io:lsd_token'', old)
        \<and> (old = ''0.1.0'' \<or> demo_lt old ''0.1.0''))
    \<and> (\<forall>ow sp. fmlookup (ALLOWANCES_SPENDER demo_migrated) (sp, ow)
        = (case fmlookup (ALLOWANCES demo_old) (ow, sp) of
             Some a \<Rightarrow> Some a | None \<Rightarrow> fmlookup (ALLOWANCES_SPENDER demo_old) (sp, ow)))
    \<and> demo_migrated = demo_old\<lparr>LSD_VERSION := Some (''crates.io:lsd_token'', ''0.1.0''),
             ALLOWANCES_SPENDER := ALLOWANCES_SPENDER demo_migrated\<rparr>
    \<and> messages (respond [] [] :: (lsd_out response)) = []"
  by (rule migration_fills_spender_allowances [OF demo_migration demo_check])

end
