(* ===== verification/Share_Token.thy ===== *)
theory Share_Token
  imports Lsd_Properties
begin

text \<open>
  The token contract as its minter uses it. A contract that mints and burns tokens relies on the
  interface \<open>share_token\<close>: the supply follows its orders to the unit, and no order changes who may
  mint. The model of the token contract is an instance. The stake manager (\<open>System\<close>) and the bridge
  (\<open>Bridge_System\<close>) are clients of it.
\<close>

section \<open>Orders\<close>

datatype token_order =
    OrderMint string u128
  | OrderTransferFrom string string u128
  | OrderBurnFrom string u128

fun order_msg :: "token_order \<Rightarrow> lsd_execute_msg" where
  "order_msg (OrderMint rc n) = Mint rc n"
| "order_msg (OrderTransferFrom ow rc n) = TransferFrom ow rc n"
| "order_msg (OrderBurnFrom ow n) = BurnFrom ow n"

fun order_made :: "token_order \<Rightarrow> nat" where
  "order_made (OrderMint _ n) = unat n"
| "order_made _ = 0"

fun order_gone :: "token_order \<Rightarrow> nat" where
  "order_gone (OrderBurnFrom _ n) = unat n"
| "order_gone _ = 0"

text \<open>Calls one after the other; the first refused call refuses them all.\<close>

fun calls :: "('m \<Rightarrow> 's \<Rightarrow> 's option) \<Rightarrow> 'm list \<Rightarrow> 's \<Rightarrow> 's option" where
  "calls f [] s = Some s"
| "calls f (m # ms) s = Option.bind (f m s) (calls f ms)"

section \<open>The interface of a share token\<close>

text \<open>The supply follows the orders to the unit, and no order changes who may mint.\<close>

locale share_token =
  fixes call :: "'m \<Rightarrow> 's \<Rightarrow> 's option" and issued :: "'s \<Rightarrow> nat"
    and made :: "'m \<Rightarrow> nat" and gone :: "'m \<Rightarrow> nat" and owners :: "'s \<Rightarrow> 'a set"
  assumes accounts: "call m s = Some s' \<Longrightarrow> issued s' + gone m = issued s + made m"
    and authority: "call m s = Some s' \<Longrightarrow> owners s' = owners s"
begin

lemma calls_account:
  "calls call ms s = Some s' \<Longrightarrow>
   issued s' + sum_list (map gone ms) = issued s + sum_list (map made ms)"
proof (induction ms arbitrary: s)
  case (Cons m ms)
  then obtain s1 where "call m s = Some s1" and r: "calls call ms s1 = Some s'"
    by (auto simp: bind_eq_Some_conv)
  from accounts [OF this(1)] Cons.IH [OF r] show ?case by simp
qed simp

lemma calls_authority: "calls call ms s = Some s' \<Longrightarrow> owners s' = owners s"
  by (induction ms arbitrary: s) (auto simp: bind_eq_Some_conv dest: authority)

end

text \<open>The token contract keeps it: the manager's three messages, sent by the manager.\<close>

definition call_token :: "api \<Rightarrow> env \<Rightarrow> addr \<Rightarrow> message_info \<Rightarrow> lsd_execute_msg \<Rightarrow> lsd_store \<Rightarrow> lsd_store option"
where
  "call_token api env t info msg l =
     (case execute_lsd api (env\<lparr>contract_addr := t\<rparr>) info msg l of
        Inl _ \<Rightarrow> None | Inr (l', _) \<Rightarrow> Some l')"

definition order_call :: "api \<Rightarrow> env \<Rightarrow> addr \<Rightarrow> addr \<Rightarrow> token_order \<Rightarrow> lsd_store \<Rightarrow> lsd_store option" where
  "order_call api env mgr t x l = call_token api env t \<lparr>sender = mgr, funds = []\<rparr> (order_msg x) l"

definition upgrade_token ::
  "string version_check \<Rightarrow> (string \<Rightarrow> string \<Rightarrow> bool) \<Rightarrow> lsd_store \<Rightarrow> lsd_store option" where
  "upgrade_token ensure lt l = (case migrate_lsd ensure lt l of Inl _ \<Rightarrow> None | Inr (l', _) \<Rightarrow> Some l')"

lemma upgrade_token_eq [simp]:
  "upgrade_token ensure lt l = Some l' \<longleftrightarrow> (\<exists>r. migrate_lsd ensure lt l = Inr (l', r))"
  by (auto simp: upgrade_token_def split: sum.splits)

lemma call_token_eq [simp]:
  "call_token api env t info msg l = Some l' \<longleftrightarrow>
   (\<exists>r. execute_lsd api (env\<lparr>contract_addr := t\<rparr>) info msg l = Inr (l', r))"
  by (auto simp: call_token_def split: sum.splits)

lemma order_supply:
  assumes "execute_lsd api env info (order_msg x) l = Inr (l', r)"
  shows "supply_of l' + order_gone x = supply_of l + order_made x"
proof (cases x)
  case (OrderMint rc n)
  with assms have "execute_mint api info rc n l = Inr (l', r)" by simp
  then show ?thesis by (rule mint_ok) (use OrderMint in simp)
next
  case (OrderTransferFrom ow rc n)
  with assms obtain a b s0 s1 where "deduct_allowance api env a (sender info) n l = Inr s0"
    and m: "lower_balance a n s0 = Inr s1" "raise_balance b n s1 = Inr l'"
    by (auto dest!: execute_transfer_from_steps)
  from deduct_allowance_frame [OF this(1)] have "supply_of s0 = supply_of l" by (simp add: same_token_facts)
  with move_ok(2) [OF m] OrderTransferFrom show ?thesis by (simp add: same_token_facts)
next
  case (OrderBurnFrom ow n)
  with assms obtain a s0 s1 where "deduct_allowance api env a (sender info) n l = Inr s0"
    and b: "lower_balance a n s0 = Inr s1" "lower_supply n s1 = Inr l'"
    by (auto dest!: execute_burn_from_steps)
  from deduct_allowance_frame [OF this(1)] have "supply_of s0 = supply_of l" by (simp add: same_token_facts)
  with burn_ok(2) [OF b] OrderBurnFrom show ?thesis by simp
qed

lemma order_minters:
  assumes "execute_lsd api env info (order_msg x) l = Inr (l', r)"
  shows "minters l' = minters l"
  using execute_lsd_keeps_minters [OF assms] by (cases x) simp_all

interpretation st: share_token "order_call api env mgr t" supply_of order_made order_gone
  "\<lambda>l. set (minters l)" for api env mgr t
  by unfold_locales (auto simp: order_call_def order_supply order_minters)

section \<open>New tokens\<close>

definition new_token_msg :: "string \<Rightarrow> string \<Rightarrow> u8 \<Rightarrow> string \<Rightarrow> string \<Rightarrow> instantiate_msg_lsd" where
  "new_token_msg nm sy dec adm minter = \<lparr>in_name = nm, in_symbol = sy, in_decimals = dec,
     in_initial_balances = [], in_mint = Some \<lparr>imd_admin = adm, imd_minter = minter, imd_cap = None\<rparr>,
     in_marketing = None\<rparr>"

type_synonym tokens = "(addr, lsd_store) fmap"

text \<open>A new token starts without supply, with the contract that made it as its only minter.\<close>

lemma new_token_ok:
  assumes "instantiate_lsd api (new_token_msg nm sy dec adm mgr) empty_lsd = Inr (l, r)"
    and "validates_normal api"
  shows "supply_of l = 0 \<and> set (minters l) = {mgr} \<and> lsd_inv l"
proof -
  from assms(1) obtain b where "addr_validate api mgr = Inr b"
    and "supply_of l = 0" and "minters l = [b]"
    by (auto simp: instantiate_lsd_def new_token_msg_def res_simps Let_def create_accounts_def
        instantiate_mint_def instantiate_get_cap_def supply_of_def minters_def)
  with validates_normalD [OF assms(2)] instantiate_inv [OF assms] show ?thesis by simp
qed

section \<open>Orders and strangers keep a token in order\<close>

lemma calls_inv:
  "calls (order_call api env mgr t) xs l = Some l' \<Longrightarrow> lsd_inv l \<Longrightarrow> lsd_inv l'"
  by (induction xs arbitrary: l)
    (auto simp: bind_eq_Some_conv order_call_def dest: execute_lsd_inv)

text \<open>Without a message that adds a minter, only its minter adds to the supply.\<close>

lemma stranger_token:
  assumes "execute_lsd api env info msg l = Inr (l', r)" and "sender info \<noteq> mgr"
    and "\<And>m. msg \<noteq> AddMinter m" and "set (minters l) \<subseteq> {mgr}" and "lsd_inv l"
  shows "supply_of l' \<le> supply_of l" and "set (minters l') \<subseteq> set (minters l)" and "lsd_inv l'"
proof -
  show "supply_of l' \<le> supply_of l"
    using execute_lsd_supply [OF assms(1)] assms(2,4) by (cases "supply_of l < supply_of l'") auto
  show "set (minters l') \<subseteq> set (minters l)" by (rule execute_lsd_no_new_minter [OF assms(1,3)])
  show "lsd_inv l'" using execute_lsd_inv [OF assms(1)] assms(5) by simp
qed

lemma upgraded_token:
  assumes "migrate_lsd ensure lt l = Inr (l', r)" and "lsd_inv l"
  shows "supply_of l' = supply_of l" and "minters l' = minters l" and "lsd_inv l'"
  using migrate_token [OF assms(1)] migrate_inv [OF assms] by (simp_all add: supply_of_def minters_def)

end
