(* ===== verification/Ics20_System.thy ===== *)
theory Ics20_System
  imports Ics20_Reach Share_Token
begin

text \<open>
  The ICS20 contract with token contracts of this repository, as one system. \<open>Ics20_World\<close> takes the
  holdings of cw20 tokens as numbers that a set \<open>H\<close> of contracts keeps in the standard way. Here
  the contracts at the addresses \<open>H\<close> are tokens in the model of \<open>lsd_token\<close>: the tokens an account
  sends to the contract are moved by \<open>execute_lsd\<close>, which then calls \<open>Receive\<close>, and the payments of
  the contract are transfers that \<open>execute_lsd\<close> carries out. Every transaction of this system is a
  sequence of transactions of the abstract one, so what is proved there holds of the tokens.
\<close>

section \<open>Tokens that the contract granted no allowance on\<close>

definition no_grant :: "addr \<Rightarrow> lsd_store \<Rightarrow> bool" where
  "no_grant a l \<longleftrightarrow> (\<forall>sp. fmlookup (ALLOWANCES l) (a, sp) = None)"

lemma no_grant_cong: "ALLOWANCES l' = ALLOWANCES l \<Longrightarrow> no_grant a l' = no_grant a l"
  by (simp add: no_grant_def)

lemma deduct_no_grant:
  "deduct_allowance api env ow sp n l = Inr l' \<Longrightarrow> no_grant a l \<Longrightarrow> ow \<noteq> a \<and> no_grant a l'"
  by (auto simp: deduct_allowance_def deduct_fn_def no_grant_def res_simps Let_def
      split: option.splits)

lemma move_no_grant:
  "lower_balance b n l = Inr l1 \<Longrightarrow> raise_balance c n l1 = Inr l' \<Longrightarrow> no_grant a l' = no_grant a l"
  using move_ok(3) no_grant_cong unfolding same_allowances_def by blast

lemma burn_no_grant:
  "lower_balance b n l = Inr l1 \<Longrightarrow> lower_supply n l1 = Inr l' \<Longrightarrow> no_grant a l' = no_grant a l"
  using burn_ok(3) no_grant_cong unfolding same_allowances_def by blast

lemma execute_lsd_no_grant:
  assumes "execute_lsd api env info msg l = Inr (l', r)" and "sender info \<noteq> a" and "no_grant a l"
  shows "no_grant a l'"
proof (cases msg)
  case (Transfer rc n)
  with assms show ?thesis by (auto dest!: execute_transfer_steps simp: move_no_grant)
next
  case (Send rc n m)
  with assms show ?thesis by (auto dest!: execute_send_steps simp: move_no_grant)
next
  case (Burn n)
  with assms show ?thesis by (auto dest!: execute_burn_steps simp: burn_no_grant)
next
  case (TransferFrom ow rc n)
  with assms show ?thesis
    by (auto dest!: execute_transfer_from_steps dest: deduct_no_grant simp: move_no_grant)
next
  case (SendFrom ow rc n m)
  with assms show ?thesis
    by (auto dest!: execute_send_from_steps dest: deduct_no_grant simp: move_no_grant)
next
  case (BurnFrom ow n)
  with assms show ?thesis
    by (auto dest!: execute_burn_from_steps dest: deduct_no_grant simp: burn_no_grant)
next
  case (Mint rc n)
  with assms have "execute_mint api info rc n l = Inr (l', r)" by simp
  then have "same_allowances l l'" by (rule mint_ok)
  with assms(3) show ?thesis by (simp add: same_allowances_def no_grant_def)
next
  case (IncreaseAllowance sp n e)
  with assms show ?thesis
    by (auto simp: execute_increase_allowance_def res_simps Let_def no_grant_def)
next
  case (DecreaseAllowance sp n e)
  with assms show ?thesis
    by (auto simp: execute_decrease_allowance_def res_simps Let_def no_grant_def split: if_splits)
next
  case (UpdateMarketing p d m)
  with assms show ?thesis
    by (auto dest!: update_marketing_frame simp: same_allowances_def no_grant_def)
next
  case (UploadLogo g)
  with assms show ?thesis
    by (auto dest!: upload_logo_frame simp: same_allowances_def no_grant_def)
qed (use assms in \<open>auto dest!: add_minter_ok remove_minter_ok transfer_admin_ok
       simp: minter_change_def same_allowances_def no_grant_def\<close>)

text \<open>A transfer of the account itself: it grants nothing and takes at most the amount.\<close>

lemma own_transfer:
  assumes "execute_lsd api env info (Transfer rc n) l = Inr (l', r)" and "sender info = a"
  shows "unat n \<le> bal l a" and "bal l a \<le> bal l' a + unat n" and "no_grant a l' = no_grant a l"
proof -
  from assms obtain b l1 where l: "lower_balance a n l = Inr l1" "raise_balance b n l1 = Inr l'"
    by (auto dest!: execute_transfer_steps)
  from lower_bal [OF l(1)] show "unat n \<le> bal l a" by simp
  show "bal l a \<le> bal l' a + unat n" using move_ok(5) [OF l] by (cases "bal l' a < bal l a") auto
  show "no_grant a l' = no_grant a l" by (rule move_no_grant [OF l])
qed

text \<open>Calls of others: the balance of the account does not fall.\<close>

lemma others_call:
  assumes "execute_lsd api env info msg l = Inr (l', r)" and "sender info \<noteq> a" and "no_grant a l"
  shows "bal l a \<le> bal l' a"
proof (rule ccontr)
  assume "\<not> bal l a \<le> bal l' a"
  then have "bal l' a < bal l a" by simp
  from execute_lsd_spends [OF assms(1) this] assms(2,3) show False
    by (auto simp: spends_allowance_def no_grant_def)
qed

text \<open>The call of \<open>Receive\<close> that a send of the token orders.\<close>

definition told :: "addr \<Rightarrow> lsd_out sub_msg list \<Rightarrow> cw20_receive_msg option" where
  "told a ms = (case map sm_msg ms of
       [Cw20Receive c who n m] \<Rightarrow>
         if c = a then Some \<lparr>rw_sender = who, rw_amount = n, rw_msg = m\<rparr> else None
     | _ \<Rightarrow> None)"

lemma mint_tells: "execute_mint api info rc n l = Inr (l', r) \<Longrightarrow> messages r = []"
  by (auto simp: execute_mint_def res_simps Let_def split: if_splits)

lemma sent_balance:
  assumes "execute_lsd api env info msg l = Inr (l', r)" and "told a (messages r) = Some w"
    and "sender info \<noteq> a" and "no_grant a l" and "validates_normal api"
  shows "bal l' a = bal l a + unat (rw_amount w)"
proof -
  note addr = validates_normalD [OF assms(5)]
  show ?thesis
  proof (cases msg)
    case (Send c n m)
    with assms(1) obtain b l1 where b: "addr_validate api c = Inr b"
      and l: "lower_balance (sender info) n l = Inr l1" "raise_balance b n l1 = Inr l'"
      and w: "w = \<lparr>rw_sender = sender info, rw_amount = n, rw_msg = m\<rparr>" "c = a"
      using assms(2) by (auto simp: execute_send_def res_simps told_def split: if_splits)
    from addr [OF b] w(2) have "b = a" by simp
    with move_ok(6) [OF l] assms(3) show ?thesis by (simp add: w(1))
  next
    case (SendFrom ow c n m)
    with assms(1) obtain b d l0 l1 where b: "addr_validate api c = Inr b"
      and d: "deduct_allowance api env d (sender info) n l = Inr l0"
      and l: "lower_balance d n l0 = Inr l1" "raise_balance b n l1 = Inr l'"
      and w: "w = \<lparr>rw_sender = sender info, rw_amount = n, rw_msg = m\<rparr>" "c = a"
      using assms(2) by (auto simp: execute_send_from_def res_simps told_def split: if_splits)
    from addr [OF b] w(2) have "b = a" by simp
    moreover have "d \<noteq> a" using deduct_no_grant [OF d assms(4)] by simp
    ultimately show ?thesis using move_ok(6) [OF l] deduct_bal [OF d] by (simp add: w(1))
  qed (use assms(1,2) in \<open>auto simp: told_def execute_transfer_lsd_def execute_burn_def
        execute_increase_allowance_def execute_decrease_allowance_def execute_transfer_from_def
        execute_burn_from_def execute_update_marketing_def execute_upload_logo_def
        execute_add_minter_def execute_remove_minter_def execute_transfer_admin_lsd_def
        res_simps Let_def mint_tells split: if_splits\<close>)
qed

section \<open>The interface of a token that holds deposits\<close>

text \<open>
  What the holder of an account relies on: its own payment takes at most the amount, a call of
  somebody else takes nothing, and what such a call reports as received has been received.
\<close>

locale escrow_token =
  fixes pay :: "string \<Rightarrow> u128 \<Rightarrow> 's \<Rightarrow> 's option"
    and call :: "'m \<Rightarrow> 's \<Rightarrow> ('s \<times> 'r option) option"
    and received :: "'r \<Rightarrow> nat" and held :: "'s \<Rightarrow> nat" and ok :: "'s \<Rightarrow> bool"
  assumes pay_takes: "ok s \<Longrightarrow> pay to n s = Some s' \<Longrightarrow>
      unat n \<le> held s \<and> held s \<le> held s' + unat n \<and> ok s'"
    and call_keeps: "ok s \<Longrightarrow> call m s = Some (s', None) \<Longrightarrow> held s \<le> held s' \<and> ok s'"
    and call_reports: "ok s \<Longrightarrow> call m s = Some (s', Some r) \<Longrightarrow>
      held s' = held s + received r \<and> ok s'"
begin

lemma call_ok: "ok s \<Longrightarrow> call m s = Some (s', r) \<Longrightarrow> ok s'"
  by (cases r) (auto dest: call_keeps call_reports)

lemma pay_debits:
  assumes "ok s" and "pay to n s = Some s'" and "h d = held s" and "h' d = held s'"
    and "\<And>e. e \<noteq> d \<Longrightarrow> h' e = h e"
  shows "at_least (debit d (unat n) h) h'"
  using pay_takes [OF assms(1,2)] assms(3-5) by (auto simp: at_least_def debit_def)

end

definition token_pay :: "api \<Rightarrow> env \<Rightarrow> addr \<Rightarrow> addr \<Rightarrow> string \<Rightarrow> u128 \<Rightarrow> lsd_store \<Rightarrow> lsd_store option" where
  "token_pay api env a t to n l = call_token api env t \<lparr>sender = a, funds = []\<rparr> (Transfer to n) l"

definition token_call ::
  "api \<Rightarrow> addr \<Rightarrow> addr \<Rightarrow> env \<times> message_info \<times> lsd_execute_msg \<Rightarrow> lsd_store
     \<Rightarrow> (lsd_store \<times> cw20_receive_msg option) option" where
  "token_call api a t = (\<lambda>(env, info, msg) l.
     if sender info = a then None
     else (case execute_lsd api (env\<lparr>contract_addr := t\<rparr>) info msg l of
         Inl _ \<Rightarrow> None | Inr (l', r) \<Rightarrow> Some (l', told a (messages r))))"

lemma token_call_eq:
  "token_call api a t (env, info, msg) l = Some (l', w) \<longleftrightarrow> sender info \<noteq> a
   \<and> (\<exists>r. execute_lsd api (env\<lparr>contract_addr := t\<rparr>) info msg l = Inr (l', r) \<and> w = told a (messages r))"
  by (auto simp: token_call_def split: sum.splits)

text \<open>The token contract keeps it, while the account grants no allowance.\<close>

interpretation et: escrow_token "token_pay api env a t" "token_call api a t" "\<lambda>w. unat (rw_amount w)"
  "\<lambda>l. bal l a" "\<lambda>l. validates_normal api \<and> no_grant a l" for api env a t
proof
  fix l l' to n
  assume "validates_normal api \<and> no_grant a l" and "token_pay api env a t to n l = Some l'"
  then obtain r where "execute_lsd api (env\<lparr>contract_addr := t\<rparr>) \<lparr>sender = a, funds = []\<rparr>
      (Transfer to n) l = Inr (l', r)" and ok: "validates_normal api" "no_grant a l"
    by (auto simp: token_pay_def)
  from own_transfer [OF this(1), of a] ok
  show "unat n \<le> bal l a \<and> bal l a \<le> bal l' a + unat n \<and> validates_normal api \<and> no_grant a l'"
    by simp
next
  fix l l' and m :: "env \<times> message_info \<times> lsd_execute_msg"
  assume ok: "validates_normal api \<and> no_grant a l" and m: "token_call api a t m l = Some (l', None)"
  obtain env info msg where "m = (env, info, msg)" by (cases m)
  with m ok show "bal l a \<le> bal l' a \<and> validates_normal api \<and> no_grant a l'"
    by (auto simp: token_call_eq dest: others_call execute_lsd_no_grant)
next
  fix l l' w and m :: "env \<times> message_info \<times> lsd_execute_msg"
  assume ok: "validates_normal api \<and> no_grant a l" and m: "token_call api a t m l = Some (l', Some w)"
  obtain env info msg where "m = (env, info, msg)" by (cases m)
  with m ok show "bal l' a = bal l a + unat (rw_amount w) \<and> validates_normal api \<and> no_grant a l'"
    by (auto simp: token_call_eq dest: sent_balance [OF _ sym] execute_lsd_no_grant)
qed

section \<open>Transactions\<close>

type_synonym ics_system = "ics_store \<times> holdings \<times> tokens"

fun sys_paid ::
  "api \<Rightarrow> env \<Rightarrow> addr \<Rightarrow> addr set \<Rightarrow> ics_msg \<Rightarrow> holdings \<times> tokens \<Rightarrow> holdings \<times> tokens \<Rightarrow> bool" where
  "sys_paid api env a H (SendPacket c d t) w w' = (w' = w)"
| "sys_paid api env a H (BankSend to cs) w w' = (list_all (\<lambda>c. \<not> prefix ''cw20:'' (c_denom c)) cs
     \<and> at_least (debit_coins cs (fst w)) (fst w') \<and> snd w' = snd w)"
| "sys_paid api env a H (WasmExecute t (Cw20Transfer to n) fs) w w' =
     (if t \<in> H then fst w' = fst w
        \<and> (case fmlookup (snd w) t of None \<Rightarrow> False | Some l \<Rightarrow>
             (case token_pay api env a t to n l of None \<Rightarrow> False
              | Some l' \<Rightarrow> snd w' = fmupd t l' (snd w)))
      else (\<forall>d. fst w d \<le> fst w' d) \<and> snd w' = snd w)"

inductive sys_settle ::
  "ics_host \<Rightarrow> addr \<Rightarrow> addr set \<Rightarrow> ics_msg sub_msg list \<Rightarrow> ics_system \<Rightarrow> ics_system \<Rightarrow> bool"
  for h :: ics_host and a :: addr and H :: "addr set" where
  sys_none: "sys_settle h a H [] w w"
| sys_pays: "sys_paid (h_api h) env a H (sm_msg m) (held, toks) (held1, toks1)
    \<Longrightarrow> sys_settle h a H ms (s, held1, toks1) w \<Longrightarrow> sys_settle h a H (m # ms) (s, held, toks) w"
| sys_fails: "sm_reply m = ReplyError
    \<Longrightarrow> reply_ics20 h \<lparr>reply_id = sm_id m, reply_result = Inl err\<rparr> s = Inr (s1, data)
    \<Longrightarrow> sys_settle h a H ms (s1, held, toks) w \<Longrightarrow> sys_settle h a H (m # ms) (s, held, toks) w"

text \<open>
  A transaction at the contract \<open>a\<close>: a call of somebody who is no token, a message of the IBC module,
  a migration, a call of a token (which calls \<open>Receive\<close> when it sends to \<open>a\<close>), a new token, an
  upgraded one, or coins that arrive.
\<close>

inductive sys_step :: "ics_host \<Rightarrow> addr \<Rightarrow> addr set \<Rightarrow> ics_system \<Rightarrow> ics_system \<Rightarrow> bool"
  for h :: ics_host and a :: addr and H :: "addr set" where
  sys_execute: "execute_ics h env info m s = Inr (s', r) \<Longrightarrow> sender info \<notin> H
    \<Longrightarrow> (\<And>c. c \<in> set (funds info) \<Longrightarrow> \<not> prefix ''cw20:'' (c_denom c))
    \<Longrightarrow> sys_settle h a H (messages r) (s', credit (deposits H info m) held, toks) w
    \<Longrightarrow> sys_step h a H (s, held, toks) w"
| sys_connect: "ibc_channel_connect m s = Inr (s', r) \<Longrightarrow> sys_settle h a H (messages r) (s', v) w
    \<Longrightarrow> sys_step h a H (s, v) w"
| sys_receive: "ibc_packet_receive h p s = Inr (s', rr) \<Longrightarrow> sys_settle h a H (rr_messages rr) (s', v) w
    \<Longrightarrow> sys_step h a H (s, v) w"
| sys_ack: "ibc_packet_ack h ack p s = Inr (s', r) \<Longrightarrow> sys_settle h a H (messages r) (s', v) w
    \<Longrightarrow> sys_step h a H (s, v) w"
| sys_timeout: "ibc_packet_timeout h p s = Inr (s', r) \<Longrightarrow> sys_settle h a H (messages r) (s', v) w
    \<Longrightarrow> sys_step h a H (s, v) w"
| sys_migrate: "migrate_ics h env g s = Inr (s', r) \<Longrightarrow> sys_settle h a H (messages r) (s', v) w
    \<Longrightarrow> sys_step h a H (s, v) w"
| sys_call: "t \<in> H \<Longrightarrow> fmlookup toks t = Some l \<Longrightarrow> token_call (h_api h) a t m l = Some (l', None)
    \<Longrightarrow> sys_step h a H (s, held, toks) (s, held, fmupd t l' toks)"
| sys_send: "t \<in> H \<Longrightarrow> fmlookup toks t = Some l \<Longrightarrow> token_call (h_api h) a t m l = Some (l', Some msg)
    \<Longrightarrow> execute_ics h env \<lparr>sender = t, funds = []\<rparr> (Receive msg) s = Inr (s', r)
    \<Longrightarrow> sys_settle h a H (messages r) (s', held, fmupd t l' toks) w
    \<Longrightarrow> sys_step h a H (s, held, toks) w"
| sys_deploy: "t \<in> H \<Longrightarrow> \<not> has toks t \<Longrightarrow> instantiate_lsd (h_api h) msg empty_lsd = Inr (l, r')
    \<Longrightarrow> sys_step h a H (s, held, toks) (s, held, fmupd t l toks)"
| sys_upgrade: "t \<in> H \<Longrightarrow> fmlookup toks t = Some l \<Longrightarrow> upgrade_token ensure lt l = Some l'
    \<Longrightarrow> sys_step h a H (s, held, toks) (s, held, fmupd t l' toks)"
| sys_gift: "(\<And>d. held d \<le> held' d) \<Longrightarrow> sys_step h a H (s, held, toks) (s, held', toks)"

inductive sys_run :: "ics_host \<Rightarrow> addr \<Rightarrow> addr set \<Rightarrow> ics_system \<Rightarrow> bool"
  for h :: ics_host and a :: addr and H :: "addr set" where
  run_init: "instantiate_ics h m empty_ics = Inr (s, r) \<Longrightarrow> sys_run h a H (s, held, fmempty)"
| run_step: "sys_run h a H w \<Longrightarrow> sys_step h a H w w' \<Longrightarrow> sys_run h a H w'"

section \<open>The abstract view\<close>

definition view :: "addr set \<Rightarrow> addr \<Rightarrow> holdings \<Rightarrow> tokens \<Rightarrow> holdings" where
  "view H a held toks d =
     (if prefix ''cw20:'' d \<and> drop 5 d \<in> H
      then (case fmlookup toks (drop 5 d) of Some l \<Rightarrow> bal l a | None \<Rightarrow> 0) else held d)"

lemma view_cw20: "t \<in> H \<Longrightarrow> view H a held toks (''cw20:'' @ t)
    = (case fmlookup toks t of Some l \<Rightarrow> bal l a | None \<Rightarrow> 0)"
  by (simp add: view_def)

lemma view_native: "\<not> prefix ''cw20:'' d \<Longrightarrow> view H a held toks d = held d"
  by (simp add: view_def)

lemma prefix_cw20: "prefix ''cw20:'' d \<Longrightarrow> d = ''cw20:'' @ drop 5 d"
  by (auto simp: prefix_def)

lemma view_upd_other:
  assumes "d \<noteq> ''cw20:'' @ t"
  shows "view H a held (fmupd t l toks) d = view H a held toks d"
  using assms prefix_cw20 [of d] by (auto simp: view_def)

lemma view_mono: "(\<And>d. held d \<le> held' d) \<Longrightarrow> view H a held toks d \<le> view H a held' toks d"
  by (simp add: view_def)

lemma debit_view:
  "list_all (\<lambda>c. \<not> prefix ''cw20:'' (c_denom c)) cs \<Longrightarrow>
   debit_coins cs (view H a held toks) = map_option (\<lambda>held. view H a held toks) (debit_coins cs held)"
proof (induction cs arbitrary: held)
  case (Cons c cs)
  then have c: "\<not> prefix ''cw20:'' (c_denom c)" by simp
  have "(view H a held toks)(c_denom c := held (c_denom c) - unat (c_amount c))
      = view H a (held(c_denom c := held (c_denom c) - unat (c_amount c))) toks"
    using c by (auto simp: view_def fun_eq_iff)
  with Cons c show ?case by (simp add: debit_def view_native)
qed simp

lemma credit_view:
  assumes "\<And>x. x \<in> set ds \<Longrightarrow> \<not> prefix ''cw20:'' (fst x)"
  shows "credit ds (view H a held toks) = view H a (credit ds held) toks"
proof
  fix d
  have "filter (\<lambda>x. fst x = d) ds = []" if "prefix ''cw20:'' d"
    using assms that by (auto simp: filter_empty_conv)
  then show "credit ds (view H a held toks) d = view H a (credit ds held) toks d"
    by (auto simp: credit_eq view_def)
qed

text \<open>The tokens in which the contract has granted nothing.\<close>

definition ungranted :: "addr \<Rightarrow> tokens \<Rightarrow> bool" where
  "ungranted a toks \<longleftrightarrow> (\<forall>t l. fmlookup toks t = Some l \<longrightarrow> no_grant a l)"

lemma ungranted_upd: "ungranted a toks \<Longrightarrow> no_grant a l \<Longrightarrow> ungranted a (fmupd t l toks)"
  by (simp add: ungranted_def)

lemma paid_view:
  assumes "sys_paid api env a H m (held, toks) (held', toks')" and "ungranted a toks"
    and "validates_normal api"
  shows "paid H m (view H a held toks) (view H a held' toks') \<and> ungranted a toks'"
proof (cases m)
  case (SendPacket c d t)
  with assms show ?thesis by simp
next
  case (BankSend to cs)
  with assms have cs: "list_all (\<lambda>c. \<not> prefix ''cw20:'' (c_denom c)) cs"
    and le: "at_least (debit_coins cs held) held'" and t: "toks' = toks" by simp_all
  from le obtain g where "debit_coins cs held = Some g" "\<And>d. g d \<le> held' d"
    by (auto simp: at_least_def split: option.splits)
  with cs t assms(2) show ?thesis
    by (simp add: BankSend debit_view at_least_def view_mono)
next
  case (WasmExecute t x fs)
  obtain to n where x: "x = Cw20Transfer to n" by (cases x)
  show ?thesis
  proof (cases "t \<in> H")
    case True
    with assms(1) WasmExecute x obtain l l' where l: "fmlookup toks t = Some l"
      and p: "token_pay api env a t to n l = Some l'"
      and eq: "held' = held" "toks' = fmupd t l' toks"
      by (auto split: option.splits)
    have ok: "validates_normal api \<and> no_grant a l" using assms(2,3) l by (simp add: ungranted_def)
    have v: "view H a held toks (''cw20:'' @ t) = bal l a"
      "view H a held' toks' (''cw20:'' @ t) = bal l' a"
      unfolding view_cw20 [OF True] eq by (simp_all add: l)
    have "at_least (debit (''cw20:'' @ t) (unat n) (view H a held toks)) (view H a held' toks')"
      by (rule et.pay_debits [where h = "view H a held toks" and h' = "view H a held' toks'", OF ok p v])
        (simp only: eq view_upd_other not_False_eq_True)
    moreover have "ungranted a toks'"
      using et.pay_takes [OF ok p] ungranted_upd [OF assms(2)] eq by simp
    ultimately show ?thesis
      unfolding WasmExecute x paid.simps if_P [OF True] by blast
  next
    case False
    with assms WasmExecute x have "\<forall>d. held d \<le> held' d" "toks' = toks" by simp_all
    with False assms(2) show ?thesis
      unfolding WasmExecute x paid.simps if_not_P [OF False] by (simp add: view_mono)
  qed
qed

lemma settle_view:
  assumes "sys_settle h a H ms (s, held, toks) (s', held', toks')" and "ungranted a toks"
    and "validates_normal (h_api h)"
  shows "settle h H ms (s, view H a held toks) (s', view H a held' toks') \<and> ungranted a toks'"
  using assms(1,2)
proof (induction ms "(s, held, toks)" "(s', held', toks')" arbitrary: s held toks rule: sys_settle.induct)
  case sys_none
  then show ?case by simp
next
  case (sys_pays env m held toks held1 toks1 ms s)
  from paid_view [OF sys_pays(1,4) assms(3)] sys_pays(3) show ?case by (blast intro: settle_paid)
next
  case (sys_fails m err s s1 data ms held toks)
  then show ?case by (blast intro: settle_failed)
qed

lemma upgrade_balances:
  assumes "migrate_lsd ensure lt l = Inr (l', r)"
  shows "BALANCES l' = BALANCES l \<and> ALLOWANCES l' = ALLOWANCES l"
  using assms
proof (rule migrate_cases)
  fix ov v
  assume "\<not> lt ov ''0.14.0'' \<Longrightarrow> l' = l\<lparr>LSD_VERSION := v\<rparr>"
    and "lt ov ''0.14.0'' \<Longrightarrow> rfold copy_allowance (allowance_keys l) (l\<lparr>LSD_VERSION := v\<rparr>) = Inr l'"
  then show ?thesis
    using copy_allowances_ok [of _ "l\<lparr>LSD_VERSION := v\<rparr>" l'] by (cases "lt ov ''0.14.0''") auto
qed

lemma new_no_grant:
  assumes "instantiate_lsd api msg empty_lsd = Inr (l, r)"
  shows "no_grant a l"
proof -
  have frame: "ALLOWANCES s' = ALLOWANCES s"
    if "rfold (create_account api) accs (s, k) = Inr (s', n)" for accs s k s' n
    using that
    by (induction accs arbitrary: s k) (auto simp: create_account_def res_simps Let_def)
  moreover have mk: "ALLOWANCES s' = ALLOWANCES s" if "instantiate_marketing api mi s = Inr s'" for mi s s'
    using that by (auto simp: instantiate_marketing_def res_simps Let_def split: option.splits)
  ultimately show ?thesis using assms
    by (auto simp: instantiate_lsd_def create_accounts_def res_simps Let_def no_grant_def empty_lsd_def
        dest!: frame mk split: option.splits)
qed

text \<open>A payment arrives: the deposit the abstract transaction books is what the token moved.\<close>

lemma send_view:
  assumes "t \<in> H" and "fmlookup toks t = Some l" and "token_call api a t m l = Some (l', Some w)"
    and "ungranted a toks" and "validates_normal api"
  shows "credit (deposits H \<lparr>sender = t, funds = []\<rparr> (Receive w)) (view H a held toks)
      = view H a held (fmupd t l' toks)" and "ungranted a (fmupd t l' toks)"
proof -
  have ok: "validates_normal api \<and> no_grant a l" using assms(2,4,5) by (simp add: ungranted_def)
  note b = et.call_reports [OF ok assms(3)]
  show "ungranted a (fmupd t l' toks)" by (rule ungranted_upd) (use assms(4) b in auto)
  show "credit (deposits H \<lparr>sender = t, funds = []\<rparr> (Receive w)) (view H a held toks)
      = view H a held (fmupd t l' toks)" (is "?l = ?r")
  proof
    fix d
    show "?l d = ?r d"
    proof (cases "d = ''cw20:'' @ t")
      case True
      show ?thesis unfolding True view_cw20 [OF assms(1)]
        using assms(1,2) b by (simp add: deposits_def view_cw20 [OF assms(1)] del: append_Cons)
    next
      case False
      then show ?thesis using assms(1) by (simp add: deposits_def view_upd_other del: append_Cons)
    qed
  qed
qed

text \<open>A token that keeps or raises the balance is a gift.\<close>

lemma upd_gift:
  assumes "t \<in> H" and "(case fmlookup toks t of Some l \<Rightarrow> bal l a | None \<Rightarrow> 0) \<le> bal l' a"
  shows "ics_step h H (s, view H a held toks) (s, view H a held (fmupd t l' toks))"
proof (rule step_gift)
  fix d
  show "view H a held toks d \<le> view H a held (fmupd t l' toks) d"
  proof (cases "d = ''cw20:'' @ t")
    case True
    show ?thesis unfolding True view_cw20 [OF assms(1)] using assms(2) by simp
  qed (simp add: view_upd_other)
qed

section \<open>Every transaction is one of the abstract system\<close>

lemma sys_step_view:
  assumes "sys_step h a H (s, held, toks) (s', held', toks')" and un: "ungranted a toks"
    and api: "validates_normal (h_api h)"
  shows "ics_step h H (s, view H a held toks) (s', view H a held' toks') \<and> ungranted a toks'"
  using assms(1)
proof cases
  case (sys_execute env info m s1 r)
  have "credit (deposits H info m) (view H a held toks) = view H a (credit (deposits H info m) held) toks"
    by (rule credit_view) (use sys_execute(2,3) in \<open>auto simp: deposits_def split: ics_execute_msg.splits\<close>)
  with settle_view [OF sys_execute(4) un api] sys_execute(1,3) show ?thesis
    by (auto intro: step_execute)
next
  case (sys_connect m s1 r)
  from settle_view [OF this(2) un api] this(1) show ?thesis by (blast intro: step_connect)
next
  case (sys_receive p s1 rr)
  from settle_view [OF this(2) un api] this(1) show ?thesis by (blast intro: step_receive)
next
  case (sys_ack ack p s1 r)
  from settle_view [OF this(2) un api] this(1) show ?thesis by (blast intro: step_ack)
next
  case (sys_timeout p s1 r)
  from settle_view [OF this(2) un api] this(1) show ?thesis by (blast intro: step_timeout)
next
  case (sys_migrate env g s1 r)
  from settle_view [OF this(2) un api] this(1) show ?thesis by (blast intro: step_migrate)
next
  case (sys_call t l m l')
  have ok: "validates_normal (h_api h) \<and> no_grant a l" using un api sys_call(5) by (simp add: ungranted_def)
  have "bal l a \<le> bal l' a \<and> no_grant a l'" using et.call_keeps [OF ok sys_call(6)] by simp
  with upd_gift [OF sys_call(4), of a toks l'] ungranted_upd [OF un] sys_call show ?thesis by simp
next
  case (sys_send t l m l' msg env s1 r)
  note v = send_view [OF sys_send(1-3) un api]
  have "ics_step h H (s, view H a held toks) (s', view H a held' toks')"
    by (rule step_execute [OF sys_send(4)])
      (use settle_view [OF sys_send(5) v(2) api] v(1) in simp_all)
  with settle_view [OF sys_send(5) v(2) api] show ?thesis by simp
next
  case (sys_deploy t msg l r')
  with upd_gift [OF sys_deploy(4), of a toks l] ungranted_upd [OF un] new_no_grant [OF sys_deploy(6)]
  show ?thesis by (simp add: has_def)
next
  case (sys_upgrade t l ensure lt l')
  then have "BALANCES l' = BALANCES l \<and> ALLOWANCES l' = ALLOWANCES l"
    by (auto dest: upgrade_balances)
  then have "bal l a \<le> bal l' a" "no_grant a l' = no_grant a l" by (simp_all add: bal_def no_grant_def)
  with upd_gift [OF sys_upgrade(4), of a toks l'] ungranted_upd [OF un] un sys_upgrade
  show ?thesis by (simp add: ungranted_def)
next
  case sys_gift
  then show ?thesis using un by (auto intro!: step_gift view_mono)
qed

lemma sys_run_view:
  assumes "sys_run h a H w" and "validates_normal (h_api h)"
  shows "case w of (s, held, toks) \<Rightarrow> ics_reach h H (s, view H a held toks) \<and> ungranted a toks"
  using assms(1)
proof induction
  case (run_init m s r held)
  then show ?case by (simp add: ungranted_def reach_init)
next
  case (run_step w w')
  obtain s held toks s' held' toks' where w: "w = (s, held, toks)" "w' = (s', held', toks')"
    by (cases w, cases w')
  with run_step(3) have IH: "ics_reach h H (s, view H a held toks)" "ungranted a toks" by simp_all
  from sys_step_view [OF run_step(2) [unfolded w] IH(2) assms(2)] IH(1) w show ?case
    by (auto intro: reach_step)
qed

end
