(* ===== verification/Ics20_Demo.thy ===== *)
theory Ics20_Demo
  imports Ics20_Reach
begin

text \<open>
  A concrete host and a concrete history of the ICS20 contract, on which the theorems are applied.
  Its packet format joins the fields with \<open>|\<close> and refuses fields that contain it, so what it encodes
  it parses back (\<open>demo_codec\<close>).
\<close>

definition codec :: "ics_host \<Rightarrow> bool" where
  "codec h \<longleftrightarrow> (\<forall>p b. encode_packet h p = Inr b \<longrightarrow> parse_packet h b = Inr p)"

fun show_memo :: "string option \<Rightarrow> string" where
  "show_memo None = ''-''"
| "show_memo (Some m) = CHR ''+'' # m"

fun read_memo :: "string \<Rightarrow> string option" where
  "read_memo (CHR ''+'' # m) = Some m"
| "read_memo _ = None"

definition packet_fields :: "ics20_packet \<Rightarrow> string list" where
  "packet_fields p =
     [to_string (p_amount p), p_denom p, p_receiver p, p_sender p, show_memo (p_memo p)]"

definition demo_encode :: "ics20_packet \<Rightarrow> std_error + binary" where
  "demo_encode p = (if list_ex (\<lambda>f. CHR ''|'' \<in> set f) (packet_fields p) then Inl ParseErr
     else Inr (join ''|'' (packet_fields p)))"

definition demo_parse :: "binary \<Rightarrow> std_error + ics20_packet" where
  "demo_parse b = (case split_on CHR ''|'' b of
       [a, d, r, s, m] \<Rightarrow> (case parse_uint a of
           None \<Rightarrow> Inl ParseErr
         | Some n \<Rightarrow> Inr \<lparr>p_amount = n, p_denom = d, p_receiver = r, p_sender = s,
             p_memo = read_memo m\<rparr>)
     | _ \<Rightarrow> Inl ParseErr)"

text \<open>A transfer message of the demonstration: the channel, then the remote address.\<close>

definition demo_transfer :: "binary \<Rightarrow> std_error + transfer_msg" where
  "demo_transfer b = (case split_on CHR ''|'' b of
       [c, r] \<Rightarrow> Inr \<lparr>tm_channel = c, tm_remote_address = r, tm_timeout = None, tm_memo = None\<rparr>
     | _ \<Rightarrow> Inl ParseErr)"

definition demo_ics :: ics_host where
  "demo_ics = \<lparr>h_api = accept_all,
     one_coin = (\<lambda>info. case funds info of [c] \<Rightarrow> Inr c | _ \<Rightarrow> Inl ''one coin expected''),
     nonpayable = (\<lambda>info. if funds info = [] then Inr () else Inl ''no payment accepted''),
     admin_assert = (\<lambda>cell a. if cell = Some a then Inr () else Inl ''Caller is not admin''),
     admin_update = (\<lambda>cell a new. if cell = Some a then Inr (new, []) else Inl ''Caller is not admin''),
     parse_transfer = demo_transfer, parse_packet = demo_parse, encode_packet = demo_encode,
     parse_ack = (\<lambda>b. case b of CHR ''r'' # v \<Rightarrow> Inr (AckResult v)
       | CHR ''e'' # v \<Rightarrow> Inr (AckError v) | _ \<Rightarrow> Inl ParseErr),
     encode_ack = (\<lambda>a. case a of AckResult v \<Rightarrow> Inr (CHR ''r'' # v) | AckError v \<Rightarrow> Inr (CHR ''e'' # v)),
     std_text = (\<lambda>_. ''error''), parse_semver = Inr,
     semver_less = (\<lambda>a b. a \<noteq> b \<and> b = ''1.1.2''),
     bank_balance = (\<lambda>_ _. Inr 0), cw20_balance = (\<lambda>_ _. Inr 0), query_port_id = Inr ''wasm.a''\<rparr>"

lemma read_show_memo [simp]: "read_memo (show_memo m) = m"
  by (cases m) simp_all

lemma demo_codec: "codec demo_ics"
proof -
  have "demo_parse (join ''|'' (packet_fields p)) = Inr p"
    if "\<not> list_ex (\<lambda>f. CHR ''|'' \<in> set f) (packet_fields p)" for p
  proof -
    have "split_on CHR ''|'' (join ''|'' (packet_fields p)) = packet_fields p"
      by (rule split_on_join) (use that in \<open>auto simp: list_ex_iff packet_fields_def\<close>)
    then show ?thesis by (simp add: demo_parse_def packet_fields_def)
  qed
  then show ?thesis
    by (auto simp: codec_def demo_ics_def demo_encode_def)
qed

lemma demo_laws: "ics_laws demo_ics"
  by (auto simp: ics_laws_def demo_ics_def CONTRACT_VERSION_ICS_def MIGRATE_VERSION_2_def
      MIGRATE_VERSION_3_def split: list.splits)

section \<open>A history\<close>

definition demo_env_ics :: env where
  "demo_env_ics = \<lparr>block_height = 10, block_time = 1000, contract_addr = ''ics''\<rparr>"

definition demo_endpoint :: ibc_endpoint where
  "demo_endpoint = \<lparr>port_id = ''transfer'', channel_id = ''channel-9''\<rparr>"

definition demo_channel :: ibc_channel where
  "demo_channel = \<lparr>ch_endpoint = \<lparr>port_id = ''wasm.a'', channel_id = ''ch-1''\<rparr>,
     ch_counterparty_endpoint = demo_endpoint, ch_order = Unordered, ch_version = ''ics20-1'',
     ch_connection_id = ''connection-2''\<rparr>"

definition demo_init_ics :: init_msg_ics where
  "demo_init_ics = \<lparr>im_default_timeout = 100, im_gov_contract = ''gov'',
     im_allowlist = [\<lparr>am_contract = ''token'', am_gas_limit = Some 5\<rparr>],
     im_default_gas_limit = None\<rparr>"

definition demo_tm :: transfer_msg where
  "demo_tm = \<lparr>tm_channel = ''ch-1'', tm_remote_address = ''bob'', tm_timeout = None, tm_memo = None\<rparr>"

definition demo_info_ics :: message_info where
  "demo_info_ics = \<lparr>sender = ''alice'', funds = [\<lparr>c_denom = ''untrn'', c_amount = 70\<rparr>]\<rparr>"

definition demo_s0 :: ics_store where
  "demo_s0 = \<lparr>ICS_VERSION = Some (CONTRACT_NAME_ICS, CONTRACT_VERSION_ICS), ADMIN = Some ''gov'',
     ICS_CONFIG = Some (ConfigNow \<lparr>default_timeout = 100, default_gas_limit = None\<rparr>),
     REPLY_ARGS = None, CHANNEL_INFO = fmempty, CHANNEL_STATE = fmempty,
     ALLOW_LIST = fmupd ''token'' \<lparr>ai_gas_limit = Some 5\<rparr> fmempty\<rparr>"

definition demo_s1 :: ics_store where
  "demo_s1 = demo_s0\<lparr>CHANNEL_INFO := fmupd ''ch-1'' \<lparr>ci_id = ''ch-1'',
     ci_counterparty_endpoint = demo_endpoint, ci_connection_id = ''connection-2''\<rparr> fmempty\<rparr>"

definition demo_s2 :: ics_store where
  "demo_s2 = demo_s1\<lparr>CHANNEL_STATE := fmupd (''ch-1'', ''untrn'')
     \<lparr>outstanding = 70, total_sent = 70\<rparr> fmempty\<rparr>"

definition demo_data :: binary where
  "demo_data = ''70|untrn|bob|alice|-''"

lemmas demo_state_defs = demo_s0_def demo_s1_def demo_s2_def

lemma demo_s0_init: "instantiate_ics demo_ics demo_init_ics empty_ics = Inr (demo_s0, respond [] [])"
  by (simp add: instantiate_ics_def demo_init_ics_def demo_ics_def save_allowed_def empty_ics_def
      demo_s0_def)

lemma demo_s1_connect:
  "ibc_channel_connect (OpenAck demo_channel ''ics20-1'') demo_s0 = Inr (demo_s1, respond [] [])"
  by (simp add: ibc_channel_connect_def enforce_order_and_version_def demo_channel_def
      ICS20_VERSION_def ICS20_ORDERING_def demo_s1_def demo_s0_def)

lemma show_70: "to_string (70 :: u128) = ''70''"
proof -
  have "digit 7 = CHR ''7''" "digit 0 = CHR ''0''" by code_simp+
  then show ?thesis by (simp add: to_string_def show_nat.simps)
qed

lemma demo_s2_transfer:
  "execute_ics demo_ics demo_env_ics demo_info_ics (TransferNative demo_tm) demo_s1
   = Inr (demo_s2, respond [no_reply (SendPacket ''ch-1'' demo_data 100000001000)]
       [(''action'', ''transfer''), (''sender'', ''alice''), (''receiver'', ''bob''),
        (''denom'', ''untrn''), (''amount'', ''70'')])"
  by (simp add: demo_ics_def demo_info_ics_def execute_transfer_ics_def demo_tm_def demo_state_defs
      load_config_def check_sendable_def demo_env_ics_def plus_seconds_def umul_def uadd_def
      with_memo_def new_packet_def validate_packet_def increase_channel_balance_def
      default_channel_state_def demo_encode_def packet_fields_def show_70 demo_data_def
      transfer_attributes_def)

definition demo_held :: holdings where
  "demo_held = (\<lambda>_. 0)"

lemma demo_credit:
  "credit (deposits H demo_info_ics (TransferNative m)) demo_held = demo_held(''untrn'' := 70)"
  by (simp add: deposits_def demo_info_ics_def demo_held_def)

lemma demo_reach_s1: "ics_reach demo_ics H (demo_s1, demo_held)"
  by (rule reach_step [OF reach_init [OF demo_s0_init] step_connect [OF demo_s1_connect]]) simp

lemma demo_step_s2: "ics_step demo_ics H (demo_s1, demo_held) (demo_s2, demo_held(''untrn'' := 70))"
  by (rule step_execute [OF demo_s2_transfer])
     (auto simp: demo_info_ics_def deposits_def demo_held_def intro!: settle_paid)

lemma demo_reach_s2: "ics_reach demo_ics H (demo_s2, demo_held(''untrn'' := 70))"
  by (rule reach_step [OF demo_reach_s1 demo_step_s2])

end
