(* ===== verification/Ics20_Properties.thy ===== *)
theory Ics20_Properties
  imports Ics20_Demo
begin

text \<open>
  The properties of the ICS20 contract, over the reachable states of \<open>Ics20_World\<close>: the holdings
  cover the channels, the storage conforms and everything it owes can be paid, failed receipts
  change no balance, failed transfers are refunded, which transfers are accepted, gas limits never
  fall, and what a voucher denomination is.
\<close>

section \<open>The holdings cover the channels\<close>

lemma owed_sum: "owed s d = (\<Sum>k \<in> {k \<in> fmdom' (CHANNEL_STATE s). snd k = d}. outs s k)"
proof -
  have "fmdom' (owed_map s d) = {k \<in> fmdom' (CHANNEL_STATE s). snd k = d}"
    by (auto simp: owed_map_def fmlookup_dom'_iff)
  moreover have "unat (get_or_zero (owed_map s d) k) = outs s k" if "snd k = d" for k
    using that by (simp add: owed_map_def get_or_zero_def outs_def split: option.split)
  ultimately show ?thesis by (simp add: owed_def map_total_def)
qed

text \<open>C31: in every reachable state the account of the contract holds, of every native coin and of
  every cw20 token that keeps the standard, at least the sum of what is outstanding on all channels;
  whatever packets, acknowledgements and timeouts arrive, and whichever payments fail.\<close>

theorem ics20_solvent:
  assumes "ics_laws h" and "ics_reach h H (s, held)" and "backed H d"
  shows "(\<Sum>k \<in> {k \<in> fmdom' (CHANNEL_STATE s). snd k = d}. outs s k) \<le> held d"
  using reach_solvent [OF assms(2,1)] assms(3) by (simp add: solvent_def owed_sum [symmetric])

theorem ics20_solvent_witness:
  "(\<Sum>k \<in> {k \<in> fmdom' (CHANNEL_STATE demo_s2). snd k = ''untrn''}. outs demo_s2 k) \<le> 70"
  using ics20_solvent [OF demo_laws demo_reach_s2 [of "{}"], of "''untrn''"]
  by (simp add: backed_def)

section \<open>Conformance\<close>

text \<open>C35: every reachable storage conforms (a configuration of this release, each channel under its
  identifier, balances only on known channels, at most what was sent, in denominations the contract
  may pay out), and a conforming storage does not get stuck: the message that pays a recorded
  denomination out can always be built, and the configuration and each known channel can be
  queried.\<close>

theorem ics20_conforms:
  assumes "ics_laws h" and "ics_reach h H (s, held)"
  shows "conform h s
     \<and> (\<forall>c d a. fmlookup (CHANNEL_STATE s) (c, d) \<noteq> None
          \<longrightarrow> (\<exists>g. check_gas_limit h (from_parts d a) s = Inr g) \<and> (\<exists>r. query_channel c s = Inr r))
     \<and> (\<exists>r. query_config s = Inr r)"
proof -
  have cf: "conform h s" using reach_conform [OF assms(2,1)] by simp
  have "(\<exists>g. check_gas_limit h (from_parts d a) s = Inr g) \<and> (\<exists>r. query_channel c s = Inr r)"
    if "fmlookup (CHANNEL_STATE s) (c, d) \<noteq> None" for c d a
  proof -
    from that cf have "fmlookup (CHANNEL_INFO s) c \<noteq> None \<and> sendable h s d"
      unfolding conform_def entry_def by fastforce
    then show ?thesis by (auto simp: query_channel_def Let_def intro: sendable_gas)
  qed
  moreover from conform_config [OF cf] have "\<exists>r. query_config s = Inr r"
    by (auto simp: query_config_def)
  ultimately show ?thesis using cf by blast
qed

theorem ics20_conforms_witness:
  "(\<exists>g. check_gas_limit demo_ics (from_parts ''untrn'' 5) demo_s2 = Inr g)
   \<and> (\<exists>r. query_channel ''ch-1'' demo_s2 = Inr r)"
  using ics20_conforms [OF demo_laws demo_reach_s2 [of "{}"]]
  by (simp add: demo_s2_def)

section \<open>Receipts\<close>

text \<open>C32: a packet that is answered with a failure changes no balance. Either the body of the receipt
  failed, and the storage is the one before; or it reduced the balance and returned one message that
  pays the tokens out, and if that message fails the reply gives back the ledger the storage had
  before the packet and replaces the acknowledgement by a failure with the error.\<close>

theorem ics20_failed_receipt_keeps_ledger:
  assumes "ics_laws h" and "ics_reach h H (s, held)"
    and "ibc_packet_receive h p s = Inr (s1, rr)"
  shows "rr_messages rr = [] \<and> s1 = s
     \<or> (\<exists>m. rr_messages rr = [m] \<and> sm_id m = RECEIVE_ID \<and> sm_reply m = ReplyError
          \<and> (\<forall>err. reply_ics20 h \<lparr>reply_id = sm_id m, reply_result = Inl err\<rparr> s1
               = rbind (ack_fail h err)
                   (\<lambda>b. Inr (s1\<lparr>CHANNEL_STATE := CHANNEL_STATE s\<rparr>, Some b))))"
proof -
  have "conform h s" using reach_conform [OF assms(2,1)] by simp
  with assms(3) show ?thesis
  proof (cases rule: receive_effect)
    case (sent m d)
    from sent(3) show ?thesis
    proof (rule payoutE)
      fix t args to g
      let ?c = "channel_id (pk_dest p)"
      assume t: "reduce_channel_balance ?c d (p_amount m) s = Inr t"
          "CHANNEL_STATE s1 = CHANNEL_STATE t"
        and ms: "rr_messages rr = [reply_on_error (send_amount (from_parts d (p_amount m)) to) RECEIVE_ID g]"
        and args: "RECEIVE_ID = RECEIVE_ID
           \<Longrightarrow> REPLY_ARGS s1 = Some \<lparr>ra_channel = ?c, ra_denom = d, ra_amount = p_amount m\<rparr>"
      show ?thesis
        using args reduce_undo [OF t] by (simp add: ms reply_ics20_def)
    qed
  qed simp
qed

definition demo_packet :: ibc_packet where
  "demo_packet = \<lparr>pk_data = ''5|transfer/channel-9/untrn|carol|bob|-'', pk_src = demo_endpoint,
     pk_dest = \<lparr>port_id = ''wasm.a'', channel_id = ''ch-1''\<rparr>\<rparr>"

definition demo_s3 :: ics_store where
  "demo_s3 = demo_s2\<lparr>CHANNEL_STATE := fmupd (''ch-1'', ''untrn'')
     \<lparr>outstanding = 65, total_sent = 70\<rparr> fmempty,
     REPLY_ARGS := Some \<lparr>ra_channel = ''ch-1'', ra_denom = ''untrn'', ra_amount = 5\<rparr>\<rparr>"

lemma parse_5: "parse_uint ''5'' = Some (5 :: u128)"
  by (simp add: parse_uint_def is_digit_def digits_value_def byte_def)

lemma demo_receive:
  "\<exists>rr. ibc_packet_receive demo_ics demo_packet demo_s2 = Inr (demo_s3, rr)
      \<and> rr_messages rr = [reply_on_error (BankSend ''carol'' [\<lparr>c_denom = ''untrn'', c_amount = 5\<rparr>])
          RECEIVE_ID None]"
  by (simp add: ibc_packet_receive_def do_ibc_packet_receive_def demo_ics_def demo_packet_def
      demo_parse_def parse_5 parse_voucher_denom_def splitn3_def demo_endpoint_def
      reduce_channel_balance_def demo_state_defs checked_sub_def receive_send_def from_parts_def
      check_gas_limit_def ack_success_def encode_unwrap_def demo_s3_def Let_def)

theorem ics20_failed_receipt_keeps_ledger_witness:
  "\<exists>b. reply_ics20 demo_ics \<lparr>reply_id = RECEIVE_ID, reply_result = Inl ''refused''\<rparr> demo_s3
     = Inr (demo_s3\<lparr>CHANNEL_STATE := CHANNEL_STATE demo_s2\<rparr>, Some b)"
proof -
  from demo_receive obtain rr where
      r: "ibc_packet_receive demo_ics demo_packet demo_s2 = Inr (demo_s3, rr)"
         "rr_messages rr = [reply_on_error (BankSend ''carol'' [\<lparr>c_denom = ''untrn'', c_amount = 5\<rparr>])
            RECEIVE_ID None]" by blast
  from ics20_failed_receipt_keeps_ledger [OF demo_laws demo_reach_s2 [of "{}"] r(1)] r(2)
  have "reply_ics20 demo_ics \<lparr>reply_id = RECEIVE_ID, reply_result = Inl ''refused''\<rparr> demo_s3
      = rbind (ack_fail demo_ics ''refused'')
          (\<lambda>b. Inr (demo_s3\<lparr>CHANNEL_STATE := CHANNEL_STATE demo_s2\<rparr>, Some b))"
    by simp
  then show ?thesis by (simp add: ack_fail_def encode_unwrap_def demo_ics_def)
qed

section \<open>Refunds\<close>

text \<open>What an accepted message deposits, and for whom.\<close>

definition deposit_of :: "ics_host \<Rightarrow> message_info \<Rightarrow> ics_execute_msg \<Rightarrow> (amount \<times> addr) option" where
  "deposit_of h info m = (case m of
       Receive w \<Rightarrow> (case addr_validate (h_api h) (rw_sender w) of
           Inr a \<Rightarrow> Some (amount_cw20 (rw_amount w) (sender info), a) | Inl _ \<Rightarrow> None)
     | TransferNative _ \<Rightarrow> (case one_coin h info of
           Inr c \<Rightarrow> Some (Native c, sender info) | Inl _ \<Rightarrow> None)
     | _ \<Rightarrow> None)"

lemma execute_sends:
  assumes "execute_ics h env info m s = Inr (s1, r)" and "messages r = [no_reply (SendPacket c data t)]"
  obtains tm amt owner where "deposit_of h info m = Some (amt, owner)" "\<not> amount_is_empty amt"
    "execute_transfer_ics h env tm amt owner s = Inr (s1, r)" "tm_channel tm = c"
    "encode_packet h (with_memo (tm_memo tm)
       (new_packet (amount_amount amt) (amount_denom amt) owner (tm_remote_address tm))) = Inr data"
proof -
  have "\<exists>tm amt owner. deposit_of h info m = Some (amt, owner)
      \<and> execute_transfer_ics h env tm amt owner s = Inr (s1, r)"
    using assms
    by (cases m)
       (auto simp: execute_receive_def Let_def res_simps deposit_of_def amount_cw20_def
         execute_allow_def no_reply_def split: prod.splits)
  then obtain tm amt owner where d: "deposit_of h info m = Some (amt, owner)"
      and e: "execute_transfer_ics h env tm amt owner s = Inr (s1, r)" by blast
  from e show thesis
    by (rule execute_transfer_effect) (rule that [OF d _ e], use assms(2) in \<open>auto simp: no_reply_def\<close>)
qed

lemma from_parts_inverse:
  "(\<And>c. amt = Native c \<Longrightarrow> \<not> prefix ''cw20:'' (c_denom c))
    \<Longrightarrow> from_parts (amount_denom amt) (amount_amount amt) = amt"
  by (cases amt) (auto simp: from_parts_def)

text \<open>A refund of a covered amount in a reachable storage.\<close>

lemma refund_defined:
  assumes "conform h s" and "parse_packet h (pk_data p) = Inr m"
    and "entry s (channel_id (pk_src p), p_denom m)"
    and "unat (p_amount m) \<le> outs s (channel_id (pk_src p), p_denom m)"
  shows "\<exists>s' g attrs. on_packet_failure h p err s
      = Inr (s', respond [reply_on_error (send_amount (from_parts (p_denom m) (p_amount m))
          (p_sender m)) ACK_FAILURE_ID g] attrs)
      \<and> reduce_channel_balance (channel_id (pk_src p)) (p_denom m) (p_amount m) s = Inr s'"
proof -
  from assms(3,4) obtain s' where r:
      "reduce_channel_balance (channel_id (pk_src p)) (p_denom m) (p_amount m) s = Inr s'"
    using reduce_defined by blast
  from assms(1,3) have "sendable h s (p_denom m)" by (auto simp: conform_def)
  then have "sendable h s' (p_denom m)"
    using extends_ledger [OF reduce_ok(7) [OF r]] by (rule sendable_extends)
  then obtain g where "check_gas_limit h (from_parts (p_denom m) (p_amount m)) s' = Inr g"
    using sendable_gas by blast
  with r assms(2) show ?thesis by (auto simp: on_packet_failure_def Let_def)
qed

text \<open>C33: a transfer that fails is undone. When an accepted message sent a packet, then in every later
  state in which the channel still covers the amount, a timeout of the packet, or its acknowledgement
  with an error, pays exactly the deposited amount (same token, same denomination) back to the owner
  of the deposit with a single message, and takes that amount, and nothing else, off the outstanding
  balance of the channel.\<close>

theorem ics20_refund:
  assumes laws: "ics_laws h" and "codec h" and reach: "ics_reach h H (s, held)"
    and nat: "\<forall>c \<in> set (funds info). \<not> prefix ''cw20:'' (c_denom c)"
    and ex: "execute_ics h env info m s = Inr (s1, r)"
    and send: "messages r = [no_reply (SendPacket c data t)]"
    and later: "(ics_step h H)\<^sup>*\<^sup>* (s1, credit (deposits H info m) held) (s2, held2)"
    and dep: "deposit_of h info m = Some (amt, owner)"
    and cover: "unat (amount_amount amt) \<le> outs s2 (c, amount_denom amt)"
    and p: "pk_data p = data" "channel_id (pk_src p) = c"
  shows "\<exists>s3 g attrs. on_packet_failure h p err s2
        = Inr (s3, respond [reply_on_error (send_amount amt owner) ACK_FAILURE_ID g] attrs)
      \<and> (\<forall>k. outs s3 k = outs s2 k
            - (if k = (c, amount_denom amt) then unat (amount_amount amt) else 0))
      \<and> (\<forall>k. sent s3 k = sent s2 k)"
proof -
  obtain tm :: transfer_msg and amt' owner' where
      d: "deposit_of h info m = Some (amt', owner')" "\<not> amount_is_empty amt'"
        "encode_packet h (with_memo (tm_memo tm) (new_packet (amount_amount amt') (amount_denom amt')
          owner' (tm_remote_address tm))) = Inr data"
    by (rule execute_sends [OF ex send], rule that, assumption+)
  with dep have ne: "\<not> amount_is_empty amt" and enc: "encode_packet h (with_memo (tm_memo tm)
      (new_packet (amount_amount amt) (amount_denom amt) owner (tm_remote_address tm))) = Inr data"
    by simp_all
  let ?m = "with_memo (tm_memo tm)
      (new_packet (amount_amount amt) (amount_denom amt) owner (tm_remote_address tm))"
  have m: "p_amount ?m = amount_amount amt" "p_denom ?m = amount_denom amt" "p_sender ?m = owner"
    by (simp_all add: with_memo_def new_packet_def)
  from enc \<open>codec h\<close> p(1) have pp: "parse_packet h (pk_data p) = Inr ?m" by (simp add: codec_def)
  have "ics_step h H (s, held) (s1, credit (deposits H info m) held)"
    using ex by (rule step_execute) (use nat send in \<open>auto intro!: settle_paid\<close>)
  then have "ics_reach h H (s2, held2)"
    using reach_step [OF reach] reach_steps [OF later] by blast
  then have cf: "conform h s2" using reach_conform [OF _ laws] by fastforce
  from ne have "amount_amount amt \<noteq> 0" by (cases amt) simp_all
  with cover have "entry s2 (c, amount_denom amt)"
    by (auto simp: entry_def outs_def unat_eq_0 split: option.splits)
  with refund_defined [OF cf pp, of err] cover obtain s3 g attrs where f:
      "on_packet_failure h p err s2
       = Inr (s3, respond [reply_on_error (send_amount (from_parts (amount_denom amt)
           (amount_amount amt)) owner) ACK_FAILURE_ID g] attrs)"
      "reduce_channel_balance c (amount_denom amt) (amount_amount amt) s2 = Inr s3"
    unfolding m p(2) by blast
  have "\<not> prefix ''cw20:'' (c_denom c')" if "amt = Native c'" for c'
    using that dep nat laws
    by (cases m) (auto simp: deposit_of_def ics_laws_def amount_cw20_def split: sum.splits)
  then have "from_parts (amount_denom amt) (amount_amount amt) = amt"
    by (rule from_parts_inverse)
  with f reduce_ok(2,3) [OF f(2)] show ?thesis by auto
qed

theorem ics20_refund_witness:
  "\<exists>s3 g attrs. on_packet_failure demo_ics
        \<lparr>pk_data = demo_data, pk_src = \<lparr>port_id = ''wasm.a'', channel_id = ''ch-1''\<rparr>,
         pk_dest = demo_endpoint\<rparr> ''timeout'' demo_s2
      = Inr (s3, respond [reply_on_error
          (BankSend ''alice'' [\<lparr>c_denom = ''untrn'', c_amount = 70\<rparr>]) ACK_FAILURE_ID g] attrs)
    \<and> outs s3 (''ch-1'', ''untrn'') = 0"
proof -
  let ?coin = "\<lparr>c_denom = ''untrn'', c_amount = 70\<rparr> :: coin"
  have dep: "deposit_of demo_ics demo_info_ics (TransferNative demo_tm) = Some (Native ?coin, ''alice'')"
    by (simp add: deposit_of_def demo_ics_def demo_info_ics_def)
  have o: "outs demo_s2 (''ch-1'', ''untrn'') = 70"
    by (simp add: outs_def demo_s2_def)
  show ?thesis
    using ics20_refund [where H = "{}", OF demo_laws demo_codec demo_reach_s1 _ demo_s2_transfer _
        rtranclp.rtrancl_refl dep, of "''ch-1''" demo_data 100000001000
        "\<lparr>pk_data = demo_data, pk_src = \<lparr>port_id = ''wasm.a'', channel_id = ''ch-1''\<rparr>,
         pk_dest = demo_endpoint\<rparr>" "''timeout''"] o
    by (fastforce simp: demo_info_ics_def)
qed

section \<open>Accepted and refused transfers\<close>

lemma plus_seconds_defined:
  "(\<exists>t. plus_seconds b d = (Inr t :: u64 ics_res)) \<longleftrightarrow> unat b + 1000000000 * unat d < 2 ^ 64"
proof -
  have "unat d * 1000000000 < 2 ^ 64" if "unat b + 1000000000 * unat d < 2 ^ 64"
    using that by linarith
  moreover have "unat (d * 1000000000) = unat d * 1000000000" if "unat d * 1000000000 < 2 ^ 64"
    using unat_mul_exact [of d 1000000000] that by simp
  ultimately show ?thesis
    by (auto simp: plus_seconds_def res_simps umul_def uadd_def)
qed

lemma increase_defined:
  assumes "cl.covered s"
  shows "(\<exists>s'. increase_channel_balance c d a s = Inr s') \<longleftrightarrow> sent s (c, d) + unat a < 2 ^ 128"
proof (cases "fmlookup (CHANNEL_STATE s) (c, d)")
  case None
  then show ?thesis
    using unsigned_less [of a, where ?'a = nat]
    by (simp add: increase_channel_balance_def Let_def default_channel_state_def sent_def)
next
  case (Some st)
  have "outs s (c, d) \<le> sent s (c, d)" using assms unfolding cl.covered_def by blast
  with Some have "unat (outstanding st) \<le> unat (total_sent st)" by (simp add: outs_def sent_def)
  with Some show ?thesis
    by (auto simp: increase_channel_balance_def Let_def res_simps sent_def)
qed

lemma increase_no_error: "increase_channel_balance c d a s \<noteq> Inl (Err e)"
  by (auto simp: increase_channel_balance_def Let_def rbind_eq_Inl uadd_def split: if_splits)

lemma plus_seconds_no_error: "plus_seconds b d \<noteq> Inl (Err e)"
  by (auto simp: plus_seconds_def rbind_eq_Inl uadd_def umul_def split: if_splits)

lemma sendable_defined:
  "check_sendable h config amt s = Inr () \<longleftrightarrow>
     (\<forall>c. amt = Cw20 c \<longrightarrow> (\<exists>a. addr_validate (h_api h) (cc_address c) = Inr a
        \<and> (fmlookup (ALLOW_LIST s) a \<noteq> None \<or> default_gas_limit config \<noteq> None)))"
  by (auto simp: check_sendable_def res_simps split: amount.splits if_splits)

lemma sendable_error:
  "check_sendable h config amt s = Inl (Err e) \<Longrightarrow> \<exists>c. amt = Cw20 c
     \<and> ((\<exists>x. e = Std_ics x \<and> addr_validate (h_api h) (cc_address c) = Inl x)
        \<or> (e = NotOnAllowList \<and> default_gas_limit config = None
           \<and> (\<exists>a. addr_validate (h_api h) (cc_address c) = Inr a
                \<and> fmlookup (ALLOW_LIST s) a = None)))"
  by (auto simp: check_sendable_def rbind_eq_Inl from_std_def ok_or_def
      split: amount.splits if_splits sum.splits option.splits)

lemma amount_empty_iff: "amount_is_empty amt \<longleftrightarrow> amount_amount amt = 0"
  by (cases amt) simp_all

text \<open>C34: on a reachable storage a transfer of an amount \<open>a\<close> is accepted exactly when the amount is
  positive and fits the 64 bits of an ICS20 packet, the channel is known, the token is native or a
  valid cw20 address that is on the allow list (or any, when a default gas limit is set), the timeout
  does not overflow and the total of the channel does not; in every other case nothing is written,
  and the error says which: no funds, no such channel, not on the allow list, an invalid address, an
  amount too large, or an arithmetic panic.\<close>

theorem ics20_transfer_outcome:
  assumes laws: "ics_laws h" and reach: "ics_reach h H (s, held)"
    and b: "encode_packet h (with_memo (tm_memo m) (new_packet (amount_amount amt)
        (amount_denom amt) sndr (tm_remote_address m))) = Inr b"
    and cfg: "load_config s = Inr config"
  shows "((\<exists>s' r. execute_transfer_ics h env m amt sndr s = Inr (s', r)) \<longleftrightarrow>
       0 < unat (amount_amount amt) \<and> unat (amount_amount amt) < 2 ^ 64
     \<and> fmlookup (CHANNEL_INFO s) (tm_channel m) \<noteq> None
     \<and> (\<forall>c. amt = Cw20 c \<longrightarrow> (\<exists>a. addr_validate (h_api h) (cc_address c) = Inr a
          \<and> (fmlookup (ALLOW_LIST s) a \<noteq> None \<or> default_gas_limit config \<noteq> None)))
     \<and> unat (block_time env) + 1000000000 * unat (case tm_timeout m of
           Some t \<Rightarrow> t | None \<Rightarrow> default_timeout config) < 2 ^ 64
     \<and> sent s (tm_channel m, amount_denom amt) + unat (amount_amount amt) < 2 ^ 128)
   \<and> (\<forall>e. execute_transfer_ics h env m amt sndr s = Inl (Err e) \<longrightarrow>
        (e = NoFunds \<and> amount_amount amt = 0)
      \<or> (e = NoSuchChannel (tm_channel m) \<and> fmlookup (CHANNEL_INFO s) (tm_channel m) = None)
      \<or> (e = NotOnAllowList \<and> (\<exists>c a. amt = Cw20 c \<and> addr_validate (h_api h) (cc_address c) = Inr a
           \<and> fmlookup (ALLOW_LIST s) a = None \<and> default_gas_limit config = None))
      \<or> (\<exists>x c. e = Std_ics x \<and> amt = Cw20 c \<and> addr_validate (h_api h) (cc_address c) = Inl x)
      \<or> (e = AmountOverflow \<and> 2 ^ 64 \<le> unat (amount_amount amt)))"
proof -
  have cov: "cl.covered s" using reach_conform [OF reach laws] by (simp add: conform_def)
  let ?d = "case tm_timeout m of Some t \<Rightarrow> t | None \<Rightarrow> default_timeout config"
  let ?p = "with_memo (tm_memo m)
      (new_packet (amount_amount amt) (amount_denom amt) sndr (tm_remote_address m))"
  have v: "validate_packet ?p = Inr () \<longleftrightarrow> unat (amount_amount amt) < 2 ^ 64"
    by (auto simp: validate_packet_def with_memo_def new_packet_def)
  have ve: "validate_packet ?p = Inl (Err e) \<Longrightarrow> e = AmountOverflow \<and> 2 ^ 64 \<le> unat (amount_amount amt)"
    for e by (auto simp: validate_packet_def with_memo_def new_packet_def split: if_splits)
  have "(\<exists>s' r. execute_transfer_ics h env m amt sndr s = Inr (s', r)) \<longleftrightarrow>
      \<not> amount_is_empty amt \<and> fmlookup (CHANNEL_INFO s) (tm_channel m) \<noteq> None
    \<and> check_sendable h config amt s = Inr ()
    \<and> (\<exists>t. plus_seconds (block_time env) ?d = (Inr t :: u64 ics_res)) \<and> validate_packet ?p = Inr ()
    \<and> (\<exists>s'. increase_channel_balance (tm_channel m) (amount_denom amt) (amount_amount amt) s = Inr s')"
    by (auto simp: execute_transfer_ics_def Let_def res_simps cfg b)
  then have acc: "(\<exists>s' r. execute_transfer_ics h env m amt sndr s = Inr (s', r)) \<longleftrightarrow>
       0 < unat (amount_amount amt) \<and> unat (amount_amount amt) < 2 ^ 64
     \<and> fmlookup (CHANNEL_INFO s) (tm_channel m) \<noteq> None
     \<and> (\<forall>c. amt = Cw20 c \<longrightarrow> (\<exists>a. addr_validate (h_api h) (cc_address c) = Inr a
          \<and> (fmlookup (ALLOW_LIST s) a \<noteq> None \<or> default_gas_limit config \<noteq> None)))
     \<and> unat (block_time env) + 1000000000 * unat ?d < 2 ^ 64
     \<and> sent s (tm_channel m, amount_denom amt) + unat (amount_amount amt) < 2 ^ 128"
    unfolding plus_seconds_defined increase_defined [OF cov] sendable_defined v amount_empty_iff
      unat_gt_0 by blast
  have ref: "(e = NoFunds \<and> amount_amount amt = 0)
      \<or> (e = NoSuchChannel (tm_channel m) \<and> fmlookup (CHANNEL_INFO s) (tm_channel m) = None)
      \<or> check_sendable h config amt s = Inl (Err e)
      \<or> (e = AmountOverflow \<and> 2 ^ 64 \<le> unat (amount_amount amt))"
    if "execute_transfer_ics h env m amt sndr s = Inl (Err e)" for e
    using that
    by (auto simp: execute_transfer_ics_def Let_def rbind_eq_Inl cfg b amount_empty_iff
        increase_no_error plus_seconds_no_error dest: ve split: if_splits)
  show ?thesis
    by (rule conjI [OF acc], intro allI impI) (use ref sendable_error in blast)
qed

theorem ics20_transfer_outcome_witness:
  "\<exists>s' r. execute_transfer_ics demo_ics demo_env_ics demo_tm (amount_cw20 9 ''token'') ''alice'' demo_s2
     = Inr (s', r)"
proof -
  have "encode_packet demo_ics (with_memo (tm_memo demo_tm) (new_packet
      (amount_amount (amount_cw20 9 ''token'')) (amount_denom (amount_cw20 9 ''token'')) ''alice''
      (tm_remote_address demo_tm))) = Inr (to_string (9 :: u128) @ ''|cw20:token|bob|alice|-'')"
    using to_string_digits [of "CHR ''|''" "9 :: u128"]
    by (auto simp: demo_ics_def demo_encode_def packet_fields_def with_memo_def new_packet_def
        demo_tm_def amount_cw20_def is_digit_def byte_def)
  moreover have "load_config demo_s2 = Inr \<lparr>default_timeout = 100, default_gas_limit = None\<rparr>"
    by (simp add: load_config_def demo_state_defs)
  ultimately show ?thesis
    using ics20_transfer_outcome [OF demo_laws demo_reach_s2 [of "{}"], of demo_tm
        "amount_cw20 9 ''token''" "''alice''" _ _ demo_env_ics]
    by (simp add: demo_state_defs demo_tm_def demo_env_ics_def amount_cw20_def demo_ics_def sent_def)
qed

section \<open>Gas limits\<close>

text \<open>Governance cannot strand tokens: along every run, a cw20 contract that is on the allow list
  stays on it, and its gas limit is never lowered (a contract without a limit keeps none); a default
  gas limit, once set, stays set, whatever messages and migrations are executed.\<close>

theorem ics20_gas_limits_only_grow:
  assumes "ics_laws h" and "ics_reach h H w" and "(ics_step h H)\<^sup>*\<^sup>* w w'"
  shows "(\<forall>a i. fmlookup (ALLOW_LIST (fst w)) a = Some i
          \<longrightarrow> (\<exists>i'. fmlookup (ALLOW_LIST (fst w')) a = Some i'
               \<and> (ai_gas_limit i' = None
                  \<or> (\<exists>g g'. ai_gas_limit i = Some g \<and> ai_gas_limit i' = Some g' \<and> g \<le> g'))))
     \<and> (default_set (fst w) \<longrightarrow> default_set (fst w'))"
proof -
  have e: "extends (fst w) (fst w')" by (rule steps_extend [OF assms(3,2,1)])
  have g: "g' = None \<or> (\<exists>n n'. g = Some n \<and> g' = Some n' \<and> n \<le> n')" if "\<not> lowers_gas g g'" for g g'
    using that by (auto simp: lowers_gas_def split: option.splits)
  show ?thesis using e g unfolding extends_def by blast
qed

text \<open>The limit of the demonstration token is raised from 5 to 8.\<close>

lemma demo_allow:
  "\<exists>s' r. execute_ics demo_ics demo_env_ics \<lparr>sender = ''gov'', funds = []\<rparr>
       (Allow \<lparr>am_contract = ''token'', am_gas_limit = Some 8\<rparr>) demo_s2 = Inr (s', r)
     \<and> messages r = [] \<and> fmlookup (ALLOW_LIST s') ''token'' = Some \<lparr>ai_gas_limit = Some 8\<rparr>"
  by (simp add: execute_allow_def demo_ics_def demo_state_defs allow_update_def lowers_gas_def)

theorem ics20_gas_limits_only_grow_witness:
  "\<exists>s' :: ics_store. fmlookup (ALLOW_LIST demo_s2) ''token'' = Some \<lparr>ai_gas_limit = Some 5\<rparr>
     \<and> fmlookup (ALLOW_LIST s') ''token'' = Some \<lparr>ai_gas_limit = Some 8\<rparr>
     \<and> (\<exists>g g'. Some (5 :: u64) = Some g \<and> Some 8 = Some g' \<and> g \<le> g')"
proof -
  let ?info = "\<lparr>sender = ''gov'', funds = []\<rparr> :: message_info"
  let ?m = "Allow \<lparr>am_contract = ''token'', am_gas_limit = Some 8\<rparr>"
  let ?w = "(demo_s2, demo_held(''untrn'' := 70))"
  from demo_allow obtain s' r where x: "execute_ics demo_ics demo_env_ics ?info ?m demo_s2 = Inr (s', r)"
      "messages r = []" "fmlookup (ALLOW_LIST s') ''token'' = Some \<lparr>ai_gas_limit = Some 8\<rparr>" by blast
  have "ics_step demo_ics {} ?w (s', credit (deposits {} ?info ?m) (demo_held(''untrn'' := 70)))"
    using x(1) by (rule step_execute) (simp_all add: x(2))
  then have st: "(ics_step demo_ics {})\<^sup>*\<^sup>* ?w (s', credit (deposits {} ?info ?m) (demo_held(''untrn'' := 70)))"
    by (rule r_into_rtranclp)
  have old: "fmlookup (ALLOW_LIST demo_s2) ''token'' = Some \<lparr>ai_gas_limit = Some 5\<rparr>"
    by (simp add: demo_state_defs)
  from ics20_gas_limits_only_grow [OF demo_laws demo_reach_s2 st, THEN conjunct1, rule_format,
      of "''token''"] old
  have "\<exists>i'. fmlookup (ALLOW_LIST s') ''token'' = Some i' \<and> (ai_gas_limit i' = None
      \<or> (\<exists>g g'. Some (5 :: u64) = Some g \<and> ai_gas_limit i' = Some g' \<and> g \<le> g'))"
    by simp
  with old x(3) show ?thesis by (intro exI [of _ s']) auto
qed

section \<open>Voucher denominations\<close>

text \<open>C36: the parser of voucher denominations accepts exactly the denominations this contract's tokens
  have on the other chain, the port and the channel of the remote end in front of the local
  denomination, and returns that local denomination, which may itself contain slashes.\<close>

theorem ics20_voucher_denom:
  assumes "CHR ''/'' \<notin> set (port_id ep)" and "CHR ''/'' \<notin> set (channel_id ep)"
  shows "parse_voucher_denom v ep = Inr d
     \<longleftrightarrow> v = port_id ep @ ''/'' @ channel_id ep @ ''/'' @ d"
proof
  assume "parse_voucher_denom v ep = Inr d"
  then have "splitn3 CHR ''/'' v = [port_id ep, channel_id ep, d]"
    by (auto simp: parse_voucher_denom_def res_simps split: list.splits if_splits)
  then show "v = port_id ep @ ''/'' @ channel_id ep @ ''/'' @ d"
    using join_split_on [of "CHR ''/''" v]
    by (auto simp: splitn3_def join_Cons split: list.splits)
next
  assume v: "v = port_id ep @ ''/'' @ channel_id ep @ ''/'' @ d"
  have "split_on CHR ''/'' v = port_id ep # channel_id ep # split_on CHR ''/'' d"
    by (simp add: v split_on_append assms)
  moreover obtain x xs where "split_on CHR ''/'' d = x # xs"
    by (cases "split_on CHR ''/'' d") simp_all
  ultimately have "splitn3 CHR ''/'' v = [port_id ep, channel_id ep, d]"
    using join_split_on [of "CHR ''/''" d] by (simp add: splitn3_def)
  then show "parse_voucher_denom v ep = Inr d"
    by (simp add: parse_voucher_denom_def)
qed

theorem ics20_voucher_denom_witness:
  "parse_voucher_denom ''transfer/channel-9/factory/x/y'' demo_endpoint = Inr ''factory/x/y''"
  by (subst ics20_voucher_denom) (simp_all add: demo_endpoint_def)

end
