(* ===== verification/Ics20_System_Properties.thy ===== *)
theory Ics20_System_Properties
  imports Ics20_System Ics20_Properties
begin

text \<open>
  The ICS20 contract with tokens of this repository, on their code: what the channels owe of a token
  is in the account of the contract. The property rests on the simulation \<open>sys_run_view\<close>.
\<close>

section \<open>A token that is sent over a channel\<close>

definition demo_token_sent :: lsd_store where
  "demo_token_sent = demo_token\<lparr>BALANCES := fmupd ''ics'' 9 (fmupd ''alice'' 991 fmempty)\<rparr>"

definition demo_s1_sent :: ics_store where
  "demo_s1_sent = demo_s1\<lparr>CHANNEL_STATE := fmupd (''ch-1'', ''cw20:token'')
     \<lparr>outstanding = 9, total_sent = 9\<rparr> fmempty\<rparr>"

lemma demo_token_call:
  "token_call accept_all ''ics'' ''token''
     (demo_env_ics, demo_from ''alice'', Send ''ics'' 9 ''ch-1|bob'') demo_token
   = Some (demo_token_sent, Some \<lparr>rw_sender = ''alice'', rw_amount = 9, rw_msg = ''ch-1|bob''\<rparr>)"
  by (simp add: token_call_def execute_send_def lower_balance_def raise_balance_def checked_sub_def
      uadd_def demo_token_def demo_token_sent_def demo_from_def get_or_zero_def fmupd_reorder_neq told_def)

lemma demo_receive_token:
  "\<exists>b t attrs. execute_ics demo_ics demo_env_ics \<lparr>sender = ''token'', funds = []\<rparr>
     (Receive \<lparr>rw_sender = ''alice'', rw_amount = 9, rw_msg = ''ch-1|bob''\<rparr>) demo_s1
   = Inr (demo_s1_sent, respond [no_reply (SendPacket ''ch-1'' b t)] attrs)"
  using to_string_digits [of "CHR ''|''" "9 :: u128"]
  by (auto simp: execute_receive_def execute_transfer_ics_def demo_ics_def demo_env_ics_def
      demo_transfer_def demo_state_defs demo_s1_sent_def load_config_def check_sendable_def plus_seconds_def
      umul_def uadd_def validate_packet_def with_memo_def new_packet_def increase_channel_balance_def
      default_channel_state_def demo_encode_def packet_fields_def is_digit_def byte_def Let_def res_simps)

lemma demo_sys_run:
  "sys_run demo_ics ''ics'' {''token''} (demo_s1_sent, demo_held, fmupd ''token'' demo_token_sent fmempty)"
proof -
  let ?T = "fmupd ''token'' demo_token fmempty"
  have "sys_run demo_ics ''ics'' {''token''} (demo_s0, demo_held, fmempty)"
    by (rule run_init [OF demo_s0_init])
  then have "sys_run demo_ics ''ics'' {''token''} (demo_s1, demo_held, fmempty)"
    by (rule run_step) (rule sys_connect [OF demo_s1_connect], simp add: sys_none)
  then have run: "sys_run demo_ics ''ics'' {''token''} (demo_s1, demo_held, ?T)"
    by (rule run_step)
      (rule sys_deploy [where msg = demo_token_msg], simp_all add: has_def demo_ics_def demo_token_instantiate)
  obtain b t attrs where r: "execute_ics demo_ics demo_env_ics \<lparr>sender = ''token'', funds = []\<rparr>
     (Receive \<lparr>rw_sender = ''alice'', rw_amount = 9, rw_msg = ''ch-1|bob''\<rparr>) demo_s1
   = Inr (demo_s1_sent, respond [no_reply (SendPacket ''ch-1'' b t)] attrs)"
    using demo_receive_token by blast
  have "sys_step demo_ics ''ics'' {''token''} (demo_s1, demo_held, ?T)
      (demo_s1_sent, demo_held, fmupd ''token'' demo_token_sent ?T)"
    by (rule sys_send [OF _ _ _ r, where l = demo_token and l' = demo_token_sent
          and m = "(demo_env_ics, demo_from ''alice'', Send ''ics'' 9 ''ch-1|bob'')"])
      (auto simp: demo_ics_def demo_token_call intro!: sys_pays sys_none)
  with run have "sys_run demo_ics ''ics'' {''token''}
      (demo_s1_sent, demo_held, fmupd ''token'' demo_token_sent ?T)"
    by (rule run_step)
  then show ?thesis by simp
qed

section \<open>The tokens are there\<close>

text \<open>C2: the ICS20 contract and the tokens it bridges, both on their code, with any calls of the tokens
  and of the contract, packets, acknowledgements, timeouts, failed payments and migrations: the
  tokens that all channels together still owe are in the account of the contract at the token, and
  the native coins they owe in its bank account.\<close>

theorem ics20_tokens_backed:
  assumes "ics_laws h" and "validates_normal (h_api h)" and "sys_run h a H (s, held, toks)"
  shows "(t \<in> H \<longrightarrow> fmlookup toks t = Some l \<longrightarrow>
      (\<Sum>k \<in> {k \<in> fmdom' (CHANNEL_STATE s). snd k = ''cw20:'' @ t}. outs s k) \<le> bal l a)
    \<and> (\<not> prefix ''cw20:'' d \<longrightarrow>
      (\<Sum>k \<in> {k \<in> fmdom' (CHANNEL_STATE s). snd k = d}. outs s k) \<le> held d)"
proof -
  from sys_run_view [OF assms(3,2)] have "ics_reach h H (s, view H a held toks)" by simp
  then have sol: "solvent H (s, view H a held toks)" using assms(1) by (rule reach_solvent)
  have le: "(\<Sum>k \<in> {k \<in> fmdom' (CHANNEL_STATE s). snd k = e}. outs s k) \<le> view H a held toks e"
    if "backed H e" for e
    using sol that by (simp add: solvent_def owed_sum [symmetric])
  have "(\<Sum>k \<in> {k \<in> fmdom' (CHANNEL_STATE s). snd k = ''cw20:'' @ t}. outs s k) \<le> bal l a"
    if "t \<in> H" "fmlookup toks t = Some l"
  proof -
    have "backed H (''cw20:'' @ t)" using that(1) unfolding backed_cw20 .
    from le [OF this] show ?thesis unfolding view_cw20 [OF that(1)] that(2) by simp
  qed
  moreover have "(\<Sum>k \<in> {k \<in> fmdom' (CHANNEL_STATE s). snd k = d}. outs s k) \<le> held d"
    if "\<not> prefix ''cw20:'' d"
    using le [of d] view_native [OF that] that by (simp add: backed_def)
  ultimately show ?thesis by blast
qed

theorem ics20_tokens_backed_witness:
  "(\<Sum>k \<in> {k \<in> fmdom' (CHANNEL_STATE demo_s1_sent). snd k = ''cw20:token''}. outs demo_s1_sent k) \<le> 9
     \<and> outs demo_s1_sent (''ch-1'', ''cw20:token'') = 9"
proof -
  have "validates_normal (h_api demo_ics)" by (simp add: demo_ics_def)
  from ics20_tokens_backed [OF demo_laws this demo_sys_run, of "''token''" demo_token_sent]
  have "(\<Sum>k \<in> {k \<in> fmdom' (CHANNEL_STATE demo_s1_sent). snd k = ''cw20:token''}. outs demo_s1_sent k)
      \<le> bal demo_token_sent ''ics''"
    by simp
  then show ?thesis
    by (simp add: demo_token_sent_def bal_def get_or_zero_def demo_s1_sent_def outs_def)
qed

end
