(* ===== verification/Bridge.thy ===== *)
theory Bridge
  imports Chain
begin

text \<open>
  contracts/bridge: relayers vote on deposits of another chain; when enough of them voted, the
  bridge tells the token contract to mint. The theory holds the data (state.rs, msg.rs, error.rs)
  and the operations (contract.rs); the hash function is an argument. Constructors and functions
  whose name another contract also uses carry the suffix \<open>_bridge\<close>.
\<close>

section \<open>state.rs\<close>

record bridge_info =
  bi_admin :: addr
  bi_threshold :: u64
  bi_relayers :: "addr list"

record proposal =
  pr_chain_id :: u64
  pr_deposit_nonce :: u64
  pr_resource_id :: string
  pr_recipient :: addr
  pr_amount :: u128
  pr_executed :: bool
  pr_voters :: "addr list"

record bridge_store =
  BRIDGE_VERSION :: "(string \<times> string) option"
  BRIDGE_INFO :: "bridge_info option"
  PROPOSALS :: "(string, proposal) fmap"
  RESOURCE_ID_TO_TOKEN :: "(string, addr) fmap"

definition empty_bridge :: bridge_store where
  "empty_bridge = \<lparr>BRIDGE_VERSION = None, BRIDGE_INFO = None, PROPOSALS = fmempty,
     RESOURCE_ID_TO_TOKEN = fmempty\<rparr>"

text \<open>\<open>to_be_bytes\<close>: the \<open>k\<close> lowest bytes, the most significant first.\<close>

fun be_bytes :: "nat \<Rightarrow> nat \<Rightarrow> string" where
  "be_bytes 0 n = []"
| "be_bytes (Suc k) n = be_bytes k (n div 256) @ [char_of (n mod 256)]"

definition hash_bridge :: "(string \<Rightarrow> string) \<Rightarrow> string \<Rightarrow> string \<Rightarrow> string" where
  "hash_bridge sha256 ty key = sha256 (sha256 ty @ key)"

definition proposal_key :: "u64 \<Rightarrow> u64 \<Rightarrow> string \<Rightarrow> addr \<Rightarrow> u128 \<Rightarrow> string" where
  "proposal_key chain_id nonce resource_id recipient amount =
     be_bytes 8 (unat chain_id) @ be_bytes 8 (unat nonce) @ resource_id @ recipient
       @ be_bytes 16 (unat amount)"

definition get_proposal_id ::
  "(string \<Rightarrow> string) \<Rightarrow> u64 \<Rightarrow> u64 \<Rightarrow> string \<Rightarrow> addr \<Rightarrow> u128 \<Rightarrow> string" where
  "get_proposal_id sha256 chain_id nonce resource_id recipient amount =
     hash_bridge sha256 ''proposalId'' (proposal_key chain_id nonce resource_id recipient amount)"

section \<open>error.rs and msg.rs\<close>

datatype bridge_error =
    Std_bridge std_error
  | Unauthorized_bridge
  | NotExist
  | RelayersLenNotMatch
  | InvalidAddress_bridge
  | Duplicate
  | AlreadyExecuted

record instantiate_msg_bridge =
  ib_admin :: addr
  ib_threshold :: u64
  ib_relayers :: "addr list"

datatype bridge_execute_msg =
    VoteProposal u64 u64 string addr u128
      \<comment> \<open>chain\_id, deposit\_nonce, resource\_id, recipient, amount\<close>
  | AddRelayer addr
  | RemoveRelayer addr
  | AddResourceIdToToken string addr
  | RemoveResourceId string
  | ChangeThreshold u64
  | TransferAdmin_bridge string

datatype bridge_query_msg =
    QBridgeInfo
  | QProposal u64 u64 string addr u128

text \<open>The message the bridge sends: \<open>Mint\<close> (recipient, amount) to a token contract.\<close>

datatype bridge_out = MintTo addr string u128

type_synonym 'a bridge_res = "(bridge_error, 'a) res"
type_synonym bridge_result = "(bridge_store \<times> bridge_out response) bridge_res"

section \<open>contract.rs\<close>

definition instantiate_bridge :: "instantiate_msg_bridge \<Rightarrow> bridge_store \<Rightarrow> bridge_result" where
  "instantiate_bridge msg s =
     (let s = s\<lparr>BRIDGE_VERSION := Some (''crates.io:bridge'', ''0.1.0'')\<rparr> in
      if ulen (ib_relayers msg) < ib_threshold msg then Inl (Err RelayersLenNotMatch)
      else Inr (s\<lparr>BRIDGE_INFO := Some \<lparr>bi_admin = ib_admin msg, bi_threshold = ib_threshold msg,
                  bi_relayers = ib_relayers msg\<rparr>\<rparr>, respond [] []))"

definition load_info :: "bridge_store \<Rightarrow> bridge_info bridge_res" where
  "load_info s = load_item (Std_bridge (NotFound ''bridge_info'')) (BRIDGE_INFO s)"

definition vote_attributes :: "u64 \<Rightarrow> proposal \<Rightarrow> attribute list" where
  "vote_attributes chain_id p =
     [(''action'', ''vote_proposal''), (''executed'', bool_to_string (pr_executed p)),
      (''recipient'', pr_recipient p), (''chain_id'', to_string chain_id),
      (''deposit_nonce'', to_string (pr_deposit_nonce p)), (''resource_id'', pr_resource_id p),
      (''amount'', to_string (pr_amount p))]"

definition execute_vote_proposal ::
  "(string \<Rightarrow> string) \<Rightarrow> message_info \<Rightarrow> u64 \<Rightarrow> u64 \<Rightarrow> string \<Rightarrow> addr \<Rightarrow> u128 \<Rightarrow> bridge_store
     \<Rightarrow> bridge_result" where
  "execute_vote_proposal sha256 info chain_id nonce resource_id recipient amount s =
     rbind (load_info s) (\<lambda>bi.
     if sender info \<notin> set (bi_relayers bi) then Inl (Err Unauthorized_bridge)
     else
     let i = get_proposal_id sha256 chain_id nonce resource_id recipient amount in
     rbind (if has (PROPOSALS s) i
            then load (Std_bridge (NotFound ''proposal'')) (PROPOSALS s) i
            else Inr \<lparr>pr_chain_id = chain_id, pr_deposit_nonce = nonce,
              pr_resource_id = resource_id, pr_recipient = recipient, pr_amount = amount,
              pr_executed = False, pr_voters = []\<rparr>) (\<lambda>p.
     if sender info \<in> set (pr_voters p) then Inl (Err Duplicate)
     else if pr_executed p then Inl (Err AlreadyExecuted)
     else
     let p = p\<lparr>pr_voters := pr_voters p @ [sender info]\<rparr> in
     rbind (if bi_threshold bi \<le> ulen (pr_voters p)
            then
              rbind (load (Std_bridge (NotFound ''token'')) (RESOURCE_ID_TO_TOKEN s)
                       (pr_resource_id p)) (\<lambda>token.
              Inr ([no_reply (MintTo token (pr_recipient p) (pr_amount p))],
                   p\<lparr>pr_executed := True\<rparr>))
            else Inr ([], p)) (\<lambda>(msgs, p).
     Inr (s\<lparr>PROPOSALS := fmupd i p (PROPOSALS s)\<rparr>, respond msgs (vote_attributes chain_id p)))))"

definition execute_add_relayer :: "message_info \<Rightarrow> addr \<Rightarrow> bridge_store \<Rightarrow> bridge_result" where
  "execute_add_relayer info relayer s =
     rbind (load_info s) (\<lambda>bi.
     if bi_admin bi \<noteq> sender info then Inl (Err Unauthorized_bridge)
     else if relayer \<in> set (bi_relayers bi) then Inl (Err Duplicate)
     else
       Inr (s\<lparr>BRIDGE_INFO := Some (bi\<lparr>bi_relayers := bi_relayers bi @ [relayer]\<rparr>)\<rparr>,
            respond [] [(''action'', ''add_relayer'')]))"

definition execute_remove_relayer :: "message_info \<Rightarrow> addr \<Rightarrow> bridge_store \<Rightarrow> bridge_result" where
  "execute_remove_relayer info relayer s =
     rbind (load_info s) (\<lambda>bi.
     if bi_admin bi \<noteq> sender info then Inl (Err Unauthorized_bridge)
     else if relayer \<notin> set (bi_relayers bi) then Inl (Err NotExist)
     else
     let bi = bi\<lparr>bi_relayers := retain (\<lambda>r. r \<noteq> relayer) (bi_relayers bi)\<rparr> in
     if ulen (bi_relayers bi) < bi_threshold bi then Inl (Err RelayersLenNotMatch)
     else Inr (s\<lparr>BRIDGE_INFO := Some bi\<rparr>, respond [] [(''action'', ''remove_relayer'')]))"

definition execute_add_resource_id_to_token ::
  "message_info \<Rightarrow> string \<Rightarrow> addr \<Rightarrow> bridge_store \<Rightarrow> bridge_result" where
  "execute_add_resource_id_to_token info resource_id token s =
     rbind (load_info s) (\<lambda>bi.
     if bi_admin bi \<noteq> sender info then Inl (Err Unauthorized_bridge)
     else if has (RESOURCE_ID_TO_TOKEN s) resource_id then Inl (Err Duplicate)
     else
       Inr (s\<lparr>RESOURCE_ID_TO_TOKEN := fmupd resource_id token (RESOURCE_ID_TO_TOKEN s)\<rparr>,
            respond [] [(''action'', ''add_resource_id_to_token'')]))"

definition execute_remove_resource_id ::
  "message_info \<Rightarrow> string \<Rightarrow> bridge_store \<Rightarrow> bridge_result" where
  "execute_remove_resource_id info resource_id s =
     rbind (load_info s) (\<lambda>bi.
     if bi_admin bi \<noteq> sender info then Inl (Err Unauthorized_bridge)
     else if \<not> has (RESOURCE_ID_TO_TOKEN s) resource_id then Inl (Err NotExist)
     else
       Inr (s\<lparr>RESOURCE_ID_TO_TOKEN := fmdrop resource_id (RESOURCE_ID_TO_TOKEN s)\<rparr>,
            respond [] [(''action'', ''remove_resource_id'')]))"

definition execute_change_threshold :: "message_info \<Rightarrow> u64 \<Rightarrow> bridge_store \<Rightarrow> bridge_result" where
  "execute_change_threshold info threshold s =
     rbind (load_info s) (\<lambda>bi.
     if bi_admin bi \<noteq> sender info then Inl (Err Unauthorized_bridge)
     else if ulen (bi_relayers bi) < threshold then Inl (Err RelayersLenNotMatch)
     else
       Inr (s\<lparr>BRIDGE_INFO := Some (bi\<lparr>bi_threshold := threshold\<rparr>)\<rparr>,
            respond [] [(''action'', ''change_threshold'')]))"

definition execute_transfer_admin_bridge ::
  "api \<Rightarrow> message_info \<Rightarrow> string \<Rightarrow> bridge_store \<Rightarrow> bridge_result" where
  "execute_transfer_admin_bridge api info new_admin s =
     rbind (load_info s) (\<lambda>bi.
     if bi_admin bi \<noteq> sender info then Inl (Err Unauthorized_bridge)
     else (case addr_validate api new_admin of
         Inr admin \<Rightarrow>
           Inr (s\<lparr>BRIDGE_INFO := Some (bi\<lparr>bi_admin := admin\<rparr>)\<rparr>,
                respond [] [(''action'', ''transfer_admin'')])
       | Inl _ \<Rightarrow> Inl (Err InvalidAddress_bridge)))"

fun execute_bridge ::
  "(string \<Rightarrow> string) \<Rightarrow> api \<Rightarrow> message_info \<Rightarrow> bridge_execute_msg \<Rightarrow> bridge_store \<Rightarrow> bridge_result" where
  "execute_bridge sha api info (VoteProposal c n rid rcp a) s =
     execute_vote_proposal sha info c n rid rcp a s"
| "execute_bridge sha api info (AddRelayer r) s = execute_add_relayer info r s"
| "execute_bridge sha api info (RemoveRelayer r) s = execute_remove_relayer info r s"
| "execute_bridge sha api info (AddResourceIdToToken rid t) s =
     execute_add_resource_id_to_token info rid t s"
| "execute_bridge sha api info (RemoveResourceId rid) s = execute_remove_resource_id info rid s"
| "execute_bridge sha api info (ChangeThreshold t) s = execute_change_threshold info t s"
| "execute_bridge sha api info (TransferAdmin_bridge a) s =
     execute_transfer_admin_bridge api info a s"

definition query_bridge_info :: "bridge_store \<Rightarrow> bridge_info bridge_res" where
  "query_bridge_info s = load_info s"

definition query_proposal ::
  "(string \<Rightarrow> string) \<Rightarrow> u64 \<Rightarrow> u64 \<Rightarrow> string \<Rightarrow> addr \<Rightarrow> u128 \<Rightarrow> bridge_store \<Rightarrow> proposal bridge_res" where
  "query_proposal sha256 chain_id nonce resource_id recipient amount s =
     load (Std_bridge (NotFound ''proposal'')) (PROPOSALS s)
       (get_proposal_id sha256 chain_id nonce resource_id recipient amount)"

definition query_bridge ::
  "(string \<Rightarrow> string) \<Rightarrow> bridge_query_msg \<Rightarrow> bridge_store \<Rightarrow> (bridge_info + proposal) bridge_res" where
  "query_bridge sha256 msg s = (case msg of
       QBridgeInfo \<Rightarrow> rbind (query_bridge_info s) (\<lambda>i. Inr (Inl i))
     | QProposal c n rid rcp a \<Rightarrow> rbind (query_proposal sha256 c n rid rcp a s) (\<lambda>p. Inr (Inr p)))"

definition migrate_bridge :: "bridge_store \<Rightarrow> bridge_result" where
  "migrate_bridge s =
     Inr (s\<lparr>BRIDGE_VERSION := Some (''crates.io:bridge'', ''0.1.0'')\<rparr>, respond [] [])"

end
