(* ===== verification/Bridge_Properties.thy ===== *)
theory Bridge_Properties
  imports Bridge
begin

text \<open>
  What the bridge guarantees: votes are by distinct relayers, a proposal is executed at most once
  and only with the votes of the threshold, an executed proposal is final, enough relayers get a
  proposal executed, and the identifier of a proposal does not separate resource and recipient.
\<close>

section \<open>Steps\<close>

definition proposal_or_new ::
  "(string \<Rightarrow> string) \<Rightarrow> u64 \<Rightarrow> u64 \<Rightarrow> string \<Rightarrow> addr \<Rightarrow> u128 \<Rightarrow> bridge_store \<Rightarrow> proposal" where
  "proposal_or_new sha c n rid rcp a s =
     (case fmlookup (PROPOSALS s) (get_proposal_id sha c n rid rcp a) of
        Some p \<Rightarrow> p
      | None \<Rightarrow> \<lparr>pr_chain_id = c, pr_deposit_nonce = n, pr_resource_id = rid, pr_recipient = rcp,
          pr_amount = a, pr_executed = False, pr_voters = []\<rparr>)"

definition voted :: "bridge_info \<Rightarrow> addr \<Rightarrow> proposal \<Rightarrow> proposal" where
  "voted bi who p = p\<lparr>pr_voters := pr_voters p @ [who],
     pr_executed := (bi_threshold bi \<le> ulen (pr_voters p @ [who]))\<rparr>"

lemma voted_simps [simp]:
  "pr_voters (voted bi who p) = pr_voters p @ [who]"
  "pr_executed (voted bi who p) \<longleftrightarrow> bi_threshold bi \<le> ulen (pr_voters p @ [who])"
  "pr_chain_id (voted bi who p) = pr_chain_id p"
  "pr_deposit_nonce (voted bi who p) = pr_deposit_nonce p"
  "pr_resource_id (voted bi who p) = pr_resource_id p"
  "pr_recipient (voted bi who p) = pr_recipient p" "pr_amount (voted bi who p) = pr_amount p"
  by (simp_all add: voted_def)

lemma not_executed_upd:
  "\<not> pr_executed p \<Longrightarrow> p\<lparr>pr_voters := v, pr_executed := False\<rparr> = p\<lparr>pr_voters := v\<rparr>"
  by (cases p) simp

lemma vote_ok:
  assumes "execute_vote_proposal sha info c n rid rcp a s = Inr (s', r)"
  obtains bi p where "BRIDGE_INFO s = Some bi" and "sender info \<in> set (bi_relayers bi)"
    and "p = proposal_or_new sha c n rid rcp a s"
    and "sender info \<notin> set (pr_voters p)" and "\<not> pr_executed p"
    and "s' = s\<lparr>PROPOSALS := fmupd (get_proposal_id sha c n rid rcp a) (voted bi (sender info) p)
           (PROPOSALS s)\<rparr>"
    and "bi_threshold bi \<le> ulen (pr_voters p @ [sender info]) \<Longrightarrow>
      \<exists>token. fmlookup (RESOURCE_ID_TO_TOKEN s) (pr_resource_id p) = Some token
        \<and> messages r = [no_reply (MintTo token (pr_recipient p) (pr_amount p))]"
    and "\<not> bi_threshold bi \<le> ulen (pr_voters p @ [sender info]) \<Longrightarrow> messages r = []"
proof -
  let ?i = "get_proposal_id sha c n rid rcp a" and ?p = "proposal_or_new sha c n rid rcp a s"
  have load: "(if has (PROPOSALS s) ?i then load e (PROPOSALS s) ?i
      else Inr \<lparr>pr_chain_id = c, pr_deposit_nonce = n, pr_resource_id = rid, pr_recipient = rcp,
          pr_amount = a, pr_executed = False, pr_voters = []\<rparr>) = (Inr ?p :: proposal bridge_res)" for e
    by (auto simp: proposal_or_new_def split: option.splits)
  note body = assms [unfolded execute_vote_proposal_def Let_def load rbind_Inr]
  obtain bi where bi: "BRIDGE_INFO s = Some bi"
    using body by (cases "BRIDGE_INFO s") (simp_all add: load_info_def)
  note body = body [unfolded load_info_def bi load_item_Some rbind_Inr]
  have guards: "sender info \<in> set (bi_relayers bi)" "sender info \<notin> set (pr_voters ?p)"
    "\<not> pr_executed ?p"
    using body by (auto split: if_splits)
  show ?thesis
  proof (rule that [OF bi guards(1) refl guards(2,3)])
    show "s' = s\<lparr>PROPOSALS := fmupd ?i (voted bi (sender info) ?p) (PROPOSALS s)\<rparr>"
      using body guards by (auto simp: rbind_eq_Inr voted_def not_executed_upd split: if_splits)
    show "\<exists>token. fmlookup (RESOURCE_ID_TO_TOKEN s) (pr_resource_id ?p) = Some token
        \<and> messages r = [no_reply (MintTo token (pr_recipient ?p) (pr_amount ?p))]"
      if "bi_threshold bi \<le> ulen (pr_voters ?p @ [sender info])"
      using body guards that by (auto simp: rbind_eq_Inr load_eq_Inr)
    show "messages r = []" if "\<not> bi_threshold bi \<le> ulen (pr_voters ?p @ [sender info])"
      using body guards that by auto
  qed
qed

text \<open>The other messages touch no proposal and send nothing; all of them are the admin's.\<close>

fun is_vote :: "bridge_execute_msg \<Rightarrow> bool" where
  "is_vote (VoteProposal c n rid rcp a) = True"
| "is_vote _ = False"

lemma bridge_admin_ok:
  assumes "execute_bridge sha api info msg s = Inr (s', r)"
    and "\<not> is_vote msg"
  shows "PROPOSALS s' = PROPOSALS s \<and> messages r = []
    \<and> (\<exists>bi. BRIDGE_INFO s = Some bi \<and> bi_admin bi = sender info)"
  using assms
  by (cases msg) (auto simp: execute_add_relayer_def execute_remove_relayer_def
      execute_add_resource_id_to_token_def execute_remove_resource_id_def execute_change_threshold_def
      execute_transfer_admin_bridge_def load_info_def Let_def res_simps split: sum.splits)

section \<open>The invariant\<close>

definition proposal_ok :: "(string \<Rightarrow> string) \<Rightarrow> string \<Rightarrow> proposal \<Rightarrow> bool" where
  "proposal_ok sha i p \<longleftrightarrow> distinct (pr_voters p)
     \<and> i = get_proposal_id sha (pr_chain_id p) (pr_deposit_nonce p) (pr_resource_id p)
             (pr_recipient p) (pr_amount p)"

definition quorum_possible :: "bridge_store \<Rightarrow> bool" where
  "quorum_possible s \<longleftrightarrow>
     (\<exists>bi. BRIDGE_INFO s = Some bi \<and> unat (bi_threshold bi) \<le> length (bi_relayers bi))"

definition bridge_inv :: "(string \<Rightarrow> string) \<Rightarrow> bridge_store \<Rightarrow> bool" where
  "bridge_inv sha s \<longleftrightarrow> quorum_possible s
     \<and> (\<forall>i p. fmlookup (PROPOSALS s) i = Some p \<longrightarrow> proposal_ok sha i p)"

lemma ulen_le: "unat (ulen xs :: 'a::len word) \<le> length xs"
  by (simp add: ulen_def unsigned_of_nat take_bit_eq_mod)

lemma threshold_le_length: "t \<le> (ulen xs :: u64) \<Longrightarrow> unat t \<le> length xs"
  using ulen_le [of xs] by (meson le_trans word_le_nat_alt)

lemma proposal_or_new_ok:
  assumes "bridge_inv sha s"
  shows "proposal_ok sha (get_proposal_id sha c n rid rcp a) (proposal_or_new sha c n rid rcp a s)"
  using assms by (auto simp: proposal_or_new_def bridge_inv_def proposal_ok_def split: option.splits)

lemma vote_inv:
  assumes "execute_vote_proposal sha info c n rid rcp a s = Inr (s', r)" and "bridge_inv sha s"
  shows "bridge_inv sha s'"
  using assms(1)
proof (rule vote_ok)
  fix bi p
  let ?i = "get_proposal_id sha c n rid rcp a"
  assume p: "p = proposal_or_new sha c n rid rcp a s" "sender info \<notin> set (pr_voters p)"
    and s': "s' = s\<lparr>PROPOSALS := fmupd ?i (voted bi (sender info) p) (PROPOSALS s)\<rparr>"
  have "proposal_ok sha ?i (voted bi (sender info) p)"
    using proposal_or_new_ok [OF assms(2), of c n rid rcp a] p by (simp add: proposal_ok_def)
  with assms(2) show ?thesis by (auto simp: s' bridge_inv_def quorum_possible_def)
qed

lemma admin_quorum:
  assumes "execute_bridge sha api info msg s = Inr (s', r)"
    and "\<not> is_vote msg" and "quorum_possible s"
  shows "quorum_possible s'"
  using assms
  by (cases msg) (auto simp: execute_add_relayer_def execute_remove_relayer_def
      execute_add_resource_id_to_token_def execute_remove_resource_id_def execute_change_threshold_def
      execute_transfer_admin_bridge_def load_info_def Let_def res_simps quorum_possible_def not_less
      threshold_le_length split: sum.splits)

lemma execute_bridge_inv:
  assumes "execute_bridge sha api info msg s = Inr (s', r)" and "bridge_inv sha s"
  shows "bridge_inv sha s'"
proof (cases "is_vote msg")
  case True
  with assms show ?thesis by (cases msg) (auto intro: vote_inv)
next
  case False
  from bridge_admin_ok [OF assms(1) False] admin_quorum [OF assms(1) False] assms(2)
  show ?thesis by (auto simp: bridge_inv_def)
qed

lemma instantiate_bridge_inv: "instantiate_bridge msg empty_bridge = Inr (s, r) \<Longrightarrow> bridge_inv sha s"
  by (auto simp: instantiate_bridge_def empty_bridge_def bridge_inv_def quorum_possible_def Let_def
      res_simps not_less threshold_le_length)

inductive bridge_reachable :: "(string \<Rightarrow> string) \<Rightarrow> api \<Rightarrow> bridge_store \<Rightarrow> bool" for sha api where
  deployed: "instantiate_bridge msg empty_bridge = Inr (s, r) \<Longrightarrow> bridge_reachable sha api s"
| called: "bridge_reachable sha api s \<Longrightarrow>
    bridge_reachable sha api (commit s (execute_bridge sha api info msg s))"
| migrated: "bridge_reachable sha api s \<Longrightarrow> bridge_reachable sha api (commit s (migrate_bridge s))"

lemma bridge_reachable_inv: "bridge_reachable sha api s \<Longrightarrow> bridge_inv sha s"
proof (induction rule: bridge_reachable.induct)
  case (deployed msg s r)
  then show ?case by (rule instantiate_bridge_inv)
next
  case (called s info msg)
  then show ?case by (auto intro: commit_invariant execute_bridge_inv)
next
  case (migrated s)
  then show ?case by (simp add: migrate_bridge_def bridge_inv_def quorum_possible_def)
qed

section \<open>Runs\<close>

text \<open>
  A run of the bridge over any calls, and the identifiers of the proposals whose mint message it
  sent, in order.
\<close>

definition executes :: "bridge_store \<Rightarrow> string \<Rightarrow> bool" where
  "executes s i \<longleftrightarrow> (\<exists>p. fmlookup (PROPOSALS s) i = Some p \<and> pr_executed p)"

fun minted_by :: "(string \<Rightarrow> string) \<Rightarrow> bridge_execute_msg \<Rightarrow> bridge_result \<Rightarrow> string list" where
  "minted_by sha (VoteProposal c n rid rcp a) (Inr (s, r)) =
     map (\<lambda>_. get_proposal_id sha c n rid rcp a) (messages r)"
| "minted_by sha _ _ = []"

fun run_bridge ::
  "(string \<Rightarrow> string) \<Rightarrow> api \<Rightarrow> (message_info \<times> bridge_execute_msg) list \<Rightarrow> bridge_store
     \<Rightarrow> bridge_store \<times> string list" where
  "run_bridge sha api [] s = (s, [])"
| "run_bridge sha api ((info, msg) # calls) s =
     (let res = execute_bridge sha api info msg s;
          (s', ids) = run_bridge sha api calls (commit s res) in
      (s', minted_by sha msg res @ ids))"

lemma vote_minted:
  assumes "execute_vote_proposal sha info c n rid rcp a s = Inr (s', r)"
  defines "i \<equiv> get_proposal_id sha c n rid rcp a"
  shows "\<not> executes s i" and "executes s' i \<longleftrightarrow> messages r \<noteq> []" and "length (messages r) \<le> 1"
    and "j \<noteq> i \<Longrightarrow> executes s' j = executes s j"
proof -
  from assms(1) have "\<not> executes s i \<and> (executes s' i \<longleftrightarrow> messages r \<noteq> [])
    \<and> length (messages r) \<le> 1 \<and> (j \<noteq> i \<longrightarrow> executes s' j = executes s j)"
  proof (rule vote_ok)
    fix bi p
    assume p: "p = proposal_or_new sha c n rid rcp a s" "\<not> pr_executed p"
      and s': "s' = s\<lparr>PROPOSALS := fmupd (get_proposal_id sha c n rid rcp a)
        (voted bi (sender info) p) (PROPOSALS s)\<rparr>"
      and yes: "bi_threshold bi \<le> ulen (pr_voters p @ [sender info]) \<Longrightarrow>
        \<exists>token. fmlookup (RESOURCE_ID_TO_TOKEN s) (pr_resource_id p) = Some token
        \<and> messages r = [no_reply (MintTo token (pr_recipient p) (pr_amount p))]"
      and no: "\<not> bi_threshold bi \<le> ulen (pr_voters p @ [sender info]) \<Longrightarrow> messages r = []"
    from p have "\<not> executes s i"
      by (auto simp: executes_def i_def proposal_or_new_def)
    moreover have "(executes s' i \<longleftrightarrow> messages r \<noteq> []) \<and> length (messages r) \<le> 1"
      using yes no
      by (cases "bi_threshold bi \<le> ulen (pr_voters p @ [sender info])")
        (auto simp: s' i_def executes_def)
    moreover have "j \<noteq> i \<longrightarrow> executes s' j = executes s j"
      by (simp add: s' i_def executes_def)
    ultimately show ?thesis by blast
  qed
  then show "\<not> executes s i" "executes s' i \<longleftrightarrow> messages r \<noteq> []" "length (messages r) \<le> 1"
    "j \<noteq> i \<Longrightarrow> executes s' j = executes s j" by simp_all
qed

text \<open>One call: it sends a mint message only for a proposal that was not executed and now is.\<close>

lemma minted_by_step:
  fixes sha api info msg s
  defines "res \<equiv> execute_bridge sha api info msg s"
  shows "distinct (minted_by sha msg res)"
    and "j \<in> set (minted_by sha msg res) \<Longrightarrow> \<not> executes s j"
    and "executes (commit s res) j \<longleftrightarrow> executes s j \<or> j \<in> set (minted_by sha msg res)"
proof -
  have "distinct (minted_by sha msg res)
    \<and> (j \<in> set (minted_by sha msg res) \<longrightarrow> \<not> executes s j)
    \<and> (executes (commit s res) j \<longleftrightarrow> executes s j \<or> j \<in> set (minted_by sha msg res))"
  proof (cases res)
    case (Inl e)
    then show ?thesis by (cases msg) simp_all
  next
    case (Inr sr)
    obtain s' r where sr: "sr = (s', r)" by fastforce
    show ?thesis
    proof (cases "is_vote msg")
      case False
      with Inr sr have "PROPOSALS s' = PROPOSALS s"
        using bridge_admin_ok by (metis res_def)
      with False Inr sr show ?thesis by (cases msg) (simp_all add: executes_def)
    next
      case True
      then obtain c n rid rcp a where msg: "msg = VoteProposal c n rid rcp a" by (cases msg) auto
      with Inr sr have "execute_vote_proposal sha info c n rid rcp a s = Inr (s', r)"
        by (simp add: res_def)
      note v = vote_minted [OF this]
      from v(3) consider "messages r = []" | m where "messages r = [m]"
        by (cases "messages r") auto
      then show ?thesis
        using v(1,2) v(4) [of j] msg Inr sr by cases (auto simp: res_def)
    qed
  qed
  then show "distinct (minted_by sha msg res)"
    "j \<in> set (minted_by sha msg res) \<Longrightarrow> \<not> executes s j"
    "executes (commit s res) j \<longleftrightarrow> executes s j \<or> j \<in> set (minted_by sha msg res)" by simp_all
qed

lemma run_bridge_once:
  assumes "run_bridge sha api calls s = (s', ids)"
  shows "distinct ids \<and> (\<forall>j \<in> set ids. \<not> executes s j)
    \<and> (\<forall>j. executes s' j \<longleftrightarrow> executes s j \<or> j \<in> set ids)"
  using assms
proof (induction calls arbitrary: s ids)
  case (Cons call calls)
  obtain info msg where call: "call = (info, msg)" by fastforce
  let ?res = "execute_bridge sha api info msg s"
  from Cons.prems call obtain ids' where run: "run_bridge sha api calls (commit s ?res) = (s', ids')"
    and ids: "ids = minted_by sha msg ?res @ ids'"
    by (auto simp: Let_def split: prod.splits)
  note IH = Cons.IH [OF run]
  note st = minted_by_step [where sha = sha and api = api and info = info and msg = msg and s = s]
  from IH st ids show ?case by auto
qed simp

section \<open>Enough votes execute a proposal\<close>

lemma ulen_exact: "length xs < 2 ^ LENGTH('a) \<Longrightarrow> unat (ulen xs :: 'a::len word) = length xs"
  by (simp add: ulen_def unsigned_of_nat take_bit_eq_mod)

lemma vote_accepted:
  assumes bi: "BRIDGE_INFO s = Some bi" "sender info \<in> set (bi_relayers bi)"
    and p: "p = proposal_or_new sha c n rid rcp a s" "sender info \<notin> set (pr_voters p)" "\<not> pr_executed p"
    and tok: "fmlookup (RESOURCE_ID_TO_TOKEN s) (pr_resource_id p) = Some token"
  shows "\<exists>r. execute_vote_proposal sha info c n rid rcp a s
      = Inr (s\<lparr>PROPOSALS := fmupd (get_proposal_id sha c n rid rcp a) (voted bi (sender info) p)
          (PROPOSALS s)\<rparr>, r)
    \<and> messages r = (if bi_threshold bi \<le> ulen (pr_voters p @ [sender info])
        then [no_reply (MintTo token (pr_recipient p) (pr_amount p))] else [])"
proof -
  let ?i = "get_proposal_id sha c n rid rcp a"
  have load: "(if has (PROPOSALS s) ?i then load e (PROPOSALS s) ?i
      else Inr \<lparr>pr_chain_id = c, pr_deposit_nonce = n, pr_resource_id = rid, pr_recipient = rcp,
          pr_amount = a, pr_executed = False, pr_voters = []\<rparr>) = (Inr p :: proposal bridge_res)" for e
    using p(1) by (auto simp: proposal_or_new_def split: option.splits)
  show ?thesis
    unfolding execute_vote_proposal_def Let_def load rbind_Inr
    using bi p(2,3) tok by (auto simp: load_info_def voted_def not_executed_upd)
qed

definition votes_by :: "u64 \<Rightarrow> u64 \<Rightarrow> string \<Rightarrow> addr \<Rightarrow> u128 \<Rightarrow> addr list
    \<Rightarrow> (message_info \<times> bridge_execute_msg) list" where
  "votes_by c n rid rcp a vs = map (\<lambda>v. (\<lparr>sender = v, funds = []\<rparr>, VoteProposal c n rid rcp a)) vs"

lemma votes_run:
  assumes "BRIDGE_INFO s = Some bi" and "set vs \<subseteq> set (bi_relayers bi)"
    and "p = proposal_or_new sha c n rid rcp a s" and "\<not> pr_executed p"
    and "fmlookup (RESOURCE_ID_TO_TOKEN s) (pr_resource_id p) = Some token"
    and "distinct (pr_voters p @ vs)" and "vs \<noteq> []"
    and "length (pr_voters p @ vs) = unat (bi_threshold bi)"
  shows "\<exists>s'. run_bridge sha api (votes_by c n rid rcp a vs) s
      = (s', [get_proposal_id sha c n rid rcp a])
    \<and> fmlookup (PROPOSALS s') (get_proposal_id sha c n rid rcp a)
      = Some (p\<lparr>pr_voters := pr_voters p @ vs, pr_executed := True\<rparr>)"
  using assms
proof (induction vs arbitrary: s p)
  case (Cons v vs)
  let ?i = "get_proposal_id sha c n rid rcp a" and ?info = "\<lparr>sender = v, funds = []\<rparr>"
  let ?s1 = "s\<lparr>PROPOSALS := fmupd ?i (voted bi v p) (PROPOSALS s)\<rparr>"
  let ?t = "bi_threshold bi \<le> ulen (pr_voters p @ [v])"
  have lt: "length (pr_voters p @ v # vs) < 2 ^ 64"
    using Cons.prems(8) unsigned_less [of "bi_threshold bi", where ?'a = nat] by simp
  then have "unat (ulen (pr_voters p @ [v]) :: u64) = Suc (length (pr_voters p))"
    by (subst ulen_exact) simp_all
  then have t: "?t \<longleftrightarrow> vs = []"
    using Cons.prems(8) by (cases vs) (auto simp: word_le_nat_alt)
  obtain r where r: "execute_vote_proposal sha ?info c n rid rcp a s = Inr (?s1, r)"
    and m: "messages r = (if ?t then [no_reply (MintTo token (pr_recipient p) (pr_amount p))] else [])"
    using vote_accepted [of s bi ?info p sha c n rid rcp a token] Cons.prems by auto
  have unfold: "run_bridge sha api (votes_by c n rid rcp a (v # vs)) s =
      (let (s', ids) = run_bridge sha api (votes_by c n rid rcp a vs) ?s1
       in (s', (if ?t then [?i] else []) @ ids))"
    using r m by (simp add: votes_by_def Let_def split: prod.splits)
  show ?case
  proof (cases "vs = []")
    case True
    with t unfold show ?thesis by (simp add: votes_by_def voted_def)
  next
    case False
    have new: "voted bi v p = proposal_or_new sha c n rid rcp a ?s1"
      by (simp add: proposal_or_new_def)
    have "\<exists>s'. run_bridge sha api (votes_by c n rid rcp a vs) ?s1 = (s', [?i])
      \<and> fmlookup (PROPOSALS s') ?i = Some ((voted bi v p)\<lparr>pr_voters := pr_voters (voted bi v p) @ vs,
          pr_executed := True\<rparr>)"
      by (rule Cons.IH [OF _ _ new]) (use Cons.prems False t in simp_all)
    with unfold t False show ?thesis by (auto simp: voted_def)
  qed
qed simp

section \<open>Properties\<close>

definition demo_bridge :: bridge_store where
  "demo_bridge = \<lparr>BRIDGE_VERSION = Some (''crates.io:bridge'', ''0.1.0''),
     BRIDGE_INFO = Some \<lparr>bi_admin = ''gov'', bi_threshold = 2, bi_relayers = [''r1'', ''r2'', ''r3'']\<rparr>,
     PROPOSALS = fmempty, RESOURCE_ID_TO_TOKEN = fmupd ''res'' ''token'' fmempty\<rparr>"

definition demo_id :: string where
  "demo_id = get_proposal_id id 1 7 ''res'' ''bob'' 50"

definition demo_voted :: bridge_store where
  "demo_voted = demo_bridge\<lparr>PROPOSALS := fmupd demo_id \<lparr>pr_chain_id = 1, pr_deposit_nonce = 7,
     pr_resource_id = ''res'', pr_recipient = ''bob'', pr_amount = 50, pr_executed = False,
     pr_voters = [''r1'']\<rparr> fmempty\<rparr>"

lemma demo_first_vote:
  "\<exists>r. execute_bridge id accept_all \<lparr>sender = ''r1'', funds = []\<rparr> (VoteProposal 1 7 ''res'' ''bob'' 50)
     demo_bridge = Inr (demo_voted, r)"
  by (simp add: execute_vote_proposal_def load_info_def demo_voted_def demo_bridge_def demo_id_def
      Let_def ulen_def word_le_nat_alt)

text \<open>C10: in a run of any calls of any senders from any storage, the bridge sends at most one mint
  message for each proposal identifier, and none for a proposal already executed; afterwards the
  executed proposals are the ones before and the ones it minted.\<close>

theorem bridge_mints_once:
  assumes "run_bridge sha api calls s = (s', ids)"
  shows "distinct ids \<and> (\<forall>j \<in> set ids. \<not> executes s j)
    \<and> (\<forall>j. executes s' j \<longleftrightarrow> executes s j \<or> j \<in> set ids)"
  using assms by (rule run_bridge_once)

theorem bridge_mints_once_witness:
  "\<exists>s'. fst (run_bridge id accept_all (votes_by 1 7 ''res'' ''bob'' 50 [''r1'', ''r1'']) demo_bridge) = s'
    \<and> (\<forall>j. executes s' j \<longleftrightarrow> executes demo_bridge j
      \<or> j \<in> set (snd (run_bridge id accept_all (votes_by 1 7 ''res'' ''bob'' 50 [''r1'', ''r1'']) demo_bridge)))"
  using bridge_mints_once [OF prod.collapse [symmetric],
      of id accept_all "votes_by 1 7 ''res'' ''bob'' 50 [''r1'', ''r1'']" demo_bridge] by simp

text \<open>C11: a call that sends a mint message is a vote of a current relayer, who had not voted
  before; with that vote the distinct voters reach the threshold, the message goes to the token
  registered for the resource of the proposal, with its recipient and amount.\<close>

theorem bridge_mint_needs_quorum:
  assumes "execute_bridge sha api info msg s = Inr (s', r)" and "messages r \<noteq> []"
    and "bridge_inv sha s"
  shows "\<exists>c n rid rcp a bi p token. msg = VoteProposal c n rid rcp a \<and> BRIDGE_INFO s = Some bi
    \<and> sender info \<in> set (bi_relayers bi)
    \<and> fmlookup (PROPOSALS s') (get_proposal_id sha c n rid rcp a) = Some p
    \<and> distinct (pr_voters p) \<and> last (pr_voters p) = sender info
    \<and> bi_threshold bi \<le> ulen (pr_voters p)
    \<and> fmlookup (RESOURCE_ID_TO_TOKEN s) (pr_resource_id p) = Some token
    \<and> messages r = [no_reply (MintTo token (pr_recipient p) (pr_amount p))]"
proof -
  from assms(1,2) have "is_vote msg" using bridge_admin_ok by blast
  then obtain c n rid rcp a where msg: "msg = VoteProposal c n rid rcp a" by (cases msg) auto
  with assms(1) have "execute_vote_proposal sha info c n rid rcp a s = Inr (s', r)" by simp
  then show ?thesis
  proof (rule vote_ok)
    fix bi p
    let ?i = "get_proposal_id sha c n rid rcp a"
    assume bi: "BRIDGE_INFO s = Some bi" "sender info \<in> set (bi_relayers bi)"
      and p: "p = proposal_or_new sha c n rid rcp a s" "sender info \<notin> set (pr_voters p)"
      and s': "s' = s\<lparr>PROPOSALS := fmupd ?i (voted bi (sender info) p) (PROPOSALS s)\<rparr>"
      and yes: "bi_threshold bi \<le> ulen (pr_voters p @ [sender info]) \<Longrightarrow>
        \<exists>token. fmlookup (RESOURCE_ID_TO_TOKEN s) (pr_resource_id p) = Some token
        \<and> messages r = [no_reply (MintTo token (pr_recipient p) (pr_amount p))]"
      and no: "\<not> bi_threshold bi \<le> ulen (pr_voters p @ [sender info]) \<Longrightarrow> messages r = []"
    from no assms(2) have t: "bi_threshold bi \<le> ulen (pr_voters p @ [sender info])" by blast
    from proposal_or_new_ok [OF assms(3)] p have d: "distinct (pr_voters p)"
      by (simp add: proposal_ok_def)
    from yes [OF t] obtain token
      where tok: "fmlookup (RESOURCE_ID_TO_TOKEN s) (pr_resource_id p) = Some token"
        and m: "messages r = [no_reply (MintTo token (pr_recipient p) (pr_amount p))]" by blast
    show ?thesis
      by (rule exI [of _ c], rule exI [of _ n], rule exI [of _ rid],
          rule exI [of _ rcp], rule exI [of _ a], rule exI [of _ bi],
          rule exI [of _ "voted bi (sender info) p"], rule exI [of _ token])
        (simp add: msg bi p(2) s' t d tok m)
  qed
qed

definition demo_info2 :: message_info where
  "demo_info2 = \<lparr>sender = ''r2'', funds = []\<rparr>"

lemma demo_voted_inv: "bridge_inv id demo_voted"
  by (simp add: bridge_inv_def quorum_possible_def proposal_ok_def demo_voted_def demo_bridge_def
      demo_id_def)

lemma demo_second_vote:
  "\<exists>s' r. execute_bridge id accept_all demo_info2 (VoteProposal 1 7 ''res'' ''bob'' 50) demo_voted
     = Inr (s', r) \<and> messages r = [no_reply (MintTo ''token'' ''bob'' 50)]"
  by (simp add: execute_vote_proposal_def load_info_def demo_voted_def demo_bridge_def demo_id_def
      demo_info2_def Let_def ulen_def word_le_nat_alt)

theorem bridge_mint_needs_quorum_witness:
  "\<exists>(s' :: bridge_store) (r :: bridge_out response) c n rid rcp a bi p token. VoteProposal 1 7 ''res'' ''bob'' 50 = VoteProposal c n rid rcp a
    \<and> BRIDGE_INFO demo_voted = Some bi \<and> sender demo_info2 \<in> set (bi_relayers bi)
    \<and> fmlookup (PROPOSALS s') (get_proposal_id id c n rid rcp a) = Some p
    \<and> distinct (pr_voters p) \<and> last (pr_voters p) = sender demo_info2
    \<and> bi_threshold bi \<le> ulen (pr_voters p)
    \<and> fmlookup (RESOURCE_ID_TO_TOKEN demo_voted) (pr_resource_id p) = Some token
    \<and> messages r = [no_reply (MintTo token (pr_recipient p) (pr_amount p))]"
proof -
  obtain s' r where v: "execute_bridge id accept_all demo_info2 (VoteProposal 1 7 ''res'' ''bob'' 50)
      demo_voted = Inr (s', r)" and m: "messages r \<noteq> []"
    using demo_second_vote by fastforce
  show ?thesis
    by (rule exI [of _ s'], rule exI [of _ r]) (rule bridge_mint_needs_quorum [OF v m demo_voted_inv])
qed

text \<open>C13: in every reachable storage the votes of each proposal are by distinct relayers, the
  proposal stands under the identifier of its own deposit, and the threshold never exceeds the
  number of relayers.\<close>

theorem bridge_reachable_sound:
  assumes "bridge_reachable sha api s"
  shows "quorum_possible s \<and> (\<forall>i p. fmlookup (PROPOSALS s) i = Some p \<longrightarrow> proposal_ok sha i p)"
  using bridge_reachable_inv [OF assms] by (simp add: bridge_inv_def)

theorem bridge_reachable_sound_witness:
  "quorum_possible (empty_bridge\<lparr>BRIDGE_VERSION := Some (''crates.io:bridge'', ''0.1.0''),
     BRIDGE_INFO := Some \<lparr>bi_admin = ''gov'', bi_threshold = 1, bi_relayers = [''r1'']\<rparr>\<rparr>)"
proof -
  have "instantiate_bridge \<lparr>ib_admin = ''gov'', ib_threshold = 1, ib_relayers = [''r1'']\<rparr> empty_bridge
    = Inr (empty_bridge\<lparr>BRIDGE_VERSION := Some (''crates.io:bridge'', ''0.1.0''),
     BRIDGE_INFO := Some \<lparr>bi_admin = ''gov'', bi_threshold = 1, bi_relayers = [''r1'']\<rparr>\<rparr>, respond [] [])"
    by (simp add: instantiate_bridge_def ulen_def Let_def)
  from bridge_reachable_sound [OF bridge_reachable.deployed [OF this]] show ?thesis by blast
qed

text \<open>C12: when as many distinct relayers as the threshold vote for a deposit that has no proposal
  yet, no vote is refused, and exactly one mint message is sent, with the last vote: the proposal
  ends executed with these voters in order.\<close>

theorem bridge_quorum_executes:
  assumes "BRIDGE_INFO s = Some bi" and "set vs \<subseteq> set (bi_relayers bi)" and "distinct vs"
    and "vs \<noteq> []" and "length vs = unat (bi_threshold bi)"
    and "fmlookup (PROPOSALS s) (get_proposal_id sha c n rid rcp a) = None"
    and "fmlookup (RESOURCE_ID_TO_TOKEN s) rid = Some token"
  shows "\<exists>s'. run_bridge sha api (votes_by c n rid rcp a vs) s
      = (s', [get_proposal_id sha c n rid rcp a])
    \<and> fmlookup (PROPOSALS s') (get_proposal_id sha c n rid rcp a)
      = Some \<lparr>pr_chain_id = c, pr_deposit_nonce = n, pr_resource_id = rid, pr_recipient = rcp,
          pr_amount = a, pr_executed = True, pr_voters = vs\<rparr>"
  using votes_run [OF assms(1,2) refl, of sha c n rid rcp a token api] assms(3-7)
  by (simp add: proposal_or_new_def)

theorem bridge_quorum_executes_witness:
  "\<exists>s'. run_bridge id accept_all (votes_by 1 7 ''res'' ''bob'' 50 [''r3'', ''r1'']) demo_bridge
      = (s', [get_proposal_id id 1 7 ''res'' ''bob'' 50])
    \<and> fmlookup (PROPOSALS s') (get_proposal_id id 1 7 ''res'' ''bob'' 50)
      = Some \<lparr>pr_chain_id = 1, pr_deposit_nonce = 7, pr_resource_id = ''res'', pr_recipient = ''bob'',
          pr_amount = 50, pr_executed = True, pr_voters = [''r3'', ''r1'']\<rparr>"
  by (rule bridge_quorum_executes [where token = "''token''" and bi =
        "\<lparr>bi_admin = ''gov'', bi_threshold = 2, bi_relayers = [''r1'', ''r2'', ''r3'']\<rparr>"])
    (simp_all add: demo_bridge_def)

text \<open>C14: the identifier of a proposal does not separate the resource from the recipient: two
  deposits that differ only in where the resource ends and the recipient begins share one proposal,
  whatever the hash, so that once one of them is executed every vote for the other is refused.\<close>

theorem bridge_id_confuses_deposits:
  assumes "rid1 @ rcp1 = rid2 @ rcp2"
  shows "get_proposal_id sha c n rid1 rcp1 a = get_proposal_id sha c n rid2 rcp2 a
    \<and> (executes s (get_proposal_id sha c n rid1 rcp1 a) \<longrightarrow>
      (\<exists>e. execute_bridge sha api info (VoteProposal c n rid2 rcp2 a) s = Inl e))"
proof -
  have eq: "get_proposal_id sha c n rid1 rcp1 a = get_proposal_id sha c n rid2 rcp2 a"
    unfolding get_proposal_id_def proposal_key_def by (metis append_assoc assms)
  have "\<exists>e. execute_bridge sha api info (VoteProposal c n rid2 rcp2 a) s = Inl e"
    if "executes s (get_proposal_id sha c n rid1 rcp1 a)"
  proof (cases "execute_bridge sha api info (VoteProposal c n rid2 rcp2 a) s")
    case (Inr sr)
    obtain s' r where "sr = (s', r)" by fastforce
    with Inr have "execute_vote_proposal sha info c n rid2 rcp2 a s = Inr (s', r)" by simp
    from vote_minted(1) [OF this] that eq show ?thesis by simp
  qed simp
  with eq show ?thesis by blast
qed

theorem bridge_id_confuses_deposits_witness:
  "get_proposal_id id 1 7 ''asset'' ''xbob'' 50 = get_proposal_id id 1 7 ''assetx'' ''bob'' 50"
  by (rule bridge_id_confuses_deposits [THEN conjunct1]) simp

end
