(* ===== verification/Bridge_System.thy ===== *)
theory Bridge_System
  imports Share_Token Bridge_Properties
begin

text \<open>
  The bridge and the token contracts it mints, as one system: a vote that executes a proposal sends
  one mint message, which the host delivers to the token contract in the same transaction; a token
  that refuses it undoes the vote. The bridge is a client of \<open>share_token\<close>, like the stake manager.
  The result is that the supply of a bridged token never exceeds the deposits paid out in it and what
  other minters minted, over all transactions.
\<close>

section \<open>Transactions\<close>

record bridged =
  br_bridge :: bridge_store
  br_tokens :: tokens

datatype bridged_op =
    CallBridge env message_info bridge_execute_msg
  | UpgradeBridge
  | CreateBridged addr string string u8 string  \<comment> \<open>address, name, symbol, decimals, mint admin\<close>
  | CallBridged addr env message_info lsd_execute_msg
  | UpgradeBridged addr "string version_check" "string \<Rightarrow> string \<Rightarrow> bool"

fun deliver_mint :: "api \<Rightarrow> addr \<Rightarrow> env \<Rightarrow> bridge_out \<Rightarrow> tokens \<Rightarrow> tokens option" where
  "deliver_mint api br env (MintTo t rc n) toks = Option.bind (fmlookup toks t) (\<lambda>l.
     map_option (\<lambda>l'. fmupd t l' toks) (order_call api env br t (OrderMint rc n) l))"

definition settle_bridge ::
  "api \<Rightarrow> addr \<Rightarrow> env \<Rightarrow> tokens \<Rightarrow> bridge_result \<Rightarrow> bridged option" where
  "settle_bridge api br env toks res = (case res of
       Inl _ \<Rightarrow> None
     | Inr (s, r) \<Rightarrow> map_option (\<lambda>toks. \<lparr>br_bridge = s, br_tokens = toks\<rparr>)
         (calls (deliver_mint api br env) (map sm_msg (messages r)) toks))"

text \<open>One transaction at the bridge \<open>br\<close>, the address that the new tokens name as their minter.\<close>

fun bridged_apply ::
  "(string \<Rightarrow> string) \<Rightarrow> api \<Rightarrow> addr \<Rightarrow> bridged_op \<Rightarrow> bridged \<Rightarrow> bridged option" where
  "bridged_apply sha api br (CallBridge env info m) W =
     settle_bridge api br env (br_tokens W) (execute_bridge sha api info m (br_bridge W))"
| "bridged_apply sha api br UpgradeBridge W =
     (case migrate_bridge (br_bridge W) of Inl _ \<Rightarrow> None | Inr (s, _) \<Rightarrow> Some (W\<lparr>br_bridge := s\<rparr>))"
| "bridged_apply sha api br (CreateBridged t nm sy dec adm) W =
     (if has (br_tokens W) t then None
      else (case instantiate_lsd api (new_token_msg nm sy dec adm br) empty_lsd of
          Inl _ \<Rightarrow> None | Inr (l, _) \<Rightarrow> Some (W\<lparr>br_tokens := fmupd t l (br_tokens W)\<rparr>)))"
| "bridged_apply sha api br (CallBridged t env info msg) W =
     Option.bind (fmlookup (br_tokens W) t) (\<lambda>l.
     map_option (\<lambda>l'. W\<lparr>br_tokens := fmupd t l' (br_tokens W)\<rparr>) (call_token api env t info msg l))"
| "bridged_apply sha api br (UpgradeBridged t ensure lt) W =
     Option.bind (fmlookup (br_tokens W) t) (\<lambda>l.
     map_option (\<lambda>l'. W\<lparr>br_tokens := fmupd t l' (br_tokens W)\<rparr>) (upgrade_token ensure lt l))"

section \<open>What was paid and minted\<close>

text \<open>
  The deposits that a call pays out, as the messages of the handler say: the identifier of the
  proposal, the token and the amount.
\<close>

type_synonym payments = "(string \<times> addr \<times> u128) list"

fun deposit_paid :: "(string \<Rightarrow> string) \<Rightarrow> api \<Rightarrow> bridged_op \<Rightarrow> bridged \<Rightarrow> payments" where
  "deposit_paid sha api (CallBridge env info (VoteProposal c n rid rcp a)) W =
     (case execute_bridge sha api info (VoteProposal c n rid rcp a) (br_bridge W) of
        Inl _ \<Rightarrow> []
      | Inr (s, r) \<Rightarrow> map (\<lambda>m. case sm_msg m of
          MintTo t _ k \<Rightarrow> (get_proposal_id sha c n rid rcp a, t, k)) (messages r))"
| "deposit_paid sha api _ _ = []"

definition paid_to :: "addr \<Rightarrow> payments \<Rightarrow> nat" where
  "paid_to t P = (\<Sum>(i, u, n)\<leftarrow>P. if u = t then unat n else 0)"

text \<open>What the accepted calls of a token by others than the bridge mint, and the minters they add.\<close>

fun direct_mint :: "addr \<Rightarrow> bridged_op \<Rightarrow> nat" where
  "direct_mint t (CallBridged u env info (Mint rc n)) = (if u = t then unat n else 0)"
| "direct_mint t _ = 0"

fun new_minter :: "addr \<Rightarrow> bridged_op \<Rightarrow> addr list" where
  "new_minter t (CallBridged u env info (AddMinter m)) = (if u = t then [m] else [])"
| "new_minter t _ = []"

definition direct_mints :: "addr \<Rightarrow> bridged_op list \<Rightarrow> nat" where
  "direct_mints t xs = sum_list (map (direct_mint t) xs)"

definition new_minters :: "addr \<Rightarrow> bridged_op list \<Rightarrow> addr list" where
  "new_minters t xs = concat (map (new_minter t) xs)"

fun removes_resource :: "bridged_op \<Rightarrow> bool" where
  "removes_resource (CallBridge _ _ (RemoveResourceId _)) = True"
| "removes_resource _ = False"

fun signed_by :: "addr \<Rightarrow> bridged_op \<Rightarrow> bool" where
  "signed_by br (CallBridged _ _ info _) = (sender info = br)"
| "signed_by br _ = False"

text \<open>Any accepted transactions one after the other, with what they paid out.\<close>

inductive bridged_path ::
  "(string \<Rightarrow> string) \<Rightarrow> api \<Rightarrow> addr \<Rightarrow> bridged_op list \<Rightarrow> payments \<Rightarrow> bridged \<Rightarrow> bool" for sha api br where
  bridged_start: "instantiate_bridge msg empty_bridge = Inr (s, r) \<Longrightarrow>
     bridged_path sha api br [] [] \<lparr>br_bridge = s, br_tokens = fmempty\<rparr>"
| bridged_more: "bridged_path sha api br xs P W \<Longrightarrow> bridged_apply sha api br x W = Some W' \<Longrightarrow>
     bridged_path sha api br (xs @ [x]) (P @ deposit_paid sha api x W) W'"

lemma history_snoc [simp]:
  "direct_mints t (xs @ [x]) = direct_mints t xs + direct_mint t x"
  "new_minters t (xs @ [x]) = new_minters t xs @ new_minter t x"
  "paid_to t (P @ Q) = paid_to t P + paid_to t Q"
  "direct_mints t [] = 0" "new_minters t [] = []" "paid_to t [] = 0"
  by (simp_all add: direct_mints_def new_minters_def paid_to_def)

section \<open>The bridge\<close>

text \<open>Each payment is of an executed proposal, and of its amount.\<close>

definition payment_ok :: "bool \<Rightarrow> bridge_store \<Rightarrow> string \<times> addr \<times> u128 \<Rightarrow> bool" where
  "payment_ok kept s = (\<lambda>(i, u, n). \<exists>p. fmlookup (PROPOSALS s) i = Some p \<and> pr_executed p
     \<and> pr_amount p = n \<and> (kept \<longrightarrow> fmlookup (RESOURCE_ID_TO_TOKEN s) (pr_resource_id p) = Some u))"

definition payments_ok :: "bool \<Rightarrow> bridge_store \<Rightarrow> payments \<Rightarrow> bool" where
  "payments_ok kept s P \<longleftrightarrow> distinct (map fst P) \<and> (\<forall>x \<in> set P. payment_ok kept s x)"

lemma payments_keep:
  assumes "payments_ok kept s P"
    and "\<And>i p. fmlookup (PROPOSALS s) i = Some p \<Longrightarrow> pr_executed p \<Longrightarrow> fmlookup (PROPOSALS s') i = Some p"
    and "\<And>rid t. kept' \<Longrightarrow> fmlookup (RESOURCE_ID_TO_TOKEN s) rid = Some t \<Longrightarrow>
      fmlookup (RESOURCE_ID_TO_TOKEN s') rid = Some t"
    and "kept' \<Longrightarrow> kept"
  shows "payments_ok kept' s' P"
  using assms unfolding payments_ok_def payment_ok_def by fastforce

text \<open>A vote pays its proposal when it executes it, and nothing otherwise.\<close>

lemma vote_pays:
  assumes v: "execute_vote_proposal sha info c n rid rcp a s = Inr (s', r)"
    and ok: "payments_ok kept s P"
  shows "messages r = [] \<and> payments_ok kept s' P
    \<or> (\<exists>u rc m. messages r = [no_reply (MintTo u rc m)]
         \<and> payments_ok kept s' (P @ [(get_proposal_id sha c n rid rcp a, u, m)]))"
  using v
proof (rule vote_ok)
  fix bi p
  let ?i = "get_proposal_id sha c n rid rcp a" and ?p' = "voted bi (sender info) p"
  assume p: "p = proposal_or_new sha c n rid rcp a s" "\<not> pr_executed p"
    and s': "s' = s\<lparr>PROPOSALS := fmupd ?i ?p' (PROPOSALS s)\<rparr>"
    and mint: "bi_threshold bi \<le> ulen (pr_voters p @ [sender info]) \<Longrightarrow>
      \<exists>token. fmlookup (RESOURCE_ID_TO_TOKEN s) (pr_resource_id p) = Some token
        \<and> messages r = [no_reply (MintTo token (pr_recipient p) (pr_amount p))]"
    and no: "\<not> bi_threshold bi \<le> ulen (pr_voters p @ [sender info]) \<Longrightarrow> messages r = []"
  have fresh: "\<not> pr_executed q" if "fmlookup (PROPOSALS s) ?i = Some q" for q
    using p that by (simp add: proposal_or_new_def)
  have old: "payments_ok kept s' P"
    by (rule payments_keep [OF ok]) (use fresh in \<open>auto simp: s'\<close>)
  show ?thesis
  proof (cases "bi_threshold bi \<le> ulen (pr_voters p @ [sender info])")
    case True
    from mint [OF True] obtain u where u: "fmlookup (RESOURCE_ID_TO_TOKEN s) (pr_resource_id p) = Some u"
      and m: "messages r = [no_reply (MintTo u (pr_recipient p) (pr_amount p))]" by blast
    have "?i \<notin> fst ` set P" using ok fresh by (force simp: payments_ok_def payment_ok_def)
    moreover have "payment_ok kept s' (?i, u, pr_amount p)"
      using True u by (simp add: payment_ok_def s')
    ultimately show ?thesis using old m by (auto simp: payments_ok_def)
  qed (use no old in simp)
qed

lemma admin_pays:
  assumes e: "execute_bridge sha api info m s = Inr (s', r)" and "\<not> is_vote m"
    and ok: "payments_ok kept s P"
  shows "payments_ok (kept \<and> (\<forall>rid. m \<noteq> RemoveResourceId rid)) s' P"
proof (rule payments_keep [OF ok])
  show "fmlookup (RESOURCE_ID_TO_TOKEN s') rid = Some u"
    if "kept \<and> (\<forall>rid. m \<noteq> RemoveResourceId rid)" and "fmlookup (RESOURCE_ID_TO_TOKEN s) rid = Some u"
    for rid u
    using e assms(2) that
    by (cases m) (auto simp: execute_add_relayer_def execute_remove_relayer_def
      execute_add_resource_id_to_token_def execute_change_threshold_def has_def
      execute_transfer_admin_bridge_def Let_def res_simps split: sum.splits)
qed (use bridge_admin_ok [OF e assms(2)] in simp_all)

section \<open>The tokens\<close>

lemma token_call:
  assumes "execute_lsd api env info msg l = Inr (l', r)" and "validates_normal api"
  shows "supply_of l' \<le> supply_of l + direct_mint t (CallBridged t e info msg)"
    and "set (minters l') \<subseteq> set (minters l) \<union> set (new_minter t (CallBridged t e info msg))"
    and "direct_mint t (CallBridged t e info msg) \<noteq> 0 \<Longrightarrow> sender info \<in> set (minters l)"
proof -
  show "supply_of l' \<le> supply_of l + direct_mint t (CallBridged t e info msg)"
    using execute_lsd_supply [OF assms(1)] by (cases "supply_of l < supply_of l'") auto
  show "set (minters l') \<subseteq> set (minters l) \<union> set (new_minter t (CallBridged t e info msg))"
  proof (cases "\<exists>m. msg = AddMinter m")
    case True
    with assms(1) obtain m a where m: "msg = AddMinter m" and a: "addr_validate api m = Inr a"
      and "minters l' = minters l @ [a]" by (auto dest!: add_minter_ok)
    with validates_normalD [OF assms(2) a] show ?thesis by simp
  next
    case False
    with execute_lsd_no_new_minter [OF assms(1)] show ?thesis by auto
  qed
  show "direct_mint t (CallBridged t e info msg) \<noteq> 0 \<Longrightarrow> sender info \<in> set (minters l)"
    using assms(1) by (cases msg) (auto elim: mint_ok)
qed

section \<open>Every transaction\<close>

lemma bridged_eta [simp]: "\<lparr>br_bridge = br_bridge W, br_tokens = br_tokens W\<rparr> = (W :: bridged)"
  by (cases W) simp

definition token_backed :: "addr \<Rightarrow> bridged_op list \<Rightarrow> payments \<Rightarrow> addr \<Rightarrow> lsd_store \<Rightarrow> bool" where
  "token_backed br xs P t l \<longleftrightarrow> supply_of l \<le> paid_to t P + direct_mints t xs
     \<and> set (minters l) \<subseteq> insert br (set (new_minters t xs))"

definition tokens_backed :: "addr \<Rightarrow> bridged_op list \<Rightarrow> payments \<Rightarrow> tokens \<Rightarrow> bool" where
  "tokens_backed br xs P toks \<longleftrightarrow> (\<forall>t l. fmlookup toks t = Some l \<longrightarrow> token_backed br xs P t l)"

definition alone :: "addr \<Rightarrow> bridged_op list \<Rightarrow> bool" where
  "alone br xs \<longleftrightarrow> (\<forall>t. new_minters t xs = [] \<longrightarrow> list_all (\<lambda>x. \<not> signed_by br x) xs
     \<longrightarrow> direct_mints t xs = 0)"

definition path_ok :: "addr \<Rightarrow> bridged_op list \<Rightarrow> payments \<Rightarrow> bridged \<Rightarrow> bool" where
  "path_ok br xs P W \<longleftrightarrow> tokens_backed br xs P (br_tokens W) \<and> alone br xs
     \<and> payments_ok (list_all (\<lambda>x. \<not> removes_resource x) xs) (br_bridge W) P"

lemma token_backed_more:
  "token_backed br xs P t l \<Longrightarrow> token_backed br (xs @ [x]) (P @ Q) t l"
  by (auto simp: token_backed_def)

lemma tokens_backed_upd:
  assumes "tokens_backed br xs P toks" and "token_backed br (xs @ [x]) (P @ Q) t l"
  shows "tokens_backed br (xs @ [x]) (P @ Q) (fmupd t l toks)"
  using assms token_backed_more by (fastforce simp: tokens_backed_def)

lemma tokens_backed_same:
  "tokens_backed br xs P toks \<Longrightarrow> tokens_backed br (xs @ [x]) (P @ Q) toks"
  using token_backed_more by (fastforce simp: tokens_backed_def)

lemma alone_more: "alone br xs \<Longrightarrow> (\<And>t. direct_mint t x = 0) \<Longrightarrow> alone br (xs @ [x])"
  by (simp add: alone_def)

lemma vote_path:
  assumes v: "execute_vote_proposal sha info c n rid rcp a (br_bridge W) = Inr (s', r)"
    and d: "calls (deliver_mint api br env) (map sm_msg (messages r)) (br_tokens W) = Some toks'"
    and ok: "path_ok br xs P W"
  defines "x \<equiv> CallBridge env info (VoteProposal c n rid rcp a)"
  shows "path_ok br (xs @ [x]) (P @ deposit_paid sha api x W) \<lparr>br_bridge = s', br_tokens = toks'\<rparr>"
proof -
  let ?kept = "list_all (\<lambda>x. \<not> removes_resource x) xs"
  have T: "tokens_backed br xs P (br_tokens W)" and al: "alone br (xs @ [x])"
    and pay: "payments_ok ?kept (br_bridge W) P"
    using ok alone_more [of br xs x] by (simp_all add: path_ok_def x_def)
  have dp: "deposit_paid sha api x W = map (\<lambda>m. case sm_msg m of
      MintTo t _ k \<Rightarrow> (get_proposal_id sha c n rid rcp a, t, k)) (messages r)"
    using v by (simp add: x_def)
  from vote_pays [OF v pay] show ?thesis
  proof (elim disjE exE conjE)
    assume "messages r = []" and "payments_ok ?kept s' P"
    with T al dp d show ?thesis
      using tokens_backed_same [OF T, of x "[]"] by (simp add: path_ok_def x_def)
  next
    fix u :: addr and rc and m :: u128
    let ?e = "(get_proposal_id sha c n rid rcp a, u, m)"
    assume ms: "messages r = [no_reply (MintTo u rc m)]" and p': "payments_ok ?kept s' (P @ [?e])"
    from d ms obtain l l' where l: "fmlookup (br_tokens W) u = Some l"
      and t': "toks' = fmupd u l' (br_tokens W)" and o': "order_call api env br u (OrderMint rc m) l = Some l'"
      by (auto simp: bind_eq_Some_conv)
    have c: "calls (order_call api env br u) [OrderMint rc m] l = Some l'" using o' by simp
    have "token_backed br xs P u l" using T l by (simp add: tokens_backed_def)
    then have "token_backed br (xs @ [x]) (P @ [?e]) u l'"
      using st.calls_account [OF c] st.calls_authority [OF c]
      by (auto simp: token_backed_def x_def paid_to_def)
    from tokens_backed_upd [OF T this] al p' show ?thesis
      unfolding dp ms t' by (simp add: path_ok_def x_def)
  qed
qed

lemma bridged_apply_path:
  assumes x: "bridged_apply sha api br x W = Some W'" and ok: "path_ok br xs P W"
    and norm: "validates_normal api"
  shows "path_ok br (xs @ [x]) (P @ deposit_paid sha api x W) W'"
proof (cases x)
  case (CallBridge env info m)
  with x obtain r where e: "execute_bridge sha api info m (br_bridge W) = Inr (br_bridge W', r)"
    and d: "calls (deliver_mint api br env) (map sm_msg (messages r)) (br_tokens W) = Some (br_tokens W')"
    by (cases W') (auto simp: settle_bridge_def split: sum.splits)
  show ?thesis
  proof (cases "is_vote m")
    case True
    then obtain c n rid rcp a where m: "m = VoteProposal c n rid rcp a" by (cases m) auto
    with e have "execute_vote_proposal sha info c n rid rcp a (br_bridge W) = Inr (br_bridge W', r)"
      by simp
    from vote_path [OF this d ok] show ?thesis by (simp add: CallBridge m)
  next
    case False
    then have none: "deposit_paid sha api x W = []" and rem:
      "removes_resource x \<longleftrightarrow> (\<exists>rid. m = RemoveResourceId rid)"
      by (cases m; simp add: CallBridge)+
    have "br_tokens W' = br_tokens W" using bridge_admin_ok [OF e False] d by simp
    with ok admin_pays [OF e False] rem show ?thesis
      unfolding none using tokens_backed_same [of br xs P _ x "[]"] alone_more [of br xs x]
      by (simp add: path_ok_def CallBridge)
  qed
next
  case UpgradeBridge
  with x have "W' = W\<lparr>br_bridge := (br_bridge W)\<lparr>BRIDGE_VERSION := Some (''crates.io:bridge'', ''0.1.0'')\<rparr>\<rparr>"
    by (simp add: migrate_bridge_def)
  with ok show ?thesis
    using tokens_backed_same [of br xs P _ x "[]"] alone_more [of br xs x]
    by (simp add: path_ok_def UpgradeBridge payments_ok_def payment_ok_def)
next
  case (CreateBridged t nm sy dec adm)
  with x obtain l r where "instantiate_lsd api (new_token_msg nm sy dec adm br) empty_lsd = Inr (l, r)"
    and W': "W' = W\<lparr>br_tokens := fmupd t l (br_tokens W)\<rparr>"
    by (auto split: if_splits sum.splits)
  from new_token_ok [OF this(1) norm] have "token_backed br (xs @ [x]) (P @ []) t l"
    by (simp add: token_backed_def)
  with ok show ?thesis
    using tokens_backed_upd [of br xs P _ x "[]"] alone_more [of br xs x]
    by (simp add: path_ok_def CreateBridged W')
next
  case (CallBridged t env info msg)
  with x obtain l l' r where l: "fmlookup (br_tokens W) t = Some l"
    and e: "execute_lsd api (env\<lparr>contract_addr := t\<rparr>) info msg l = Inr (l', r)"
    and W': "W' = W\<lparr>br_tokens := fmupd t l' (br_tokens W)\<rparr>"
    by (auto simp: bind_eq_Some_conv)
  note c = token_call [OF e norm, of t env, folded CallBridged]
  have b: "token_backed br xs P t l" using ok l by (simp add: path_ok_def tokens_backed_def)
  then have b': "token_backed br (xs @ [x]) (P @ []) t l'"
    using c(1,2) by (auto simp: token_backed_def)
  have other: "direct_mint u x = 0" if "u \<noteq> t" for u
    using that by (cases msg) (simp_all add: CallBridged)
  have mine: "direct_mint t x = 0" if "new_minters t xs = []" and "sender info \<noteq> br"
    using c(3) b that by (auto simp: token_backed_def)
  have "alone br (xs @ [x])"
    unfolding alone_def
  proof (intro allI impI)
    fix u
    assume n: "new_minters u (xs @ [x]) = []" and h: "list_all (\<lambda>x. \<not> signed_by br x) (xs @ [x])"
    then have "direct_mints u xs = 0" using ok by (simp add: path_ok_def alone_def)
    moreover have "direct_mint u x = 0"
      using n h other [of u] mine by (cases "u = t") (auto simp: CallBridged)
    ultimately show "direct_mints u (xs @ [x]) = 0" by simp
  qed
  with ok show ?thesis
    using tokens_backed_upd [OF _ b'] by (simp add: path_ok_def CallBridged W')
next
  case (UpgradeBridged t ensure lt)
  with x obtain l l' r where l: "fmlookup (br_tokens W) t = Some l"
    and m: "migrate_lsd ensure lt l = Inr (l', r)"
    and W': "W' = W\<lparr>br_tokens := fmupd t l' (br_tokens W)\<rparr>"
    by (auto simp: bind_eq_Some_conv)
  have "token_backed br xs P t l" using ok l by (simp add: path_ok_def tokens_backed_def)
  then have b': "token_backed br (xs @ [x]) (P @ []) t l'"
    using migrate_token [OF m] by (simp add: token_backed_def supply_of_def minters_def UpgradeBridged)
  with ok show ?thesis
    using tokens_backed_upd [OF _ b'] alone_more [of br xs x] by (simp add: path_ok_def UpgradeBridged W')
qed

lemma bridged_path_ok:
  "bridged_path sha api br xs P W \<Longrightarrow> validates_normal api \<Longrightarrow> path_ok br xs P W"
proof (induction rule: bridged_path.induct)
  case (bridged_start msg s r)
  then show ?case by (simp add: path_ok_def tokens_backed_def alone_def payments_ok_def)
qed (rule bridged_apply_path)

section \<open>The supply is backed\<close>

fun bridged_run ::
  "(string \<Rightarrow> string) \<Rightarrow> api \<Rightarrow> addr \<Rightarrow> bridged_op list \<Rightarrow> bridged \<Rightarrow> (payments \<times> bridged) option" where
  "bridged_run sha api br [] W = Some ([], W)"
| "bridged_run sha api br (x # xs) W = Option.bind (bridged_apply sha api br x W) (\<lambda>W'.
     map_option (\<lambda>(P, V). (deposit_paid sha api x W @ P, V)) (bridged_run sha api br xs W'))"

lemma bridged_run_path:
  "bridged_path sha api br ys Q W \<Longrightarrow> bridged_run sha api br xs W = Some (P, W')
   \<Longrightarrow> bridged_path sha api br (ys @ xs) (Q @ P) W'"
proof (induction xs arbitrary: ys Q W P)
  case (Cons x xs)
  then obtain W1 P1 where x: "bridged_apply sha api br x W = Some W1"
    and r: "bridged_run sha api br xs W1 = Some (P1, W')" and P: "P = deposit_paid sha api x W @ P1"
    by (auto simp: bind_eq_Some_conv)
  from Cons.IH [OF bridged_more [OF Cons.prems(1) x] r] show ?case by (simp add: P)
qed simp

text \<open>
  A bridge with a threshold of two, a token for it and a deposit of 50 with two votes; the mint admin
  adds a minter, who mints 5 beside the bridge; the resource is removed; tokens are transferred.
\<close>

definition demo_relayers :: instantiate_msg_bridge where
  "demo_relayers = \<lparr>ib_admin = ''gov'', ib_threshold = 2, ib_relayers = [''r1'', ''r2'']\<rparr>"

definition demo_bridged_start :: bridged where
  "demo_bridged_start = \<lparr>br_bridge = empty_bridge\<lparr>BRIDGE_VERSION := Some (''crates.io:bridge'', ''0.1.0''),
     BRIDGE_INFO := Some \<lparr>bi_admin = ''gov'', bi_threshold = 2, bi_relayers = [''r1'', ''r2'']\<rparr>\<rparr>,
     br_tokens = fmempty\<rparr>"

definition demo_vote :: "addr \<Rightarrow> bridged_op" where
  "demo_vote who = CallBridge Lsd_Properties.demo_env (demo_from who) (VoteProposal 1 7 ''res'' ''bob'' 50)"

definition demo_token_call :: "addr \<Rightarrow> lsd_execute_msg \<Rightarrow> bridged_op" where
  "demo_token_call who m = CallBridged ''token'' Lsd_Properties.demo_env (demo_from who) m"

definition demo_bridged_ops :: "bridged_op list" where
  "demo_bridged_ops = [CreateBridged ''token'' ''rETH'' ''rETH'' 18 ''gov'',
     CallBridge Lsd_Properties.demo_env (demo_from ''gov'') (AddResourceIdToToken ''res'' ''token''),
     demo_vote ''r1'', demo_vote ''r2'',
     demo_token_call ''gov'' (AddMinter ''dave''), demo_token_call ''dave'' (Mint ''carol'' 5),
     CallBridge Lsd_Properties.demo_env (demo_from ''gov'') (RemoveResourceId ''res''),
     demo_token_call ''bob'' (Transfer ''carol'' 20)]"

lemma demo_bridged_run:
  "\<exists>W l. bridged_run id accept_all ''bridge'' demo_bridged_ops demo_bridged_start
       = Some ([(get_proposal_id id 1 7 ''res'' ''bob'' 50, ''token'', 50)], W)
    \<and> fmlookup (br_tokens W) ''token'' = Some l \<and> supply_of l = 55"
  by (simp add: demo_bridged_ops_def demo_bridged_start_def demo_vote_def demo_token_call_def
      instantiate_lsd_def
      new_token_msg_def empty_lsd_def validate_instantiate_def has_valid_name_def has_valid_symbol_def
      valid_symbol_byte_def byte_def create_accounts_def validate_accounts_def instantiate_get_cap_def
      instantiate_mint_def settle_bridge_def execute_add_resource_id_to_token_def load_info_def
      execute_remove_resource_id_def execute_add_minter_def
      demo_from_def execute_vote_proposal_def empty_bridge_def ulen_def word_le_nat_alt order_call_def
      call_token_def execute_mint_def uadd_def raise_balance_def get_or_zero_def
      execute_transfer_lsd_def lower_balance_def checked_sub_def get_cap_def supply_of_def Let_def)

lemma demo_bridged_counts:
  "direct_mints ''token'' demo_bridged_ops = 5" "new_minters ''token'' demo_bridged_ops = [''dave'']"
  by (simp_all add: direct_mints_def new_minters_def demo_bridged_ops_def demo_vote_def demo_token_call_def)

text \<open>C3: a bridge and the tokens that were instantiated without balances and with the bridge as their
  minter, with any accepted transactions of anybody in any order (votes, changes of relayers, threshold, admin and resources, calls and migrations of
  the tokens). The supply of a token is at most the deposits the bridge has paid out in it plus what
  other minters minted in calls of their own. Every payment is of its own executed proposal and of
  the amount of that proposal, so no deposit is paid twice and nothing is paid without one; the token
  paid is the one registered for the resource of the proposal, unless resources were taken away
  from their tokens since. The minters are the bridge and those that accepted messages of the mint
  admin added; without such a message, and since nobody else can sign for the bridge, nothing is
  minted beside the bridge.\<close>

theorem bridged_supply_backed:
  assumes "bridged_path sha api br xs paid W" and "validates_normal api"
    and "fmlookup (br_tokens W) t = Some l"
  shows "supply_of l \<le> (\<Sum>(i, u, n)\<leftarrow>paid. if u = t then unat n else 0) + direct_mints t xs
    \<and> distinct (map fst paid)
    \<and> (\<forall>(i, u, n) \<in> set paid. \<exists>p. fmlookup (PROPOSALS (br_bridge W)) i = Some p
         \<and> pr_executed p \<and> pr_amount p = n
         \<and> (list_all (\<lambda>x. \<not> removes_resource x) xs \<longrightarrow>
              fmlookup (RESOURCE_ID_TO_TOKEN (br_bridge W)) (pr_resource_id p) = Some u))
    \<and> set (minters l) \<subseteq> insert br (set (new_minters t xs))
    \<and> (new_minters t xs = [] \<longrightarrow> list_all (\<lambda>x. \<not> signed_by br x) xs \<longrightarrow> direct_mints t xs = 0)"
proof -
  from bridged_path_ok [OF assms(1,2)] have ok: "token_backed br xs paid t l" "alone br xs"
    "payments_ok (list_all (\<lambda>x. \<not> removes_resource x) xs) (br_bridge W) paid"
    using assms(3) by (simp_all add: path_ok_def tokens_backed_def)
  from ok(1) have s: "supply_of l \<le> (\<Sum>(i, u, n)\<leftarrow>paid. if u = t then unat n else 0) + direct_mints t xs"
    and m: "set (minters l) \<subseteq> insert br (set (new_minters t xs))"
    by (simp_all add: token_backed_def paid_to_def)
  from ok(3) have p: "distinct (map fst paid)" "\<forall>x \<in> set paid. payment_ok
      (list_all (\<lambda>x. \<not> removes_resource x) xs) (br_bridge W) x" by (simp_all add: payments_ok_def)
  from ok(2) have a: "new_minters t xs = [] \<longrightarrow> list_all (\<lambda>x. \<not> signed_by br x) xs \<longrightarrow> direct_mints t xs = 0"
    by (simp add: alone_def)
  show ?thesis by (intro conjI s p(1) p(2) [unfolded payment_ok_def] m a)
qed

theorem bridged_supply_backed_witness:
  "\<exists>(W :: bridged) l. bridged_path id accept_all ''bridge'' demo_bridged_ops
      [(get_proposal_id id 1 7 ''res'' ''bob'' 50, ''token'', 50)] W
    \<and> fmlookup (br_tokens W) ''token'' = Some l \<and> supply_of l = 55 \<and> supply_of l \<le> 50 + 5
    \<and> (\<exists>p. fmlookup (PROPOSALS (br_bridge W)) (get_proposal_id id 1 7 ''res'' ''bob'' 50) = Some p
         \<and> pr_executed p \<and> pr_amount p = 50)
    \<and> set (minters l) \<subseteq> {''bridge'', ''dave''}"
proof -
  obtain W l where run: "bridged_run id accept_all ''bridge'' demo_bridged_ops demo_bridged_start
       = Some ([(get_proposal_id id 1 7 ''res'' ''bob'' 50, ''token'', 50)], W)"
    and l: "fmlookup (br_tokens W) ''token'' = Some l" "supply_of l = 55"
    using demo_bridged_run by blast
  have "instantiate_bridge demo_relayers empty_bridge = Inr (br_bridge demo_bridged_start, respond [] [])"
    by (simp add: instantiate_bridge_def demo_relayers_def demo_bridged_start_def empty_bridge_def
        ulen_def word_less_nat_alt)
  then have "bridged_path id accept_all ''bridge'' [] [] \<lparr>br_bridge = br_bridge demo_bridged_start, br_tokens = fmempty\<rparr>"
    by (rule bridged_start)
  then have "bridged_path id accept_all ''bridge'' [] [] demo_bridged_start"
    by (simp add: demo_bridged_start_def)
  from bridged_run_path [OF this run] have path: "bridged_path id accept_all ''bridge'' demo_bridged_ops
      [(get_proposal_id id 1 7 ''res'' ''bob'' 50, ''token'', 50)] W" by simp
  from bridged_supply_backed [OF path accept_all_normal l(1)] path l
  show ?thesis by (auto simp: demo_bridged_counts)
qed

end
