(* ===== verification/Stake_State.thy ===== *)
theory Stake_State
  imports Chain
begin

text \<open>
  The data of the stake manager (contracts/stake\_manager: state.rs, msg.rs, error\_conversion.rs):
  pools and their era snapshots, unstake records, interchain accounts, payloads of pending
  interchain transactions, the storage of the contract, its errors, its messages and the messages it
  sends. Values that the contract stores as JSON bytes are stored unencoded, and so are the bodies
  of the protobuf messages it sends; the decimal text of an amount inside such a body is the amount.
\<close>

section \<open>Pools\<close>

record stack =
  sk_admin :: addr
  sk_stack_fee_receiver :: addr
  sk_stack_fee_commission :: u128
  sk_pools :: "string list"
  sk_lsd_token_code_id :: u64

record era_snapshot =
  es_era :: u64
  es_bond :: u128
  es_unbond :: u128
  es_active :: u128
  es_restake_amount :: u128
  es_last_step_height :: u64

datatype era_status =
    RegisterEnded
  | InitStarted
  | InitFailed
  | EraUpdateStarted
  | EraUpdateEnded
  | BondStarted
  | BondEnded
  | WithdrawStarted
  | WithdrawEnded
  | RebondStarted
  | RebondEnded
  | ActiveEnded

datatype validator_update_status = UpdateStart | WaitQueryUpdate | UpdateEnd

record pool_info =
  p_bond :: u128
  p_unbond :: u128
  p_active :: u128
  p_lsd_token :: addr
  p_ica_id :: string
  p_ibc_denom :: string
  p_channel_id_of_ibc_denom :: string
  p_remote_denom :: string
  p_validator_addrs :: "string list"
  p_era :: u64
  p_rate :: u128
  p_era_seconds :: u64
  p_offset :: u64  \<comment> \<open>an \<open>i64\<close>, read by \<open>sint\<close>\<close>
  p_minimal_stake :: u128
  p_unstake_times_limit :: u64
  p_next_unstake_index :: u64
  p_unbonding_period :: u64
  p_status :: era_status
  p_validator_update_status :: validator_update_status
  p_unbond_commission :: u128
  p_platform_fee_commission :: u128
  p_total_platform_fee :: u128
  p_total_lsd_token_amount :: u128
  p_platform_fee_receiver :: addr
  p_admin :: addr
  p_share_tokens :: "coin list"
  p_redeemming_share_token_denom :: "string list"
  p_era_snapshot :: era_snapshot
  p_paused :: bool
  p_lsm_support :: bool
  p_lsm_pending_limit :: u64
  p_rate_change_limit :: u128
  p_sdk_greater_or_equal_v047 :: bool

section \<open>Unstakes, interchain accounts, payloads\<close>

datatype withdraw_status = WithdrawDefault | WithdrawPending

record unstake_info =
  u_era :: u64
  u_pool_addr :: string
  u_unstaker :: string
  u_amount :: u128
  u_status :: withdraw_status
  u_index :: u64

record ica_info =
  ctrl_connection_id :: string
  host_connection_id :: string
  ctrl_channel_id :: string
  host_channel_id :: string
  ctrl_port_id :: string
  ica_addr :: string

datatype query_kind = Balances | Delegations | Validators

fun query_kind_to_string :: "query_kind \<Rightarrow> string" where
  "query_kind_to_string Balances = ''balances''"
| "query_kind_to_string Delegations = ''delegations''"
| "query_kind_to_string Validators = ''validators''"

datatype tx_type =
    TxSetWithdrawAddr
  | TxUpdateValidator
  | TxRmValidator
  | TxUserWithdraw
  | TxEraUpdate
  | TxEraBond
  | TxEraCollectWithdraw
  | TxEraRebond
  | TxRedeemTokenForShare
  | TxStakeLsm

record sudo_payload =
  pl_message :: string
  pl_pool_addr :: string
  pl_port_id :: string
  pl_tx_type :: tx_type

record delegation =
  dl_delegator :: addr
  dl_validator :: string
  dl_amount :: coin

record staking_validator =
  sv_operator_address :: string
  sv_tokens :: string
  sv_delegator_shares :: string

record sm_store =
  SM_VERSION :: "(string \<times> string) option"
  STACK :: "stack option"
  TOTAL_STACK_FEE :: "(string, u128) fmap"
  POOLS :: "(string, pool_info) fmap"
  UNSTAKES_OF_INDEX :: "(string \<times> u64, unstake_info) fmap"
  INFO_OF_ICA_ID :: "(string, ica_info \<times> ica_info \<times> addr) fmap"
  UNSTAKES_INDEX_FOR_USER :: "(addr \<times> string, u64 list) fmap"
  LATEST_REPLY_ID :: "u64 option"
  LATEST_QUERY_REPLY_ID :: "u64 option"
  REPLY_ID_TO_PAYLOAD :: "(u64, sudo_payload) fmap"
  SUDO_PAYLOAD :: "(string \<times> u64, sudo_payload) fmap"
  ADDRESS_TO_REPLY_ID :: "(string \<times> string, u64) fmap"
  REPLY_ID_TO_QUERY_ID :: "(u64, u64) fmap"
  REPLY_ID_TO_NEED_UPDATE :: "(u64, bool) fmap"
  QUERY_ID_TO_REPLY_ID :: "(u64, u64) fmap"
  VALIDATORS_UNBONDS_TIME :: "(string \<times> string, u64 list) fmap"
  ERA_RATE :: "(string \<times> u64, u128) fmap"

definition empty_sm :: sm_store where
  "empty_sm = \<lparr>SM_VERSION = None, STACK = None, TOTAL_STACK_FEE = fmempty, POOLS = fmempty,
     UNSTAKES_OF_INDEX = fmempty, INFO_OF_ICA_ID = fmempty, UNSTAKES_INDEX_FOR_USER = fmempty,
     LATEST_REPLY_ID = None, LATEST_QUERY_REPLY_ID = None, REPLY_ID_TO_PAYLOAD = fmempty,
     SUDO_PAYLOAD = fmempty, ADDRESS_TO_REPLY_ID = fmempty, REPLY_ID_TO_QUERY_ID = fmempty,
     REPLY_ID_TO_NEED_UPDATE = fmempty, QUERY_ID_TO_REPLY_ID = fmempty,
     VALIDATORS_UNBONDS_TIME = fmempty, ERA_RATE = fmempty\<rparr>"

section \<open>Errors\<close>

datatype (plugins only: size code) stake_error =
    Std_sm std_error
  | Unauthorized_sm
  | StatusNotAllow
  | PendingShareNotEmpty
  | DelegationsNotExist
  | RateChangeOverLimit
  | EncodeError string
  | ValidatorForUnbondNotEnough
  | DelegationSubmissionHeight
  | WithdrawAddrBalanceSubmissionHeight
  | PoolIsPaused
  | AlreadyLatestEra
  | ValidatorAddressesListSize
  | RateIsZero
  | Instantiate2AddressFailed string
  | RateNotMatch
  | ClosedChannelIdUnmatch
  | EraProcessNotEnd
  | ValidatorAlreadyExit
  | ValidatorsEmpty
  | OldValidatorNotExist
  | NewValidatorAlreadyExist
  | TokensLenNotMatch
  | ShareTokenNotExist
  | DuplicateToken
  | InvalidInterchainAccountId
  | InterchainAccountIdAlreadyExist
  | CounterpartyVersionNotMatch
  | CantParseCounterpartyVersion
  | LsmStakeNotSupport
  | LsmPendingStakeOverLimit
  | PoolIcqNotUpdated
  | ParamsErrorFundsNotMatch
  | LessThanMinimalStake
  | LessThanMinimalEraSeconds
  | ExceedMaxEraSeconds
  | DenomNotMatch
  | DenomPathNotMatch
  | DenomTraceNotMatch
  | ValidatorNotSupport
  | TokenAmountZero
  | NoValidatorInfo
  | UnsupportedMessage string
  | UnsupportedReplyId u64
  | EncodeErrLsdTokenAmountZero
  | EncodeErrUnstakeTimesLimitReached
  | EncodeErrZeroWithdrawAmount
  | BurnLsdTokenAmountIsZero
  | EmptyUnstakeList
  | UnstakeIndexPoolNotMatch u64
  | UnstakeIndexUnstakerNotMatch u64
  | UnstakeIndexStatusNotMatch u64
  | UnstakeIndexNotWithdrawable u64
  | ICQErrReplyNoResult
  | ICQErrFailedParse string
  | ICQNewKeyBuildFailed
  | CallBackErrSequenceNotFound
  | CallBackErrChannelIDNotFound
  | CallBackErrErrorMsg
  | PeriodTooSmall

section \<open>Messages the contract sends\<close>

record ibc_fee =
  recv_fee :: "coin list"
  ack_fee :: "coin list"
  timeout_fee :: "coin list"

datatype proto_msg =
    MsgDelegate string string coin  \<comment> \<open>delegator, validator, amount\<close>
  | MsgUndelegate string string coin
  | MsgBeginRedelegate string string string coin  \<comment> \<open>delegator, source, destination, amount\<close>
  | MsgWithdrawDelegatorReward string string
  | MsgSetWithdrawAddress string string  \<comment> \<open>delegator, withdraw address\<close>
  | MsgSend string string coin  \<comment> \<open>from, to, amount\<close>
  | MsgRedeemTokensForShares string coin

text \<open>A message as the remote chain gets it: a type URL, by which it finds the handler, and the
  encoded message.\<close>

datatype protobuf_any = ProtobufAny (type_url: string) (any_value: proto_msg)

datatype sm_out =
    RegisterInterchainAccount string string "coin list option"
      \<comment> \<open>connection, interchain account id, fee\<close>
  | RegisterInterchainQuery string "string list" u64  \<comment> \<open>connection, keys, update period\<close>
  | UpdateInterchainQuery u64 "string list option" "u64 option"  \<comment> \<open>query, new keys, new period\<close>
  | SubmitTx string string "protobuf_any list" u64 ibc_fee
      \<comment> \<open>connection, interchain account id, messages, timeout, fee\<close>
  | IbcTransfer string string addr string coin u64 ibc_fee
      \<comment> \<open>port, channel, sender, receiver, token, timeout timestamp, fee\<close>
  | LsdMint addr string u128  \<comment> \<open>token contract, recipient, amount\<close>
  | LsdTransferFrom addr string string u128  \<comment> \<open>token contract, owner, recipient, amount\<close>
  | LsdBurnFrom addr string u128  \<comment> \<open>token contract, owner, amount\<close>
  | LsdInstantiate2 string u64 string string u8 string string string string
      \<comment> \<open>admin, code, name, symbol, decimals, mint admin, minter, label, salt\<close>
  | BankSend string "coin list"

type_synonym 'a sm_res = "(stake_error, 'a) res"
type_synonym sm_result = "(sm_store \<times> sm_out response) sm_res"

section \<open>Messages the contract accepts\<close>

record init_pool_params =
  ip_interchain_account_id :: string
  ip_ibc_denom :: string
  ip_channel_id_of_ibc_denom :: string
  ip_remote_denom :: string
  ip_validator_addrs :: "string list"
  ip_platform_fee_receiver :: string
  ip_lsd_code_id :: "u64 option"
  ip_lsd_token_name :: string
  ip_lsd_token_symbol :: string
  ip_minimal_stake :: u128
  ip_unbonding_period :: u64
  ip_platform_fee_commission :: "u128 option"
  ip_era_seconds :: "u64 option"
  ip_sdk_greater_or_equal_v047 :: bool

record migrate_pool_params =
  mp_interchain_account_id :: string
  mp_unbond :: u128
  mp_bond :: u128
  mp_active :: u128
  mp_ibc_denom :: string
  mp_channel_id_of_ibc_denom :: string
  mp_remote_denom :: string
  mp_validator_addrs :: "string list"
  mp_era :: u64
  mp_rate :: u128
  mp_total_platform_fee :: u128
  mp_total_lsd_token_amount :: u128
  mp_platform_fee_receiver :: string
  mp_share_tokens :: "coin list"
  mp_lsd_code_id :: "u64 option"
  mp_lsd_token_name :: string
  mp_lsd_token_symbol :: string
  mp_minimal_stake :: u128
  mp_unbonding_period :: u64
  mp_platform_fee_commission :: "u128 option"
  mp_era_seconds :: u64
  mp_offset :: u64  \<comment> \<open>an \<open>i64\<close>\<close>
  mp_sdk_greater_or_equal_v047 :: bool

record config_stack_params =
  cs_stack_fee_receiver :: "addr option"
  cs_new_admin :: "addr option"
  cs_stack_fee_commission :: "u128 option"
  cs_lsd_token_code_id :: "u64 option"
  cs_add_entrusted_pool :: "string option"

record config_pool_params =
  cp_pool_addr :: string
  cp_platform_fee_receiver :: "string option"
  cp_minimal_stake :: "u128 option"
  cp_unstake_times_limit :: "u64 option"
  cp_unbonding_period :: "u64 option"
  cp_unbond_commission :: "u128 option"
  cp_platform_fee_commission :: "u128 option"
  cp_era_seconds :: "u64 option"
  cp_paused :: "bool option"
  cp_lsm_support :: "bool option"
  cp_lsm_pending_limit :: "u64 option"
  cp_rate_change_limit :: "u128 option"
  cp_new_admin :: "addr option"

datatype sm_execute_msg =
    RegisterPool string string  \<comment> \<open>connection\_id, interchain\_account\_id\<close>
  | InitPool init_pool_params
  | MigratePool migrate_pool_params
  | ConfigPool config_pool_params
  | ConfigStack config_stack_params
  | OpenChannel string string  \<comment> \<open>pool\_addr, closed\_channel\_id\<close>
  | RedeemTokenForShare string "coin list"
  | Stake string string  \<comment> \<open>neutron\_address, pool\_addr\<close>
  | Unstake u128 string  \<comment> \<open>amount, pool\_addr\<close>
  | Withdraw string addr "u64 list"  \<comment> \<open>pool\_addr, receiver, unstake\_index\_list\<close>
  | PoolRmValidator string string
  | PoolAddValidator string string
  | PoolUpdateValidator string string string
  | PoolUpdateValidatorsIcq string
  | PoolDelegate string u128
  | EraUpdate string
  | EraBond string "string list"
  | EraCollectWithdraw string
  | EraRebond string "string list"
  | EraActive string
  | StakeLsm string string  \<comment> \<open>neutron\_address, pool\_addr\<close>
  | UpdateIcqUpdatePeriod string u64

section \<open>Pools in storage\<close>

definition load_pool :: "sm_store \<Rightarrow> string \<Rightarrow> pool_info sm_res" where
  "load_pool s a = load (Std_sm (NotFound ''PoolInfo'')) (POOLS s) a"

definition save_pool :: "string \<Rightarrow> pool_info \<Rightarrow> sm_store \<Rightarrow> sm_store" where
  "save_pool a p s = s\<lparr>POOLS := fmupd a p (POOLS s)\<rparr>"

definition load_ica :: "sm_store \<Rightarrow> string \<Rightarrow> (ica_info \<times> ica_info \<times> addr) sm_res" where
  "load_ica s i = load (Std_sm (NotFound ''IcaInfo'')) (INFO_OF_ICA_ID s) i"

definition load_stack :: "sm_store \<Rightarrow> stack sm_res" where
  "load_stack s = load_item (Std_sm (NotFound ''Stack'')) (STACK s)"

lemma load_pool_eq_Inr [res_simps]: "load_pool s a = Inr p \<longleftrightarrow> fmlookup (POOLS s) a = Some p"
  by (simp add: load_pool_def res_simps)

lemma load_ica_eq_Inr [res_simps]:
  "load_ica s i = Inr t \<longleftrightarrow> fmlookup (INFO_OF_ICA_ID s) i = Some t"
  by (simp add: load_ica_def res_simps)

lemma load_stack_eq_Inr [res_simps]: "load_stack s = Inr k \<longleftrightarrow> STACK s = Some k"
  by (simp add: load_stack_def res_simps)

lemma load_pool_Some [simp]: "fmlookup (POOLS s) a = Some p \<Longrightarrow> load_pool s a = Inr p"
  by (simp add: load_pool_def)

lemma load_ica_Some [simp]: "fmlookup (INFO_OF_ICA_ID s) i = Some t \<Longrightarrow> load_ica s i = Inr t"
  by (simp add: load_ica_def)

lemma load_stack_Some [simp]: "STACK s = Some k \<Longrightarrow> load_stack s = Inr k"
  by (simp add: load_stack_def)

lemma save_pool_simps [simp]:
  "POOLS (save_pool a p s) = fmupd a p (POOLS s)"
  "SM_VERSION (save_pool a p s) = SM_VERSION s"
  "STACK (save_pool a p s) = STACK s"
  "TOTAL_STACK_FEE (save_pool a p s) = TOTAL_STACK_FEE s"
  "UNSTAKES_OF_INDEX (save_pool a p s) = UNSTAKES_OF_INDEX s"
  "INFO_OF_ICA_ID (save_pool a p s) = INFO_OF_ICA_ID s"
  "UNSTAKES_INDEX_FOR_USER (save_pool a p s) = UNSTAKES_INDEX_FOR_USER s"
  "LATEST_REPLY_ID (save_pool a p s) = LATEST_REPLY_ID s"
  "LATEST_QUERY_REPLY_ID (save_pool a p s) = LATEST_QUERY_REPLY_ID s"
  "REPLY_ID_TO_PAYLOAD (save_pool a p s) = REPLY_ID_TO_PAYLOAD s"
  "SUDO_PAYLOAD (save_pool a p s) = SUDO_PAYLOAD s"
  "ADDRESS_TO_REPLY_ID (save_pool a p s) = ADDRESS_TO_REPLY_ID s"
  "REPLY_ID_TO_QUERY_ID (save_pool a p s) = REPLY_ID_TO_QUERY_ID s"
  "REPLY_ID_TO_NEED_UPDATE (save_pool a p s) = REPLY_ID_TO_NEED_UPDATE s"
  "QUERY_ID_TO_REPLY_ID (save_pool a p s) = QUERY_ID_TO_REPLY_ID s"
  "VALIDATORS_UNBONDS_TIME (save_pool a p s) = VALIDATORS_UNBONDS_TIME s"
  "ERA_RATE (save_pool a p s) = ERA_RATE s"
  by (simp_all add: save_pool_def)

end
