(* ===== verification/Stake_Helper.thy ===== *)
theory Stake_Helper
  imports Stake_State
begin

text \<open>
  helper.rs, query.rs (the interchain-query results) and query\_callback.rs of the stake manager, with
  the id allocation of state.rs and \<open>msg_with_sudo_callback\<close> of tx\_callback.rs. What the contract
  asks of its host, of neutron-sdk and of other libraries is one record, \<open>host\<close>.
\<close>

section \<open>The host\<close>

record registered_query =
  rq_is_kv :: bool
  rq_last_submitted_local_height :: u64

record host =
  query_min_ibc_fee :: "std_error + ibc_fee"
  query_denom_trace :: "string \<Rightarrow> std_error + (string \<times> string)"
    \<comment> \<open>hash of the denom to (path, base denom)\<close>
  query_icq_deposit :: "std_error + coin list"
  query_registered :: "u64 \<Rightarrow> std_error + registered_query"
  kv_balances :: "bool \<Rightarrow> u64 \<Rightarrow> std_error + coin list"  \<comment> \<open>SDK at least 0.47, query id\<close>
  kv_delegations :: "bool \<Rightarrow> u64 \<Rightarrow> std_error + delegation list"
  kv_validators :: "u64 \<Rightarrow> std_error + staking_validator list"
  balance_keys :: "string \<Rightarrow> string \<Rightarrow> std_error + string list"  \<comment> \<open>address, denom\<close>
  delegation_keys :: "bool \<Rightarrow> string \<Rightarrow> string list \<Rightarrow> std_error + string list"
    \<comment> \<open>SDK at least 0.47, delegator, validators\<close>
  validator_keys :: "string list \<Rightarrow> std_error + string list"
  update_query_check :: "string list option \<Rightarrow> std_error + unit"
  query_code_checksum :: "u64 \<Rightarrow> std_error + string"
  addr_canonicalize :: "string \<Rightarrow> std_error + string"
  addr_humanize :: "string \<Rightarrow> std_error + addr"
  instantiate2_address :: "string \<Rightarrow> string \<Rightarrow> string \<Rightarrow> string + string"
    \<comment> \<open>checksum, creator, salt\<close>
  get_port_id :: "string \<Rightarrow> string \<Rightarrow> string"  \<comment> \<open>contract address, interchain account id\<close>
  parse_ack_version :: "string \<Rightarrow> (string \<times> string) option"
    \<comment> \<open>JSON to (host connection id, address)\<close>
  parse_transfer_response :: "string \<Rightarrow> (string \<times> u64) option"  \<comment> \<open>JSON to (channel, sequence)\<close>
  parse_register_response :: "string \<Rightarrow> u64 option"  \<comment> \<open>JSON to the query id\<close>

section \<open>Constants\<close>

definition FEE_DENOM :: string where "FEE_DENOM = ''untrn''"
definition ICA_WITHDRAW_SUFIX :: string where "ICA_WITHDRAW_SUFIX = ''-withdraw_addr''"
definition INTERCHAIN_ACCOUNT_ID_LEN_LIMIT :: nat where "INTERCHAIN_ACCOUNT_ID_LEN_LIMIT = 10"
definition CAL_BASE :: u128 where "CAL_BASE = 1000000"
definition DEFAULT_RATE :: u128 where "DEFAULT_RATE = 1000000"
definition DEFAULT_DECIMALS :: u8 where "DEFAULT_DECIMALS = 6"
definition DEFAULT_ERA_SECONDS :: u64 where "DEFAULT_ERA_SECONDS = 86400"
definition MIN_ERA_SECONDS :: u64 where "MIN_ERA_SECONDS = 28800"
definition MAX_ERA_SECONDS :: u64 where "MAX_ERA_SECONDS = 86400"
definition STAKE_SPLIT_THRESHOLD :: u128 where "STAKE_SPLIT_THRESHOLD = 10000"
definition DEFAULT_TIMEOUT_SECONDS :: u64 where "DEFAULT_TIMEOUT_SECONDS = 30 * 60 * 60"
definition DEFAULT_UPDATE_PERIOD :: u64 where "DEFAULT_UPDATE_PERIOD = 86400"
definition DEFAULT_FAST_PERIOD :: u64 where "DEFAULT_FAST_PERIOD = 60"
definition UNBONDING_SECONDS :: u64 where "UNBONDING_SECONDS = 1814400"
definition REPLY_ID_RANGE_START :: u64 where "REPLY_ID_RANGE_START = 1000000000"
definition REPLY_ID_RANGE_END :: u64 where "REPLY_ID_RANGE_END = REPLY_ID_RANGE_START + 1000000"
definition QUERY_REPLY_ID_RANGE_START :: u64 where "QUERY_REPLY_ID_RANGE_START = 2000000000"
definition QUERY_REPLY_ID_RANGE_END :: u64 where
  "QUERY_REPLY_ID_RANGE_END = QUERY_REPLY_ID_RANGE_START + 1000000"
definition VALIDATER_LEN_LIMIT :: nat where "VALIDATER_LEN_LIMIT = 10"

section \<open>Reply ids and payloads\<close>

definition next_id :: "u64 \<Rightarrow> u64 \<Rightarrow> u64 option \<Rightarrow> (u64 \<times> u64) sm_res" where
  "next_id lo hi latest =
     (let i = (case latest of None \<Rightarrow> lo | Some i \<Rightarrow> i) in
      rbind (uadd i 1) (\<lambda>save_id.
      Inr (i, if hi < save_id then lo else save_id)))"

definition get_next_reply_id :: "sm_store \<Rightarrow> (u64 \<times> sm_store) sm_res" where
  "get_next_reply_id s =
     rbind (next_id REPLY_ID_RANGE_START REPLY_ID_RANGE_END (LATEST_REPLY_ID s)) (\<lambda>(i, j).
     Inr (i, s\<lparr>LATEST_REPLY_ID := Some j\<rparr>))"

definition get_next_query_reply_id :: "sm_store \<Rightarrow> (u64 \<times> sm_store) sm_res" where
  "get_next_query_reply_id s =
     rbind (next_id QUERY_REPLY_ID_RANGE_START QUERY_REPLY_ID_RANGE_END (LATEST_QUERY_REPLY_ID s))
       (\<lambda>(i, j). Inr (i, s\<lparr>LATEST_QUERY_REPLY_ID := Some j\<rparr>))"

definition save_reply_payload :: "sudo_payload \<Rightarrow> sm_store \<Rightarrow> (u64 \<times> sm_store) sm_res" where
  "save_reply_payload pl s =
     rbind (get_next_reply_id s) (\<lambda>(i, s).
     Inr (i, s\<lparr>REPLY_ID_TO_PAYLOAD := fmupd i pl (REPLY_ID_TO_PAYLOAD s)\<rparr>))"

definition read_reply_payload :: "sm_store \<Rightarrow> u64 \<Rightarrow> sudo_payload sm_res" where
  "read_reply_payload s i = load (Std_sm (NotFound ''payload'')) (REPLY_ID_TO_PAYLOAD s) i"

definition save_sudo_payload :: "string \<Rightarrow> u64 \<Rightarrow> sudo_payload \<Rightarrow> sm_store \<Rightarrow> sm_store" where
  "save_sudo_payload ch sq pl s = s\<lparr>SUDO_PAYLOAD := fmupd (ch, sq) pl (SUDO_PAYLOAD s)\<rparr>"

definition read_sudo_payload :: "sm_store \<Rightarrow> string \<Rightarrow> u64 \<Rightarrow> sudo_payload sm_res" where
  "read_sudo_payload s ch sq = load (Std_sm (NotFound ''payload'')) (SUDO_PAYLOAD s) (ch, sq)"

definition msg_with_sudo_callback ::
  "sm_out \<Rightarrow> sudo_payload \<Rightarrow> sm_store \<Rightarrow> (sm_out sub_msg \<times> sm_store) sm_res" where
  "msg_with_sudo_callback msg pl s =
     rbind (save_reply_payload pl s) (\<lambda>(i, s). Inr (reply_on_success msg i, s))"

section \<open>Fees\<close>

definition min_ntrn_ibc_fee :: "ibc_fee \<Rightarrow> ibc_fee" where
  "min_ntrn_ibc_fee fee = \<lparr>recv_fee = filter (\<lambda>a. c_denom a = FEE_DENOM) (recv_fee fee),
     ack_fee = filter (\<lambda>a. c_denom a = FEE_DENOM) (ack_fee fee),
     timeout_fee = filter (\<lambda>a. c_denom a = FEE_DENOM) (timeout_fee fee)\<rparr>"

definition first_amount :: "coin list \<Rightarrow> u128" where
  "first_amount cs = (case cs of [] \<Rightarrow> 0 | c # _ \<Rightarrow> c_amount c)"

definition total_ibc_fee :: "ibc_fee \<Rightarrow> u128 sm_res" where
  "total_ibc_fee fee =
     rbind (uadd (first_amount (recv_fee fee)) (first_amount (ack_fee fee))) (\<lambda>x.
     uadd x (first_amount (timeout_fee fee)))"

definition check_ibc_fee :: "host \<Rightarrow> message_info \<Rightarrow> ibc_fee sm_res" where
  "check_ibc_fee h info =
     rbind (from_std Std_sm (query_min_ibc_fee h)) (\<lambda>fee.
     let ibc_fee = min_ntrn_ibc_fee fee in
     rbind (total_ibc_fee ibc_fee) (\<lambda>total.
     case funds info of
       [c] \<Rightarrow> if c_denom c = FEE_DENOM \<and> total \<le> c_amount c then Inr ibc_fee
              else Inl (Err ParamsErrorFundsNotMatch)
     | _ \<Rightarrow> Inl (Err ParamsErrorFundsNotMatch)))"

definition query_icq_register_fee :: "host \<Rightarrow> coin list sm_res" where
  "query_icq_register_fee h = from_std Std_sm (query_icq_deposit h)"

definition total_icq_register_fee :: "coin list \<Rightarrow> u128" where
  "total_icq_register_fee fee = first_amount (filter (\<lambda>a. c_denom a = FEE_DENOM) fee)"

section \<open>Messages to the remote chain\<close>

definition gen_delegation_txs :: "string \<Rightarrow> string \<Rightarrow> string \<Rightarrow> u128 \<Rightarrow> protobuf_any" where
  "gen_delegation_txs delegator validator remote_denom amt =
     ProtobufAny ''/cosmos.staking.v1beta1.MsgDelegate''
       (MsgDelegate delegator validator \<lparr>c_denom = remote_denom, c_amount = amt\<rparr>)"

definition gen_redelegate_txs ::
  "string \<Rightarrow> string \<Rightarrow> string \<Rightarrow> string \<Rightarrow> u128 \<Rightarrow> protobuf_any" where
  "gen_redelegate_txs delegator src target remote_denom amt =
     ProtobufAny ''/cosmos.staking.v1beta1.BeginRedelegate''
       (MsgBeginRedelegate delegator src target \<lparr>c_denom = remote_denom, c_amount = amt\<rparr>)"

definition gen_msg_send :: "string \<Rightarrow> string \<Rightarrow> string \<Rightarrow> u128 \<Rightarrow> protobuf_any" where
  "gen_msg_send from_address to_address denom amt =
     ProtobufAny ''/cosmos.bank.v1beta1.MsgSend''
       (MsgSend from_address to_address \<lparr>c_denom = denom, c_amount = amt\<rparr>)"

definition redeem_token_for_share_msg :: "string \<Rightarrow> coin \<Rightarrow> protobuf_any" where
  "redeem_token_for_share_msg delegator token =
     ProtobufAny ''/cosmos.staking.v1beta1.MsgRedeemTokensForShares''
       (MsgRedeemTokensForShares delegator token)"

definition get_withdraw_ica_id :: "string \<Rightarrow> string" where
  "get_withdraw_ica_id i = i @ ICA_WITHDRAW_SUFIX"

definition query_denom_trace_from_ibc_denom :: "host \<Rightarrow> string \<Rightarrow> (string \<times> string) sm_res" where
  "query_denom_trace_from_ibc_denom h ibc_denom =
     (case split_on CHR ''/'' ibc_denom of
        [_, denom_hash] \<Rightarrow> from_std Std_sm (query_denom_trace h denom_hash)
      | _ \<Rightarrow> Inl (Err DenomNotMatch))"

section \<open>Interchain queries\<close>

definition get_query_id :: "sm_store \<Rightarrow> string \<Rightarrow> query_kind \<Rightarrow> u64 sm_res" where
  "get_query_id s a k =
     rbind (load (Std_sm (NotFound ''reply id'')) (ADDRESS_TO_REPLY_ID s) (a, query_kind_to_string k))
       (\<lambda>reply_id.
     load (Std_sm (NotFound ''query id'')) (REPLY_ID_TO_QUERY_ID s) reply_id)"

definition update_interchain_query ::
  "host \<Rightarrow> u64 \<Rightarrow> string list option \<Rightarrow> u64 option \<Rightarrow> sm_out sm_res" where
  "update_interchain_query h i keys period =
     rbind (from_std Std_sm (update_query_check h keys)) (\<lambda>_.
     Inr (UpdateInterchainQuery i keys period))"

definition get_update_pool_icq_msgs ::
  "host \<Rightarrow> sm_store \<Rightarrow> string \<Rightarrow> string \<Rightarrow> u64 \<Rightarrow> sm_out sub_msg list sm_res" where
  "get_update_pool_icq_msgs h s pool_addr pool_ica_id period =
     rbind (get_query_id s pool_addr Balances) (\<lambda>pool_balances.
     rbind (load_ica s pool_ica_id) (\<lambda>(_, withdraw, _).
     rbind (get_query_id s (ica_addr withdraw) Balances) (\<lambda>withdraw_balances.
     rbind (get_query_id s pool_addr Delegations) (\<lambda>pool_delegations.
     rbind (get_query_id s pool_addr Validators) (\<lambda>pool_validators.
     rbind (rmap (\<lambda>i. update_interchain_query h i None (Some period))
              [pool_balances, withdraw_balances, pool_delegations, pool_validators]) (\<lambda>ms.
     Inr (map no_reply ms)))))))"

definition register_balance_query_msg ::
  "host \<Rightarrow> string \<Rightarrow> string \<Rightarrow> string \<Rightarrow> u64 \<Rightarrow> sm_out sm_res" where
  "register_balance_query_msg h conn a denom period =
     rbind (from_std Std_sm (balance_keys h a denom)) (\<lambda>ks. Inr (RegisterInterchainQuery conn ks period))"

definition register_delegator_delegations_query_msg ::
  "host \<Rightarrow> string \<Rightarrow> string \<Rightarrow> string list \<Rightarrow> u64 \<Rightarrow> bool \<Rightarrow> sm_out sm_res" where
  "register_delegator_delegations_query_msg h conn delegator vals period v047 =
     rbind (from_std Std_sm (delegation_keys h v047 delegator vals)) (\<lambda>ks.
     Inr (RegisterInterchainQuery conn ks period))"

definition register_staking_validators_query_msg ::
  "host \<Rightarrow> string \<Rightarrow> string list \<Rightarrow> u64 \<Rightarrow> sm_out sm_res" where
  "register_staking_validators_query_msg h conn vals period =
     rbind (from_std Std_sm (validator_keys h vals)) (\<lambda>ks. Inr (RegisterInterchainQuery conn ks period))"

definition register_query_submsg ::
  "sm_out \<Rightarrow> string \<Rightarrow> query_kind \<Rightarrow> sm_store \<Rightarrow> (sm_out sub_msg \<times> sm_store) sm_res" where
  "register_query_submsg msg a k s =
     rbind (get_next_query_reply_id s) (\<lambda>(i, s).
     let s = s\<lparr>ADDRESS_TO_REPLY_ID := fmupd (a, query_kind_to_string k) i (ADDRESS_TO_REPLY_ID s)\<rparr>;
         s = (if k = Validators
              then s\<lparr>REPLY_ID_TO_NEED_UPDATE := fmupd i True (REPLY_ID_TO_NEED_UPDATE s)\<rparr>
              else s) in
     Inr (reply_on_success msg i, s))"

text \<open>\<open>deal_validators_icq_update\<close>: a failure to build the keys becomes an error of the contract.\<close>

definition new_keys :: "sm_out sm_res \<Rightarrow> string list sm_res" where
  "new_keys m = (case m of
       Inr (RegisterInterchainQuery _ ks _) \<Rightarrow> Inr ks
     | Inl (Panic p) \<Rightarrow> Inl (Panic p)
     | _ \<Rightarrow> Inl (Err ICQNewKeyBuildFailed))"

definition deal_validators_icq_update ::
  "host \<Rightarrow> sm_store \<Rightarrow> string \<Rightarrow> pool_info \<Rightarrow> string \<Rightarrow> sm_out response sm_res" where
  "deal_validators_icq_update h s pool_addr p conn =
     rbind (new_keys (register_delegator_delegations_query_msg h conn pool_addr (p_validator_addrs p)
              DEFAULT_UPDATE_PERIOD (p_sdk_greater_or_equal_v047 p))) (\<lambda>dkeys.
     rbind (get_query_id s pool_addr Delegations) (\<lambda>dq.
     rbind (update_interchain_query h dq (Some dkeys) None) (\<lambda>dmsg.
     rbind (new_keys (register_staking_validators_query_msg h conn (p_validator_addrs p)
              DEFAULT_UPDATE_PERIOD)) (\<lambda>vkeys.
     rbind (get_query_id s pool_addr Validators) (\<lambda>vq.
     rbind (update_interchain_query h vq (Some vkeys) None) (\<lambda>vmsg.
     Inr (respond [no_reply dmsg, no_reply vmsg] [])))))))"

text \<open>The results the relayer submitted for a registered query, with the height they came at.\<close>

definition load_kv_query :: "host \<Rightarrow> sm_store \<Rightarrow> string \<Rightarrow> query_kind \<Rightarrow> (u64 \<times> u64) sm_res" where
  "load_kv_query h s a k =
     rbind (get_query_id s a k) (\<lambda>i.
     rbind (from_std Std_sm (query_registered h i)) (\<lambda>rq.
     if \<not> rq_is_kv rq then Inl (Err (Std_sm (HostErr ''query type'')))
     else Inr (i, rq_last_submitted_local_height rq)))"

definition query_balance_by_addr ::
  "host \<Rightarrow> sm_store \<Rightarrow> string \<Rightarrow> bool \<Rightarrow> (coin list \<times> u64) sm_res" where
  "query_balance_by_addr h s a v047 =
     rbind (load_kv_query h s a Balances) (\<lambda>(i, height).
     rbind (from_std Std_sm (kv_balances h v047 i)) (\<lambda>coins. Inr (coins, height)))"

definition query_delegation_by_addr ::
  "host \<Rightarrow> sm_store \<Rightarrow> string \<Rightarrow> bool \<Rightarrow> (delegation list \<times> u64) sm_res" where
  "query_delegation_by_addr h s a v047 =
     rbind (load_kv_query h s a Delegations) (\<lambda>(i, height).
     rbind (from_std Std_sm (kv_delegations h v047 i)) (\<lambda>ds. Inr (ds, height)))"

definition query_validator_by_addr ::
  "host \<Rightarrow> sm_store \<Rightarrow> string \<Rightarrow> (staking_validator list \<times> u64) sm_res" where
  "query_validator_by_addr h s a =
     rbind (load_kv_query h s a Validators) (\<lambda>(i, height).
     rbind (from_std Std_sm (kv_validators h i)) (\<lambda>vs. Inr (vs, height)))"

section \<open>Eras and splits\<close>

text \<open>The era of a block under a pool's parameters.\<close>

definition current_era :: "env \<Rightarrow> pool_info \<Rightarrow> u64 sm_res" where
  "current_era env p =
     rbind (udiv (seconds env) (p_era_seconds p)) (\<lambda>q.
     Inr (saturating_add_signed q (p_offset p)))"

text \<open>
  The split of an amount over validators, which four handlers repeat: every validator gets the
  quotient and the first one the remainder as well.
\<close>

definition split_amounts :: "u128 \<Rightarrow> nat \<Rightarrow> u128 list sm_res" where
  "split_amounts amt n =
     rbind (udiv amt (of_nat n)) (\<lambda>q.
     rbind (umul q (of_nat n)) (\<lambda>x.
     rbind (usub amt x) (\<lambda>r.
     rbind (uadd q r) (\<lambda>f.
     Inr (f # replicate (n - 1) q)))))"

end
