(* ===== verification/Stake_User.thy ===== *)
theory Stake_User
  imports Stake_Helper
begin

text \<open>
  The operations of the users of a pool: \<open>Stake\<close> (execute\_stake.rs), \<open>Unstake\<close>
  (execute\_unstake.rs), \<open>Withdraw\<close> with its two callbacks (execute\_withdraw.rs).
\<close>

section \<open>execute\_stake.rs\<close>

definition execute_stake :: "string \<Rightarrow> string \<Rightarrow> message_info \<Rightarrow> sm_store \<Rightarrow> sm_result" where
  "execute_stake neutron_address pool_addr info s =
     rbind (load_pool s pool_addr) (\<lambda>p.
     if p_paused p then Inl (Err PoolIsPaused)
     else (case funds info of
       [c] \<Rightarrow>
         if c_denom c \<noteq> p_ibc_denom p then Inl (Err ParamsErrorFundsNotMatch)
         else
         let token_amount = c_amount c in
         if token_amount < p_minimal_stake p then Inl (Err LessThanMinimalStake)
         else
         rbind (uadd (p_active p) token_amount) (\<lambda>active.
         rbind (uadd (p_bond p) token_amount) (\<lambda>bond.
         rbind (umul token_amount CAL_BASE) (\<lambda>x.
         rbind (udiv x (p_rate p)) (\<lambda>lsd_token_amount.
         rbind (uadd (p_total_lsd_token_amount p) lsd_token_amount) (\<lambda>total.
         let p = p\<lparr>p_active := active, p_bond := bond, p_total_lsd_token_amount := total\<rparr> in
         Inr (save_pool pool_addr p s,
           respond [no_reply (LsdMint (p_lsd_token p) neutron_address lsd_token_amount)]
             [(''action'', ''stake''), (''pool'', pool_addr), (''staker'', neutron_address),
              (''token_amount'', to_string token_amount),
              (''lsd_token_amount'', to_string lsd_token_amount)]))))))
     | _ \<Rightarrow> Inl (Err ParamsErrorFundsNotMatch)))"

section \<open>execute\_unstake.rs\<close>

definition unstakes_of :: "sm_store \<Rightarrow> addr \<Rightarrow> string \<Rightarrow> u64 list" where
  "unstakes_of s who pool_addr =
     (case fmlookup (UNSTAKES_INDEX_FOR_USER s) (who, pool_addr) of None \<Rightarrow> [] | Some is \<Rightarrow> is)"

text \<open>The commission in tokens, and the message that pays it to the receiver of the platform fee.\<close>

definition unstake_commission ::
  "pool_info \<Rightarrow> addr \<Rightarrow> u128 \<Rightarrow> (u128 \<times> sm_out sub_msg list) sm_res" where
  "unstake_commission p who lsd_token_amount =
     (if 0 < p_unbond_commission p then
        rbind (umul lsd_token_amount (p_unbond_commission p)) (\<lambda>x.
        rbind (udiv x CAL_BASE) (\<lambda>cms_fee.
        rbind (usub lsd_token_amount cms_fee) (\<lambda>burn.
        Inr (burn, if 0 < cms_fee
          then [no_reply (LsdTransferFrom (p_lsd_token p) who (p_platform_fee_receiver p) cms_fee)]
          else []))))
      else Inr (lsd_token_amount, []))"

definition execute_unstake :: "message_info \<Rightarrow> u128 \<Rightarrow> string \<Rightarrow> sm_store \<Rightarrow> sm_result" where
  "execute_unstake info lsd_token_amount pool_addr s =
     (if lsd_token_amount = 0 then Inl (Err EncodeErrLsdTokenAmountZero)
      else
      rbind (load_pool s pool_addr) (\<lambda>p.
      let indexes = unstakes_of s (sender info) pool_addr in
      if p_unstake_times_limit p \<le> ulen indexes then Inl (Err EncodeErrUnstakeTimesLimitReached)
      else
      rbind (unstake_commission p (sender info) lsd_token_amount) (\<lambda>(burn, fee_msgs).
      if burn = 0 then Inl (Err BurnLsdTokenAmountIsZero)
      else
      rbind (umul burn (p_rate p)) (\<lambda>x.
      rbind (udiv x CAL_BASE) (\<lambda>token_amount.
      rbind (uadd (p_next_unstake_index p) 1) (\<lambda>index.
      rbind (uadd (p_unbond p) token_amount) (\<lambda>unbond.
      rbind (usub (p_active p) token_amount) (\<lambda>active.
      rbind (usub (p_total_lsd_token_amount p) burn) (\<lambda>total.
      let p = p\<lparr>p_next_unstake_index := index, p_unbond := unbond, p_active := active,
                p_total_lsd_token_amount := total\<rparr>;
          receive_amount = (if 5 < token_amount then token_amount - 5 else 0) in
      if receive_amount = 0 then Inl (Err EncodeErrZeroWithdrawAmount)
      else
      let u = \<lparr>u_era = p_era p, u_pool_addr = pool_addr, u_unstaker = sender info,
               u_amount = receive_amount, u_status = WithdrawDefault, u_index = index\<rparr>;
          s = s\<lparr>UNSTAKES_OF_INDEX := fmupd (pool_addr, index) u (UNSTAKES_OF_INDEX s)\<rparr>;
          s = save_pool pool_addr p s;
          s = s\<lparr>UNSTAKES_INDEX_FOR_USER := fmupd (sender info, pool_addr) (indexes @ [index])
                  (UNSTAKES_INDEX_FOR_USER s)\<rparr> in
      Inr (s, respond (fee_msgs @ [no_reply (LsdBurnFrom (p_lsd_token p) (sender info) burn)])
        [(''action'', ''unstake''), (''pool'', pool_addr), (''from'', sender info),
         (''token_amount'', to_string token_amount),
         (''lsd_token_amount'', to_string lsd_token_amount),
         (''unstake_index'', to_string index)]))))))))))"

section \<open>execute\_withdraw.rs\<close>

text \<open>One iteration of the loop: the guards of a record, the sum, and the record set to pending.\<close>

definition withdraw_one ::
  "message_info \<Rightarrow> string \<Rightarrow> pool_info \<Rightarrow> u64 \<Rightarrow> sm_store \<times> u128 \<Rightarrow> (sm_store \<times> u128) sm_res" where
  "withdraw_one info pool_addr p index = (\<lambda>(s, total).
     rbind (load (Std_sm (NotFound ''UnstakeInfo'')) (UNSTAKES_OF_INDEX s) (pool_addr, index)) (\<lambda>u.
     if u_pool_addr u \<noteq> pool_addr then Inl (Err (UnstakeIndexPoolNotMatch index))
     else if u_unstaker u \<noteq> sender info then Inl (Err (UnstakeIndexUnstakerNotMatch index))
     else if u_status u = WithdrawPending then Inl (Err (UnstakeIndexStatusNotMatch index))
     else
     rbind (uadd (u_era u) (p_unbonding_period p)) (\<lambda>ripe.
     if p_era p < ripe then Inl (Err (UnstakeIndexNotWithdrawable index))
     else
     rbind (uadd total (u_amount u)) (\<lambda>total.
     Inr (s\<lparr>UNSTAKES_OF_INDEX := fmupd (pool_addr, index) (u\<lparr>u_status := WithdrawPending\<rparr>)
              (UNSTAKES_OF_INDEX s)\<rparr>, total)))))"

definition withdraw_message :: "u128 \<Rightarrow> addr \<Rightarrow> addr \<Rightarrow> u64 list \<Rightarrow> string" where
  "withdraw_message amt who receiver indexes =
     to_string amt @ ''_'' @ who @ ''_'' @ receiver @ ''_'' @ join ''_'' (map to_string indexes)"

definition execute_withdraw ::
  "host \<Rightarrow> message_info \<Rightarrow> string \<Rightarrow> addr \<Rightarrow> u64 list \<Rightarrow> sm_store \<Rightarrow> sm_result" where
  "execute_withdraw h info pool_addr receiver indexes s =
     (if indexes = [] then Inl (Err EmptyUnstakeList)
      else
      rbind (load_pool s pool_addr) (\<lambda>p.
      rbind (rfold (withdraw_one info pool_addr p) indexes (s, 0)) (\<lambda>(s, total).
      if total = 0 then Inl (Err EncodeErrZeroWithdrawAmount)
      else
      rbind (check_ibc_fee h info) (\<lambda>fee.
      rbind (load_ica s (p_ica_id p)) (\<lambda>(pool_ica, _, _).
      rbind (msg_with_sudo_callback
               (SubmitTx (ctrl_connection_id pool_ica) (p_ica_id p)
                  [gen_msg_send pool_addr receiver (p_remote_denom p) total]
                  DEFAULT_TIMEOUT_SECONDS fee)
               \<lparr>pl_message = withdraw_message total (sender info) receiver indexes,
                pl_pool_addr = pool_addr, pl_port_id = ctrl_port_id pool_ica,
                pl_tx_type = TxUserWithdraw\<rparr> s) (\<lambda>(msg, s).
      Inr (s, respond [msg] [])))))))"

text \<open>
  The success callback. \<open>index_list\<close> holds every part of the message but the first, the user and
  the receiver among them; \<open>retain\<close> keeps the indexes whose text is not in it and removes the
  records of the others.
\<close>

definition sudo_withdraw_callback :: "sudo_payload \<Rightarrow> sm_store \<Rightarrow> sm_result" where
  "sudo_withdraw_callback pl s =
     (let parts = split_on CHR ''_'' (pl_message pl) in
      if length parts \<le> 3 then Inl (Err (UnsupportedMessage (pl_message pl)))
      else
      let user_addr = parts ! 1;
          index_list = tl parts;
          gone = (\<lambda>i. to_string i \<in> set index_list);
          s = (case fmlookup (UNSTAKES_INDEX_FOR_USER s) (user_addr, pl_pool_addr pl) of
              None \<Rightarrow> s
            | Some unstakes \<Rightarrow>
                s\<lparr>UNSTAKES_OF_INDEX := fold (\<lambda>i. fmdrop (pl_pool_addr pl, i)) (filter gone unstakes)
                     (UNSTAKES_OF_INDEX s),
                  UNSTAKES_INDEX_FOR_USER := fmupd (user_addr, pl_pool_addr pl)
                     (retain (\<lambda>i. \<not> gone i) unstakes) (UNSTAKES_INDEX_FOR_USER s)\<rparr>) in
      Inr (s, respond [] [(''action'', ''withdraw''), (''from'', user_addr),
        (''pool'', pl_pool_addr pl), (''receiver'', parts ! 2),
        (''unstake_index_list'', join ''_'' (drop 3 parts)), (''amount'', parts ! 0)]))"

definition reset_one :: "string \<Rightarrow> string \<Rightarrow> sm_store \<Rightarrow> sm_store sm_res" where
  "reset_one pool_addr index_str s =
     (case parse_uint index_str of
        None \<Rightarrow> Inl (Panic UnwrapNone)
      | Some index \<Rightarrow>
          rbind (load (Std_sm (NotFound ''UnstakeInfo'')) (UNSTAKES_OF_INDEX s) (pool_addr, index))
            (\<lambda>u.
          Inr (s\<lparr>UNSTAKES_OF_INDEX := fmupd (pool_addr, index) (u\<lparr>u_status := WithdrawDefault\<rparr>)
                   (UNSTAKES_OF_INDEX s)\<rparr>)))"

definition sudo_withdraw_failed_callback :: "sudo_payload \<Rightarrow> sm_store \<Rightarrow> sm_result" where
  "sudo_withdraw_failed_callback pl s =
     rbind (rfold (reset_one (pl_pool_addr pl)) (drop 3 (split_on CHR ''_'' (pl_message pl))) s) (\<lambda>s.
     Inr (s, respond [] []))"

end
