(* ===== verification/Stake_Era.thy ===== *)
theory Stake_Era
  imports Stake_Helper
begin

text \<open>
  The steps of an era: \<open>EraUpdate\<close> (execute\_era\_update.rs) sends the new bond to the remote chain,
  \<open>EraBond\<close> (execute\_era\_bond.rs) delegates or undelegates the difference of bond and unbond,
  \<open>EraCollectWithdraw\<close> (execute\_era\_collect\_withdraw.rs) moves the rewards to the pool,
  \<open>EraRebond\<close> (execute\_era\_rebond.rs) delegates them, and \<open>EraActive\<close> (execute\_era\_active.rs)
  computes the new rate. The first four end with a callback of the acknowledgement.
\<close>

section \<open>execute\_era\_update.rs\<close>

definition zero_snapshot :: era_snapshot where
  "zero_snapshot = \<lparr>es_era = 0, es_bond = 0, es_unbond = 0, es_active = 0, es_restake_amount = 0,
     es_last_step_height = 0\<rparr>"

definition timeout_timestamp :: "env \<Rightarrow> u64 sm_res" where
  "timeout_timestamp env =
     rbind (umul DEFAULT_TIMEOUT_SECONDS 1000000000) (\<lambda>t. uadd (block_time env) t)"

definition execute_era_update ::
  "host \<Rightarrow> env \<Rightarrow> message_info \<Rightarrow> string \<Rightarrow> sm_store \<Rightarrow> sm_result" where
  "execute_era_update h env info pool_addr s =
     rbind (load_pool s pool_addr) (\<lambda>p.
     if p_paused p then Inl (Err PoolIsPaused)
     else if p_status p \<noteq> ActiveEnded \<or> p_validator_update_status p \<noteq> UpdateEnd
     then Inl (Err StatusNotAllow)
     else
     rbind (current_era env p) (\<lambda>era.
     if era \<le> p_era p then Inl (Err AlreadyLatestEra)
     else
     rbind (uadd (p_era p) 1) (\<lambda>next_era.
     let p = p\<lparr>p_status := EraUpdateStarted, p_era := next_era,
         p_era_snapshot := \<lparr>es_era = next_era, es_bond = p_bond p, es_unbond = p_unbond p,
           es_active = p_active p, es_restake_amount = 0,
           es_last_step_height = block_height env\<rparr>\<rparr> in
     rbind (get_update_pool_icq_msgs h s pool_addr (p_ica_id p) DEFAULT_FAST_PERIOD) (\<lambda>icq_msgs.
     if es_bond (p_era_snapshot p) = 0 then
       Inr (save_pool pool_addr (p\<lparr>p_status := EraUpdateEnded\<rparr>) s, respond icq_msgs [])
     else
     rbind (check_ibc_fee h info) (\<lambda>fee.
     rbind (timeout_timestamp env) (\<lambda>timeout.
     rbind (load_ica s (p_ica_id p)) (\<lambda>(pool_ica, _, _).
     rbind (msg_with_sudo_callback
              (IbcTransfer ''transfer'' (p_channel_id_of_ibc_denom p) (contract_addr env) pool_addr
                 \<lparr>c_denom = p_ibc_denom p, c_amount = es_bond (p_era_snapshot p)\<rparr> timeout fee)
              \<lparr>pl_message = '''', pl_pool_addr = pool_addr, pl_port_id = ctrl_port_id pool_ica,
               pl_tx_type = TxEraUpdate\<rparr> s) (\<lambda>(msg, s).
     Inr (save_pool pool_addr p s, respond (icq_msgs @ [msg]) [])))))))))"

definition sudo_era_update_callback :: "env \<Rightarrow> sudo_payload \<Rightarrow> sm_store \<Rightarrow> sm_result" where
  "sudo_era_update_callback env pl s =
     rbind (load_pool s (pl_pool_addr pl)) (\<lambda>p.
     let p = p\<lparr>p_status := EraUpdateEnded,
       p_era_snapshot := (p_era_snapshot p)\<lparr>es_last_step_height := block_height env\<rparr>\<rparr> in
     Inr (save_pool (pl_pool_addr pl) p s, respond [] []))"

definition sudo_era_update_failed_callback :: "sudo_payload \<Rightarrow> sm_store \<Rightarrow> sm_result" where
  "sudo_era_update_failed_callback pl s =
     rbind (load_pool s (pl_pool_addr pl)) (\<lambda>p.
     rbind (usub (p_era p) 1) (\<lambda>era.
     let p = p\<lparr>p_era := era, p_status := ActiveEnded, p_era_snapshot := zero_snapshot\<rparr> in
     Inr (save_pool (pl_pool_addr pl) p s, respond [] [])))"

section \<open>execute\_era\_bond.rs\<close>

text \<open>The state of the loop of \<open>allocate_unbond_amount\<close>: storage, what remains, the unbonds.\<close>

type_synonym unbond_state = "sm_store \<times> u128 \<times> (string \<times> u128) list"

text \<open>
  The timestamps of the recent unbonds of a validator: the oldest one is dropped (and the rest
  stored) when its unbonding period is over; a validator with seven or more left is skipped.
\<close>

definition clear_timestamps ::
  "u64 \<Rightarrow> u64 \<Rightarrow> string \<times> string \<Rightarrow> sm_store \<Rightarrow> (bool \<times> sm_store) sm_res" where
  "clear_timestamps now period k s =
     (case fmlookup (VALIDATORS_UNBONDS_TIME s) k of
        None \<Rightarrow> Inr (False, s)
      | Some [] \<Rightarrow> Inr (False, s)
      | Some (t # ts) \<Rightarrow>
          rbind (uadd t period) (\<lambda>ends.
          if ends < now then
            Inr (7 \<le> length ts,
              s\<lparr>VALIDATORS_UNBONDS_TIME := fmupd k ts (VALIDATORS_UNBONDS_TIME s)\<rparr>)
          else Inr (7 \<le> length (t # ts), s)))"

fun allocate_loop ::
  "u64 \<Rightarrow> u64 \<Rightarrow> delegation list \<Rightarrow> unbond_state \<Rightarrow> unbond_state sm_res" where
  "allocate_loop now period [] st = Inr st"
| "allocate_loop now period (d # ds) (s, remaining, infos) =
     (if remaining = 0 then Inr (s, remaining, infos)
      else
      rbind (clear_timestamps now period (dl_delegator d, dl_validator d) s) (\<lambda>(full, s).
      if full then allocate_loop now period ds (s, remaining, infos)
      else
      let current = (if c_amount (dl_amount d) < remaining then c_amount (dl_amount d) else remaining) in
      rbind (usub remaining current) (\<lambda>rest.
      allocate_loop now period ds (s, rest, infos @ [(dl_validator d, current)]))))"

text \<open>\<open>sort_by\<close> is stable; the amounts are compared in descending order.\<close>

definition sorted_delegations :: "delegation list \<Rightarrow> delegation list" where
  "sorted_delegations ds = sort_key (\<lambda>d. - uint (c_amount (dl_amount d))) ds"

definition allocate_unbond_amount ::
  "u64 \<Rightarrow> delegation list \<Rightarrow> u128 \<Rightarrow> u64 \<Rightarrow> sm_store
     \<Rightarrow> ((string \<times> u128) list \<times> sm_store) sm_res" where
  "allocate_unbond_amount now ds amt period s =
     rbind (allocate_loop now period (sorted_delegations ds) (s, amt, [])) (\<lambda>(s, remaining, infos).
     if remaining \<noteq> 0 then Inl (Err ValidatorForUnbondNotEnough)
     else Inr (infos, s))"

definition withdraw_reward_msg :: "string \<Rightarrow> string \<Rightarrow> protobuf_any" where
  "withdraw_reward_msg delegator validator =
     ProtobufAny ''/cosmos.distribution.v1beta1.MsgWithdrawDelegatorReward''
       (MsgWithdrawDelegatorReward delegator validator)"

text \<open>
  The order of the difference of two hash sets is not specified: the argument \<open>hash_order\<close> lists a
  set of validators in some order.
\<close>

definition bond_unbonds ::
  "host \<Rightarrow> (string set \<Rightarrow> string list) \<Rightarrow> env \<Rightarrow> string \<Rightarrow> pool_info \<Rightarrow> sm_store
     \<Rightarrow> (protobuf_any list \<times> string \<times> sm_store) sm_res" where
  "bond_unbonds h hash_order env pool_addr p s =
     rbind (usub (es_unbond (p_era_snapshot p)) (es_bond (p_era_snapshot p))) (\<lambda>unbond_amount.
     rbind (query_delegation_by_addr h s pool_addr (p_sdk_greater_or_equal_v047 p)) (\<lambda>(ds, height).
     if height \<le> es_last_step_height (p_era_snapshot p) then Inl (Err DelegationSubmissionHeight)
     else
     rbind (if 0 < unbond_amount then
              rbind (umul (p_unbonding_period p) (p_era_seconds p)) (\<lambda>period.
              rbind (allocate_unbond_amount (seconds env) ds unbond_amount period s) (\<lambda>(infos, s).
              if infos = [] then Inl (Err ValidatorForUnbondNotEnough)
              else Inr (infos, s)))
            else Inr ([], s)) (\<lambda>(infos, s).
     let undelegates = map (\<lambda>(v, n).
           ProtobufAny ''/cosmos.staking.v1beta1.MsgUndelegate''
             (MsgUndelegate pool_addr v \<lparr>c_denom = p_remote_denom p, c_amount = n\<rparr>)) infos;
         op_validators = map fst infos;
         delegating_vals = map dl_validator ds;
         withdraws = (if length op_validators \<noteq> length delegating_vals
           then map (withdraw_reward_msg pool_addr)
                  (hash_order (set delegating_vals - set op_validators))
           else []) in
     Inr (undelegates @ withdraws, join ''_'' op_validators, s))))"

definition bond_delegates ::
  "string \<Rightarrow> pool_info \<Rightarrow> string list \<Rightarrow> protobuf_any list sm_res" where
  "bond_delegates pool_addr p select_vals =
     rbind (usub (es_bond (p_era_snapshot p)) (es_unbond (p_era_snapshot p))) (\<lambda>stake_amount.
     if select_vals = [] then Inl (Err ValidatorsEmpty)
     else if \<not> list_all (\<lambda>v. v \<in> set (p_validator_addrs p)) select_vals
     then Inl (Err ValidatorNotSupport)
     else if stake_amount < STAKE_SPLIT_THRESHOLD then
       Inr (gen_delegation_txs pool_addr (hd select_vals) (p_remote_denom p) stake_amount
         # map (withdraw_reward_msg pool_addr) (tl select_vals))
     else
       rbind (split_amounts stake_amount (length select_vals)) (\<lambda>amounts.
       Inr (map2 (\<lambda>v n. gen_delegation_txs pool_addr v (p_remote_denom p) n) select_vals amounts)))"

definition execute_era_bond ::
  "host \<Rightarrow> (string set \<Rightarrow> string list) \<Rightarrow> env \<Rightarrow> message_info \<Rightarrow> string \<Rightarrow> string list \<Rightarrow> sm_store
     \<Rightarrow> sm_result" where
  "execute_era_bond h hash_order env info pool_addr select_vals s =
     rbind (load_pool s pool_addr) (\<lambda>p.
     if p_status p \<noteq> EraUpdateEnded then Inl (Err StatusNotAllow)
     else
     rbind (if es_bond (p_era_snapshot p) \<le> es_unbond (p_era_snapshot p)
            then bond_unbonds h hash_order env pool_addr p s
            else rbind (bond_delegates pool_addr p select_vals) (\<lambda>ms. Inr (ms, '''', s)))
       (\<lambda>(msgs, msg_str, s).
     rbind (load_ica s (p_ica_id p)) (\<lambda>(pool_ica, _, _).
     rbind (check_ibc_fee h info) (\<lambda>fee.
     rbind (msg_with_sudo_callback
              (SubmitTx (ctrl_connection_id pool_ica) (p_ica_id p) msgs DEFAULT_TIMEOUT_SECONDS fee)
              \<lparr>pl_message = msg_str, pl_pool_addr = pool_addr, pl_port_id = ctrl_port_id pool_ica,
               pl_tx_type = TxEraBond\<rparr> s) (\<lambda>(msg, s).
     Inr (save_pool pool_addr (p\<lparr>p_status := BondStarted\<rparr>) s, respond [msg] []))))))"

definition push_timestamp :: "string \<Rightarrow> u64 \<Rightarrow> string \<Rightarrow> sm_store \<Rightarrow> sm_store" where
  "push_timestamp pool_addr now v s =
     (let ts = (case fmlookup (VALIDATORS_UNBONDS_TIME s) (pool_addr, v) of
          Some ts \<Rightarrow> ts @ [now] | None \<Rightarrow> [now]) in
      s\<lparr>VALIDATORS_UNBONDS_TIME := fmupd (pool_addr, v) ts (VALIDATORS_UNBONDS_TIME s)\<rparr>)"

definition sudo_era_bond_callback :: "env \<Rightarrow> sudo_payload \<Rightarrow> sm_store \<Rightarrow> sm_result" where
  "sudo_era_bond_callback env pl s =
     rbind (load_pool s (pl_pool_addr pl)) (\<lambda>p.
     let s = (if pl_message pl \<noteq> ''''
              then fold (push_timestamp (pl_pool_addr pl) (seconds env))
                     (split_on CHR ''_'' (pl_message pl)) s
              else s) in
     rbind (usub (p_bond p) (es_bond (p_era_snapshot p))) (\<lambda>bond.
     rbind (usub (p_unbond p) (es_unbond (p_era_snapshot p))) (\<lambda>unbond.
     let p = p\<lparr>p_status := BondEnded,
       p_era_snapshot := (p_era_snapshot p)\<lparr>es_last_step_height := block_height env\<rparr>,
       p_bond := bond, p_unbond := unbond\<rparr> in
     Inr (save_pool (pl_pool_addr pl) p s, respond [] []))))"

definition sudo_era_bond_failed_callback :: "sudo_payload \<Rightarrow> sm_store \<Rightarrow> sm_result" where
  "sudo_era_bond_failed_callback pl s =
     rbind (load_pool s (pl_pool_addr pl)) (\<lambda>p.
     Inr (save_pool (pl_pool_addr pl) (p\<lparr>p_status := EraUpdateEnded\<rparr>) s, respond [] []))"

section \<open>execute\_era\_collect\_withdraw.rs\<close>

text \<open>
  The rewards at the withdraw address: a query that fails counts as no rewards, a result that is
  not newer than the last step is an error.
\<close>

definition rewards_to_collect :: "host \<Rightarrow> sm_store \<Rightarrow> string \<Rightarrow> pool_info \<Rightarrow> u128 sm_res" where
  "rewards_to_collect h s withdraw_addr p =
     (case query_balance_by_addr h s withdraw_addr (p_sdk_greater_or_equal_v047 p) of
        Inr (coins, height) \<Rightarrow>
          if height \<le> es_last_step_height (p_era_snapshot p)
          then Inl (Err WithdrawAddrBalanceSubmissionHeight)
          else Inr (case List.find (\<lambda>c. c_denom c = p_remote_denom p) coins of
              Some c \<Rightarrow> c_amount c | None \<Rightarrow> 0)
      | Inl (Panic e) \<Rightarrow> Inl (Panic e)
      | Inl (Err _) \<Rightarrow> Inr 0)"

definition execute_era_collect_withdraw ::
  "host \<Rightarrow> message_info \<Rightarrow> string \<Rightarrow> sm_store \<Rightarrow> sm_result" where
  "execute_era_collect_withdraw h info pool_addr s =
     rbind (load_pool s pool_addr) (\<lambda>p.
     if p_status p \<noteq> BondEnded then Inl (Err StatusNotAllow)
     else
     rbind (load_ica s (p_ica_id p)) (\<lambda>(_, withdraw, _).
     rbind (rewards_to_collect h s (ica_addr withdraw) p) (\<lambda>withdraw_amount.
     if withdraw_amount = 0 then
       Inr (save_pool pool_addr (p\<lparr>p_status := WithdrawEnded\<rparr>) s, respond [] [])
     else
     rbind (check_ibc_fee h info) (\<lambda>fee.
     rbind (msg_with_sudo_callback
              (SubmitTx (ctrl_connection_id withdraw) (get_withdraw_ica_id (p_ica_id p))
                 [gen_msg_send (ica_addr withdraw) pool_addr (p_remote_denom p) withdraw_amount]
                 DEFAULT_TIMEOUT_SECONDS fee)
              \<lparr>pl_message = '''', pl_pool_addr = pool_addr, pl_port_id = ctrl_port_id withdraw,
               pl_tx_type = TxEraCollectWithdraw\<rparr> s) (\<lambda>(msg, s).
     let p = p\<lparr>p_status := WithdrawStarted,
       p_era_snapshot := (p_era_snapshot p)\<lparr>es_restake_amount := withdraw_amount\<rparr>\<rparr> in
     Inr (save_pool pool_addr p s, respond [msg] []))))))"

definition sudo_era_collect_withdraw_callback :: "env \<Rightarrow> sudo_payload \<Rightarrow> sm_store \<Rightarrow> sm_result" where
  "sudo_era_collect_withdraw_callback env pl s =
     rbind (load_pool s (pl_pool_addr pl)) (\<lambda>p.
     let p = p\<lparr>p_status := WithdrawEnded,
       p_era_snapshot := (p_era_snapshot p)\<lparr>es_last_step_height := block_height env\<rparr>\<rparr> in
     Inr (save_pool (pl_pool_addr pl) p s, respond [] []))"

definition sudo_era_collect_withdraw_failed_callback :: "sudo_payload \<Rightarrow> sm_store \<Rightarrow> sm_result" where
  "sudo_era_collect_withdraw_failed_callback pl s =
     rbind (load_pool s (pl_pool_addr pl)) (\<lambda>p.
     Inr (save_pool (pl_pool_addr pl) (p\<lparr>p_status := BondEnded\<rparr>) s, respond [] []))"

section \<open>execute\_era\_rebond.rs\<close>

definition rebond_delegates ::
  "string \<Rightarrow> pool_info \<Rightarrow> string list \<Rightarrow> protobuf_any list sm_res" where
  "rebond_delegates pool_addr p select_vals =
     (if select_vals = [] then Inl (Err ValidatorsEmpty)
      else
      rbind (split_amounts (es_restake_amount (p_era_snapshot p)) (length select_vals)) (\<lambda>amounts.
      if \<not> list_all (\<lambda>v. v \<in> set (p_validator_addrs p)) select_vals
      then Inl (Err ValidatorNotSupport)
      else
      Inr (map2 (\<lambda>v n. gen_delegation_txs pool_addr v (p_remote_denom p) n) select_vals amounts)))"

text \<open>
  The pool is saved only when there is nothing to restake. When a transaction is sent, the status
  \<open>RebondStarted\<close> that the handler computes is not stored: the pool stays in \<open>WithdrawEnded\<close>.
\<close>

definition execute_era_rebond ::
  "host \<Rightarrow> message_info \<Rightarrow> string \<Rightarrow> string list \<Rightarrow> sm_store \<Rightarrow> sm_result" where
  "execute_era_rebond h info pool_addr select_vals s =
     rbind (load_pool s pool_addr) (\<lambda>p.
     if p_status p \<noteq> WithdrawEnded then Inl (Err StatusNotAllow)
     else
     let p = p\<lparr>p_status := RebondStarted\<rparr> in
     rbind (load_ica s (p_ica_id p)) (\<lambda>(pool_ica, _, _).
     if es_restake_amount (p_era_snapshot p) = 0 then
       Inr (save_pool pool_addr (p\<lparr>p_status := RebondEnded\<rparr>) s, respond [] [])
     else
     rbind (rebond_delegates pool_addr p select_vals) (\<lambda>msgs.
     rbind (check_ibc_fee h info) (\<lambda>fee.
     rbind (msg_with_sudo_callback
              (SubmitTx (ctrl_connection_id pool_ica) (p_ica_id p) msgs DEFAULT_TIMEOUT_SECONDS fee)
              \<lparr>pl_message = '''', pl_pool_addr = pool_addr, pl_port_id = ctrl_port_id pool_ica,
               pl_tx_type = TxEraRebond\<rparr> s) (\<lambda>(msg, s).
     Inr (s, respond [msg] []))))))"

definition sudo_era_rebond_callback :: "env \<Rightarrow> sudo_payload \<Rightarrow> sm_store \<Rightarrow> sm_result" where
  "sudo_era_rebond_callback env pl s =
     rbind (load_pool s (pl_pool_addr pl)) (\<lambda>p.
     let p = p\<lparr>p_status := RebondEnded,
       p_era_snapshot := (p_era_snapshot p)\<lparr>es_last_step_height := block_height env\<rparr>\<rparr> in
     Inr (save_pool (pl_pool_addr pl) p s, respond [] []))"

definition sudo_era_rebond_failed_callback :: "sudo_payload \<Rightarrow> sm_store \<Rightarrow> sm_result" where
  "sudo_era_rebond_failed_callback pl s =
     rbind (load_pool s (pl_pool_addr pl)) (\<lambda>p.
     Inr (save_pool (pl_pool_addr pl) (p\<lparr>p_status := WithdrawEnded\<rparr>) s, respond [] []))"

end
