(* ===== verification/Stake_Active.thy ===== *)
theory Stake_Active
  imports Stake_Era
begin

text \<open>
  execute\_era\_active.rs: the end of an era. The delegations reported by the interchain query give
  the reward of the era, the commissions on it are minted as new tokens, and the rate becomes the
  staked amount per token.
\<close>

definition sum_delegations :: "delegation list \<Rightarrow> u128 sm_res" where
  "sum_delegations ds = rfold (\<lambda>d acc. uadd acc (c_amount (dl_amount d))) ds 0"

text \<open>The platform fee and the protocol (stack) fee on the reward of the era, in tokens.\<close>

definition era_fees :: "pool_info \<Rightarrow> stack \<Rightarrow> u128 \<Rightarrow> (u128 \<times> u128) sm_res" where
  "era_fees p k delegated =
     (if es_active (p_era_snapshot p) < delegated then
        rbind (usub delegated (es_active (p_era_snapshot p))) (\<lambda>reward.
        rbind (umul reward (p_platform_fee_commission p)) (\<lambda>x.
        rbind (udiv x (p_rate p)) (\<lambda>platform_fee_raw.
        rbind (umul platform_fee_raw (sk_stack_fee_commission k)) (\<lambda>y.
        rbind (udiv y CAL_BASE) (\<lambda>stack_fee.
        rbind (usub platform_fee_raw stack_fee) (\<lambda>platform_fee.
        Inr (platform_fee, stack_fee)))))))
      else Inr (0, 0))"

definition era_new_active :: "pool_info \<Rightarrow> u128 \<Rightarrow> u128 sm_res" where
  "era_new_active p delegated =
     rbind (uadd (p_active p) delegated) (\<lambda>cal_temp.
     if es_active (p_era_snapshot p) < cal_temp
     then usub cal_temp (es_active (p_era_snapshot p)) else Inr 0)"

definition era_new_rate :: "u128 \<Rightarrow> u128 \<Rightarrow> u128 sm_res" where
  "era_new_rate new_active total_lsd =
     (if 0 < total_lsd
      then rbind (umul new_active CAL_BASE) (\<lambda>x. udiv x total_lsd)
      else Inr CAL_BASE)"

definition check_rate_change :: "pool_info \<Rightarrow> u128 \<Rightarrow> unit sm_res" where
  "check_rate_change p new_rate =
     (if p_rate_change_limit p = 0 then Inr ()
      else
      rbind (if new_rate < p_rate p then usub (p_rate p) new_rate else usub new_rate (p_rate p))
        (\<lambda>d.
      rbind (umul d CAL_BASE) (\<lambda>x.
      rbind (udiv x (p_rate p)) (\<lambda>rate_change.
      if p_rate_change_limit p < rate_change then Inl (Err RateChangeOverLimit) else Inr ()))))"

text \<open>The correction of the first rate: rounding must not bring a pool below the default rate.\<close>

definition first_stake_fix :: "pool_info \<Rightarrow> u128 \<Rightarrow> u128 \<Rightarrow> (u128 \<times> u128) sm_res" where
  "first_stake_fix p new_rate new_active =
     (if p_rate p = DEFAULT_RATE \<and> new_rate < DEFAULT_RATE
      then rbind (uadd new_active 1000) (\<lambda>bound.
           if p_active p < bound then Inr (DEFAULT_RATE, p_active p) else Inr (new_rate, new_active))
      else Inr (new_rate, new_active))"

text \<open>The pool after the step, with the fees and the new rate.\<close>

definition era_active_pool ::
  "pool_info \<Rightarrow> stack \<Rightarrow> u128 \<Rightarrow> (pool_info \<times> u128 \<times> u128) sm_res" where
  "era_active_pool p k delegated =
     rbind (era_fees p k delegated) (\<lambda>(platform_fee, stack_fee).
     rbind (era_new_active p delegated) (\<lambda>new_active.
     rbind (uadd (p_total_lsd_token_amount p) platform_fee) (\<lambda>total.
     rbind (uadd total stack_fee) (\<lambda>total.
     rbind (era_new_rate new_active total) (\<lambda>new_rate.
     rbind (check_rate_change p new_rate) (\<lambda>_.
     rbind (first_stake_fix p new_rate new_active) (\<lambda>(new_rate, new_active).
     Inr (p\<lparr>p_total_lsd_token_amount := total, p_rate := new_rate, p_status := ActiveEnded,
            p_active := new_active\<rparr>, platform_fee, stack_fee))))))))"

definition execute_era_active :: "host \<Rightarrow> string \<Rightarrow> sm_store \<Rightarrow> sm_result" where
  "execute_era_active h pool_addr s =
     rbind (load_pool s pool_addr) (\<lambda>p.
     if p_status p \<noteq> RebondEnded then Inl (Err StatusNotAllow)
     else if p_share_tokens p \<noteq> [] then Inl (Err PendingShareNotEmpty)
     else
     rbind (case query_delegation_by_addr h s pool_addr (p_sdk_greater_or_equal_v047 p) of
         Inr (ds, height) \<Rightarrow>
           if height \<le> es_last_step_height (p_era_snapshot p)
           then Inl (Err DelegationSubmissionHeight)
           else sum_delegations ds
       | Inl (Panic e) \<Rightarrow> Inl (Panic e)
       | Inl (Err _) \<Rightarrow> Inl (Err DelegationsNotExist)) (\<lambda>delegated.
     rbind (load_stack s) (\<lambda>k.
     rbind (era_active_pool p k delegated) (\<lambda>(p, platform_fee, stack_fee).
     rbind (if platform_fee \<noteq> 0
            then rbind (uadd (p_total_platform_fee p) platform_fee) (\<lambda>t.
              Inr (p\<lparr>p_total_platform_fee := t\<rparr>,
                   [no_reply (LsdMint (p_lsd_token p) (p_platform_fee_receiver p) platform_fee)]))
            else Inr (p, [])) (\<lambda>(p, platform_msgs).
     rbind (if stack_fee \<noteq> 0
            then rbind (load (Std_sm (NotFound ''total_stack_fee'')) (TOTAL_STACK_FEE s) pool_addr)
              (\<lambda>t. rbind (uadd t stack_fee) (\<lambda>t.
              Inr (s\<lparr>TOTAL_STACK_FEE := fmupd pool_addr t (TOTAL_STACK_FEE s)\<rparr>,
                   [no_reply (LsdMint (p_lsd_token p) (sk_stack_fee_receiver k) stack_fee)])))
            else Inr (s, [])) (\<lambda>(s, stack_msgs).
     let s = save_pool pool_addr p s;
         s = s\<lparr>STACK := Some k\<rparr>;
         s = s\<lparr>ERA_RATE := fmupd (pool_addr, p_era p) (p_rate p) (ERA_RATE s)\<rparr> in
     rbind (get_update_pool_icq_msgs h s pool_addr (p_ica_id p) DEFAULT_UPDATE_PERIOD) (\<lambda>icq_msgs.
     Inr (s, respond (platform_msgs @ stack_msgs @ icq_msgs)
       [(''new_rate'', to_string (p_rate p)), (''action'', ''era_active''), (''pool'', pool_addr),
        (''era'', to_string (p_era p)), (''rate'', to_string (p_rate p))]))))))))"

end
