(* ===== verification/Stake_Validators.thy ===== *)
theory Stake_Validators
  imports Stake_Helper
begin

text \<open>
  The validator set of a pool: adding a validator (execute\_pool\_add\_validator.rs), removing and
  replacing one with a redelegation (execute\_pool\_rm\_validator.rs,
  execute\_pool\_update\_validator.rs), the refresh of the interchain queries
  (execute\_update\_validators\_icq.rs), and delegation by the admin (execute\_pool\_delegate.rs).
\<close>

definition execute_add_pool_validators ::
  "host \<Rightarrow> message_info \<Rightarrow> string \<Rightarrow> string \<Rightarrow> sm_store \<Rightarrow> sm_result" where
  "execute_add_pool_validators h info pool_addr validator_addr s =
     rbind (load_pool s pool_addr) (\<lambda>p.
     if sender info \<noteq> p_admin p then Inl (Err Unauthorized_sm)
     else if p_status p \<noteq> ActiveEnded then Inl (Err EraProcessNotEnd)
     else if VALIDATER_LEN_LIMIT \<le> length (p_validator_addrs p)
     then Inl (Err ValidatorAddressesListSize)
     else if validator_addr \<in> set (p_validator_addrs p) then Inl (Err ValidatorAlreadyExit)
     else
     let p = p\<lparr>p_validator_addrs := p_validator_addrs p @ [validator_addr]\<rparr>;
         s = save_pool pool_addr p s in
     rbind (load_ica s (p_ica_id p)) (\<lambda>(pool_ica, _, _).
     rbind (deal_validators_icq_update h s pool_addr p (ctrl_connection_id pool_ica)) (\<lambda>r.
     Inr (s, r))))"

definition execute_rm_pool_validator ::
  "host \<Rightarrow> message_info \<Rightarrow> string \<Rightarrow> string \<Rightarrow> sm_store \<Rightarrow> sm_result" where
  "execute_rm_pool_validator h info pool_addr validator_addr s =
     rbind (load_pool s pool_addr) (\<lambda>p.
     if sender info \<noteq> p_admin p then Inl (Err Unauthorized_sm)
     else if p_status p \<noteq> ActiveEnded then Inl (Err EraProcessNotEnd)
     else if validator_addr \<notin> set (p_validator_addrs p) then Inl (Err OldValidatorNotExist)
     else if p_validator_update_status p \<noteq> UpdateEnd then Inl (Err StatusNotAllow)
     else
     rbind (query_delegation_by_addr h s pool_addr (p_sdk_greater_or_equal_v047 p)) (\<lambda>(ds, _).
     if length (p_validator_addrs p) \<le> 1 then Inl (Err ValidatorAddressesListSize)
     else
     let left_validators = filter (\<lambda>v. v \<noteq> validator_addr) (p_validator_addrs p);
         removed = p\<lparr>p_validator_update_status := WaitQueryUpdate,
                     p_validator_addrs := left_validators\<rparr> in
     rbind (case List.find (\<lambda>d. dl_validator d = validator_addr) ds of
         None \<Rightarrow> Inr (removed, [], s)
       | Some d \<Rightarrow>
           if c_amount (dl_amount d) = 0 then Inr (removed, [], s)
           else
           rbind (check_ibc_fee h info) (\<lambda>fee.
           rbind (load_ica s (p_ica_id p)) (\<lambda>(pool_ica, _, _).
           rbind (ok_or (Panic UnwrapNone) (case left_validators of [] \<Rightarrow> None | v # _ \<Rightarrow> Some v))
             (\<lambda>target.
           rbind (msg_with_sudo_callback
                    (SubmitTx (ctrl_connection_id pool_ica) (p_ica_id p)
                       [gen_redelegate_txs pool_addr (dl_validator d) target (p_remote_denom p)
                          (c_amount (dl_amount d))] DEFAULT_TIMEOUT_SECONDS fee)
                    \<lparr>pl_message = validator_addr, pl_pool_addr = ica_addr pool_ica,
                     pl_port_id = ctrl_port_id pool_ica, pl_tx_type = TxRmValidator\<rparr> s)
             (\<lambda>(msg, s). Inr (p\<lparr>p_validator_update_status := UpdateStart\<rparr>, [msg], s))))))
       (\<lambda>(p, msgs, s). Inr (save_pool pool_addr p s, respond msgs []))))"

definition sudo_rm_validator_callback :: "sudo_payload \<Rightarrow> sm_store \<Rightarrow> sm_result" where
  "sudo_rm_validator_callback pl s =
     rbind (load_pool s (pl_pool_addr pl)) (\<lambda>p.
     let p = p\<lparr>p_validator_addrs := retain (\<lambda>v. v \<noteq> pl_message pl) (p_validator_addrs p),
               p_validator_update_status := WaitQueryUpdate\<rparr> in
     Inr (save_pool (pl_pool_addr pl) p s, respond [] []))"

definition sudo_rm_validator_failed_callback :: "sudo_payload \<Rightarrow> sm_store \<Rightarrow> sm_result" where
  "sudo_rm_validator_failed_callback pl s =
     rbind (load_pool s (pl_pool_addr pl)) (\<lambda>p.
     Inr (save_pool (pl_pool_addr pl) (p\<lparr>p_validator_update_status := UpdateEnd\<rparr>) s, respond [] []))"

text \<open>The loop of \<open>execute_pool_update_validator\<close>: it stops at a delegation of zero.\<close>

fun redelegations :: "string \<Rightarrow> string \<Rightarrow> string \<Rightarrow> string \<Rightarrow> delegation list \<Rightarrow> protobuf_any list" where
  "redelegations pool_addr old new denom [] = []"
| "redelegations pool_addr old new denom (d # ds) =
     (if dl_validator d \<noteq> old then redelegations pool_addr old new denom ds
      else if c_amount (dl_amount d) = 0 then []
      else gen_redelegate_txs pool_addr (dl_validator d) new denom (c_amount (dl_amount d))
        # redelegations pool_addr old new denom ds)"

definition execute_pool_update_validator ::
  "host \<Rightarrow> message_info \<Rightarrow> string \<Rightarrow> string \<Rightarrow> string \<Rightarrow> sm_store \<Rightarrow> sm_result" where
  "execute_pool_update_validator h info pool_addr old_validator new_validator s =
     rbind (load_pool s pool_addr) (\<lambda>p.
     if sender info \<noteq> p_admin p then Inl (Err Unauthorized_sm)
     else if p_status p \<noteq> ActiveEnded then Inl (Err EraProcessNotEnd)
     else if p_validator_update_status p \<noteq> UpdateEnd then Inl (Err StatusNotAllow)
     else if old_validator \<notin> set (p_validator_addrs p) then Inl (Err OldValidatorNotExist)
     else if new_validator \<in> set (p_validator_addrs p) then Inl (Err NewValidatorAlreadyExist)
     else
     rbind (query_delegation_by_addr h s pool_addr (p_sdk_greater_or_equal_v047 p)) (\<lambda>(ds, _).
     let new_validators = retain (\<lambda>v. v \<noteq> old_validator) (p_validator_addrs p) @ [new_validator];
         msgs = redelegations pool_addr old_validator new_validator (p_remote_denom p) ds in
     rbind (load_ica s (p_ica_id p)) (\<lambda>(pool_ica, _, _).
     rbind (if msgs \<noteq> [] then
              rbind (check_ibc_fee h info) (\<lambda>fee.
              rbind (msg_with_sudo_callback
                       (SubmitTx (ctrl_connection_id pool_ica) (p_ica_id p) msgs
                          DEFAULT_TIMEOUT_SECONDS fee)
                       \<lparr>pl_message = join ''_'' new_validators, pl_pool_addr = ica_addr pool_ica,
                        pl_port_id = ctrl_port_id pool_ica, pl_tx_type = TxUpdateValidator\<rparr> s)
                (\<lambda>(msg, s). Inr (p\<lparr>p_validator_update_status := UpdateStart\<rparr>, [msg], s)))
            else Inr (p\<lparr>p_validator_update_status := WaitQueryUpdate\<rparr>, [], s)) (\<lambda>(p, out, s).
     Inr (save_pool pool_addr (p\<lparr>p_validator_addrs := new_validators\<rparr>) s, respond out [])))))"

definition sudo_update_validator_callback :: "sudo_payload \<Rightarrow> sm_store \<Rightarrow> sm_result" where
  "sudo_update_validator_callback pl s =
     rbind (load_pool s (pl_pool_addr pl)) (\<lambda>p.
     let p = p\<lparr>p_validator_addrs := split_on CHR ''_'' (pl_message pl),
               p_validator_update_status := WaitQueryUpdate\<rparr> in
     Inr (save_pool (pl_pool_addr pl) p s, respond [] []))"

definition sudo_update_validator_failed_callback :: "sudo_payload \<Rightarrow> sm_store \<Rightarrow> sm_result" where
  "sudo_update_validator_failed_callback pl s =
     rbind (load_pool s (pl_pool_addr pl)) (\<lambda>p.
     Inr (save_pool (pl_pool_addr pl) (p\<lparr>p_validator_update_status := UpdateEnd\<rparr>) s, respond [] []))"

definition execute_update_validators_icq ::
  "host \<Rightarrow> message_info \<Rightarrow> string \<Rightarrow> sm_store \<Rightarrow> sm_result" where
  "execute_update_validators_icq h info pool_addr s =
     rbind (load_pool s pool_addr) (\<lambda>p.
     if sender info \<noteq> p_admin p then Inl (Err Unauthorized_sm)
     else if p_validator_update_status p \<noteq> WaitQueryUpdate then Inl (Err StatusNotAllow)
     else
     let p = p\<lparr>p_validator_update_status := UpdateEnd\<rparr>;
         s = save_pool pool_addr p s in
     rbind (load_ica s (p_ica_id p)) (\<lambda>(pool_ica, _, _).
     rbind (deal_validators_icq_update h s pool_addr p (ctrl_connection_id pool_ica)) (\<lambda>r.
     Inr (s, r))))"

definition execute_pool_delegate ::
  "host \<Rightarrow> message_info \<Rightarrow> string \<Rightarrow> u128 \<Rightarrow> sm_store \<Rightarrow> sm_result" where
  "execute_pool_delegate h info pool_addr stake_amount s =
     rbind (load_pool s pool_addr) (\<lambda>p.
     if p_status p \<noteq> ActiveEnded then Inl (Err StatusNotAllow)
     else if sender info \<noteq> p_admin p then Inl (Err Unauthorized_sm)
     else if p_validator_addrs p = [] then Inl (Err ValidatorsEmpty)
     else
     rbind (split_amounts stake_amount (length (p_validator_addrs p))) (\<lambda>amounts.
     let msgs = map2 (\<lambda>v n. gen_delegation_txs pool_addr v (p_remote_denom p) n)
           (p_validator_addrs p) amounts in
     rbind (load_ica s (p_ica_id p)) (\<lambda>(pool_ica, _, _).
     rbind (check_ibc_fee h info) (\<lambda>fee.
     Inr (s, respond [no_reply (SubmitTx (ctrl_connection_id pool_ica) (p_ica_id p) msgs
       DEFAULT_TIMEOUT_SECONDS fee)] [])))))"

end
