(* ===== verification/Stake_Lsm.thy ===== *)
theory Stake_Lsm
  imports Stake_Helper
begin

text \<open>
  Staking of tokenised shares: \<open>StakeLsm\<close> sends the share tokens to the pool (execute\_stake\_lsm.rs)
  and \<open>RedeemTokenForShare\<close> turns them into delegations (execute\_redeem\_token\_for\_share.rs).
\<close>

section \<open>execute\_stake\_lsm.rs\<close>

definition lsm_message :: "string \<Rightarrow> u128 \<Rightarrow> u128 \<Rightarrow> string \<Rightarrow> string \<Rightarrow> string" where
  "lsm_message who token_amount share_amount ibc_denom denom =
     who @ ''_'' @ to_string token_amount @ ''_'' @ to_string share_amount @ ''_'' @ ibc_denom
       @ ''_'' @ denom"

text \<open>The tokens that the shares are worth at the validator: its tokens per share.\<close>

definition lsm_token_amount :: "staking_validator \<Rightarrow> u128 \<Rightarrow> u128 sm_res" where
  "lsm_token_amount v share_token_amount =
     rbind (ok_or (Err (Std_sm ParseErr)) (parse_uint (sv_tokens v))) (\<lambda>val_token_amount.
     rbind (ok_or (Err (Std_sm ParseErr)) (parse_uint (sv_delegator_shares v))) (\<lambda>shares.
     rbind (udiv shares 1000000000000000000) (\<lambda>val_share_amount.
     rbind (umul share_token_amount val_token_amount) (\<lambda>x.
     udiv x val_share_amount))))"

text \<open>The checks on the denomination: the channel it came through, its base denom, its validator.\<close>

definition lsm_denom ::
  "host \<Rightarrow> pool_info \<Rightarrow> string \<Rightarrow> (string \<times> string \<times> string) sm_res" where
  "lsm_denom h p ibc_denom =
     rbind (query_denom_trace_from_ibc_denom h ibc_denom) (\<lambda>(path, base_denom).
     case split_on CHR ''/'' path of
       [_, channel_id] \<Rightarrow>
         (case split_on CHR ''/'' base_denom of
            [validator_addr, _] \<Rightarrow>
              if validator_addr \<notin> set (p_validator_addrs p) then Inl (Err ValidatorNotSupport)
              else Inr (channel_id, base_denom, validator_addr)
          | _ \<Rightarrow> Inl (Err DenomTraceNotMatch))
     | _ \<Rightarrow> Inl (Err DenomPathNotMatch))"

definition lsm_timeout :: "env \<Rightarrow> u64 sm_res" where
  "lsm_timeout env =
     rbind (umul DEFAULT_TIMEOUT_SECONDS 1000000000) (\<lambda>t. uadd (block_time env) t)"

definition execute_stake_lsm ::
  "host \<Rightarrow> env \<Rightarrow> message_info \<Rightarrow> string \<Rightarrow> string \<Rightarrow> sm_store \<Rightarrow> sm_result" where
  "execute_stake_lsm h env info neutron_address pool_addr s =
     rbind (load_pool s pool_addr) (\<lambda>p.
     if \<not> p_lsm_support p then Inl (Err LsmStakeNotSupport)
     else if unat (ucast (p_lsm_pending_limit p) :: u32) \<le> length (p_share_tokens p)
     then Inl (Err LsmPendingStakeOverLimit)
     else if p_status p \<noteq> ActiveEnded then Inl (Err EraProcessNotEnd)
     else if p_validator_update_status p \<noteq> UpdateEnd then Inl (Err PoolIcqNotUpdated)
     else
     rbind (load_ica s (p_ica_id p)) (\<lambda>(pool_ica, _, _).
     if p_paused p then Inl (Err PoolIsPaused)
     else (case funds info of
       [c] \<Rightarrow>
         if \<not> contains ''/'' (c_denom c) then Inl (Err ParamsErrorFundsNotMatch)
         else if c_amount c < p_minimal_stake p then Inl (Err LessThanMinimalStake)
         else
         rbind (lsm_denom h p (c_denom c)) (\<lambda>(channel_id, base_denom, validator_addr).
         rbind (query_validator_by_addr h s pool_addr) (\<lambda>(vals, _).
         case List.find (\<lambda>v. sv_operator_address v = validator_addr) vals of
           None \<Rightarrow> Inl (Err NoValidatorInfo)
         | Some v \<Rightarrow>
             rbind (lsm_token_amount v (c_amount c)) (\<lambda>token_amount.
             if token_amount = 0 then Inl (Err TokenAmountZero)
             else
             rbind (from_std Std_sm (query_min_ibc_fee h)) (\<lambda>fee.
             rbind (lsm_timeout env) (\<lambda>timeout.
             rbind (msg_with_sudo_callback
                      (IbcTransfer ''transfer'' channel_id (contract_addr env) pool_addr c timeout
                         (min_ntrn_ibc_fee fee))
                      \<lparr>pl_message = lsm_message neutron_address token_amount (c_amount c)
                         (c_denom c) base_denom,
                       pl_pool_addr = pool_addr, pl_port_id = ctrl_port_id pool_ica,
                       pl_tx_type = TxStakeLsm\<rparr> s) (\<lambda>(msg, s).
             Inr (s, respond [msg] [])))))))
     | _ \<Rightarrow> Inl (Err ParamsErrorFundsNotMatch))))"

definition sudo_stake_lsm_callback :: "sudo_payload \<Rightarrow> sm_store \<Rightarrow> sm_result" where
  "sudo_stake_lsm_callback pl s =
     (case split_on CHR ''_'' (pl_message pl) of
        [staker, token_amount_str, share_token_amount_str, _, share_token_denom] \<Rightarrow>
          rbind (ok_or (Err (UnsupportedMessage (pl_message pl))) (parse_uint token_amount_str))
            (\<lambda>token_amount.
          rbind (ok_or (Err (UnsupportedMessage (pl_message pl))) (parse_uint share_token_amount_str))
            (\<lambda>share_token_amount.
          rbind (load_pool s (pl_pool_addr pl)) (\<lambda>p.
          rbind (uadd (p_active p) token_amount) (\<lambda>active.
          rbind (umul token_amount CAL_BASE) (\<lambda>x.
          rbind (udiv x (p_rate p)) (\<lambda>lsd_token_amount.
          rbind (uadd (p_total_lsd_token_amount p) lsd_token_amount) (\<lambda>total.
          let p = p\<lparr>p_active := active, p_total_lsd_token_amount := total,
                p_share_tokens := p_share_tokens p
                  @ [\<lparr>c_denom = share_token_denom, c_amount = share_token_amount\<rparr>]\<rparr> in
          Inr (save_pool (pl_pool_addr pl) p s,
            respond [no_reply (LsdMint (p_lsd_token p) staker lsd_token_amount)]
              [(''action'', ''stake_lsm''), (''pool'', pl_pool_addr pl), (''staker'', staker),
               (''token_amount'', to_string token_amount),
               (''lsd_token_amount'', to_string lsd_token_amount)]))))))))
      | _ \<Rightarrow> Inl (Err (UnsupportedMessage (pl_message pl))))"

definition sudo_stake_lsm_failed_callback :: "sudo_payload \<Rightarrow> sm_store \<Rightarrow> sm_result" where
  "sudo_stake_lsm_failed_callback pl s =
     (case split_on CHR ''_'' (pl_message pl) of
        [staker, _, share_token_amount_str, share_token_ibc_denom, _] \<Rightarrow>
          rbind (ok_or (Err (UnsupportedMessage (pl_message pl))) (parse_uint share_token_amount_str))
            (\<lambda>share_token_amount.
          Inr (s, respond [no_reply (BankSend staker
            [\<lparr>c_denom = share_token_ibc_denom, c_amount = share_token_amount\<rparr>])] []))
      | _ \<Rightarrow> Inl (Err (UnsupportedMessage (pl_message pl))))"

section \<open>execute\_redeem\_token\_for\_share.rs\<close>

fun redeem_loop ::
  "coin list \<Rightarrow> coin list \<Rightarrow> string list \<Rightarrow> string list sm_res" where
  "redeem_loop share_tokens [] denoms = Inr denoms"
| "redeem_loop share_tokens (c # cs) denoms =
     (if c \<notin> set share_tokens then Inl (Err ShareTokenNotExist)
      else if c_denom c \<in> set denoms then Inl (Err DuplicateToken)
      else redeem_loop share_tokens cs (denoms @ [c_denom c]))"

definition execute_redeem_token_for_share ::
  "host \<Rightarrow> message_info \<Rightarrow> string \<Rightarrow> coin list \<Rightarrow> sm_store \<Rightarrow> sm_result" where
  "execute_redeem_token_for_share h info pool_addr tokens s =
     (if length tokens = 0 \<or> 10 < length tokens then Inl (Err TokensLenNotMatch)
      else
      rbind (load_pool s pool_addr) (\<lambda>p.
      if \<not> p_lsm_support p then Inl (Err LsmStakeNotSupport)
      else
      rbind (load_ica s (p_ica_id p)) (\<lambda>(pool_ica, _, _).
      rbind (redeem_loop (p_share_tokens p) tokens []) (\<lambda>denoms.
      let p = p\<lparr>p_redeemming_share_token_denom := p_redeemming_share_token_denom p @ denoms\<rparr> in
      rbind (check_ibc_fee h info) (\<lambda>fee.
      rbind (msg_with_sudo_callback
               (SubmitTx (ctrl_connection_id pool_ica) (p_ica_id p)
                  (map (redeem_token_for_share_msg (ica_addr pool_ica)) tokens)
                  DEFAULT_TIMEOUT_SECONDS fee)
               \<lparr>pl_message = join '','' denoms, pl_pool_addr = pool_addr,
                pl_port_id = ctrl_port_id pool_ica, pl_tx_type = TxRedeemTokenForShare\<rparr> s)
        (\<lambda>(msg, s). Inr (save_pool pool_addr p s, respond [msg] [])))))))"

definition sudo_redeem_token_for_share_callback :: "sudo_payload \<Rightarrow> sm_store \<Rightarrow> sm_result" where
  "sudo_redeem_token_for_share_callback pl s =
     rbind (load_pool s (pl_pool_addr pl)) (\<lambda>p.
     let gone = split_on CHR '','' (pl_message pl);
         p = p\<lparr>p_share_tokens := retain (\<lambda>c. c_denom c \<notin> set gone) (p_share_tokens p),
               p_redeemming_share_token_denom :=
                 retain (\<lambda>d. d \<notin> set gone) (p_redeemming_share_token_denom p)\<rparr> in
     Inr (save_pool (pl_pool_addr pl) p s, respond [] []))"

definition sudo_redeem_token_for_share_failed_callback :: "sudo_payload \<Rightarrow> sm_store \<Rightarrow> sm_result" where
  "sudo_redeem_token_for_share_failed_callback pl s =
     rbind (load_pool s (pl_pool_addr pl)) (\<lambda>p.
     let gone = split_on CHR '','' (pl_message pl);
         p = p\<lparr>p_redeemming_share_token_denom :=
                 retain (\<lambda>d. d \<notin> set gone) (p_redeemming_share_token_denom p)\<rparr> in
     Inr (save_pool (pl_pool_addr pl) p s, respond [] []))"

end
