(* ===== verification/Stake_Admin.thy ===== *)
theory Stake_Admin
  imports Stake_Helper
begin

text \<open>
  The life of a pool before and beside its eras: registration of the interchain accounts and the
  handshake that creates the pool (execute\_register\_pool.rs), initialisation
  (execute\_init\_pool.rs), migration from another deployment (execute\_migrate\_pool.rs), the common
  end of both (\<open>deal_pool\<close> of helper.rs), configuration (execute\_config\_pool.rs,
  execute\_config\_stack.rs), reopened channels (execute\_open\_channel.rs) and the period of the
  interchain queries (execute\_icq\_update\_period.rs).
\<close>

section \<open>execute\_register\_pool.rs\<close>

definition invalid_ica_id :: "string \<Rightarrow> bool" where
  "invalid_ica_id i \<longleftrightarrow> trim_is_empty i \<or> contains ''.'' i \<or> contains ''-'' i
     \<or> contains ICA_WITHDRAW_SUFIX i \<or> INTERCHAIN_ACCOUNT_ID_LEN_LIMIT < length i"

definition new_ica_info :: "string \<Rightarrow> string \<Rightarrow> ica_info" where
  "new_ica_info conn port = \<lparr>ctrl_connection_id = conn, host_connection_id = '''',
     ctrl_channel_id = '''', host_channel_id = '''', ctrl_port_id = port, ica_addr = ''''\<rparr>"

definition execute_register_pool ::
  "host \<Rightarrow> env \<Rightarrow> message_info \<Rightarrow> string \<Rightarrow> string \<Rightarrow> sm_store \<Rightarrow> sm_result" where
  "execute_register_pool h env info connection_id i s =
     rbind (load_stack s) (\<lambda>k.
     if sk_admin k \<noteq> sender info then Inl (Err Unauthorized_sm)
     else if invalid_ica_id i then Inl (Err InvalidInterchainAccountId)
     else if has (INFO_OF_ICA_ID s) i then Inl (Err InterchainAccountIdAlreadyExist)
     else (case funds info of
       [c] \<Rightarrow>
         if c_denom c \<noteq> FEE_DENOM then Inl (Err ParamsErrorFundsNotMatch)
         else
         let fee = Some [\<lparr>c_denom = c_denom c, c_amount = c_amount c div 2\<rparr>];
             w = get_withdraw_ica_id i;
             s = s\<lparr>INFO_OF_ICA_ID := fmupd i
                  (new_ica_info connection_id (get_port_id h (contract_addr env) i),
                   new_ica_info connection_id (get_port_id h (contract_addr env) w),
                   sender info) (INFO_OF_ICA_ID s)\<rparr> in
         Inr (s, respond [no_reply (RegisterInterchainAccount connection_id i fee),
                          no_reply (RegisterInterchainAccount connection_id w fee)] [])
     | _ \<Rightarrow> Inl (Err ParamsErrorFundsNotMatch)))"

definition new_pool_info :: "string \<Rightarrow> addr \<Rightarrow> pool_info" where
  "new_pool_info i admin = \<lparr>p_bond = 0, p_unbond = 0, p_active = 0, p_lsd_token = '''',
     p_ica_id = i, p_ibc_denom = '''', p_channel_id_of_ibc_denom = '''', p_remote_denom = '''',
     p_validator_addrs = [], p_era = 0, p_rate = 0, p_era_seconds = 0, p_offset = 0,
     p_minimal_stake = 0, p_unstake_times_limit = 0, p_next_unstake_index = 0,
     p_unbonding_period = 0, p_status = RegisterEnded, p_validator_update_status = UpdateEnd,
     p_unbond_commission = 0, p_platform_fee_commission = 0, p_total_platform_fee = 0,
     p_total_lsd_token_amount = 0, p_platform_fee_receiver = '''', p_admin = admin,
     p_share_tokens = [], p_redeemming_share_token_denom = [],
     p_era_snapshot = \<lparr>es_era = 0, es_bond = 0, es_unbond = 0, es_active = 0,
       es_restake_amount = 0, es_last_step_height = 0\<rparr>,
     p_paused = False, p_lsm_support = False, p_lsm_pending_limit = 0, p_rate_change_limit = 0,
     p_sdk_greater_or_equal_v047 = False\<rparr>"

definition opened :: "string \<Rightarrow> string \<Rightarrow> string \<Rightarrow> string \<times> string \<Rightarrow> ica_info \<Rightarrow> ica_info" where
  "opened port channel_id counterparty_channel_id version ica =
     ica\<lparr>ctrl_channel_id := channel_id, ctrl_port_id := port, host_connection_id := fst version,
         host_channel_id := counterparty_channel_id, ica_addr := snd version\<rparr>"

definition sudo_open_ack ::
  "host \<Rightarrow> string \<Rightarrow> string \<Rightarrow> string \<Rightarrow> string \<Rightarrow> sm_store \<Rightarrow> sm_result" where
  "sudo_open_ack h port channel_id counterparty_channel_id counterparty_version s =
     (case parse_ack_version h counterparty_version of
        None \<Rightarrow> Inl (Err CantParseCounterpartyVersion)
      | Some version \<Rightarrow>
          (case split_on CHR ''.'' port of
             [_, ica_id_raw] \<Rightarrow>
               rbind (if contains ICA_WITHDRAW_SUFIX ica_id_raw
                      then ok_or (Panic UnwrapNone) (map_option (\<lambda>i. (False, i))
                             (strip_suffix ICA_WITHDRAW_SUFIX ica_id_raw))
                      else Inr (True, ica_id_raw)) (\<lambda>(is_pool, i).
               rbind (load_ica s i) (\<lambda>(pool_ica, withdraw, admin).
               let pool_ica = (if is_pool
                     then opened port channel_id counterparty_channel_id version pool_ica else pool_ica);
                   withdraw = (if is_pool
                     then withdraw else opened port channel_id counterparty_channel_id version withdraw);
                   s = (if ica_addr pool_ica \<noteq> '''' \<and> ica_addr withdraw \<noteq> ''''
                           \<and> \<not> has (POOLS s) (ica_addr pool_ica)
                        then save_pool (ica_addr pool_ica) (new_pool_info i admin) s else s);
                   s = s\<lparr>INFO_OF_ICA_ID := fmupd i (pool_ica, withdraw, admin) (INFO_OF_ICA_ID s)\<rparr> in
               Inr (s, respond [] [])))
           | _ \<Rightarrow> Inl (Err CounterpartyVersionNotMatch)))"

section \<open>helper.rs: set\_withdraw\_sub\_msg and deal\_pool\<close>

definition set_withdraw_sub_msg ::
  "host \<Rightarrow> pool_info \<Rightarrow> ica_info \<Rightarrow> ica_info \<Rightarrow> sm_store \<Rightarrow> (sm_out sub_msg \<times> sm_store) sm_res" where
  "set_withdraw_sub_msg h p pool_ica withdraw s =
     rbind (from_std Std_sm (query_min_ibc_fee h)) (\<lambda>fee.
     msg_with_sudo_callback
       (SubmitTx (ctrl_connection_id pool_ica) (p_ica_id p)
          [ProtobufAny ''/cosmos.distribution.v1beta1.MsgSetWithdrawAddress''
             (MsgSetWithdrawAddress (ica_addr pool_ica) (ica_addr withdraw))]
          DEFAULT_TIMEOUT_SECONDS (min_ntrn_ibc_fee fee))
       \<lparr>pl_message = ica_addr withdraw, pl_pool_addr = ica_addr pool_ica,
        pl_port_id = ctrl_port_id pool_ica, pl_tx_type = TxSetWithdrawAddr\<rparr> s)"

definition sudo_set_withdraw_addr_callback :: "sudo_payload \<Rightarrow> sm_store \<Rightarrow> sm_result" where
  "sudo_set_withdraw_addr_callback pl s =
     rbind (load_pool s (pl_pool_addr pl)) (\<lambda>p.
     Inr (save_pool (pl_pool_addr pl) (p\<lparr>p_status := ActiveEnded\<rparr>) s, respond [] []))"

definition sudo_set_withdraw_addr_failed_callback :: "sudo_payload \<Rightarrow> sm_store \<Rightarrow> sm_result" where
  "sudo_set_withdraw_addr_failed_callback pl s =
     rbind (load_pool s (pl_pool_addr pl)) (\<lambda>p.
     Inr (save_pool (pl_pool_addr pl) (p\<lparr>p_status := InitFailed\<rparr>) s, respond [] []))"

text \<open>The four interchain queries of a pool.\<close>

definition register_pool_queries ::
  "host \<Rightarrow> pool_info \<Rightarrow> ica_info \<Rightarrow> ica_info \<Rightarrow> sm_store \<Rightarrow> (sm_out sub_msg list \<times> sm_store) sm_res" where
  "register_pool_queries h p pool_ica withdraw s =
     rbind (register_balance_query_msg h (ctrl_connection_id pool_ica) (ica_addr pool_ica)
              (p_remote_denom p) DEFAULT_UPDATE_PERIOD) (\<lambda>m1.
     rbind (register_query_submsg m1 (ica_addr pool_ica) Balances s) (\<lambda>(sub1, s).
     rbind (register_balance_query_msg h (ctrl_connection_id withdraw) (ica_addr withdraw)
              (p_remote_denom p) DEFAULT_UPDATE_PERIOD) (\<lambda>m2.
     rbind (register_query_submsg m2 (ica_addr withdraw) Balances s) (\<lambda>(sub2, s).
     rbind (register_delegator_delegations_query_msg h (ctrl_connection_id pool_ica)
              (ica_addr pool_ica) (p_validator_addrs p) DEFAULT_UPDATE_PERIOD
              (p_sdk_greater_or_equal_v047 p)) (\<lambda>m3.
     rbind (register_query_submsg m3 (ica_addr pool_ica) Delegations s) (\<lambda>(sub3, s).
     rbind (register_staking_validators_query_msg h (ctrl_connection_id pool_ica)
              (p_validator_addrs p) 6) (\<lambda>m4.
     rbind (register_query_submsg m4 (ica_addr pool_ica) Validators s) (\<lambda>(sub4, s).
     Inr ([sub1, sub2, sub3, sub4], s)))))))))"

text \<open>
  The address of the new token contract. The salt is the first 40 bytes of the interchain account;
  slicing a shorter address panics.
\<close>

definition token_address :: "host \<Rightarrow> env \<Rightarrow> ica_info \<Rightarrow> u64 \<Rightarrow> (string \<times> addr) sm_res" where
  "token_address h env pool_ica code_id =
     (if length (ica_addr pool_ica) < 40 then Inl (Panic IndexOutOfBounds)
      else
      let salt = take 40 (ica_addr pool_ica) in
      rbind (from_std Std_sm (query_code_checksum h code_id)) (\<lambda>checksum.
      rbind (from_std Std_sm (addr_canonicalize h (contract_addr env))) (\<lambda>creator.
      rbind (case instantiate2_address h checksum creator salt of
          Inl e \<Rightarrow> Inl (Err (Instantiate2AddressFailed e)) | Inr a \<Rightarrow> Inr a) (\<lambda>i2.
      rbind (from_std Std_sm (addr_humanize h i2)) (\<lambda>a.
      Inr (salt, a))))))"

definition deal_pool ::
  "host \<Rightarrow> env \<Rightarrow> message_info \<Rightarrow> pool_info \<Rightarrow> ica_info \<Rightarrow> ica_info \<Rightarrow> u64 \<Rightarrow> string \<Rightarrow> string \<Rightarrow> sm_store
     \<Rightarrow> sm_result" where
  "deal_pool h env info p pool_ica withdraw code_id lsd_name lsd_symbol s =
     rbind (query_denom_trace_from_ibc_denom h (p_ibc_denom p)) (\<lambda>(_, base_denom).
     if base_denom \<noteq> p_remote_denom p then Inl (Err DenomTraceNotMatch)
     else
     rbind (token_address h env pool_ica code_id) (\<lambda>(salt, token).
     let p = p\<lparr>p_lsd_token := token, p_status := InitStarted\<rparr>;
         instantiate = LsdInstantiate2 (sender info) code_id lsd_name lsd_symbol DEFAULT_DECIMALS
           (p_admin p) (contract_addr env) lsd_name salt;
         a = ica_addr pool_ica;
         s = save_pool a p s;
         s = s\<lparr>ERA_RATE := fmupd (a, p_era p) (p_rate p) (ERA_RATE s)\<rparr>;
         s = s\<lparr>TOTAL_STACK_FEE := fmupd a 0 (TOTAL_STACK_FEE s)\<rparr> in
     rbind (register_pool_queries h p pool_ica withdraw s) (\<lambda>(subs, s).
     rbind (set_withdraw_sub_msg h p pool_ica withdraw s) (\<lambda>(sub, s).
     Inr (s, respond (no_reply instantiate # subs @ [sub]) [])))))"

section \<open>execute\_init\_pool.rs and execute\_migrate\_pool.rs\<close>

definition first_fund :: "message_info \<Rightarrow> coin sm_res" where
  "first_fund info = ok_or (Panic IndexOutOfBounds) (case funds info of [] \<Rightarrow> None | c # _ \<Rightarrow> Some c)"

text \<open>
  What both handlers do before the parameters: after the authorisation, a pool whose withdraw
  address could not be set gets another attempt (\<open>Inl\<close>), any other pool must be registered and not
  yet initialised and must get the fees of the four queries and of one transaction (\<open>Inr\<close>).
\<close>

definition prepare_pool ::
  "host \<Rightarrow> message_info \<Rightarrow> pool_info \<Rightarrow> ica_info \<Rightarrow> ica_info \<Rightarrow> sm_store
     \<Rightarrow> ((sm_store \<times> sm_out response) + unit) sm_res" where
  "prepare_pool h info p pool_ica withdraw s =
     rbind (from_std Std_sm (query_min_ibc_fee h)) (\<lambda>fee.
     rbind (total_ibc_fee (min_ntrn_ibc_fee fee)) (\<lambda>ibc_total.
     if p_status p = InitFailed then
       rbind (first_fund info) (\<lambda>c.
       if c_amount c < ibc_total then Inl (Err ParamsErrorFundsNotMatch)
       else
       rbind (set_withdraw_sub_msg h p pool_ica withdraw s) (\<lambda>(sub, s).
       Inr (Inl (s, respond [sub] []))))
     else if p_status p \<noteq> RegisterEnded then Inl (Err StatusNotAllow)
     else
     rbind (query_icq_register_fee h) (\<lambda>icq_fee.
     rbind (first_fund info) (\<lambda>c.
     rbind (umul (total_icq_register_fee icq_fee) 4) (\<lambda>x.
     rbind (uadd x ibc_total) (\<lambda>needed.
     if c_amount c < needed then Inl (Err ParamsErrorFundsNotMatch)
     else Inr (Inr ())))))))"

definition code_id_or_default :: "u64 option \<Rightarrow> sm_store \<Rightarrow> u64 sm_res" where
  "code_id_or_default code s = (case code of
       Some c \<Rightarrow> Inr c
     | None \<Rightarrow> rbind (load_stack s) (\<lambda>k. Inr (sk_lsd_token_code_id k)))"

definition init_pool_info :: "env \<Rightarrow> init_pool_params \<Rightarrow> pool_info \<Rightarrow> pool_info sm_res" where
  "init_pool_info env m p =
     (let p = p\<lparr>p_ibc_denom := ip_ibc_denom m,
        p_channel_id_of_ibc_denom := ip_channel_id_of_ibc_denom m,
        p_remote_denom := ip_remote_denom m, p_validator_addrs := ip_validator_addrs m,
        p_platform_fee_receiver := ip_platform_fee_receiver m,
        p_unbonding_period := ip_unbonding_period m, p_minimal_stake := ip_minimal_stake m,
        p_sdk_greater_or_equal_v047 := ip_sdk_greater_or_equal_v047 m\<rparr>;
        p = p\<lparr>p_platform_fee_commission := (case ip_platform_fee_commission m of
               Some c \<Rightarrow> c | None \<Rightarrow> 100000)\<rparr> in
      rbind (case ip_era_seconds m of
          Some e \<Rightarrow> if e < MIN_ERA_SECONDS then Inl (Err LessThanMinimalEraSeconds) else Inr e
        | None \<Rightarrow> Inr DEFAULT_ERA_SECONDS) (\<lambda>era_seconds.
      rbind (udiv (seconds env) era_seconds) (\<lambda>q.
      rbind (isub 0 q) (\<lambda>offset.
      Inr (p\<lparr>p_era_seconds := era_seconds, p_offset := offset, p_era := 0, p_bond := 0,
             p_unbond := 0, p_active := 0, p_rate := CAL_BASE, p_share_tokens := [],
             p_total_platform_fee := 0, p_total_lsd_token_amount := 0, p_next_unstake_index := 0,
             p_unstake_times_limit := 20, p_unbond_commission := 0, p_paused := False,
             p_lsm_support := False, p_lsm_pending_limit := 100, p_rate_change_limit := 0,
             p_validator_update_status := UpdateEnd\<rparr>)))))"

definition execute_init_pool ::
  "host \<Rightarrow> env \<Rightarrow> message_info \<Rightarrow> init_pool_params \<Rightarrow> sm_store \<Rightarrow> sm_result" where
  "execute_init_pool h env info m s =
     rbind (load_stack s) (\<lambda>k.
     if sk_admin k \<noteq> sender info then Inl (Err Unauthorized_sm)
     else
     rbind (load_ica s (ip_interchain_account_id m)) (\<lambda>(pool_ica, withdraw, _).
     if ip_validator_addrs m = [] \<or> VALIDATER_LEN_LIMIT < length (ip_validator_addrs m)
     then Inl (Err ValidatorAddressesListSize)
     else
     rbind (load_pool s (ica_addr pool_ica)) (\<lambda>p.
     if sender info \<noteq> p_admin p then Inl (Err Unauthorized_sm)
     else
     rbind (prepare_pool h info p pool_ica withdraw s) (\<lambda>r.
     case r of
       Inl res \<Rightarrow> Inr res
     | Inr _ \<Rightarrow>
         rbind (init_pool_info env m p) (\<lambda>p.
         rbind (code_id_or_default (ip_lsd_code_id m) s) (\<lambda>code_id.
         deal_pool h env info p pool_ica withdraw code_id (ip_lsd_token_name m)
           (ip_lsd_token_symbol m) s))))))"

definition migrate_pool_info :: "migrate_pool_params \<Rightarrow> pool_info \<Rightarrow> pool_info sm_res" where
  "migrate_pool_info m p =
     (if mp_rate m = 0 then Inl (Err RateIsZero)
      else
      let p = p\<lparr>p_bond := mp_bond m, p_unbond := mp_unbond m, p_active := mp_active m,
        p_era := mp_era m, p_rate := mp_rate m, p_ibc_denom := mp_ibc_denom m,
        p_channel_id_of_ibc_denom := mp_channel_id_of_ibc_denom m,
        p_remote_denom := mp_remote_denom m, p_validator_addrs := mp_validator_addrs m,
        p_platform_fee_receiver := mp_platform_fee_receiver m,
        p_share_tokens := mp_share_tokens m, p_total_platform_fee := mp_total_platform_fee m,
        p_total_lsd_token_amount := mp_total_lsd_token_amount m,
        p_era_seconds := mp_era_seconds m, p_offset := mp_offset m,
        p_unbonding_period := mp_unbonding_period m, p_minimal_stake := mp_minimal_stake m,
        p_sdk_greater_or_equal_v047 := mp_sdk_greater_or_equal_v047 m\<rparr>;
        p = p\<lparr>p_platform_fee_commission := (case mp_platform_fee_commission m of
               Some c \<Rightarrow> c | None \<Rightarrow> 100000)\<rparr>;
        p = p\<lparr>p_next_unstake_index := 0, p_unstake_times_limit := 20, p_unbond_commission := 0,
               p_paused := False, p_lsm_support := True, p_lsm_pending_limit := 50,
               p_rate_change_limit := 0, p_validator_update_status := UpdateEnd\<rparr> in
      rbind (if p_total_lsd_token_amount p = 0 then Inr CAL_BASE
             else rbind (umul (p_active p) CAL_BASE) (\<lambda>x. udiv x (p_total_lsd_token_amount p)))
        (\<lambda>cal_rate.
      if cal_rate \<noteq> p_rate p then Inl (Err RateNotMatch) else Inr p))"

definition execute_migrate_pool ::
  "host \<Rightarrow> env \<Rightarrow> message_info \<Rightarrow> migrate_pool_params \<Rightarrow> sm_store \<Rightarrow> sm_result" where
  "execute_migrate_pool h env info m s =
     rbind (load_ica s (mp_interchain_account_id m)) (\<lambda>(pool_ica, withdraw, _).
     if mp_validator_addrs m = [] \<or> VALIDATER_LEN_LIMIT < length (mp_validator_addrs m)
     then Inl (Err ValidatorAddressesListSize)
     else
     rbind (load_pool s (ica_addr pool_ica)) (\<lambda>p.
     if sender info \<noteq> p_admin p then Inl (Err Unauthorized_sm)
     else
     rbind (prepare_pool h info p pool_ica withdraw s) (\<lambda>r.
     case r of
       Inl res \<Rightarrow> Inr res
     | Inr _ \<Rightarrow>
         rbind (migrate_pool_info m p) (\<lambda>p.
         rbind (code_id_or_default (mp_lsd_code_id m) s) (\<lambda>code_id.
         deal_pool h env info p pool_ica withdraw code_id (mp_lsd_token_name m)
           (mp_lsd_token_symbol m) s)))))"

section \<open>execute\_config\_pool.rs and execute\_config\_stack.rs\<close>

text \<open>
  The unbonding period in eras for a new era length, computed in floating point as
  \<open>ceil (UNBONDING_SECONDS / era_seconds) + 1\<close>. For an era between 8 and 24 hours the quotient lies
  between 21 and 63 and is an integer or at least \<open>1 / 86400\<close> away from one, far more than the
  rounding of a double, so the result is the exact ceiling.
\<close>

definition unbonding_eras :: "u64 \<Rightarrow> u64" where
  "unbonding_eras e =
     UNBONDING_SECONDS div e + (if UNBONDING_SECONDS mod e = 0 then 0 else 1) + 1"

definition config_era :: "env \<Rightarrow> u64 option \<Rightarrow> pool_info \<Rightarrow> pool_info sm_res" where
  "config_era env new_era_seconds p =
     (case new_era_seconds of
        None \<Rightarrow> Inr p
      | Some e \<Rightarrow>
          if e < MIN_ERA_SECONDS then Inl (Err LessThanMinimalEraSeconds)
          else if MAX_ERA_SECONDS < e then Inl (Err ExceedMaxEraSeconds)
          else
          rbind (current_era env p) (\<lambda>era.
          rbind (udiv (seconds env) e) (\<lambda>q.
          rbind (isub era q) (\<lambda>offset.
          Inr (p\<lparr>p_era_seconds := e, p_offset := offset,
                 p_unbonding_period := unbonding_eras e\<rparr>)))))"

definition set_opt :: "'a option \<Rightarrow> 'a \<Rightarrow> 'a" where
  "set_opt new old = (case new of Some v \<Rightarrow> v | None \<Rightarrow> old)"

definition execute_config_pool ::
  "message_info \<Rightarrow> env \<Rightarrow> config_pool_params \<Rightarrow> sm_store \<Rightarrow> sm_result" where
  "execute_config_pool info env m s =
     rbind (load_pool s (cp_pool_addr m)) (\<lambda>p.
     if sender info \<noteq> p_admin p then Inl (Err Unauthorized_sm)
     else
     let p = p\<lparr>p_minimal_stake := set_opt (cp_minimal_stake m) (p_minimal_stake p),
       p_unbonding_period := set_opt (cp_unbonding_period m) (p_unbonding_period p),
       p_unstake_times_limit := set_opt (cp_unstake_times_limit m) (p_unstake_times_limit p),
       p_unbond_commission := set_opt (cp_unbond_commission m) (p_unbond_commission p),
       p_platform_fee_commission :=
         set_opt (cp_platform_fee_commission m) (p_platform_fee_commission p)\<rparr> in
     rbind (config_era env (cp_era_seconds m) p) (\<lambda>p.
     let p = p\<lparr>p_platform_fee_receiver :=
         set_opt (cp_platform_fee_receiver m) (p_platform_fee_receiver p),
       p_paused := set_opt (cp_paused m) (p_paused p),
       p_lsm_support := set_opt (cp_lsm_support m) (p_lsm_support p),
       p_lsm_pending_limit := set_opt (cp_lsm_pending_limit m) (p_lsm_pending_limit p),
       p_rate_change_limit := set_opt (cp_rate_change_limit m) (p_rate_change_limit p),
       p_admin := set_opt (cp_new_admin m) (p_admin p)\<rparr> in
     Inr (save_pool (cp_pool_addr m) p s, respond [] [])))"

definition execute_config_stack ::
  "message_info \<Rightarrow> config_stack_params \<Rightarrow> sm_store \<Rightarrow> sm_result" where
  "execute_config_stack info m s =
     rbind (load_stack s) (\<lambda>k.
     if sk_admin k \<noteq> sender info then Inl (Err Unauthorized_sm)
     else
     let k = k\<lparr>sk_stack_fee_receiver := set_opt (cs_stack_fee_receiver m) (sk_stack_fee_receiver k),
       sk_stack_fee_commission := set_opt (cs_stack_fee_commission m) (sk_stack_fee_commission k),
       sk_admin := set_opt (cs_new_admin m) (sk_admin k),
       sk_lsd_token_code_id := set_opt (cs_lsd_token_code_id m) (sk_lsd_token_code_id k)\<rparr>;
       k = (case cs_add_entrusted_pool m of
           None \<Rightarrow> k
         | Some a \<Rightarrow> if a \<in> set (sk_pools k) then k else k\<lparr>sk_pools := sk_pools k @ [a]\<rparr>) in
     Inr (s\<lparr>STACK := Some k\<rparr>, respond [] []))"

section \<open>execute\_open\_channel.rs and execute\_icq\_update\_period.rs\<close>

definition execute_open_channel :: "message_info \<Rightarrow> string \<Rightarrow> string \<Rightarrow> sm_store \<Rightarrow> sm_result" where
  "execute_open_channel info pool_addr closed_channel_id s =
     rbind (load_pool s pool_addr) (\<lambda>p.
     if sender info \<noteq> p_admin p then Inl (Err Unauthorized_sm)
     else
     let fee = (if funds info \<noteq> [] then Some (funds info) else None) in
     rbind (load_ica s (p_ica_id p)) (\<lambda>(pool_ica, withdraw, _).
     if closed_channel_id = ctrl_channel_id pool_ica then
       Inr (s, respond [no_reply (RegisterInterchainAccount (ctrl_connection_id pool_ica)
         (p_ica_id p) fee)] [])
     else if closed_channel_id = ctrl_channel_id withdraw then
       Inr (s, respond [no_reply (RegisterInterchainAccount (ctrl_connection_id withdraw)
         (get_withdraw_ica_id (p_ica_id p)) fee)] [])
     else Inl (Err ClosedChannelIdUnmatch)))"

definition update_icq_update_period ::
  "host \<Rightarrow> message_info \<Rightarrow> string \<Rightarrow> u64 \<Rightarrow> sm_store \<Rightarrow> sm_result" where
  "update_icq_update_period h info pool_addr new_update_period s =
     (if new_update_period < DEFAULT_FAST_PERIOD then Inl (Err PeriodTooSmall)
      else
      rbind (load_pool s pool_addr) (\<lambda>p.
      if p_admin p \<noteq> sender info then Inl (Err Unauthorized_sm)
      else if p_status p \<noteq> ActiveEnded \<or> p_validator_update_status p \<noteq> UpdateEnd
      then Inl (Err StatusNotAllow)
      else
      rbind (get_update_pool_icq_msgs h s pool_addr (p_ica_id p) new_update_period) (\<lambda>ms.
      Inr (s, respond ms []))))"

end
