(* ===== verification/Stake_Contract.thy ===== *)
theory Stake_Contract
  imports Stake_User Stake_Active Stake_Validators Stake_Lsm Stake_Admin
begin

text \<open>
  The entry points of the stake manager (contract.rs) with the handling of replies and
  acknowledgements (tx\_callback.rs, query\_callback.rs) and the queries (query.rs).
\<close>

section \<open>Replies\<close>

text \<open>The result of a submessage: an error, or the optional data of the response.\<close>

type_synonym reply_result = "string + string option"

definition reply_data :: "reply_result \<Rightarrow> string sm_res" where
  "reply_data r = (case r of
       Inl e \<Rightarrow> Inl (Err (Std_sm (GenericErr e)))
     | Inr None \<Rightarrow> Inl (Err ICQErrReplyNoResult)
     | Inr (Some d) \<Rightarrow> Inr d)"

definition prepare_sudo_payload :: "host \<Rightarrow> u64 \<Rightarrow> reply_result \<Rightarrow> sm_store \<Rightarrow> sm_result" where
  "prepare_sudo_payload h i result s =
     rbind (read_reply_payload s i) (\<lambda>pl.
     rbind (reply_data result) (\<lambda>d.
     rbind (ok_or (Err (ICQErrFailedParse '''')) (parse_transfer_response h d)) (\<lambda>(ch, sq).
     Inr (save_sudo_payload ch sq pl s, respond [] []))))"

definition write_reply_id_to_query_id :: "host \<Rightarrow> u64 \<Rightarrow> reply_result \<Rightarrow> sm_store \<Rightarrow> sm_result" where
  "write_reply_id_to_query_id h i result s =
     rbind (reply_data result) (\<lambda>d.
     rbind (ok_or (Err (ICQErrFailedParse '''')) (parse_register_response h d)) (\<lambda>q.
     Inr (s\<lparr>REPLY_ID_TO_QUERY_ID := fmupd i q (REPLY_ID_TO_QUERY_ID s),
            QUERY_ID_TO_REPLY_ID := fmupd q i (QUERY_ID_TO_REPLY_ID s)\<rparr>, respond [] [])))"

definition reply_sm :: "host \<Rightarrow> u64 \<Rightarrow> reply_result \<Rightarrow> sm_store \<Rightarrow> sm_result" where
  "reply_sm h i result s =
     (if REPLY_ID_RANGE_START \<le> i \<and> i \<le> REPLY_ID_RANGE_END then prepare_sudo_payload h i result s
      else if QUERY_REPLY_ID_RANGE_START \<le> i \<and> i \<le> QUERY_REPLY_ID_RANGE_END
      then write_reply_id_to_query_id h i result s
      else Inl (Err (UnsupportedReplyId i)))"

section \<open>Acknowledgements\<close>

fun sudo_callback :: "env \<Rightarrow> tx_type \<Rightarrow> sudo_payload \<Rightarrow> sm_store \<Rightarrow> sm_result" where
  "sudo_callback env TxSetWithdrawAddr pl s = sudo_set_withdraw_addr_callback pl s"
| "sudo_callback env TxEraUpdate pl s = sudo_era_update_callback env pl s"
| "sudo_callback env TxEraBond pl s = sudo_era_bond_callback env pl s"
| "sudo_callback env TxEraCollectWithdraw pl s = sudo_era_collect_withdraw_callback env pl s"
| "sudo_callback env TxEraRebond pl s = sudo_era_rebond_callback env pl s"
| "sudo_callback env TxUserWithdraw pl s = sudo_withdraw_callback pl s"
| "sudo_callback env TxUpdateValidator pl s = sudo_update_validator_callback pl s"
| "sudo_callback env TxRmValidator pl s = sudo_rm_validator_callback pl s"
| "sudo_callback env TxStakeLsm pl s = sudo_stake_lsm_callback pl s"
| "sudo_callback env TxRedeemTokenForShare pl s = sudo_redeem_token_for_share_callback pl s"

fun sudo_failed_callback :: "tx_type \<Rightarrow> sudo_payload \<Rightarrow> sm_store \<Rightarrow> sm_result" where
  "sudo_failed_callback TxSetWithdrawAddr pl s = sudo_set_withdraw_addr_failed_callback pl s"
| "sudo_failed_callback TxEraUpdate pl s = sudo_era_update_failed_callback pl s"
| "sudo_failed_callback TxEraBond pl s = sudo_era_bond_failed_callback pl s"
| "sudo_failed_callback TxEraCollectWithdraw pl s = sudo_era_collect_withdraw_failed_callback pl s"
| "sudo_failed_callback TxEraRebond pl s = sudo_era_rebond_failed_callback pl s"
| "sudo_failed_callback TxUserWithdraw pl s = sudo_withdraw_failed_callback pl s"
| "sudo_failed_callback TxUpdateValidator pl s = sudo_update_validator_failed_callback pl s"
| "sudo_failed_callback TxRmValidator pl s = sudo_rm_validator_failed_callback pl s"
| "sudo_failed_callback TxStakeLsm pl s = sudo_stake_lsm_failed_callback pl s"
| "sudo_failed_callback TxRedeemTokenForShare pl s = sudo_redeem_token_for_share_failed_callback pl s"

record request_packet =
  rp_sequence :: "u64 option"
  rp_source_channel :: "string option"

text \<open>What the three acknowledgement handlers share: the payload of the packet is taken out.\<close>

definition take_payload ::
  "request_packet \<Rightarrow> sm_store \<Rightarrow> (sudo_payload \<times> sm_store) sm_res" where
  "take_payload req s =
     rbind (ok_or (Err CallBackErrSequenceNotFound) (rp_sequence req)) (\<lambda>sq.
     rbind (ok_or (Err CallBackErrChannelIDNotFound) (rp_source_channel req)) (\<lambda>ch.
     case read_sudo_payload s ch sq of
       Inr pl \<Rightarrow> Inr (pl, s\<lparr>SUDO_PAYLOAD := fmdrop (ch, sq) (SUDO_PAYLOAD s)\<rparr>)
     | Inl _ \<Rightarrow> Inl (Err CallBackErrErrorMsg)))"

definition sudo_response :: "env \<Rightarrow> request_packet \<Rightarrow> sm_store \<Rightarrow> sm_result" where
  "sudo_response env req s =
     rbind (take_payload req s) (\<lambda>(pl, s). sudo_callback env (pl_tx_type pl) pl s)"

definition sudo_error :: "request_packet \<Rightarrow> sm_store \<Rightarrow> sm_result" where
  "sudo_error req s =
     rbind (take_payload req s) (\<lambda>(pl, s). sudo_failed_callback (pl_tx_type pl) pl s)"

definition sudo_timeout :: "request_packet \<Rightarrow> sm_store \<Rightarrow> sm_result" where
  "sudo_timeout req s =
     rbind (take_payload req s) (\<lambda>(pl, s). sudo_failed_callback (pl_tx_type pl) pl s)"

definition sudo_kv_query_result :: "host \<Rightarrow> u64 \<Rightarrow> sm_store \<Rightarrow> sm_result" where
  "sudo_kv_query_result h query_id s =
     (case fmlookup (QUERY_ID_TO_REPLY_ID s) query_id of
        None \<Rightarrow> Inr (s, respond [] [])
      | Some reply_id \<Rightarrow>
          let s = s\<lparr>QUERY_ID_TO_REPLY_ID := fmdrop query_id (QUERY_ID_TO_REPLY_ID s)\<rparr> in
          if (case fmlookup (REPLY_ID_TO_NEED_UPDATE s) reply_id of None \<Rightarrow> False | Some b \<Rightarrow> b) then
            let s = s\<lparr>REPLY_ID_TO_NEED_UPDATE := fmdrop reply_id (REPLY_ID_TO_NEED_UPDATE s)\<rparr> in
            rbind (update_interchain_query h query_id None (Some DEFAULT_UPDATE_PERIOD)) (\<lambda>m.
            Inr (s, respond [no_reply m] []))
          else Inr (s, respond [] []))"

datatype sudo_msg =
    SudoResponse request_packet
  | SudoError request_packet
  | SudoTimeout request_packet
  | SudoKVQueryResult u64
  | SudoOpenAck string string string string
      \<comment> \<open>port, channel, counterparty channel, counterparty version\<close>
  | SudoOther

fun sudo_sm :: "host \<Rightarrow> env \<Rightarrow> sudo_msg \<Rightarrow> sm_store \<Rightarrow> sm_result" where
  "sudo_sm h env (SudoResponse req) s = sudo_response env req s"
| "sudo_sm h env (SudoError req) s = sudo_error req s"
| "sudo_sm h env (SudoTimeout req) s = sudo_timeout req s"
| "sudo_sm h env (SudoKVQueryResult q) s = sudo_kv_query_result h q s"
| "sudo_sm h env (SudoOpenAck port ch cch v) s = sudo_open_ack h port ch cch v s"
| "sudo_sm h env SudoOther s = Inr (s, respond [] [])"

section \<open>Instantiation, migration, dispatch\<close>

definition instantiate_sm :: "message_info \<Rightarrow> u64 \<Rightarrow> sm_store \<Rightarrow> sm_result" where
  "instantiate_sm info lsd_token_code_id s =
     Inr (s\<lparr>SM_VERSION := Some (''stake-manager'', ''0.1.0''),
            STACK := Some \<lparr>sk_admin = sender info, sk_stack_fee_receiver = sender info,
              sk_stack_fee_commission = 100000, sk_pools = [],
              sk_lsd_token_code_id = lsd_token_code_id\<rparr>\<rparr>, respond [] [])"

definition migrate_sm :: "sm_store \<Rightarrow> sm_result" where
  "migrate_sm s = Inr (s\<lparr>SM_VERSION := Some (''stake-manager'', ''0.1.0'')\<rparr>, respond [] [])"

fun execute_sm ::
  "host \<Rightarrow> (string set \<Rightarrow> string list) \<Rightarrow> env \<Rightarrow> message_info \<Rightarrow> sm_execute_msg \<Rightarrow> sm_store \<Rightarrow> sm_result"
where
  "execute_sm h ho env info (RegisterPool conn i) s = execute_register_pool h env info conn i s"
| "execute_sm h ho env info (InitPool m) s = execute_init_pool h env info m s"
| "execute_sm h ho env info (MigratePool m) s = execute_migrate_pool h env info m s"
| "execute_sm h ho env info (ConfigPool m) s = execute_config_pool info env m s"
| "execute_sm h ho env info (ConfigStack m) s = execute_config_stack info m s"
| "execute_sm h ho env info (OpenChannel a ch) s = execute_open_channel info a ch s"
| "execute_sm h ho env info (RedeemTokenForShare a cs) s =
     execute_redeem_token_for_share h info a cs s"
| "execute_sm h ho env info (Stake who a) s = execute_stake who a info s"
| "execute_sm h ho env info (Unstake n a) s = execute_unstake info n a s"
| "execute_sm h ho env info (Withdraw a rcv is) s = execute_withdraw h info a rcv is s"
| "execute_sm h ho env info (PoolRmValidator a v) s = execute_rm_pool_validator h info a v s"
| "execute_sm h ho env info (PoolAddValidator a v) s = execute_add_pool_validators h info a v s"
| "execute_sm h ho env info (PoolUpdateValidator a old new) s =
     execute_pool_update_validator h info a old new s"
| "execute_sm h ho env info (PoolUpdateValidatorsIcq a) s = execute_update_validators_icq h info a s"
| "execute_sm h ho env info (PoolDelegate a n) s = execute_pool_delegate h info a n s"
| "execute_sm h ho env info (EraUpdate a) s = execute_era_update h env info a s"
| "execute_sm h ho env info (EraBond a vs) s = execute_era_bond h ho env info a vs s"
| "execute_sm h ho env info (EraCollectWithdraw a) s = execute_era_collect_withdraw h info a s"
| "execute_sm h ho env info (EraRebond a vs) s = execute_era_rebond h info a vs s"
| "execute_sm h ho env info (EraActive a) s = execute_era_active h a s"
| "execute_sm h ho env info (StakeLsm who a) s = execute_stake_lsm h env info who a s"
| "execute_sm h ho env info (UpdateIcqUpdatePeriod a n) s = update_icq_update_period h info a n s"

section \<open>Queries\<close>

definition query_user_unstake :: "string \<Rightarrow> addr \<Rightarrow> sm_store \<Rightarrow> unstake_info list sm_res" where
  "query_user_unstake pool_addr who s =
     (case fmlookup (UNSTAKES_INDEX_FOR_USER s) (who, pool_addr) of
        None \<Rightarrow> Inr []
      | Some unstakes \<Rightarrow>
          rmap (\<lambda>i. load (Std_sm (NotFound ''UnstakeInfo'')) (UNSTAKES_OF_INDEX s) (pool_addr, i))
            unstakes)"

definition query_user_unstake_index :: "string \<Rightarrow> addr \<Rightarrow> sm_store \<Rightarrow> u64 list option" where
  "query_user_unstake_index pool_addr who s = fmlookup (UNSTAKES_INDEX_FOR_USER s) (who, pool_addr)"

definition query_era_rate :: "string \<Rightarrow> u64 \<Rightarrow> sm_store \<Rightarrow> u128 option" where
  "query_era_rate pool_addr era s = fmlookup (ERA_RATE s) (pool_addr, era)"

definition query_ids :: "string \<Rightarrow> sm_store \<Rightarrow> (u64 \<times> u64 \<times> u64 \<times> u64) sm_res" where
  "query_ids pool_addr s =
     rbind (load_pool s pool_addr) (\<lambda>p.
     rbind (load_ica s (p_ica_id p)) (\<lambda>(_, withdraw, _).
     rbind (get_query_id s (ica_addr withdraw) Balances) (\<lambda>wb.
     rbind (get_query_id s pool_addr Balances) (\<lambda>pb.
     rbind (get_query_id s pool_addr Delegations) (\<lambda>pd.
     rbind (get_query_id s pool_addr Validators) (\<lambda>pv.
     Inr (wb, pb, pd, pv)))))))"

definition query_pool_info :: "string \<Rightarrow> sm_store \<Rightarrow> pool_info sm_res" where
  "query_pool_info pool_addr s = load_pool s pool_addr"

definition query_stack_info :: "sm_store \<Rightarrow> stack sm_res" where
  "query_stack_info s = load_stack s"

definition query_total_stack_fee :: "string \<Rightarrow> sm_store \<Rightarrow> u128 sm_res" where
  "query_total_stack_fee pool_addr s =
     load (Std_sm (NotFound ''total_stack_fee'')) (TOTAL_STACK_FEE s) pool_addr"

definition query_era_snapshot :: "string \<Rightarrow> sm_store \<Rightarrow> era_snapshot sm_res" where
  "query_era_snapshot pool_addr s = rbind (load_pool s pool_addr) (\<lambda>p. Inr (p_era_snapshot p))"

definition query_interchain_address_contract ::
  "string \<Rightarrow> sm_store \<Rightarrow> (ica_info \<times> ica_info \<times> addr) sm_res" where
  "query_interchain_address_contract i s = load_ica s i"

definition get_ica_registered_query ::
  "host \<Rightarrow> string \<Rightarrow> query_kind \<Rightarrow> sm_store \<Rightarrow> registered_query sm_res" where
  "get_ica_registered_query h a k s =
     rbind (get_query_id s a k) (\<lambda>i. from_std Std_sm (query_registered h i))"

end
