(* ===== verification/Stake_Lemmas.thy ===== *)
theory Stake_Lemmas
  imports Stake_Contract
begin

text \<open>
  The facts the proofs about the stake manager share: the allocation of reply ids, which the contract
  does twice, as an interface with two interpretations; what sending a message with a callback
  changes; the phases of an era that wait for an acknowledgement, as an interface with four
  interpretations.
\<close>

section \<open>Allocation of ids\<close>

text \<open>
  An allocator hands out consecutive ids of a range and starts again at its end. \<open>pos\<close> is the
  distance of the next id from the start of the range.
\<close>

fun alloc_n :: "('s \<Rightarrow> (stake_error, u64 \<times> 's) res) \<Rightarrow> nat \<Rightarrow> 's \<Rightarrow> (stake_error, u64 list \<times> 's) res" where
  "alloc_n alloc 0 s = Inr ([], s)"
| "alloc_n alloc (Suc n) s =
     rbind (alloc s) (\<lambda>(i, s). rbind (alloc_n alloc n s) (\<lambda>(is, s). Inr (i # is, s)))"

locale id_allocator =
  fixes alloc :: "'s \<Rightarrow> (stake_error, u64 \<times> 's) res"
    and ids_ok :: "'s \<Rightarrow> bool"
    and pos :: "'s \<Rightarrow> nat"
    and lo :: nat
    and size :: nat
  assumes size_pos: "0 < size"
    and alloc_total: "ids_ok s \<Longrightarrow> \<exists>i s'. alloc s = Inr (i, s')"
    and alloc_id: "ids_ok s \<Longrightarrow> alloc s = Inr (i, s') \<Longrightarrow> unat i = lo + pos s"
    and alloc_ok: "ids_ok s \<Longrightarrow> alloc s = Inr (i, s') \<Longrightarrow> ids_ok s'"
    and alloc_pos: "ids_ok s \<Longrightarrow> alloc s = Inr (i, s') \<Longrightarrow> pos s' = (pos s + 1) mod size"
    and pos_bound: "ids_ok s \<Longrightarrow> pos s < size"
begin

lemma alloc_n_ids:
  "ids_ok s \<Longrightarrow> alloc_n alloc n s = Inr (is, s') \<Longrightarrow>
   map unat is = map (\<lambda>k. lo + (pos s + k) mod size) [0..<n] \<and> ids_ok s'"
proof (induction n arbitrary: s "is")
  case (Suc n)
  then obtain i s1 js where a: "alloc s = Inr (i, s1)" and b: "alloc_n alloc n s1 = Inr (js, s')"
    and ids: "is = i # js"
    by (auto simp: res_simps)
  note ok = alloc_ok [OF Suc.prems(1) a] and p = alloc_pos [OF Suc.prems(1) a]
  note IH = Suc.IH [OF ok b]
  have "(pos s1 + k) mod size = (pos s + Suc k) mod size" for k
    by (simp add: p mod_simps)
  with IH alloc_id [OF Suc.prems(1) a] pos_bound [OF Suc.prems(1)] ids show ?case
    by (simp add: upt_conv_Cons map_Suc_upt [symmetric] del: upt_Suc)
qed simp

lemma alloc_n_total: "ids_ok s \<Longrightarrow> \<exists>is s'. alloc_n alloc n s = Inr (is, s')"
proof (induction n arbitrary: s)
  case (Suc n)
  obtain i s1 where a: "alloc s = Inr (i, s1)" using alloc_total [OF Suc.prems] by blast
  from Suc.IH [OF alloc_ok [OF Suc.prems a]] a show ?case by auto
qed simp

lemma alloc_n_distinct:
  assumes "ids_ok s" and "alloc_n alloc n s = Inr (is, s')" and "n \<le> size"
  shows "distinct is \<and> (\<forall>i \<in> set is. lo \<le> unat i \<and> unat i < lo + size)"
proof -
  from alloc_n_ids [OF assms(1,2)]
  have m: "map unat is = map (\<lambda>k. lo + (pos s + k) mod size) [0..<n]" by simp
  have inj: "inj_on (\<lambda>k. lo + (pos s + k) mod size) {0..<n}"
  proof (rule inj_onI)
    fix j k
    assume jk: "j \<in> {0..<n}" "k \<in> {0..<n}" "lo + (pos s + j) mod size = lo + (pos s + k) mod size"
    then have "(int (pos s) + int j) mod int size = (int (pos s) + int k) mod int size"
      by (metis add_left_cancel of_nat_add of_nat_mod)
    then have "int size dvd (int j - int k)"
      by (simp add: mod_eq_dvd_iff)
    moreover have "\<bar>int j - int k\<bar> < int size" using jk(1,2) assms(3) by auto
    ultimately show "j = k" using zdvd_not_zless [of "\<bar>int j - int k\<bar>" "int size"] by fastforce
  qed
  then have "distinct (map unat is)" by (simp add: m distinct_map)
  moreover have "lo \<le> unat i \<and> unat i < lo + size" if "i \<in> set is" for i
  proof -
    from that have "unat i \<in> set (map unat is)" by simp
    then show ?thesis using size_pos unfolding m by auto
  qed
  ultimately show ?thesis by (simp add: distinct_map)
qed

end

definition in_range :: "u64 \<Rightarrow> u64 \<Rightarrow> u64 option \<Rightarrow> bool" where
  "in_range lo hi latest \<longleftrightarrow> (\<forall>i. latest = Some i \<longrightarrow> lo \<le> i \<and> i \<le> hi)"

definition offset_of :: "u64 \<Rightarrow> u64 option \<Rightarrow> nat" where
  "offset_of lo latest = (case latest of None \<Rightarrow> 0 | Some i \<Rightarrow> unat i - unat lo)"

lemma next_id_ok:
  assumes "in_range lo hi latest" and "lo \<le> hi" and "unat hi < 2 ^ 64 - 1"
  obtains i j where "next_id lo hi latest = Inr (i, j)" and "unat i = unat lo + offset_of lo latest"
    and "in_range lo hi (Some j)"
    and "offset_of lo (Some j) = (offset_of lo latest + 1) mod (unat hi - unat lo + 1)"
    and "offset_of lo latest < unat hi - unat lo + 1"
proof -
  define i where "i = (case latest of None \<Rightarrow> lo | Some i \<Rightarrow> i)"
  have i: "unat lo \<le> unat i" "unat i \<le> unat hi"
    using assms by (auto simp: i_def in_range_def word_le_nat_alt split: option.splits)
  have o': "offset_of lo latest = unat i - unat lo"
    by (simp add: offset_of_def i_def split: option.splits)
  define j where "j = (if hi < i + 1 then lo else i + 1)"
  have s: "unat (i + 1) = unat i + 1"
    using i assms(3) by (subst unat_add_exact) simp_all
  have r: "next_id lo hi latest = Inr (i, j)"
    using i assms(3) by (simp add: next_id_def i_def [symmetric] uadd_def j_def Let_def)
  have j: "unat j = (if unat i = unat hi then unat lo else unat i + 1)"
    using i s by (auto simp: j_def word_less_nat_alt)
  show ?thesis
  proof (rule that [OF r])
    show "unat i = unat lo + offset_of lo latest" using o' i by simp
    show "in_range lo hi (Some j)"
      using i j assms(2) by (auto simp: in_range_def word_le_nat_alt)
    show "offset_of lo latest < unat hi - unat lo + 1" using o' i by simp
    show "offset_of lo (Some j) = (offset_of lo latest + 1) mod (unat hi - unat lo + 1)"
    proof (cases "unat i = unat hi")
      case True
      then show ?thesis using i j o' by (simp add: offset_of_def)
    next
      case False
      then have "unat i - unat lo + 1 < unat hi - unat lo + 1" using i by simp
      then show ?thesis using i j o' False by (simp add: offset_of_def Suc_diff_le)
    qed
  qed
qed

definition reply_ids_ok :: "sm_store \<Rightarrow> bool" where
  "reply_ids_ok s = in_range REPLY_ID_RANGE_START REPLY_ID_RANGE_END (LATEST_REPLY_ID s)"

definition query_ids_ok :: "sm_store \<Rightarrow> bool" where
  "query_ids_ok s =
     in_range QUERY_REPLY_ID_RANGE_START QUERY_REPLY_ID_RANGE_END (LATEST_QUERY_REPLY_ID s)"

lemma range_values:
  "unat REPLY_ID_RANGE_START = 1000000000" "unat REPLY_ID_RANGE_END = 1001000000"
  "unat QUERY_REPLY_ID_RANGE_START = 2000000000" "unat QUERY_REPLY_ID_RANGE_END = 2001000000"
  by (simp_all add: REPLY_ID_RANGE_START_def REPLY_ID_RANGE_END_def QUERY_REPLY_ID_RANGE_START_def
      QUERY_REPLY_ID_RANGE_END_def)

lemma reply_next:
  assumes "reply_ids_ok s"
  obtains i j where "get_next_reply_id s = Inr (i, s\<lparr>LATEST_REPLY_ID := Some j\<rparr>)"
    and "unat i = 1000000000 + offset_of REPLY_ID_RANGE_START (LATEST_REPLY_ID s)"
    and "reply_ids_ok (s\<lparr>LATEST_REPLY_ID := Some j\<rparr>)"
    and "offset_of REPLY_ID_RANGE_START (Some j)
      = (offset_of REPLY_ID_RANGE_START (LATEST_REPLY_ID s) + 1) mod 1000001"
    and "offset_of REPLY_ID_RANGE_START (LATEST_REPLY_ID s) < 1000001"
  by (rule next_id_ok [of REPLY_ID_RANGE_START REPLY_ID_RANGE_END "LATEST_REPLY_ID s"])
    (use assms in \<open>auto simp: reply_ids_ok_def get_next_reply_id_def range_values word_le_nat_alt\<close>)

lemma query_next:
  assumes "query_ids_ok s"
  obtains i j where "get_next_query_reply_id s = Inr (i, s\<lparr>LATEST_QUERY_REPLY_ID := Some j\<rparr>)"
    and "unat i = 2000000000 + offset_of QUERY_REPLY_ID_RANGE_START (LATEST_QUERY_REPLY_ID s)"
    and "query_ids_ok (s\<lparr>LATEST_QUERY_REPLY_ID := Some j\<rparr>)"
    and "offset_of QUERY_REPLY_ID_RANGE_START (Some j)
      = (offset_of QUERY_REPLY_ID_RANGE_START (LATEST_QUERY_REPLY_ID s) + 1) mod 1000001"
    and "offset_of QUERY_REPLY_ID_RANGE_START (LATEST_QUERY_REPLY_ID s) < 1000001"
  by (rule next_id_ok [of QUERY_REPLY_ID_RANGE_START QUERY_REPLY_ID_RANGE_END
        "LATEST_QUERY_REPLY_ID s"])
    (use assms in \<open>auto simp: query_ids_ok_def get_next_query_reply_id_def range_values word_le_nat_alt\<close>)

interpretation reply_ids: id_allocator get_next_reply_id reply_ids_ok
  "\<lambda>s. offset_of REPLY_ID_RANGE_START (LATEST_REPLY_ID s)" 1000000000 1000001
  by unfold_locales (simp, (erule reply_next, force)+)

interpretation query_reply_ids: id_allocator get_next_query_reply_id query_ids_ok
  "\<lambda>s. offset_of QUERY_REPLY_ID_RANGE_START (LATEST_QUERY_REPLY_ID s)" 2000000000 1000001
  by unfold_locales (simp, (erule query_next, force)+)

section \<open>Messages with a callback\<close>

lemma msg_cb_ok:
  assumes "msg_with_sudo_callback m pl s = Inr (sub, s')"
  obtains i s1 where "get_next_reply_id s = Inr (i, s1)" and "sub = reply_on_success m i"
    and "s' = s1\<lparr>REPLY_ID_TO_PAYLOAD := fmupd i pl (REPLY_ID_TO_PAYLOAD s1)\<rparr>"
  using assms by (auto simp: msg_with_sudo_callback_def save_reply_payload_def res_simps)

lemma next_reply_id_frame:
  "get_next_reply_id s = Inr (i, s1) \<Longrightarrow> \<exists>j. s1 = s\<lparr>LATEST_REPLY_ID := Some j\<rparr>"
  by (auto simp: get_next_reply_id_def res_simps)

lemma msg_cb_frame:
  assumes "msg_with_sudo_callback m pl s = Inr (sub, s')"
  shows "POOLS s' = POOLS s \<and> STACK s' = STACK s \<and> INFO_OF_ICA_ID s' = INFO_OF_ICA_ID s
    \<and> UNSTAKES_OF_INDEX s' = UNSTAKES_OF_INDEX s
    \<and> UNSTAKES_INDEX_FOR_USER s' = UNSTAKES_INDEX_FOR_USER s
    \<and> SUDO_PAYLOAD s' = SUDO_PAYLOAD s \<and> ERA_RATE s' = ERA_RATE s
    \<and> VALIDATORS_UNBONDS_TIME s' = VALIDATORS_UNBONDS_TIME s
    \<and> TOTAL_STACK_FEE s' = TOTAL_STACK_FEE s \<and> ADDRESS_TO_REPLY_ID s' = ADDRESS_TO_REPLY_ID s
    \<and> REPLY_ID_TO_QUERY_ID s' = REPLY_ID_TO_QUERY_ID s \<and> sm_msg sub = m
    \<and> sm_reply sub = ReplySuccess"
  using assms by (rule msg_cb_ok) (auto dest!: next_reply_id_frame)

lemma next_query_id_frame:
  "get_next_query_reply_id s = Inr (i, s1) \<Longrightarrow> \<exists>j. s1 = s\<lparr>LATEST_QUERY_REPLY_ID := Some j\<rparr>"
  by (auto simp: get_next_query_reply_id_def res_simps)

lemma register_query_frame:
  "register_query_submsg m a k s = Inr (sub, s') \<Longrightarrow>
   POOLS s' = POOLS s \<and> STACK s' = STACK s \<and> INFO_OF_ICA_ID s' = INFO_OF_ICA_ID s
   \<and> ERA_RATE s' = ERA_RATE s \<and> UNSTAKES_OF_INDEX s' = UNSTAKES_OF_INDEX s
   \<and> UNSTAKES_INDEX_FOR_USER s' = UNSTAKES_INDEX_FOR_USER s"
  by (auto simp: register_query_submsg_def res_simps Let_def dest!: next_query_id_frame
      split: if_splits)

lemma register_pool_queries_frame:
  "register_pool_queries h p ica w s = Inr (subs, s') \<Longrightarrow>
   POOLS s' = POOLS s \<and> STACK s' = STACK s \<and> INFO_OF_ICA_ID s' = INFO_OF_ICA_ID s
   \<and> ERA_RATE s' = ERA_RATE s \<and> UNSTAKES_OF_INDEX s' = UNSTAKES_OF_INDEX s
   \<and> UNSTAKES_INDEX_FOR_USER s' = UNSTAKES_INDEX_FOR_USER s"
  by (auto simp: register_pool_queries_def res_simps dest!: register_query_frame)

lemma set_withdraw_frame:
  "set_withdraw_sub_msg h p ica w s = Inr (sub, s') \<Longrightarrow>
   POOLS s' = POOLS s \<and> STACK s' = STACK s \<and> INFO_OF_ICA_ID s' = INFO_OF_ICA_ID s
   \<and> ERA_RATE s' = ERA_RATE s \<and> UNSTAKES_OF_INDEX s' = UNSTAKES_OF_INDEX s
   \<and> UNSTAKES_INDEX_FOR_USER s' = UNSTAKES_INDEX_FOR_USER s"
  by (auto simp: set_withdraw_sub_msg_def res_simps dest!: msg_cb_frame)

lemma withdraw_loop_frame:
  "rfold (withdraw_one info a p) is (s, t) = Inr (s', t') \<Longrightarrow>
   POOLS s' = POOLS s \<and> STACK s' = STACK s \<and> INFO_OF_ICA_ID s' = INFO_OF_ICA_ID s
   \<and> UNSTAKES_INDEX_FOR_USER s' = UNSTAKES_INDEX_FOR_USER s
   \<and> SUDO_PAYLOAD s' = SUDO_PAYLOAD s \<and> ERA_RATE s' = ERA_RATE s"
proof (induction "is" arbitrary: s t)
  case (Cons i "is")
  then obtain s1 t1 where w: "withdraw_one info a p i (s, t) = Inr (s1, t1)"
    and r: "rfold (withdraw_one info a p) is (s1, t1) = Inr (s', t')"
    by (auto simp: res_simps)
  from w have "POOLS s1 = POOLS s \<and> STACK s1 = STACK s \<and> INFO_OF_ICA_ID s1 = INFO_OF_ICA_ID s
    \<and> UNSTAKES_INDEX_FOR_USER s1 = UNSTAKES_INDEX_FOR_USER s
    \<and> SUDO_PAYLOAD s1 = SUDO_PAYLOAD s \<and> ERA_RATE s1 = ERA_RATE s"
    by (auto simp: withdraw_one_def res_simps)
  with Cons.IH [OF r] show ?case by simp
qed simp

lemma clear_timestamps_frame:
  "clear_timestamps now per k s = Inr (full, s') \<Longrightarrow>
   POOLS s' = POOLS s \<and> STACK s' = STACK s \<and> INFO_OF_ICA_ID s' = INFO_OF_ICA_ID s
   \<and> UNSTAKES_OF_INDEX s' = UNSTAKES_OF_INDEX s
   \<and> UNSTAKES_INDEX_FOR_USER s' = UNSTAKES_INDEX_FOR_USER s"
  by (auto simp: clear_timestamps_def res_simps split: option.splits list.splits if_splits)

lemma allocate_loop_frame:
  "allocate_loop now per ds (s, rem, infos) = Inr (s', rem', infos') \<Longrightarrow>
   POOLS s' = POOLS s \<and> STACK s' = STACK s \<and> INFO_OF_ICA_ID s' = INFO_OF_ICA_ID s
   \<and> UNSTAKES_OF_INDEX s' = UNSTAKES_OF_INDEX s
   \<and> UNSTAKES_INDEX_FOR_USER s' = UNSTAKES_INDEX_FOR_USER s"
proof (induction ds arbitrary: s rem infos)
  case (Cons d ds)
  show ?case
  proof (cases "rem = 0")
    case True
    with Cons.prems show ?thesis by simp
  next
    case False
    with Cons.prems obtain full s1 rem1 infos1
      where c: "clear_timestamps now per (dl_delegator d, dl_validator d) s = Inr (full, s1)"
        and r: "allocate_loop now per ds (s1, rem1, infos1) = Inr (s', rem', infos')"
      by (auto simp: res_simps Let_def split: if_splits)
    from clear_timestamps_frame [OF c] Cons.IH [OF r] show ?thesis by simp
  qed
qed simp

lemma bond_unbonds_frame:
  "bond_unbonds h ho env a p s = Inr (ms, str, s') \<Longrightarrow>
   POOLS s' = POOLS s \<and> STACK s' = STACK s \<and> INFO_OF_ICA_ID s' = INFO_OF_ICA_ID s
   \<and> UNSTAKES_OF_INDEX s' = UNSTAKES_OF_INDEX s
   \<and> UNSTAKES_INDEX_FOR_USER s' = UNSTAKES_INDEX_FOR_USER s"
  by (auto simp: bond_unbonds_def allocate_unbond_amount_def res_simps Let_def
      dest!: allocate_loop_frame split: if_splits)

lemma push_timestamp_frame [simp]:
  "POOLS (fold (push_timestamp a now) vs s) = POOLS s"
  "STACK (fold (push_timestamp a now) vs s) = STACK s"
  "INFO_OF_ICA_ID (fold (push_timestamp a now) vs s) = INFO_OF_ICA_ID s"
  "UNSTAKES_OF_INDEX (fold (push_timestamp a now) vs s) = UNSTAKES_OF_INDEX s"
  "UNSTAKES_INDEX_FOR_USER (fold (push_timestamp a now) vs s) = UNSTAKES_INDEX_FOR_USER s"
  "SUDO_PAYLOAD (fold (push_timestamp a now) vs s) = SUDO_PAYLOAD s"
  by (induction vs arbitrary: s) (simp_all add: push_timestamp_def Let_def)

lemma take_payload_ok:
  assumes "take_payload req s = Inr (pl, s')"
  obtains ch sq where "rp_source_channel req = Some ch" and "rp_sequence req = Some sq"
    and "fmlookup (SUDO_PAYLOAD s) (ch, sq) = Some pl"
    and "s' = s\<lparr>SUDO_PAYLOAD := fmdrop (ch, sq) (SUDO_PAYLOAD s)\<rparr>"
  using assms by (auto simp: take_payload_def read_sudo_payload_def res_simps split: sum.splits)

end
