(* ===== verification/Stake_Books.thy ===== *)
theory Stake_Books
  imports Stake_Lemmas
begin

text \<open>
  The books of a pool: its tokens at its rate are never worth more than what it stakes. Every
  operation of the stake manager keeps the books, those that change them by arithmetic on the
  rounding of the code, the others because they leave the four numbers alone.
\<close>

section \<open>The invariant\<close>

definition backed :: "u128 \<Rightarrow> u128 \<Rightarrow> u128 \<Rightarrow> bool" where
  "backed tokens rate active \<longleftrightarrow> unat tokens * unat rate \<le> unat active * unat CAL_BASE"

definition solvent :: "pool_info \<Rightarrow> bool" where
  "solvent p \<longleftrightarrow> backed (p_total_lsd_token_amount p) (p_rate p) (p_active p)"

definition books_ok :: "pool_info \<Rightarrow> bool" where
  "books_ok p \<longleftrightarrow> solvent p \<and> p_platform_fee_commission p \<le> CAL_BASE"

text \<open>
  The code accepts a platform commission above the whole, and such a commission can break the books
  (\<open>overcharged_pool\<close> below). So a step is judged pool by pool: it keeps a pool solvent whose books
  were in order before it; the flag says that it leaves the commission within the whole as well.
\<close>

definition fine :: "bool \<Rightarrow> pool_info \<Rightarrow> bool" where
  "fine c p \<longleftrightarrow> solvent p \<and> (c \<longrightarrow> p_platform_fee_commission p \<le> CAL_BASE)"

definition keeps_books :: "bool \<Rightarrow> sm_store \<Rightarrow> sm_store \<Rightarrow> bool" where
  "keeps_books c s s' \<longleftrightarrow> (\<forall>a p'. fmlookup (POOLS s') a = Some p' \<longrightarrow>
     (\<forall>p. fmlookup (POOLS s) a = Some p \<longrightarrow> books_ok p) \<longrightarrow> fine c p')"

definition sm_books :: "sm_store \<Rightarrow> bool" where
  "sm_books s \<longleftrightarrow> (\<forall>a p. fmlookup (POOLS s) a = Some p \<longrightarrow> books_ok p)"

lemma CAL_BASE_nat: "unat CAL_BASE = 1000000"
  by (simp add: CAL_BASE_def)

lemma sm_booksD: "sm_books s \<Longrightarrow> fmlookup (POOLS s) a = Some p \<Longrightarrow> books_ok p"
  by (auto simp: sm_books_def)

lemma fine_True [simp]: "fine True p = books_ok p"
  by (simp add: fine_def books_ok_def)

lemma books_fine: "books_ok p \<Longrightarrow> fine c p"
  by (simp add: fine_def books_ok_def)

lemma fine_solvent: "fine c p \<Longrightarrow> solvent p"
  by (simp add: fine_def)

lemma keeps_books_any: "keeps_books True s s' \<Longrightarrow> keeps_books c s s'"
  by (auto simp: keeps_books_def intro: books_fine)

lemma keeps_sm_books: "keeps_books True s s' \<Longrightarrow> sm_books s \<Longrightarrow> sm_books s'"
  by (simp add: keeps_books_def sm_books_def)

lemma keeps_books_same: "POOLS s' = POOLS s \<Longrightarrow> keeps_books c s s'"
  by (auto simp: keeps_books_def intro: books_fine)

lemma keeps_books_cong: "POOLS s1 = POOLS s \<Longrightarrow> keeps_books c s1 s' = keeps_books c s s'"
  by (simp add: keeps_books_def)

lemma keeps_books_new: "fine c p' \<Longrightarrow> POOLS s' = fmupd a p' (POOLS s) \<Longrightarrow> keeps_books c s s'"
  by (auto simp: keeps_books_def intro: books_fine)

section \<open>The operations that change the books\<close>

lemma stake_arith:
  fixes T R A t BASE :: nat
  assumes "T * R \<le> A * BASE"
  shows "(T + t * BASE div R) * R \<le> (A + t) * BASE"
  using assms div_times_less_eq_dividend [of "t * BASE" R] unfolding add_mult_distrib by linarith

lemma unstake_arith:
  fixes T R A b BASE :: nat
  assumes "T * R \<le> A * BASE" and "b \<le> T" and "b * R div BASE \<le> A"
  shows "(T - b) * R \<le> (A - b * R div BASE) * BASE"
proof -
  have "(T - b) * R = T * R - b * R" by (simp add: diff_mult_distrib)
  also have "\<dots> \<le> A * BASE - b * R div BASE * BASE"
    using assms(1) div_times_less_eq_dividend [of "b * R" BASE] by linarith
  finally show ?thesis by (simp add: diff_mult_distrib)
qed

lemma mint_backed:
  assumes "backed T R A" and "uadd A t = Inr A'" and "umul t CAL_BASE = Inr x" and "udiv x R = Inr n"
    and "uadd T n = Inr T'"
  shows "backed T' R A'"
  using assms(1) stake_arith [of "unat T" "unat R" "unat A" "unat CAL_BASE" "unat t"]
    uadd_unat [OF assms(2)] umul_unat [OF assms(3)] udiv_unat [OF assms(4)] uadd_unat [OF assms(5)]
  by (simp add: backed_def)

lemma burn_backed:
  assumes "backed T R A" and "umul b R = Inr x" and "udiv x CAL_BASE = Inr n" and "usub A n = Inr A'"
    and "usub T b = Inr T'"
  shows "backed T' R A'"
proof -
  note x = umul_unat [OF assms(2)] and n = udiv_unat [OF assms(3)]
  note A = usub_unat [OF assms(4)] and T = usub_unat [OF assms(5)]
  have "unat T' = unat T - unat b" "unat A' = unat A - unat n"
    "unat b \<le> unat T" "unat n \<le> unat A" using A T by linarith+
  moreover have "unat n = unat b * unat R div unat CAL_BASE" using x n by simp
  ultimately show ?thesis
    using assms(1) unstake_arith [of "unat T" "unat R" "unat A" "unat CAL_BASE" "unat b"]
    by (simp add: backed_def)
qed

lemma books_update:
  assumes "fmlookup (POOLS s) a = Some p" and "POOLS s' = fmupd a p' (POOLS s)"
    and "books_ok p \<Longrightarrow> fine c p'"
  shows "keeps_books c s s'"
  using assms by (auto simp: keeps_books_def intro: books_fine)

lemmas books_update_ok = books_update [of _ _ _ _ _ True, unfolded fine_True]

text \<open>Deposits: the pool gets \<open>t\<close> of the remote tokens and mints their worth at the rate.\<close>

definition deposits :: "u128 \<Rightarrow> pool_info \<Rightarrow> pool_info \<Rightarrow> bool" where
  "deposits t p p' \<longleftrightarrow> p_rate p' = p_rate p
     \<and> p_platform_fee_commission p' = p_platform_fee_commission p
     \<and> uadd (p_active p) t = (Inr (p_active p') :: u128 sm_res)
     \<and> (\<exists>x n. umul t CAL_BASE = (Inr x :: u128 sm_res) \<and> udiv x (p_rate p) = (Inr n :: u128 sm_res)
          \<and> uadd (p_total_lsd_token_amount p) n = (Inr (p_total_lsd_token_amount p') :: u128 sm_res))"

lemma deposits_books: "deposits t p p' \<Longrightarrow> books_ok p \<Longrightarrow> books_ok p'"
  by (auto simp: deposits_def books_ok_def solvent_def intro: mint_backed)

lemma execute_stake_deposits:
  assumes "execute_stake who a info s = Inr (s', r)"
  obtains p p' c where "fmlookup (POOLS s) a = Some p" and "funds info = [c]"
    and "POOLS s' = fmupd a p' (POOLS s)" and "deposits (c_amount c) p p'"
proof -
  from assms obtain p c A B x n T where p: "fmlookup (POOLS s) a = Some p" "funds info = [c]"
    and ar: "uadd (p_active p) (c_amount c) = (Inr A :: u128 sm_res)"
      "umul (c_amount c) CAL_BASE = (Inr x :: u128 sm_res)"
      "udiv x (p_rate p) = (Inr n :: u128 sm_res)"
      "uadd (p_total_lsd_token_amount p) n = (Inr T :: u128 sm_res)"
    and s': "s' = save_pool a (p\<lparr>p_active := A, p_bond := B, p_total_lsd_token_amount := T\<rparr>) s"
    unfolding execute_stake_def Let_def rbind_eq_Inr if_Inl_eq_Inr load_pool_eq_Inr case_single_eq_Inr
      sum.inject prod.inject
    by (elim exE conjE) (rule that, assumption+, rule sym, assumption)
  show ?thesis
    by (rule that [OF p, of "p\<lparr>p_active := A, p_bond := B, p_total_lsd_token_amount := T\<rparr>"])
      (use ar s' in \<open>simp_all add: deposits_def res_simps\<close>)
qed

lemma execute_stake_books:
  "execute_stake who a info s = Inr (s', r) \<Longrightarrow> keeps_books True s s'"
  by (erule execute_stake_deposits) (auto intro: books_update_ok deposits_books)

lemma stake_lsm_callback_deposits:
  assumes "sudo_stake_lsm_callback pl s = Inr (s', r)"
  obtains p p' t where "fmlookup (POOLS s) (pl_pool_addr pl) = Some p"
    and "POOLS s' = fmupd (pl_pool_addr pl) p' (POOLS s)" and "deposits t p p'"
proof -
  let ?a = "pl_pool_addr pl"
  from assms obtain p t A x n T cs where p: "fmlookup (POOLS s) ?a = Some p"
    and ar: "uadd (p_active p) t = (Inr A :: u128 sm_res)" "umul t CAL_BASE = (Inr x :: u128 sm_res)"
      "udiv x (p_rate p) = (Inr n :: u128 sm_res)"
      "uadd (p_total_lsd_token_amount p) n = (Inr T :: u128 sm_res)"
    and s': "s' = save_pool ?a (p\<lparr>p_active := A, p_total_lsd_token_amount := T,
      p_share_tokens := cs\<rparr>) s"
    unfolding sudo_stake_lsm_callback_def Let_def rbind_eq_Inr load_pool_eq_Inr case_five_eq_Inr
      sum.inject prod.inject
    by (elim exE conjE) (rule that, assumption+, rule sym, assumption)
  show ?thesis
    by (rule that [OF p, of "p\<lparr>p_active := A, p_total_lsd_token_amount := T,
        p_share_tokens := cs\<rparr>" t]) (use ar s' in \<open>simp_all add: deposits_def res_simps\<close>)
qed

lemma stake_lsm_callback_books:
  "sudo_stake_lsm_callback pl s = Inr (s', r) \<Longrightarrow> keeps_books True s s'"
  by (erule stake_lsm_callback_deposits) (auto intro: books_update_ok deposits_books)

text \<open>Withdrawals: the pool burns \<open>b\<close> tokens and gives up their worth at the rate.\<close>

definition redeems :: "u128 \<Rightarrow> pool_info \<Rightarrow> pool_info \<Rightarrow> bool" where
  "redeems b p p' \<longleftrightarrow> p_rate p' = p_rate p
     \<and> p_platform_fee_commission p' = p_platform_fee_commission p
     \<and> usub (p_total_lsd_token_amount p) b = (Inr (p_total_lsd_token_amount p') :: u128 sm_res)
     \<and> (\<exists>x t. umul b (p_rate p) = (Inr x :: u128 sm_res) \<and> udiv x CAL_BASE = (Inr t :: u128 sm_res)
          \<and> usub (p_active p) t = (Inr (p_active p') :: u128 sm_res))"

lemma redeems_books: "redeems b p p' \<Longrightarrow> books_ok p \<Longrightarrow> books_ok p'"
  by (auto simp: redeems_def books_ok_def solvent_def intro: burn_backed)

lemma execute_unstake_steps:
  assumes "execute_unstake info n a s = Inr (s', r)"
  obtains p burn msgs x t i unbond active tot u where "fmlookup (POOLS s) a = Some p" and "n \<noteq> 0"
    and "\<not> p_unstake_times_limit p \<le> ulen (unstakes_of s (sender info) a)"
    and "unstake_commission p (sender info) n = Inr (burn, msgs)" and "burn \<noteq> 0"
    and "umul burn (p_rate p) = (Inr x :: u128 sm_res)" and "udiv x CAL_BASE = (Inr t :: u128 sm_res)"
    and "uadd (p_next_unstake_index p) 1 = (Inr i :: u64 sm_res)"
    and "uadd (p_unbond p) t = (Inr unbond :: u128 sm_res)"
    and "usub (p_active p) t = (Inr active :: u128 sm_res)"
    and "usub (p_total_lsd_token_amount p) burn = (Inr tot :: u128 sm_res)" and "5 < t"
    and "u = \<lparr>u_era = p_era p, u_pool_addr = a, u_unstaker = sender info, u_amount = t - 5,
               u_status = WithdrawDefault, u_index = i\<rparr>"
    and "s' = (save_pool a (p\<lparr>p_next_unstake_index := i, p_unbond := unbond, p_active := active,
                p_total_lsd_token_amount := tot\<rparr>)
              (s\<lparr>UNSTAKES_OF_INDEX := fmupd (a, i) u (UNSTAKES_OF_INDEX s)\<rparr>))
              \<lparr>UNSTAKES_INDEX_FOR_USER := fmupd (sender info, a)
                 (unstakes_of s (sender info) a @ [i]) (UNSTAKES_INDEX_FOR_USER s)\<rparr>"
    and "messages r = msgs @ [no_reply (LsdBurnFrom (p_lsd_token p) (sender info) burn)]"
proof -
  have pos: "(if 5 < t then t - 5 else 0) \<noteq> 0 \<longleftrightarrow> 5 < t" for t :: u128
    by (metis diff_numeral_special(11) eq_iff_diff_eq_0 less_irrefl)
  from assms show ?thesis
    unfolding execute_unstake_def Let_def rbind_eq_Inr if_Inl_eq_Inr load_pool_eq_Inr split_paired_Ex
      prod.case pos
    by (elim exE conjE) (rule that, assumption+, auto)
qed

lemma commission_le:
  assumes "unstake_commission p who n = Inr (burn, msgs)"
  shows "unat burn \<le> unat n"
proof (cases "0 < p_unbond_commission p")
  case True
  with assms obtain fee where "usub n fee = (Inr burn :: u128 sm_res)"
    by (auto simp: unstake_commission_def rbind_eq_Inr)
  from usub_unat [OF this] show ?thesis by simp
qed (use assms in \<open>simp add: unstake_commission_def\<close>)

lemma execute_unstake_redeems:
  assumes "execute_unstake info n a s = Inr (s', r)"
  obtains p p' b where "fmlookup (POOLS s) a = Some p"
    and "POOLS s' = fmupd a p' (POOLS s)" and "redeems b p p'"
  using assms
proof (rule execute_unstake_steps)
  fix p :: pool_info and burn x t i unbond active tot u
  let ?p' = "p\<lparr>p_next_unstake_index := i, p_unbond := unbond, p_active := active,
    p_total_lsd_token_amount := tot\<rparr>"
  assume p: "fmlookup (POOLS s) a = Some p"
    and ar: "umul burn (p_rate p) = (Inr x :: u128 sm_res)" "udiv x CAL_BASE = (Inr t :: u128 sm_res)"
      "usub (p_active p) t = (Inr active :: u128 sm_res)"
      "usub (p_total_lsd_token_amount p) burn = (Inr tot :: u128 sm_res)"
    and s': "s' = (save_pool a ?p' (s\<lparr>UNSTAKES_OF_INDEX := fmupd (a, i) u (UNSTAKES_OF_INDEX s)\<rparr>))
      \<lparr>UNSTAKES_INDEX_FOR_USER := fmupd (sender info, a)
         (unstakes_of s (sender info) a @ [i]) (UNSTAKES_INDEX_FOR_USER s)\<rparr>"
  show ?thesis
    by (rule that [OF p, of ?p' burn]) (use ar s' in \<open>simp_all add: redeems_def res_simps\<close>)
qed

lemma execute_unstake_books:
  "execute_unstake info n a s = Inr (s', r) \<Longrightarrow> keeps_books True s s'"
  by (erule execute_unstake_redeems) (auto intro: books_update_ok redeems_books)

section \<open>The new rate\<close>

text \<open>The two fees together are the raw platform fee: the commission on the reward at the rate.\<close>

definition raw_fee :: "pool_info \<Rightarrow> u128 \<Rightarrow> nat" where
  "raw_fee p d = (if es_active (p_era_snapshot p) < d
     then (unat d - unat (es_active (p_era_snapshot p))) * unat (p_platform_fee_commission p)
       div unat (p_rate p)
     else 0)"

lemma era_fees_ok:
  assumes "era_fees p k d = Inr (pf, sf)"
  shows "unat pf + unat sf = raw_fee p d"
proof (cases "es_active (p_era_snapshot p) < d")
  case True
  with assms obtain rw x raw y
    where "usub d (es_active (p_era_snapshot p)) = (Inr rw :: u128 sm_res)"
      and "umul rw (p_platform_fee_commission p) = (Inr x :: u128 sm_res)"
      and "udiv x (p_rate p) = (Inr raw :: u128 sm_res)"
      and "usub raw sf = (Inr pf :: u128 sm_res)"
    by (auto simp: era_fees_def rbind_eq_Inr)
  from usub_unat [OF this(1)] umul_unat [OF this(2)] udiv_unat [OF this(3)] usub_unat [OF this(4)]
  have "unat rw = unat d - unat (es_active (p_era_snapshot p))"
    and "unat x = unat rw * unat (p_platform_fee_commission p)"
    and "unat raw = unat x div unat (p_rate p)" and "unat pf + unat sf = unat raw" by simp_all
  with True show ?thesis by (simp add: raw_fee_def)
qed (use assms in \<open>auto simp: era_fees_def raw_fee_def\<close>)

lemma era_new_active_ok:
  assumes "era_new_active p d = Inr n"
  shows "unat n = unat (p_active p) + unat d - unat (es_active (p_era_snapshot p))"
proof -
  from assms obtain c where c: "uadd (p_active p) d = (Inr c :: u128 sm_res)"
    and n: "(if es_active (p_era_snapshot p) < c
      then usub c (es_active (p_era_snapshot p)) else Inr 0) = (Inr n :: u128 sm_res)"
    unfolding era_new_active_def rbind_eq_Inr by (elim exE conjE)
  note uc = uadd_unat [OF c]
  show ?thesis
  proof (cases "es_active (p_era_snapshot p) < c")
    case True
    with n have "usub c (es_active (p_era_snapshot p)) = (Inr n :: u128 sm_res)" by simp
    from usub_unat [OF this] uc show ?thesis by linarith
  next
    case False
    with n uc show ?thesis by (simp add: word_less_nat_alt)
  qed
qed

lemma era_new_rate_ok:
  assumes "era_new_rate n tot = Inr r"
  shows "tot \<noteq> 0 \<Longrightarrow> unat r = unat n * unat CAL_BASE div unat tot" and "tot = 0 \<Longrightarrow> r = CAL_BASE"
proof -
  assume "tot \<noteq> 0"
  with assms obtain x where "umul n CAL_BASE = (Inr x :: u128 sm_res)" "udiv x tot = (Inr r :: u128 sm_res)"
    by (auto simp: era_new_rate_def rbind_eq_Inr word_neq_0_conv)
  from umul_unat [OF this(1)] udiv_unat [OF this(2)]
  show "unat r = unat n * unat CAL_BASE div unat tot" by simp
qed (use assms in \<open>simp add: era_new_rate_def\<close>)

lemma era_new_rate_backed: "era_new_rate n tot = Inr r \<Longrightarrow> backed tot r n"
  by (cases "tot = 0") (auto simp: backed_def era_new_rate_ok)

lemma first_stake_fix_cases:
  assumes "first_stake_fix p r n = Inr (r', n')"
  obtains "r' = r" "n' = n"
  | "r' = DEFAULT_RATE" "n' = p_active p" "p_rate p = DEFAULT_RATE" "r < DEFAULT_RATE"
  using assms by (auto simp: first_stake_fix_def rbind_eq_Inr split: if_splits)

lemma era_active_pool_steps:
  assumes "era_active_pool p k d = Inr (p', pf, sf)"
  obtains n tot0 tot r r' n' where "era_fees p k d = Inr (pf, sf)" and "era_new_active p d = Inr n"
    and "uadd (p_total_lsd_token_amount p) pf = (Inr tot0 :: u128 sm_res)"
    and "uadd tot0 sf = (Inr tot :: u128 sm_res)" and "era_new_rate n tot = Inr r"
    and "check_rate_change p r = Inr ()" and "first_stake_fix p r n = Inr (r', n')"
    and "p' = p\<lparr>p_total_lsd_token_amount := tot, p_rate := r', p_status := ActiveEnded,
               p_active := n'\<rparr>"
  using assms
  unfolding era_active_pool_def rbind_eq_Inr split_paired_Ex prod.case sum.inject prod.inject
  by (elim exE conjE) (hypsubst, rule that, (assumption | simp)+)

lemma no_fix_with_reward:
  fixes T A d es c raw BASE :: nat
  assumes "T * BASE \<le> A * BASE" and "0 < BASE" and "c \<le> BASE" and "es < d"
    and raw: "raw = (d - es) * c div BASE" and "T + raw \<noteq> 0"
  shows "BASE \<le> (A + d - es) * BASE div (T + raw)"
proof -
  have "raw \<le> (d - es) * BASE div BASE"
    unfolding raw using assms(3) by (intro div_le_mono mult_le_mono2)
  then have "raw \<le> d - es" using assms(2) by simp
  moreover from assms(1,2) have "T \<le> A" by simp
  ultimately have "T + raw \<le> A + d - es" using assms(4) by linarith
  then have "BASE * (T + raw) \<le> (A + d - es) * BASE" by (simp add: mult.commute)
  with assms(6) show ?thesis by (simp add: less_eq_div_iff_mult_less_eq)
qed

lemma era_active_pool_books:
  assumes "era_active_pool p k d = Inr (p', pf, sf)" and "books_ok p"
  shows "books_ok p'"
  using assms(1)
proof (rule era_active_pool_steps)
  fix n tot0 tot r r' n'
  assume fees: "era_fees p k d = Inr (pf, sf)" and n: "era_new_active p d = Inr n"
    and t: "uadd (p_total_lsd_token_amount p) pf = (Inr tot0 :: u128 sm_res)"
      "uadd tot0 sf = (Inr tot :: u128 sm_res)"
    and r: "era_new_rate n tot = Inr r" and fixed: "first_stake_fix p r n = Inr (r', n')"
    and p': "p' = p\<lparr>p_total_lsd_token_amount := tot, p_rate := r', p_status := ActiveEnded,
               p_active := n'\<rparr>"
  have tot: "unat tot = unat (p_total_lsd_token_amount p) + raw_fee p d"
    using uadd_unat [OF t(1)] uadd_unat [OF t(2)] era_fees_ok [OF fees] by simp
  from fixed have "backed tot r' n'"
  proof (cases rule: first_stake_fix_cases)
    case 1
    with era_new_rate_backed [OF r] show ?thesis by simp
  next
    case 2
    have base: "unat DEFAULT_RATE = unat CAL_BASE" by (simp add: DEFAULT_RATE_def CAL_BASE_def)
    have bk: "unat (p_total_lsd_token_amount p) * unat CAL_BASE \<le> unat (p_active p) * unat CAL_BASE"
      and c: "unat (p_platform_fee_commission p) \<le> unat CAL_BASE"
      using assms(2) 2(3) base by (simp_all add: books_ok_def solvent_def backed_def word_le_nat_alt)
    have t0: "tot \<noteq> 0"
      using era_new_rate_ok(2) [OF r] 2(4) by (auto simp: DEFAULT_RATE_def CAL_BASE_def)
    have "\<not> es_active (p_era_snapshot p) < d"
    proof
      assume rew: "es_active (p_era_snapshot p) < d"
      have nz: "unat (p_total_lsd_token_amount p) + raw_fee p d \<noteq> 0"
        using t0 tot by (simp add: unat_eq_0 [symmetric])
      have rf: "raw_fee p d = (unat d - unat (es_active (p_era_snapshot p)))
          * unat (p_platform_fee_commission p) div unat CAL_BASE"
        using rew 2(3) base by (simp add: raw_fee_def)
      have "unat CAL_BASE \<le> unat n * unat CAL_BASE div unat tot"
        using no_fix_with_reward [OF bk _ c _ rf nz] rew
        by (simp add: tot era_new_active_ok [OF n] CAL_BASE_nat word_less_nat_alt)
      then have "unat CAL_BASE \<le> unat r" by (simp add: era_new_rate_ok(1) [OF r t0])
      with 2(4) base show False by (simp add: word_less_nat_alt)
    qed
    then have "unat tot = unat (p_total_lsd_token_amount p)" using tot by (simp add: raw_fee_def)
    with bk 2(1,2) base show ?thesis by (simp add: backed_def)
  qed
  with assms(2) show ?thesis by (simp add: p' books_ok_def solvent_def)
qed

lemma execute_era_active_steps:
  assumes "execute_era_active h a s = Inr (s', r)"
  obtains p ds height d k p' pf sf p'' icq where "fmlookup (POOLS s) a = Some p"
    and "p_status p = RebondEnded" and "p_share_tokens p = []"
    and "query_delegation_by_addr h s a (p_sdk_greater_or_equal_v047 p) = Inr (ds, height)"
    and "es_last_step_height (p_era_snapshot p) < height"
    and "sum_delegations ds = Inr d" and "STACK s = Some k"
    and "era_active_pool p k d = Inr (p', pf, sf)"
    and "\<exists>t. p'' = p'\<lparr>p_total_platform_fee := t\<rparr>" and "POOLS s' = fmupd a p'' (POOLS s)"
    and "ERA_RATE s' = fmupd (a, p_era p'') (p_rate p'') (ERA_RATE s)"
    and "UNSTAKES_OF_INDEX s' = UNSTAKES_OF_INDEX s \<and> UNSTAKES_INDEX_FOR_USER s' = UNSTAKES_INDEX_FOR_USER s"
    and "messages r =
        (if pf \<noteq> 0 then [no_reply (LsdMint (p_lsd_token p') (p_platform_fee_receiver p') pf)] else [])
      @ (if sf \<noteq> 0 then [no_reply (LsdMint (p_lsd_token p') (sk_stack_fee_receiver k) sf)] else [])
      @ icq"
    and "\<exists>t. get_update_pool_icq_msgs h t a (p_ica_id p'') DEFAULT_UPDATE_PERIOD = Inr icq"
proof -
  from assms obtain p d k p' pf sf p'' msgs s1 msgs' icq as where p: "fmlookup (POOLS s) a = Some p"
    "\<not> p_status p \<noteq> RebondEnded" "\<not> p_share_tokens p \<noteq> []"
    and q: "(case query_delegation_by_addr h s a (p_sdk_greater_or_equal_v047 p) of
         Inr (ds, height) \<Rightarrow>
           if height \<le> es_last_step_height (p_era_snapshot p)
           then Inl (Err DelegationSubmissionHeight) else sum_delegations ds
       | Inl (Panic e) \<Rightarrow> Inl (Panic e)
       | Inl (Err _) \<Rightarrow> Inl (Err DelegationsNotExist)) = Inr d"
    and k: "STACK s = Some k" and e: "era_active_pool p k d = Inr (p', pf, sf)"
    and fee: "(if pf \<noteq> 0
            then rbind (uadd (p_total_platform_fee p') pf) (\<lambda>t.
              Inr (p'\<lparr>p_total_platform_fee := t\<rparr>,
                   [no_reply (LsdMint (p_lsd_token p') (p_platform_fee_receiver p') pf)]))
            else Inr (p', [])) = (Inr (p'', msgs) :: (pool_info \<times> sm_out sub_msg list) sm_res)"
    and fee': "(if sf \<noteq> 0
            then rbind (load (Std_sm (NotFound ''total_stack_fee'')) (TOTAL_STACK_FEE s) a)
              (\<lambda>t. rbind (uadd t sf) (\<lambda>t.
              Inr (s\<lparr>TOTAL_STACK_FEE := fmupd a t (TOTAL_STACK_FEE s)\<rparr>,
                   [no_reply (LsdMint (p_lsd_token p'') (sk_stack_fee_receiver k) sf)])))
            else Inr (s, [])) = (Inr (s1, msgs') :: (sm_store \<times> sm_out sub_msg list) sm_res)"
    and s': "s' = (save_pool a p'' s1)\<lparr>STACK := Some k,
      ERA_RATE := fmupd (a, p_era p'') (p_rate p'') (ERA_RATE (save_pool a p'' s1\<lparr>STACK := Some k\<rparr>))\<rparr>"
    and icq: "get_update_pool_icq_msgs h s' a (p_ica_id p'') DEFAULT_UPDATE_PERIOD = Inr icq"
    and r: "r = respond (msgs @ msgs' @ icq) as"
    unfolding execute_era_active_def Let_def rbind_eq_Inr if_Inl_eq_Inr load_pool_eq_Inr
      load_stack_eq_Inr split_paired_Ex prod.case sum.inject prod.inject
    by (elim exE conjE) (rule that, assumption+, rule sym, assumption, simp only:, rule sym, assumption)
  from fee' have s1: "POOLS s1 = POOLS s" "ERA_RATE s1 = ERA_RATE s"
      "UNSTAKES_OF_INDEX s1 = UNSTAKES_OF_INDEX s \<and> UNSTAKES_INDEX_FOR_USER s1 = UNSTAKES_INDEX_FOR_USER s"
    by (cases "sf = 0"; auto simp: rbind_eq_Inr)+
  from fee have m: "msgs = (if pf \<noteq> 0
      then [no_reply (LsdMint (p_lsd_token p') (p_platform_fee_receiver p') pf)] else [])"
    and tok: "p_lsd_token p'' = p_lsd_token p'"
    by (cases "pf = 0"; auto simp: rbind_eq_Inr)+
  from fee' have m': "msgs' = (if sf \<noteq> 0
      then [no_reply (LsdMint (p_lsd_token p') (sk_stack_fee_receiver k) sf)] else [])"
    by (cases "sf = 0") (auto simp: rbind_eq_Inr tok)
  from q obtain ds height where
    "query_delegation_by_addr h s a (p_sdk_greater_or_equal_v047 p) = Inr (ds, height)"
    "es_last_step_height (p_era_snapshot p) < height" "sum_delegations ds = Inr d"
    by (auto split: sum.splits fail.splits if_splits)
  moreover from fee have "\<exists>t. p'' = p'\<lparr>p_total_platform_fee := t\<rparr>"
    by (cases "pf = 0") (auto simp: rbind_eq_Inr intro: exI [of _ "p_total_platform_fee p'"])
  ultimately show ?thesis using p k e s' s1 r m m' icq by (intro that) auto
qed

lemma books_ok_fee: "books_ok (p\<lparr>p_total_platform_fee := t\<rparr>) = books_ok p"
  by (simp add: books_ok_def solvent_def)

lemma execute_era_active_books:
  assumes "execute_era_active h a s = Inr (s', r)"
  shows "keeps_books True s s'"
  using assms
proof (rule execute_era_active_steps)
  fix p k d p' pf sf p''
  assume p: "fmlookup (POOLS s) a = Some p" and e: "era_active_pool p k d = Inr (p', pf, sf)"
    and "\<exists>t. p'' = p'\<lparr>p_total_platform_fee := t\<rparr>" and P: "POOLS s' = fmupd a p'' (POOLS s)"
  then obtain t where "p'' = p'\<lparr>p_total_platform_fee := t\<rparr>" by (elim exE)
  with era_active_pool_books [OF e] have "books_ok p \<Longrightarrow> fine True p''"
    by (simp only: books_ok_fee fine_True)
  then show ?thesis by (rule books_update [OF p P])
qed

text \<open>
  The bound on the commission is needed: a pool at the default rate with 1000 tokens for 1000 staked
  and a commission of twice the reward, on a reward of 100. The 200 tokens of the fee bring the new
  rate below the default rate, so the correction of the first rate puts it back, and takes the
  reward out of the staked amount with it.
\<close>

lemma overcharged_pool:
  assumes "p_rate p = 1000000" and "p_total_lsd_token_amount p = 1000" and "p_active p = 1000"
    and "es_active (p_era_snapshot p) = 1000" and "p_platform_fee_commission p = 2000000"
    and "p_rate_change_limit p = 0" and "sk_stack_fee_commission k = 100000"
  shows "solvent p \<and> (\<exists>p' pf sf. era_active_pool p k 1100 = Inr (p', pf, sf) \<and> \<not> solvent p')"
  using assms
  by (simp add: era_active_pool_def era_fees_def era_new_active_def era_new_rate_def
      check_rate_change_def first_stake_fix_def DEFAULT_RATE_def CAL_BASE_def uadd_def usub_def
      umul_def udiv_def solvent_def backed_def)

section \<open>The operations that leave the books alone\<close>

definition same_books :: "pool_info \<Rightarrow> pool_info \<Rightarrow> bool" where
  "same_books p p' \<longleftrightarrow> p_total_lsd_token_amount p' = p_total_lsd_token_amount p
     \<and> p_rate p' = p_rate p \<and> p_active p' = p_active p
     \<and> p_platform_fee_commission p' = p_platform_fee_commission p"

definition quiet :: "sm_store \<Rightarrow> sm_store \<Rightarrow> bool" where
  "quiet s s' \<longleftrightarrow> POOLS s' = POOLS s \<or> (\<exists>a p p'. fmlookup (POOLS s) a = Some p
     \<and> POOLS s' = fmupd a p' (POOLS s) \<and> same_books p p')"

lemma quiet_refl [simp]: "quiet s s"
  by (simp add: quiet_def)

lemma quiet_same: "POOLS s' = POOLS s \<Longrightarrow> quiet s s'"
  by (simp add: quiet_def)

lemma quiet_save:
  "fmlookup (POOLS s) a = Some p \<Longrightarrow> POOLS s' = POOLS s \<Longrightarrow> same_books p p'
   \<Longrightarrow> quiet s (save_pool a p' s')"
  by (auto simp: quiet_def)

lemma same_books_ok: "same_books p p' \<Longrightarrow> books_ok p \<Longrightarrow> books_ok p'"
  by (simp add: same_books_def books_ok_def solvent_def)

lemma quiet_books: "quiet s s' \<Longrightarrow> keeps_books True s s'"
  by (auto simp: quiet_def intro: keeps_books_same books_update_ok same_books_ok)

lemmas quiet_simps = res_simps Let_def same_books_def
lemmas quiet_intros = quiet_save quiet_same

end
