(* ===== verification/Stake_Reach.thy ===== *)
theory Stake_Reach
  imports Stake_Books
begin

text \<open>
  The stake manager as a transition system: a step is a message of a user, a reply, or a message of
  the chain (an acknowledgement, a timeout, a query result, an opened channel), in any order. Every
  step keeps a pool solvent whose books were in order before it.
\<close>

section \<open>The operations that leave the books alone\<close>

lemma execute_withdraw_quiet:
  "execute_withdraw h info a rcv is s = Inr (s', r) \<Longrightarrow> quiet s s'"
  by (rule quiet_same)
    (auto simp: execute_withdraw_def quiet_simps dest!: msg_cb_frame withdraw_loop_frame)

lemma reset_one_frame:
  "rfold (reset_one a) is s = Inr s' \<Longrightarrow> POOLS s' = POOLS s"
  by (induction "is" arbitrary: s)
    (auto simp: reset_one_def res_simps split: option.splits)

lemma withdraw_callbacks_quiet:
  "sudo_withdraw_callback pl s = Inr (s', r) \<Longrightarrow> quiet s s'"
  "sudo_withdraw_failed_callback pl s = Inr (s', r) \<Longrightarrow> quiet s s'"
  by (auto simp: sudo_withdraw_callback_def sudo_withdraw_failed_callback_def quiet_simps
      dest: reset_one_frame intro!: quiet_same split: if_splits option.splits)

lemma execute_era_update_quiet:
  "execute_era_update h env info a s = Inr (s', r) \<Longrightarrow> quiet s s'"
  by (auto simp: execute_era_update_def quiet_simps dest!: msg_cb_frame intro!: quiet_save
      split: if_splits)

lemma execute_era_bond_quiet:
  "execute_era_bond h ho env info a vs s = Inr (s', r) \<Longrightarrow> quiet s s'"
  by (auto simp: execute_era_bond_def quiet_simps dest!: msg_cb_frame bond_unbonds_frame
      intro!: quiet_save split: if_splits)

lemma execute_era_collect_withdraw_quiet:
  "execute_era_collect_withdraw h info a s = Inr (s', r) \<Longrightarrow> quiet s s'"
  by (auto simp: execute_era_collect_withdraw_def quiet_simps dest!: msg_cb_frame
      intro!: quiet_save split: if_splits)

lemma execute_era_rebond_quiet:
  "execute_era_rebond h info a vs s = Inr (s', r) \<Longrightarrow> quiet s s'"
  by (auto simp: execute_era_rebond_def quiet_simps dest!: msg_cb_frame
      intro!: quiet_save intro: quiet_same split: if_splits)

lemma era_callbacks_quiet:
  "sudo_era_update_callback env pl s = Inr (s', r) \<Longrightarrow> quiet s s'"
  "sudo_era_update_failed_callback pl s = Inr (s', r) \<Longrightarrow> quiet s s'"
  "sudo_era_bond_failed_callback pl s = Inr (s', r) \<Longrightarrow> quiet s s'"
  "sudo_era_collect_withdraw_callback env pl s = Inr (s', r) \<Longrightarrow> quiet s s'"
  "sudo_era_collect_withdraw_failed_callback pl s = Inr (s', r) \<Longrightarrow> quiet s s'"
  "sudo_era_rebond_callback env pl s = Inr (s', r) \<Longrightarrow> quiet s s'"
  "sudo_era_rebond_failed_callback pl s = Inr (s', r) \<Longrightarrow> quiet s s'"
  by (auto simp: sudo_era_update_callback_def sudo_era_update_failed_callback_def
      sudo_era_bond_failed_callback_def sudo_era_collect_withdraw_callback_def
      sudo_era_collect_withdraw_failed_callback_def sudo_era_rebond_callback_def
      sudo_era_rebond_failed_callback_def quiet_simps intro!: quiet_save)

lemma era_bond_callback_quiet:
  "sudo_era_bond_callback env pl s = Inr (s', r) \<Longrightarrow> quiet s s'"
  by (auto simp: sudo_era_bond_callback_def quiet_simps intro!: quiet_save)

lemma lsm_quiet:
  "execute_stake_lsm h env info who a s = Inr (s', r) \<Longrightarrow> quiet s s'"
  "sudo_stake_lsm_failed_callback pl s = Inr (s', r) \<Longrightarrow> quiet s s'"
  by (auto simp: execute_stake_lsm_def sudo_stake_lsm_failed_callback_def quiet_simps
      dest!: msg_cb_frame intro!: quiet_same)

lemma redeem_quiet:
  "execute_redeem_token_for_share h info a cs s = Inr (s', r) \<Longrightarrow> quiet s s'"
  "sudo_redeem_token_for_share_callback pl s = Inr (s', r) \<Longrightarrow> quiet s s'"
  "sudo_redeem_token_for_share_failed_callback pl s = Inr (s', r) \<Longrightarrow> quiet s s'"
  by (auto simp: execute_redeem_token_for_share_def sudo_redeem_token_for_share_callback_def
      sudo_redeem_token_for_share_failed_callback_def quiet_simps dest!: msg_cb_frame
      intro!: quiet_save)

lemma execute_rm_pool_validator_quiet:
  "execute_rm_pool_validator h info a v s = Inr (s', r) \<Longrightarrow> quiet s s'"
  by (auto simp: execute_rm_pool_validator_def quiet_simps dest!: msg_cb_frame
      intro!: quiet_save split: if_splits option.splits)

lemma execute_pool_update_validator_quiet:
  "execute_pool_update_validator h info a old new s = Inr (s', r) \<Longrightarrow> quiet s s'"
  by (auto simp: execute_pool_update_validator_def quiet_simps dest!: msg_cb_frame
      intro!: quiet_save split: if_splits)

lemma validators_quiet:
  "execute_add_pool_validators h info a v s = Inr (s', r) \<Longrightarrow> quiet s s'"
  "execute_update_validators_icq h info a s = Inr (s', r) \<Longrightarrow> quiet s s'"
  "execute_pool_delegate h info a n s = Inr (s', r) \<Longrightarrow> quiet s s'"
  "sudo_rm_validator_callback pl s = Inr (s', r) \<Longrightarrow> quiet s s'"
  "sudo_rm_validator_failed_callback pl s = Inr (s', r) \<Longrightarrow> quiet s s'"
  "sudo_update_validator_callback pl s = Inr (s', r) \<Longrightarrow> quiet s s'"
  "sudo_update_validator_failed_callback pl s = Inr (s', r) \<Longrightarrow> quiet s s'"
  by (auto simp: execute_add_pool_validators_def execute_update_validators_icq_def
      execute_pool_delegate_def sudo_rm_validator_callback_def
      sudo_rm_validator_failed_callback_def sudo_update_validator_callback_def
      sudo_update_validator_failed_callback_def quiet_simps intro!: quiet_save)

lemma admin_quiet:
  "execute_register_pool h env info conn i s = Inr (s', r) \<Longrightarrow> quiet s s'"
  "execute_config_stack info k s = Inr (s', r) \<Longrightarrow> quiet s s'"
  "execute_open_channel info a ch s = Inr (s', r) \<Longrightarrow> quiet s s'"
  "update_icq_update_period h info a n s = Inr (s', r) \<Longrightarrow> quiet s s'"
  by (auto simp: execute_register_pool_def execute_config_stack_def execute_open_channel_def
      update_icq_update_period_def quiet_simps intro!: quiet_same split: if_splits)

lemma set_withdraw_callbacks_quiet:
  "sudo_set_withdraw_addr_callback pl s = Inr (s', r) \<Longrightarrow> quiet s s'"
  "sudo_set_withdraw_addr_failed_callback pl s = Inr (s', r) \<Longrightarrow> quiet s s'"
  by (auto simp: sudo_set_withdraw_addr_callback_def sudo_set_withdraw_addr_failed_callback_def
      quiet_simps intro!: quiet_save)

lemma chain_quiet:
  "reply_sm h i res s = Inr (s', r) \<Longrightarrow> quiet s s'"
  "sudo_kv_query_result h q s = Inr (s', r) \<Longrightarrow> quiet s s'"
  by (auto simp: reply_sm_def prepare_sudo_payload_def write_reply_id_to_query_id_def
      save_sudo_payload_def sudo_kv_query_result_def quiet_simps intro!: quiet_same
      split: if_splits option.splits)

section \<open>Configuration, creation, initialisation, migration\<close>

text \<open>
  The messages that set a commission of at most the whole. The code accepts any commission; this is
  not part of a step, it only says after which messages the commissions stay within the whole.
\<close>

fun sane :: "sm_execute_msg \<Rightarrow> bool" where
  "sane (ConfigPool m) = (set_opt (cp_platform_fee_commission m) 0 \<le> CAL_BASE)"
| "sane (InitPool m) = (set_opt (ip_platform_fee_commission m) 0 \<le> CAL_BASE)"
| "sane (MigratePool m) = (set_opt (mp_platform_fee_commission m) 0 \<le> CAL_BASE)"
| "sane _ = True"

lemma config_era_books: "config_era env e p = Inr p' \<Longrightarrow> same_books p p'"
  by (auto simp: config_era_def quiet_simps split: option.splits)

lemma execute_config_pool_books:
  assumes "execute_config_pool info env m s = Inr (s', r)"
  shows "keeps_books (sane (ConfigPool m)) s s'"
proof -
  obtain p p1 recv pd ls ll rl adm where p: "fmlookup (POOLS s) (cp_pool_addr m) = Some p"
    and c: "config_era env (cp_era_seconds m)
      (p\<lparr>p_minimal_stake := set_opt (cp_minimal_stake m) (p_minimal_stake p),
        p_unbonding_period := set_opt (cp_unbonding_period m) (p_unbonding_period p),
        p_unstake_times_limit := set_opt (cp_unstake_times_limit m) (p_unstake_times_limit p),
        p_unbond_commission := set_opt (cp_unbond_commission m) (p_unbond_commission p),
        p_platform_fee_commission :=
          set_opt (cp_platform_fee_commission m) (p_platform_fee_commission p)\<rparr>) = Inr p1"
    and s': "s' = save_pool (cp_pool_addr m) (p1\<lparr>p_platform_fee_receiver := recv, p_paused := pd,
      p_lsm_support := ls, p_lsm_pending_limit := ll, p_rate_change_limit := rl, p_admin := adm\<rparr>) s"
    using assms
    unfolding execute_config_pool_def Let_def rbind_eq_Inr if_Inl_eq_Inr load_pool_eq_Inr
      sum.inject prod.inject
    by (elim exE conjE) (rule that, assumption+, rule sym, assumption)
  from config_era_books [OF c] have "books_ok p \<Longrightarrow> fine (sane (ConfigPool m)) p1"
    by (simp add: same_books_def books_ok_def solvent_def fine_def set_opt_def split: option.splits)
  moreover have P: "POOLS s' = fmupd (cp_pool_addr m) (p1\<lparr>p_platform_fee_receiver := recv,
      p_paused := pd, p_lsm_support := ls, p_lsm_pending_limit := ll, p_rate_change_limit := rl,
      p_admin := adm\<rparr>) (POOLS s)" by (simp add: s')
  ultimately show ?thesis by (intro books_update [OF p P]) (simp_all add: fine_def solvent_def)
qed

lemma new_pool_books: "books_ok (new_pool_info i admin)"
  by (simp add: new_pool_info_def books_ok_def solvent_def backed_def CAL_BASE_def)

lemma sudo_open_ack_books:
  assumes "sudo_open_ack h port ch cch v s = Inr (s', r)"
  shows "keeps_books True s s'"
proof -
  have step: "(if c then save_pool a (new_pool_info i admin) s else s)\<lparr>INFO_OF_ICA_ID := m\<rparr> = s'
      \<Longrightarrow> POOLS s' = POOLS s \<or> (\<exists>a i admin. POOLS s' = fmupd a (new_pool_info i admin) (POOLS s))"
    for c a i admin m
    by (auto split: if_splits; blast)
  from assms have "POOLS s' = POOLS s
      \<or> (\<exists>a i admin. POOLS s' = fmupd a (new_pool_info i admin) (POOLS s))"
    unfolding sudo_open_ack_def case_option_eq_Inr case_pair_eq_Inr rbind_eq_Inr Let_def
      split_paired_Ex prod.case sum.inject prod.inject
    by (elim exE conjE) (erule step)
  with new_pool_books show ?thesis
    by (auto intro: keeps_books_same keeps_books_new [where c = True, simplified])
qed

lemma deal_pool_frame:
  assumes "deal_pool h env info p ica w c n sy s = Inr (s', r)"
  obtains t where "POOLS s' = fmupd (ica_addr ica) (p\<lparr>p_lsd_token := t, p_status := InitStarted\<rparr>) (POOLS s)"
  using assms
  by (auto simp: deal_pool_def res_simps Let_def
      dest!: register_pool_queries_frame set_withdraw_frame)

lemma prepare_pool_frame:
  assumes "prepare_pool h info p ica w s = Inr (Inl (s', r))"
  shows "POOLS s' = POOLS s"
  using assms by (auto simp: prepare_pool_def res_simps dest!: set_withdraw_frame split: if_splits)

lemma init_pool_info_books:
  assumes "init_pool_info env m p = Inr p'"
  shows "fine (sane (InitPool m)) p'"
  using assms
  by (auto simp: init_pool_info_def res_simps Let_def fine_def solvent_def backed_def set_opt_def
      CAL_BASE_def split: option.splits)

lemma migrate_pool_info_books:
  assumes "migrate_pool_info m p = Inr p'"
  shows "fine (sane (MigratePool m)) p'"
proof -
  from assms have "(if p_total_lsd_token_amount p' = 0 then Inr CAL_BASE
      else rbind (umul (p_active p') CAL_BASE) (\<lambda>x. udiv x (p_total_lsd_token_amount p')))
      = (Inr (p_rate p') :: u128 sm_res)"
    by (auto simp: migrate_pool_info_def rbind_eq_Inr if_Inl_eq_Inr Let_def)
  then have "backed (p_total_lsd_token_amount p') (p_rate p') (p_active p')"
    by (auto simp: backed_def rbind_eq_Inr dest!: umul_unat udiv_unat split: if_splits)
  moreover from assms have "sane (MigratePool m) \<longrightarrow> p_platform_fee_commission p' \<le> CAL_BASE"
    by (auto simp: migrate_pool_info_def rbind_eq_Inr if_Inl_eq_Inr Let_def set_opt_def CAL_BASE_def
        split: option.splits)
  ultimately show ?thesis by (simp add: fine_def solvent_def)
qed

lemma prepared_books:
  assumes "prepare_pool h info p ica w s = Inr x"
    and "(case x of Inl res \<Rightarrow> Inr res
          | Inr _ \<Rightarrow> rbind (mk p) (\<lambda>p. rbind code (\<lambda>c. deal_pool h env info p ica w c n sy s)))
         = Inr (s', r)"
    and "\<And>p'. mk p = Inr p' \<Longrightarrow> fine c' p'"
  shows "keeps_books c' s s'"
proof (cases x)
  case (Inl res)
  with assms(1,2) have "POOLS s' = POOLS s" by (auto dest: prepare_pool_frame)
  then show ?thesis by (rule keeps_books_same)
next
  case (Inr u)
  with assms(2) obtain p' c where p': "mk p = Inr p'"
    and d: "deal_pool h env info p' ica w c n sy s = Inr (s', r)" by (auto simp: rbind_eq_Inr)
  from d obtain t where P: "POOLS s' = fmupd (ica_addr ica)
      (p'\<lparr>p_lsd_token := t, p_status := InitStarted\<rparr>) (POOLS s)" by (rule deal_pool_frame)
  from assms(3) [OF p'] show ?thesis
    by (intro keeps_books_new [OF _ P]) (simp add: fine_def solvent_def)
qed

lemma execute_init_pool_books:
  assumes "execute_init_pool h env info m s = Inr (s', r)"
  shows "keeps_books (sane (InitPool m)) s s'"
  using assms
  unfolding execute_init_pool_def rbind_eq_Inr if_Inl_eq_Inr split_paired_Ex prod.case
  by (elim exE conjE) (erule (1) prepared_books, erule init_pool_info_books)

lemma execute_migrate_pool_books:
  assumes "execute_migrate_pool h env info m s = Inr (s', r)"
  shows "keeps_books (sane (MigratePool m)) s s'"
  using assms
  unfolding execute_migrate_pool_def rbind_eq_Inr if_Inl_eq_Inr split_paired_Ex prod.case
  by (elim exE conjE) (erule (1) prepared_books, erule migrate_pool_info_books)

section \<open>The transition system\<close>

lemma execute_sm_books:
  assumes "execute_sm h ho env info m s = Inr (s', r)"
  shows "keeps_books (sane m) s s'"
proof (cases m)
  case (InitPool x)
  with assms have "execute_init_pool h env info x s = Inr (s', r)" by simp
  then show ?thesis unfolding InitPool by (rule execute_init_pool_books)
next
  case (MigratePool x)
  with assms have "execute_migrate_pool h env info x s = Inr (s', r)" by simp
  then show ?thesis unfolding MigratePool by (rule execute_migrate_pool_books)
next
  case (ConfigPool x)
  with assms have "execute_config_pool info env x s = Inr (s', r)" by simp
  then show ?thesis unfolding ConfigPool by (rule execute_config_pool_books)
qed (use assms in \<open>auto intro: execute_stake_books execute_unstake_books execute_era_active_books
  quiet_books execute_withdraw_quiet execute_era_update_quiet execute_era_bond_quiet
  execute_era_collect_withdraw_quiet execute_era_rebond_quiet lsm_quiet redeem_quiet
  execute_rm_pool_validator_quiet execute_pool_update_validator_quiet validators_quiet admin_quiet\<close>)

lemma sudo_callback_books:
  assumes "sudo_callback env t pl s = Inr (s', r)"
  shows "keeps_books True s s'"
  using assms
  by (cases t) (auto intro: stake_lsm_callback_books quiet_books withdraw_callbacks_quiet
      era_callbacks_quiet era_bond_callback_quiet redeem_quiet validators_quiet
      set_withdraw_callbacks_quiet)

lemma sudo_failed_callback_books:
  assumes "sudo_failed_callback t pl s = Inr (s', r)"
  shows "keeps_books True s s'"
  using assms
  by (cases t) (auto intro: quiet_books lsm_quiet withdraw_callbacks_quiet
      era_callbacks_quiet redeem_quiet validators_quiet set_withdraw_callbacks_quiet)

lemma take_payload_pools: "take_payload req s = Inr (pl, s') \<Longrightarrow> POOLS s' = POOLS s"
  by (erule take_payload_ok) simp

lemma sudo_sm_books:
  assumes "sudo_sm h env m s = Inr (s', r)"
  shows "keeps_books True s s'"
proof -
  have cb: "keeps_books True s s'" if "take_payload req s = Inr (pl, s1)" and "keeps_books True s1 s'"
    for req pl s1
    using that keeps_books_cong [OF take_payload_pools [OF that(1)]] by simp
  show ?thesis
    using assms
    by (cases m) (auto simp: sudo_response_def sudo_error_def sudo_timeout_def rbind_eq_Inr
        intro: cb sudo_callback_books sudo_failed_callback_books sudo_open_ack_books quiet_books
          chain_quiet)
qed

text \<open>A step of the contract on its storage: a call that returned a value. A call that fails leaves
  the storage unchanged, since the chain discards its writes.\<close>

inductive sm_step :: "host \<Rightarrow> (string set \<Rightarrow> string list) \<Rightarrow> sm_store \<Rightarrow> sm_store \<Rightarrow> bool"
  for h ho where
  step_execute: "execute_sm h ho env info m s = Inr (s', r) \<Longrightarrow> sm_step h ho s s'"
| step_reply: "reply_sm h i res s = Inr (s', r) \<Longrightarrow> sm_step h ho s s'"
| step_sudo: "sudo_sm h env m s = Inr (s', r) \<Longrightarrow> sm_step h ho s s'"
| step_migrate: "migrate_sm s = Inr (s', r) \<Longrightarrow> sm_step h ho s s'"

inductive sm_reach :: "host \<Rightarrow> (string set \<Rightarrow> string list) \<Rightarrow> sm_store \<Rightarrow> bool" for h ho where
  reach_init: "instantiate_sm info code empty_sm = Inr (s, r) \<Longrightarrow> sm_reach h ho s"
| reach_step: "sm_reach h ho s \<Longrightarrow> sm_step h ho s s' \<Longrightarrow> sm_reach h ho s'"

inductive_cases sm_stepE: "sm_step h ho s s'"

text \<open>A history is the list of the storages from the newest back to the instantiation.\<close>

inductive sm_history :: "host \<Rightarrow> (string set \<Rightarrow> string list) \<Rightarrow> sm_store list \<Rightarrow> bool" for h ho where
  history_init: "instantiate_sm info code empty_sm = Inr (s, r) \<Longrightarrow> sm_history h ho [s]"
| history_step: "sm_history h ho (s # ss) \<Longrightarrow> sm_step h ho s s' \<Longrightarrow> sm_history h ho (s' # s # ss)"

inductive_cases sm_history_ConsE: "sm_history h ho (s' # s # ss)"

lemma sm_history_reach: "sm_history h ho ss \<Longrightarrow> \<exists>s ss'. ss = s # ss' \<and> sm_reach h ho s"
  by (induction rule: sm_history.induct) (auto intro: reach_init reach_step)

section \<open>Every step\<close>

lemma chain_books:
  "reply_sm h i res s = Inr (s', r) \<Longrightarrow> keeps_books True s s'"
  "migrate_sm s = Inr (s', r) \<Longrightarrow> keeps_books True s s'"
  by (auto simp: migrate_sm_def intro: keeps_books_same quiet_books chain_quiet)

lemma sm_step_books: "sm_step h ho s s' \<Longrightarrow> keeps_books False s s'"
proof (erule sm_stepE)
  fix env info m r
  assume "execute_sm h ho env info m s = Inr (s', r)"
  from execute_sm_books [OF this] show "keeps_books False s s'"
    by (auto simp: keeps_books_def fine_def)
qed (auto intro: keeps_books_any sudo_sm_books chain_books)

text \<open>The commission of a pool is at most the whole.\<close>

definition within_whole :: "string \<Rightarrow> sm_store \<Rightarrow> bool" where
  "within_whole a s \<longleftrightarrow> (\<forall>p. fmlookup (POOLS s) a = Some p \<longrightarrow> p_platform_fee_commission p \<le> CAL_BASE)"

lemma history_solvent:
  "sm_history h ho (s # ss) \<Longrightarrow> \<forall>t \<in> set ss. within_whole a t
   \<Longrightarrow> fmlookup (POOLS s) a = Some p \<Longrightarrow> solvent p"
proof (induction "s # ss" arbitrary: s ss p rule: sm_history.induct)
  case (history_init info code s r)
  then show ?case by (auto simp: instantiate_sm_def empty_sm_def)
next
  case (history_step s ss s')
  have "books_ok q" if "fmlookup (POOLS s) a = Some q" for q
    using history_step.hyps(2) [OF _ that] history_step.prems(1) that
    by (simp add: books_ok_def within_whole_def)
  with sm_step_books [OF history_step.hyps(3)] history_step.prems(2) show ?case
    by (auto simp: keeps_books_def dest: fine_solvent)
qed

end
