(* ===== verification/Stake_Demo.thy ===== *)
theory Stake_Demo
  imports Stake_Reach
begin

text \<open>
  A concrete host and a concrete history of the stake manager, on which the theorems are applied: a
  stack, a registered pool whose two interchain accounts opened, and its initialisation.
\<close>

definition demo_coin :: "string \<Rightarrow> u128 \<Rightarrow> coin" where
  "demo_coin d n = \<lparr>c_denom = d, c_amount = n\<rparr>"

definition demo_host :: host where
  "demo_host = \<lparr>query_min_ibc_fee = Inr \<lparr>recv_fee = [], ack_fee = [demo_coin FEE_DENOM 100],
       timeout_fee = [demo_coin FEE_DENOM 100]\<rparr>,
     query_denom_trace = (\<lambda>_. Inr (''transfer/channel-7'', ''uatom'')),
     query_icq_deposit = Inr [demo_coin FEE_DENOM 1000],
     query_registered = (\<lambda>_. Inr \<lparr>rq_is_kv = True, rq_last_submitted_local_height = 900\<rparr>),
     kv_balances = (\<lambda>_ _. Inr [demo_coin ''uatom'' 50]),
     kv_delegations = (\<lambda>_ _. Inr [\<lparr>dl_delegator = ''pool'', dl_validator = ''val1'',
       dl_amount = demo_coin ''uatom'' 1100\<rparr>]),
     kv_validators = (\<lambda>_. Inr [\<lparr>sv_operator_address = ''val1'', sv_tokens = ''1000'',
       sv_delegator_shares = ''1000000000000000000000''\<rparr>]),
     balance_keys = (\<lambda>_ _. Inr []), delegation_keys = (\<lambda>_ _ _. Inr []),
     validator_keys = (\<lambda>_. Inr []), update_query_check = (\<lambda>_. Inr ()),
     query_code_checksum = (\<lambda>_. Inr ''sum''), addr_canonicalize = Inr, addr_humanize = Inr,
     instantiate2_address = (\<lambda>_ _ salt. Inr (CHR ''t'' # salt)),
     get_port_id = (\<lambda>c i. ''icacontroller-'' @ c @ ''.'' @ i),
     parse_ack_version = (\<lambda>v. Some (''connection-9'', v)),
     parse_transfer_response = (\<lambda>d. Some (d, 1)), parse_register_response = (\<lambda>_. Some 1)\<rparr>"

definition demo_env :: "u64 \<Rightarrow> u64 \<Rightarrow> env" where
  "demo_env t height = \<lparr>block_height = height, block_time = t, contract_addr = ''manager''\<rparr>"

definition demo_info :: "string \<Rightarrow> coin list \<Rightarrow> message_info" where
  "demo_info who cs = \<lparr>sender = who, funds = cs\<rparr>"

definition demo_addr :: string where
  "demo_addr = replicate 44 CHR ''a''"

definition run :: "sm_result \<Rightarrow> (sm_store \<Rightarrow> sm_result) \<Rightarrow> sm_result" where
  "run m f = rbind m (\<lambda>(s, _). f s)"

definition demo_ica :: ica_info where
  "demo_ica = \<lparr>ctrl_connection_id = ''connection-1'', host_connection_id = ''connection-9'',
     ctrl_channel_id = ''channel-1'', host_channel_id = ''channel-2'', ctrl_port_id = ''p.ica'',
     ica_addr = ''pool''\<rparr>"

definition demo_init :: init_pool_params where
  "demo_init = \<lparr>ip_interchain_account_id = ''ica'', ip_ibc_denom = ''ibc/ATOM'',
     ip_channel_id_of_ibc_denom = ''channel-7'', ip_remote_denom = ''uatom'',
     ip_validator_addrs = [''val1''], ip_platform_fee_receiver = ''fees'', ip_lsd_code_id = None,
     ip_lsd_token_name = ''lsd'', ip_lsd_token_symbol = ''LSD'', ip_minimal_stake = 10,
     ip_unbonding_period = 3, ip_platform_fee_commission = None, ip_era_seconds = None,
     ip_sdk_greater_or_equal_v047 = True\<rparr>"

text \<open>The registration of a pool, the two accounts the remote chain opens for it, its
  initialisation with the acknowledgement of the withdraw address, and a deposit.\<close>

definition demo_history :: "host \<Rightarrow> (sm_store \<Rightarrow> sm_result) list" where
  "demo_history h =
     [execute_sm h (\<lambda>_. []) (demo_env 0 1) (demo_info ''gov'' [demo_coin FEE_DENOM 10])
        (RegisterPool ''connection-1'' ''ica''),
      sudo_sm h (demo_env 0 2) (SudoOpenAck ''p.ica'' ''channel-1'' ''channel-2'' demo_addr),
      sudo_sm h (demo_env 0 3)
        (SudoOpenAck ''p.ica-withdraw_addr'' ''channel-3'' ''channel-4'' ''withdraw''),
      execute_sm h (\<lambda>_. []) (demo_env 0 4) (demo_info ''gov'' [demo_coin FEE_DENOM 9000])
        (InitPool demo_init),
      reply_sm h 1000000000 (Inr (Some ''channel-1'')),
      sudo_sm h (demo_env 0 5)
        (SudoResponse \<lparr>rp_sequence = Some 1, rp_source_channel = Some ''channel-1''\<rparr>),
      execute_sm h (\<lambda>_. []) (demo_env 0 6) (demo_info ''alice'' [demo_coin ''ibc/ATOM'' 1000])
        (Stake ''alice'' demo_addr)]"

definition demo_pool :: "era_status \<Rightarrow> u128 \<Rightarrow> pool_info" where
  "demo_pool st n = (new_pool_info ''ica'' ''gov'')\<lparr>p_ibc_denom := ''ibc/ATOM'',
     p_channel_id_of_ibc_denom := ''channel-7'', p_remote_denom := ''uatom'',
     p_validator_addrs := [''val1''], p_platform_fee_receiver := ''fees'', p_unbonding_period := 3,
     p_minimal_stake := 10, p_sdk_greater_or_equal_v047 := True,
     p_platform_fee_commission := 100000, p_era_seconds := 86400, p_offset := 0,
     p_rate := 1000000, p_unstake_times_limit := 20, p_lsm_pending_limit := 100,
     p_lsd_token := CHR ''t'' # replicate 40 CHR ''a'', p_status := st,
     p_active := n, p_bond := n, p_total_lsd_token_amount := n\<rparr>"

text \<open>Calls made one after the other: the storage after the last, if all return a value.\<close>

fun play :: "(sm_store \<Rightarrow> sm_result) list \<Rightarrow> sm_store \<Rightarrow> sm_store sm_res" where
  "play [] s = Inr s"
| "play (f # fs) s = rbind (f s) (\<lambda>(s, _). play fs s)"

lemma play_reach:
  "sm_reach h ho s \<Longrightarrow> play fs s = Inr s' \<Longrightarrow>
   (\<And>f s s' r. f \<in> set fs \<Longrightarrow> f s = Inr (s', r) \<Longrightarrow> sm_step h ho s s') \<Longrightarrow> sm_reach h ho s'"
proof (induction fs arbitrary: s)
  case (Cons f fs)
  from Cons.prems(2) obtain s1 r where f: "f s = Inr (s1, r)" and p: "play fs s1 = Inr s'"
    by (auto simp: rbind_eq_Inr)
  have "sm_step h ho s s1" by (rule Cons.prems(3) [of f, OF _ f]) simp
  from Cons.IH [OF reach_step [OF Cons.prems(1) this] p] Cons.prems(3) show ?case by auto
qed simp

lemma demo_suffix: "strip_suffix ''-withdraw_addr'' ''ica-withdraw_addr'' = Some ''ica''"
  using strip_suffix_append [of "''-withdraw_addr''" "''ica''"] by simp

lemmas eval_simps = Let_def uadd_def umul_def usub_def udiv_def CAL_BASE_def FEE_DENOM_def
  msg_with_sudo_callback_def save_reply_payload_def get_next_reply_id_def
  get_next_query_reply_id_def next_id_def total_ibc_fee_def min_ntrn_ibc_fee_def first_amount_def
  check_ibc_fee_def REPLY_ID_RANGE_START_def REPLY_ID_RANGE_END_def
  QUERY_REPLY_ID_RANGE_START_def QUERY_REPLY_ID_RANGE_END_def load_stack_def empty_sm_def

lemmas demo_simps = demo_host_def demo_env_def demo_info_def demo_coin_def demo_addr_def
  demo_pool_def new_pool_info_def demo_ica_def

definition demo_start :: sm_store where
  "demo_start = empty_sm\<lparr>SM_VERSION := Some (''stake-manager'', ''0.1.0''),
     STACK := Some \<lparr>sk_admin = ''gov'', sk_stack_fee_receiver = ''gov'',
       sk_stack_fee_commission = 100000, sk_pools = [], sk_lsd_token_code_id = 5\<rparr>\<rparr>"

lemma demo_stake:
  "\<exists>s. play (demo_history demo_host) demo_start = Inr s
    \<and> fmlookup (POOLS s) demo_addr = Some (demo_pool ActiveEnded 1000)
    \<and> UNSTAKES_INDEX_FOR_USER s = fmempty"
  by (simp add: demo_start_def execute_register_pool_def invalid_ica_id_def ICA_WITHDRAW_SUFIX_def
      INTERCHAIN_ACCOUNT_ID_LEN_LIMIT_def byte_def get_withdraw_ica_id_def sudo_open_ack_def
      new_ica_info_def opened_def demo_suffix
      execute_init_pool_def demo_init_def prepare_pool_def init_pool_info_def
      code_id_or_default_def deal_pool_def token_address_def
      register_pool_queries_def register_query_submsg_def first_fund_def set_withdraw_sub_msg_def
      query_icq_register_fee_def total_icq_register_fee_def seconds_def isub_def
      VALIDATER_LEN_LIMIT_def DEFAULT_ERA_SECONDS_def MIN_ERA_SECONDS_def
      query_denom_trace_from_ibc_denom_def register_balance_query_msg_def
      register_delegator_delegations_query_msg_def register_staking_validators_query_msg_def
      demo_history_def reply_sm_def prepare_sudo_payload_def read_reply_payload_def reply_data_def
      save_sudo_payload_def sudo_response_def take_payload_def read_sudo_payload_def
      sudo_set_withdraw_addr_callback_def execute_stake_def eval_simps demo_simps)

lemma demo_reach_fresh:
  "\<exists>s. sm_reach demo_host (\<lambda>_. []) s
    \<and> fmlookup (POOLS s) demo_addr = Some (demo_pool ActiveEnded 1000)
    \<and> UNSTAKES_INDEX_FOR_USER s = fmempty"
proof -
  obtain s where s: "play (demo_history demo_host) demo_start = Inr s"
    "fmlookup (POOLS s) demo_addr = Some (demo_pool ActiveEnded 1000)
      \<and> UNSTAKES_INDEX_FOR_USER s = fmempty"
    using demo_stake by blast
  have "instantiate_sm (demo_info ''gov'' []) 5 empty_sm = Inr (demo_start, respond [] [])"
    by (simp add: instantiate_sm_def demo_start_def demo_info_def)
  then have "sm_reach demo_host (\<lambda>_. []) s"
    by (rule play_reach [OF reach_init s(1)])
      (auto simp: demo_history_def intro: step_sudo step_reply step_execute)
  with s(2) show ?thesis by blast
qed

lemma demo_reach:
  "\<exists>s. sm_reach demo_host (\<lambda>_. []) s
    \<and> fmlookup (POOLS s) demo_addr = Some (demo_pool ActiveEnded 1000)"
  using demo_reach_fresh by blast

section \<open>Histories\<close>

text \<open>A call that is a step and leaves the commissions within the whole.\<close>

definition tame ::
  "host \<Rightarrow> (string set \<Rightarrow> string list) \<Rightarrow> (sm_store \<Rightarrow> sm_result) \<Rightarrow> bool" where
  "tame h ho f \<longleftrightarrow> (\<forall>s s' r. f s = Inr (s', r) \<longrightarrow> sm_step h ho s s' \<and> keeps_books True s s')"

lemma tame_calls:
  "sane m \<Longrightarrow> tame h ho (execute_sm h ho env info m)"
  "tame h ho (reply_sm h i res)"
  "tame h ho (sudo_sm h env q)"
  using execute_sm_books [of h ho env info m] unfolding tame_def
  by (auto intro: step_execute step_reply step_sudo chain_books sudo_sm_books)

lemma play_history:
  "sm_history h ho (s # ss) \<Longrightarrow> \<forall>t \<in> set (s # ss). sm_books t \<Longrightarrow> play fs s = Inr s'
   \<Longrightarrow> \<forall>f \<in> set fs. tame h ho f
   \<Longrightarrow> \<exists>ss'. sm_history h ho (s' # ss') \<and> (\<forall>t \<in> set (s' # ss'). sm_books t)"
proof (induction fs arbitrary: s ss)
  case (Cons f fs)
  from Cons.prems(3) obtain s1 r where f: "f s = Inr (s1, r)" and p: "play fs s1 = Inr s'"
    by (auto simp: rbind_eq_Inr)
  with Cons.prems(4) have s1: "sm_step h ho s s1" "keeps_books True s s1" by (auto simp: tame_def)
  with Cons.prems(1,2) have "sm_history h ho (s1 # s # ss)" "\<forall>t \<in> set (s1 # s # ss). sm_books t"
    by (auto intro: history_step keeps_sm_books)
  from Cons.IH [OF this p] Cons.prems(4) show ?case by simp
qed auto

lemma demo_history_tame: "\<forall>f \<in> set (demo_history h). tame h (\<lambda>_. []) f"
  by (simp add: demo_history_def tame_calls demo_init_def set_opt_def)

lemma demo_start_history:
  "sm_history h ho [demo_start]" "\<forall>t \<in> set [demo_start]. sm_books t"
proof -
  have "instantiate_sm (demo_info ''gov'' []) 5 empty_sm = Inr (demo_start, respond [] [])"
    by (simp add: instantiate_sm_def demo_start_def demo_info_def)
  then show "sm_history h ho [demo_start]" by (rule history_init)
qed (simp add: demo_start_def empty_sm_def sm_books_def)

lemma sm_books_commission:
  "sm_books t \<Longrightarrow> fmlookup (POOLS t) a = Some q \<Longrightarrow> unat (p_platform_fee_commission q) \<le> 1000000"
  using sm_booksD [of t a q] by (simp add: books_ok_def word_le_nat_alt CAL_BASE_nat)

end
