(* ===== verification/Stake_User_Properties.thy ===== *)
theory Stake_User_Properties
  imports Stake_Demo
begin

text \<open>
  The properties of deposits and withdrawals at the rate of a pool: the pool stays solvent over every
  history, and a deposit that is withdrawn again never returns more than was paid.
\<close>

text \<open>C15: after every history of the stake manager, of any messages, replies and acknowledgements, in
  which the platform commission of the pool was at most 100% in every earlier storage, the tokens of
  the pool redeemed at its stored rate are never worth more than what the pool has staked. The code
  does not bound the commission, and above 100% this can fail (\<open>overcharged_pool\<close> of \<open>Stake_Books\<close>); the
  commissions of other pools and the last change of this one do not matter.\<close>

theorem pools_stay_solvent:
  assumes "sm_history h ho (s # earlier)" and "fmlookup (POOLS s) a = Some p"
    and "\<forall>t \<in> set earlier. \<forall>q. fmlookup (POOLS t) a = Some q \<longrightarrow>
           unat (p_platform_fee_commission q) \<le> 1000000"
  shows "unat (p_total_lsd_token_amount p) * unat (p_rate p) \<le> unat (p_active p) * 1000000"
proof -
  have "\<forall>t \<in> set earlier. within_whole a t"
    using assms(3) by (simp add: within_whole_def word_le_nat_alt CAL_BASE_nat)
  from history_solvent [OF assms(1) this assms(2)] show ?thesis
    by (simp add: solvent_def backed_def CAL_BASE_nat)
qed

theorem pools_stay_solvent_witness:
  "\<exists>(s :: sm_store) p. fmlookup (POOLS s) demo_addr = Some p \<and> p_total_lsd_token_amount p = 1000
    \<and> unat (p_total_lsd_token_amount p) * unat (p_rate p) \<le> unat (p_active p) * 1000000"
proof -
  obtain s where s: "play (demo_history demo_host) demo_start = Inr s"
    and p: "fmlookup (POOLS s) demo_addr = Some (demo_pool ActiveEnded 1000)"
    using demo_stake by blast
  from play_history [OF demo_start_history s demo_history_tame] obtain ss
    where hist: "sm_history demo_host (\<lambda>_. []) (s # ss)" and "\<forall>t \<in> set (s # ss). sm_books t" by blast
  then have "\<forall>t \<in> set ss. \<forall>q. fmlookup (POOLS t) demo_addr = Some q \<longrightarrow>
      unat (p_platform_fee_commission q) \<le> 1000000"
    by (auto intro: sm_books_commission)
  moreover have "p_total_lsd_token_amount (demo_pool ActiveEnded 1000) = 1000"
    by (simp add: demo_pool_def)
  ultimately show ?thesis using pools_stay_solvent [OF hist p] p by blast
qed

text \<open>C18: a deposit mints its worth at the rate, rounded down, to the address it names; a withdrawal of
  tokens that were minted for a deposit records at least five units less than the deposit was,
  whoever withdraws and whatever the rate and the commission are.\<close>

theorem stake_unstake_no_profit:
  assumes "execute_stake who a info s = Inr (s1, r1)" and "funds info = [c]"
  shows "\<exists>p n. fmlookup (POOLS s) a = Some p \<and> messages r1 = [no_reply (LsdMint (p_lsd_token p) who n)]
    \<and> unat n = unat (c_amount c) * 1000000 div unat (p_rate p)
    \<and> (\<forall>info2 m s2 r2. m \<le> n \<longrightarrow> execute_unstake info2 m a s1 = Inr (s2, r2) \<longrightarrow>
        (\<exists>i u. fmlookup (UNSTAKES_OF_INDEX s2) (a, i) = Some u \<and> u_unstaker u = sender info2
          \<and> unat (u_amount u) + 5 \<le> unat (c_amount c)))"
proof -
  from assms(1) obtain p c' A B x n T where p: "fmlookup (POOLS s) a = Some p" "funds info = [c']"
    and x: "umul (c_amount c') CAL_BASE = (Inr x :: u128 sm_res)"
    and n: "udiv x (p_rate p) = (Inr n :: u128 sm_res)"
    and s1: "s1 = save_pool a (p\<lparr>p_active := A, p_bond := B, p_total_lsd_token_amount := T\<rparr>) s"
    and r1: "r1 = respond [no_reply (LsdMint (p_lsd_token p) who n)]
      [(''action'', ''stake''), (''pool'', a), (''staker'', who),
       (''token_amount'', to_string (c_amount c')), (''lsd_token_amount'', to_string n)]"
    unfolding execute_stake_def Let_def rbind_eq_Inr if_Inl_eq_Inr load_pool_eq_Inr case_single_eq_Inr
      sum.inject prod.inject
    by (elim exE conjE) (rule that, assumption+, rule sym, assumption, simp)
  from p(2) assms(2) have c: "c' = c" by simp
  have un: "unat n = unat (c_amount c) * 1000000 div unat (p_rate p)"
    using umul_unat [OF x] udiv_unat [OF n] by (simp add: c CAL_BASE_nat)
  have "\<exists>i u. fmlookup (UNSTAKES_OF_INDEX s2) (a, i) = Some u \<and> u_unstaker u = sender info2
      \<and> unat (u_amount u) + 5 \<le> unat (c_amount c)"
    if m: "m \<le> n" and e: "execute_unstake info2 m a s1 = Inr (s2, r2)" for info2 m s2 r2
    using e
  proof (rule execute_unstake_steps)
    fix p1 :: pool_info and burn msgs x t i unbond active tot u
    assume p1: "fmlookup (POOLS s1) a = Some p1"
      and b: "unstake_commission p1 (sender info2) m = Inr (burn, msgs)"
      and y: "umul burn (p_rate p1) = (Inr x :: u128 sm_res)" and t: "udiv x CAL_BASE = (Inr t :: u128 sm_res)"
      and t5: "5 < t"
      and u: "u = \<lparr>u_era = p_era p1, u_pool_addr = a, u_unstaker = sender info2, u_amount = t - 5,
               u_status = WithdrawDefault, u_index = i\<rparr>"
      and s2: "s2 = (save_pool a (p1\<lparr>p_next_unstake_index := i, p_unbond := unbond, p_active := active,
                p_total_lsd_token_amount := tot\<rparr>)
              (s1\<lparr>UNSTAKES_OF_INDEX := fmupd (a, i) u (UNSTAKES_OF_INDEX s1)\<rparr>))
              \<lparr>UNSTAKES_INDEX_FOR_USER := fmupd (sender info2, a)
                 (unstakes_of s1 (sender info2) a @ [i]) (UNSTAKES_INDEX_FOR_USER s1)\<rparr>"
    have rate: "p_rate p1 = p_rate p" using p1 s1 by auto
    have "unat burn \<le> unat m" using b by (rule commission_le)
    with m have "unat burn \<le> unat n" by (simp add: word_le_nat_alt)
    then have "unat burn * unat (p_rate p) \<le> unat n * unat (p_rate p)" by simp
    also have "\<dots> \<le> unat (c_amount c) * 1000000" unfolding un by (rule div_times_less_eq_dividend)
    finally have "unat t \<le> unat (c_amount c)"
      using umul_unat [OF y] udiv_unat [OF t] rate div_le_mono [of _ _ "1000000 :: nat"]
      by (fastforce simp: CAL_BASE_nat)
    moreover have "unat (t - 5) + 5 = unat t"
      using t5 unat_sub [of 5 t] by (simp add: word_less_nat_alt word_le_nat_alt)
    ultimately show ?thesis by (intro exI [of _ i] exI [of _ u]) (simp add: s2 u)
  qed
  with p(1) r1 un show ?thesis by (intro exI [of _ p] exI [of _ n]) simp
qed

lemma demo_deposit:
  "\<exists>s r. execute_stake ''alice'' ''pool'' (demo_info ''alice'' [demo_coin ''ibc/ATOM'' 500])
     (empty_sm\<lparr>POOLS := fmupd ''pool'' ((demo_pool ActiveEnded 1000)\<lparr>p_rate := 1500000\<rparr>) fmempty\<rparr>)
   = Inr (s, r)"
  by (simp add: execute_stake_def demo_simps eval_simps)

theorem stake_unstake_no_profit_witness:
  "\<exists>(r1 :: sm_out response) n. messages r1 = [no_reply (LsdMint (CHR ''t'' # replicate 40 CHR ''a'') ''alice'' n)]
    \<and> unat n = 500 * 1000000 div 1500000"
proof -
  obtain s1 r1 where s: "execute_stake ''alice'' ''pool'' (demo_info ''alice'' [demo_coin ''ibc/ATOM'' 500])
     (empty_sm\<lparr>POOLS := fmupd ''pool'' ((demo_pool ActiveEnded 1000)\<lparr>p_rate := 1500000\<rparr>) fmempty\<rparr>)
   = Inr (s1, r1)" using demo_deposit by blast
  have f: "funds (demo_info ''alice'' [demo_coin ''ibc/ATOM'' 500]) = [demo_coin ''ibc/ATOM'' 500]"
    by (simp add: demo_info_def)
  from stake_unstake_no_profit [OF s f] show ?thesis
    by (auto simp: demo_pool_def demo_coin_def)
qed

end
