(* ===== verification/Stake_Rates.thy ===== *)
theory Stake_Rates
  imports Stake_Demo
begin

text \<open>
  The rate of a pool over every step of the contract. Only the end of an era changes the rate of an
  initialised pool, and it lowers the rate only when the delegations that the interchain query
  reports are below what the pool had staked at the start of the era, that is after a slashing, or
  when no token is left, as long as the books of the pool are in order.
\<close>

section \<open>The operations that leave the rates alone\<close>

definition initialised :: "pool_info \<Rightarrow> bool" where
  "initialised p \<longleftrightarrow> p_status p \<noteq> RegisterEnded"

definition keeps_rates :: "sm_store \<Rightarrow> sm_store \<Rightarrow> bool" where
  "keeps_rates s s' \<longleftrightarrow> (\<forall>a p p'. fmlookup (POOLS s) a = Some p \<longrightarrow> fmlookup (POOLS s') a = Some p'
     \<longrightarrow> initialised p \<longrightarrow> p_rate p' = p_rate p)"

lemma keeps_rates_same: "POOLS s' = POOLS s \<Longrightarrow> keeps_rates s s'"
  by (simp add: keeps_rates_def)

lemma keeps_rates_upd:
  "fmlookup (POOLS s) a = Some p \<Longrightarrow> POOLS s' = fmupd a p' (POOLS s)
   \<Longrightarrow> (initialised p \<Longrightarrow> p_rate p' = p_rate p) \<Longrightarrow> keeps_rates s s'"
  by (simp add: keeps_rates_def)

lemma quiet_keeps_rates: "quiet s s' \<Longrightarrow> keeps_rates s s'"
  by (auto simp: quiet_def same_books_def intro: keeps_rates_same keeps_rates_upd)

lemma keeps_rates_cong: "POOLS s1 = POOLS s \<Longrightarrow> keeps_rates s1 s' = keeps_rates s s'"
  by (simp add: keeps_rates_def)

lemma books_operations_keep_rates:
  "execute_stake who a info s = Inr (s', r) \<Longrightarrow> keeps_rates s s'"
  "execute_unstake info n a s = Inr (s', r) \<Longrightarrow> keeps_rates s s'"
  "sudo_stake_lsm_callback pl s = Inr (s', r) \<Longrightarrow> keeps_rates s s'"
  by (auto simp: deposits_def redeems_def elim!: execute_stake_deposits execute_unstake_redeems
      stake_lsm_callback_deposits intro: keeps_rates_upd)

lemma config_pool_keeps_rates:
  "execute_config_pool info env m s = Inr (s', r) \<Longrightarrow> keeps_rates s s'"
  unfolding execute_config_pool_def Let_def rbind_eq_Inr if_Inl_eq_Inr load_pool_eq_Inr sum.inject
    prod.inject
  by (elim exE conjE, hypsubst, rule keeps_rates_upd, assumption, simp, drule config_era_books)
    (simp add: same_books_def)

lemma prepared_keeps_rates:
  assumes "prepare_pool h info p ica w s = Inr x" and "fmlookup (POOLS s) (ica_addr ica) = Some p"
    and "(case x of Inl res \<Rightarrow> Inr res
          | Inr _ \<Rightarrow> rbind (mk p) (\<lambda>p. rbind code (\<lambda>c. deal_pool h env info p ica w c n sy s)))
         = Inr (s', r)"
  shows "keeps_rates s s'"
proof (cases x)
  case (Inl res)
  with assms(1,3) show ?thesis by (auto dest: prepare_pool_frame intro: keeps_rates_same)
next
  case (Inr u)
  with assms(1) have st: "\<not> initialised p"
    by (auto simp: prepare_pool_def res_simps initialised_def split: if_splits)
  from Inr assms(3) obtain p' c where d: "deal_pool h env info p' ica w c n sy s = Inr (s', r)"
    by (auto simp: rbind_eq_Inr)
  from d obtain t where P: "POOLS s' = fmupd (ica_addr ica)
      (p'\<lparr>p_lsd_token := t, p_status := InitStarted\<rparr>) (POOLS s)" by (rule deal_pool_frame)
  show ?thesis by (rule keeps_rates_upd [OF assms(2) P]) (simp add: st)
qed

lemma init_keeps_rates:
  "execute_init_pool h env info m s = Inr (s', r) \<Longrightarrow> keeps_rates s s'"
  "execute_migrate_pool h env info m' s = Inr (s', r) \<Longrightarrow> keeps_rates s s'"
  unfolding execute_init_pool_def execute_migrate_pool_def rbind_eq_Inr if_Inl_eq_Inr
    split_paired_Ex prod.case load_pool_eq_Inr
  by (elim exE conjE, erule (2) prepared_keeps_rates)+

lemma open_ack_keeps_rates:
  assumes "sudo_open_ack h port ch cch v s = Inr (s', r)"
  shows "keeps_rates s s'"
proof -
  have step: "(if c \<and> \<not> has (POOLS s) a then save_pool a q s else s)\<lparr>INFO_OF_ICA_ID := m\<rparr> = s'
      \<Longrightarrow> keeps_rates s s'" for c a q m
    by (auto simp: keeps_rates_def has_def split: if_splits)
  from assms show ?thesis
    unfolding sudo_open_ack_def case_option_eq_Inr case_pair_eq_Inr rbind_eq_Inr Let_def
      split_paired_Ex prod.case sum.inject prod.inject conj_assoc [symmetric]
    by (elim exE conjE) (erule step)
qed

section \<open>The end of an era\<close>

lemma rate_arith:
  fixes T R A d es c raw BASE :: nat
  assumes "T * R \<le> A * BASE" and "c \<le> BASE" and "es \<le> d" and "raw * R \<le> (d - es) * c"
    and "T + raw \<noteq> 0"
  shows "R \<le> (A + d - es) * BASE div (T + raw)"
proof -
  have "(d - es) * c \<le> (d - es) * BASE" using assms(2) by simp
  then have "R * (T + raw) \<le> A * BASE + (d - es) * BASE"
    unfolding distrib_left mult.commute [of R] using assms(1,4) by linarith
  also have "\<dots> = (A + d - es) * BASE" using assms(3) by (simp flip: add_mult_distrib)
  finally show ?thesis using assms(5) by (simp add: less_eq_div_iff_mult_less_eq)
qed

lemma raw_fee_rate:
  assumes "c = unat (p_platform_fee_commission p)"
  shows "raw_fee p d * unat (p_rate p) \<le> (unat d - unat (es_active (p_era_snapshot p))) * c"
  using div_times_less_eq_dividend by (simp add: raw_fee_def assms)

lemma era_active_rate:
  assumes "era_active_pool p k d = Inr (p', pf, sf)" and "books_ok p"
    and "es_active (p_era_snapshot p) \<le> d" and "p_total_lsd_token_amount p' \<noteq> 0"
  shows "p_rate p \<le> p_rate p'"
  using assms(1)
proof (rule era_active_pool_steps)
  fix n tot0 tot r r' n'
  assume fees: "era_fees p k d = Inr (pf, sf)" and n: "era_new_active p d = Inr n"
    and t: "uadd (p_total_lsd_token_amount p) pf = (Inr tot0 :: u128 sm_res)"
      "uadd tot0 sf = (Inr tot :: u128 sm_res)"
    and r: "era_new_rate n tot = Inr r" and fixed: "first_stake_fix p r n = Inr (r', n')"
    and p': "p' = p\<lparr>p_total_lsd_token_amount := tot, p_rate := r', p_status := ActiveEnded,
               p_active := n'\<rparr>"
  have tot: "unat tot = unat (p_total_lsd_token_amount p) + raw_fee p d"
    using uadd_unat [OF t(1)] uadd_unat [OF t(2)] era_fees_ok [OF fees] by simp
  have t0: "tot \<noteq> 0" using assms(4) p' by simp
  from fixed show ?thesis
  proof (cases rule: first_stake_fix_cases)
    case 1
    have "unat (p_rate p) \<le> (unat (p_active p) + unat d - unat (es_active (p_era_snapshot p)))
        * unat CAL_BASE div (unat (p_total_lsd_token_amount p) + raw_fee p d)"
      using assms(2,3) t0 tot
      by (intro rate_arith [OF _ _ _ raw_fee_rate [OF refl]])
        (simp_all add: books_ok_def solvent_def backed_def word_le_nat_alt unat_eq_0 [symmetric])
    also have "\<dots> = unat r" by (simp add: era_new_rate_ok(1) [OF r t0] era_new_active_ok [OF n] tot)
    finally show ?thesis using 1 p' by (simp add: word_le_nat_alt)
  next
    case 2
    then show ?thesis by (simp add: p')
  qed
qed

lemma sum_delegations_sum:
  assumes "sum_delegations ds = Inr d"
  shows "unat d = (\<Sum>x\<leftarrow>ds. unat (c_amount (dl_amount x)))"
proof -
  have "unat d = unat acc + (\<Sum>x\<leftarrow>ds. unat (c_amount (dl_amount x)))"
    if "rfold (\<lambda>d acc. uadd acc (c_amount (dl_amount d))) ds acc = (Inr d :: u128 sm_res)" for acc
    using that by (induction ds arbitrary: acc) (auto simp: rbind_eq_Inr dest!: uadd_unat)
  from this [of 0] assms show ?thesis by (simp add: sum_delegations_def)
qed

text \<open>What the query reports for a pool is less than what was staked when its era began.\<close>

definition slashed :: "host \<Rightarrow> sm_store \<Rightarrow> string \<Rightarrow> pool_info \<Rightarrow> bool" where
  "slashed h s a p \<longleftrightarrow> (case query_delegation_by_addr h s a (p_sdk_greater_or_equal_v047 p) of
     Inr (ds, height) \<Rightarrow> es_last_step_height (p_era_snapshot p) < height
       \<and> (\<Sum>x\<leftarrow>ds. unat (c_amount (dl_amount x))) < unat (es_active (p_era_snapshot p))
   | Inl _ \<Rightarrow> False)"

text \<open>What may happen to the rate of an initialised pool in a step.\<close>

definition rate_ok :: "host \<Rightarrow> sm_store \<Rightarrow> string \<Rightarrow> pool_info \<Rightarrow> pool_info \<Rightarrow> bool" where
  "rate_ok h s a p p' \<longleftrightarrow> p_rate p' = p_rate p \<or> p_status p = RebondEnded \<and> p_status p' = ActiveEnded
     \<and> (books_ok p \<longrightarrow> p_rate p \<le> p_rate p' \<or> p_total_lsd_token_amount p' = 0 \<or> slashed h s a p)"

definition rates_ok :: "host \<Rightarrow> sm_store \<Rightarrow> sm_store \<Rightarrow> bool" where
  "rates_ok h s s' \<longleftrightarrow> (\<forall>a p p'. fmlookup (POOLS s) a = Some p \<longrightarrow> fmlookup (POOLS s') a = Some p'
     \<longrightarrow> initialised p \<longrightarrow> rate_ok h s a p p')"

lemma keeps_rates_ok: "keeps_rates s s' \<Longrightarrow> rates_ok h s s'"
  by (auto simp: keeps_rates_def rates_ok_def rate_ok_def)

lemma execute_era_active_rates:
  assumes "execute_era_active h a s = Inr (s', r)"
  shows "rates_ok h s s'"
  using assms
proof (rule execute_era_active_steps)
  fix p ds height d k p' pf sf p''
  assume p: "fmlookup (POOLS s) a = Some p" "p_status p = RebondEnded"
    and q: "query_delegation_by_addr h s a (p_sdk_greater_or_equal_v047 p) = Inr (ds, height)"
    and ht: "es_last_step_height (p_era_snapshot p) < height"
    and d: "sum_delegations ds = Inr d" and e: "era_active_pool p k d = Inr (p', pf, sf)"
    and "\<exists>t. p'' = p'\<lparr>p_total_platform_fee := t\<rparr>" and P: "POOLS s' = fmupd a p'' (POOLS s)"
  then obtain t where p'': "p'' = p'\<lparr>p_total_platform_fee := t\<rparr>" by (elim exE)
  have st: "p_status p'' = ActiveEnded" using e by (rule era_active_pool_steps) (simp add: p'')
  have "p_rate p \<le> p_rate p''"
    if "books_ok p" and "p_total_lsd_token_amount p'' \<noteq> 0" and "\<not> slashed h s a p"
    using era_active_rate [OF e that(1)] that(2,3) q ht
    by (simp add: p'' slashed_def sum_delegations_sum [OF d, symmetric] word_le_nat_alt not_less)
  with p(2) st have "rate_ok h s a p p''" by (auto simp: rate_ok_def)
  with P p(1) show ?thesis by (auto simp: rates_ok_def rate_ok_def)
qed

section \<open>Every step\<close>

lemma execute_sm_rates:
  assumes "execute_sm h ho env info m s = Inr (s', r)"
  shows "rates_ok h s s'"
proof (cases "\<exists>a. m = EraActive a")
  case True
  with assms show ?thesis by (auto intro: execute_era_active_rates)
next
  case False
  with assms have "keeps_rates s s'"
    by (cases m) (auto intro: books_operations_keep_rates config_pool_keeps_rates init_keeps_rates
      quiet_keeps_rates execute_withdraw_quiet execute_era_update_quiet execute_era_bond_quiet
      execute_era_collect_withdraw_quiet execute_era_rebond_quiet lsm_quiet redeem_quiet
      execute_rm_pool_validator_quiet execute_pool_update_validator_quiet validators_quiet admin_quiet)
  then show ?thesis by (rule keeps_rates_ok)
qed

lemma sudo_callback_keeps_rates:
  "sudo_callback env t pl s = Inr (s', r) \<Longrightarrow> keeps_rates s s'"
  "sudo_failed_callback t pl s = Inr (s', r) \<Longrightarrow> keeps_rates s s'"
  by (cases t; auto intro: books_operations_keep_rates quiet_keeps_rates withdraw_callbacks_quiet
      era_callbacks_quiet era_bond_callback_quiet lsm_quiet redeem_quiet validators_quiet
      set_withdraw_callbacks_quiet)+

lemma sudo_sm_keeps_rates:
  assumes "sudo_sm h env m s = Inr (s', r)"
  shows "keeps_rates s s'"
proof -
  have cb: "keeps_rates s s'" if "take_payload req s = Inr (pl, s1)" and "keeps_rates s1 s'"
    for req pl s1
    using that keeps_rates_cong [OF take_payload_pools [OF that(1)]] by simp
  show ?thesis
    using assms
    by (cases m) (auto simp: sudo_response_def sudo_error_def sudo_timeout_def rbind_eq_Inr
        intro: cb sudo_callback_keeps_rates open_ack_keeps_rates quiet_keeps_rates chain_quiet)
qed

lemma sm_step_rates:
  assumes "sm_step h ho s s'"
  shows "rates_ok h s s'"
  using assms
  by (rule sm_stepE) (auto simp: migrate_sm_def intro: execute_sm_rates
      keeps_rates_ok sudo_sm_keeps_rates quiet_keeps_rates chain_quiet keeps_rates_same [THEN keeps_rates_ok])

end
