(* ===== verification/Stake_Rate_Properties.thy ===== *)
theory Stake_Rate_Properties
  imports Stake_Rates
begin

text \<open>
  What lowers the rate of a pool, with a concrete history to apply it to: a whole era of a pool, from
  its registration to the end of its first era, in which the validator is slashed.
\<close>

section \<open>A whole era\<close>

definition call :: "host \<Rightarrow> u64 \<Rightarrow> sm_execute_msg \<Rightarrow> sm_store \<Rightarrow> sm_result" where
  "call h height m = execute_sm h (\<lambda>_. []) (demo_env 86400000000000 height)
     (demo_info ''bob'' [demo_coin FEE_DENOM 200]) m"

definition acked :: "host \<Rightarrow> u64 \<Rightarrow> u64 \<Rightarrow> (sm_store \<Rightarrow> sm_result) list" where
  "acked h i height = [reply_sm h i (Inr (Some ''channel-1'')),
     sudo_sm h (demo_env 0 height)
       (SudoResponse \<lparr>rp_sequence = Some 1, rp_source_channel = Some ''channel-1''\<rparr>)]"

text \<open>The replies that register the queries, a second deposit, then the four steps of the era with their
  acknowledgements.\<close>

definition era_history :: "host \<Rightarrow> (sm_store \<Rightarrow> sm_result) list" where
  "era_history h = map (\<lambda>i. reply_sm h i (Inr (Some ''query'')))
       [2000000000, 2000000001, 2000000002, 2000000003]
     @ execute_sm h (\<lambda>_. []) (demo_env 0 7) (demo_info ''bob'' [demo_coin ''ibc/ATOM'' 7000])
         (Stake ''bob'' demo_addr)
     # call h 10 (EraUpdate demo_addr) # acked h 1000000001 11
     @ call h 12 (EraBond demo_addr [''val1'']) # acked h 1000000002 13
     @ call h 14 (EraCollectWithdraw demo_addr) # acked h 1000000003 15
     @ call h 16 (EraRebond demo_addr [''val1'']) # acked h 1000000004 17"

text \<open>The delegations that the query reports at the end of the era.\<close>

definition slash_host :: "u128 \<Rightarrow> host" where
  "slash_host n = demo_host\<lparr>kv_delegations := (\<lambda>_ _. Inr [\<lparr>dl_delegator = ''pool'',
     dl_validator = ''val1'', dl_amount = demo_coin ''uatom'' n\<rparr>])\<rparr>"

definition due_pool :: pool_info where
  "due_pool = (demo_pool RebondEnded 8000)\<lparr>p_bond := 0, p_era := 1,
     p_era_snapshot := \<lparr>es_era = 1, es_bond = 8000, es_unbond = 0, es_active = 8000,
       es_restake_amount = 50, es_last_step_height = 17\<rparr>\<rparr>"

lemma withdraw_not_demo:
  "(replicate 44 CHR ''a'' = ''withdraw'') = False" "(''withdraw'' = replicate 44 CHR ''a'') = False"
  by (auto dest: arg_cong [of _ _ length])

lemmas init_simps = execute_register_pool_def invalid_ica_id_def ICA_WITHDRAW_SUFIX_def
  INTERCHAIN_ACCOUNT_ID_LEN_LIMIT_def byte_def get_withdraw_ica_id_def sudo_open_ack_def
  new_ica_info_def opened_def demo_suffix execute_init_pool_def demo_init_def prepare_pool_def
  init_pool_info_def code_id_or_default_def deal_pool_def token_address_def
  register_pool_queries_def register_query_submsg_def first_fund_def set_withdraw_sub_msg_def
  query_icq_register_fee_def total_icq_register_fee_def seconds_def isub_def
  VALIDATER_LEN_LIMIT_def DEFAULT_ERA_SECONDS_def MIN_ERA_SECONDS_def
  query_denom_trace_from_ibc_denom_def register_balance_query_msg_def
  register_delegator_delegations_query_msg_def register_staking_validators_query_msg_def
  demo_history_def sudo_set_withdraw_addr_callback_def execute_stake_def

lemmas reply_simps = reply_sm_def prepare_sudo_payload_def read_reply_payload_def reply_data_def
  save_sudo_payload_def sudo_response_def take_payload_def read_sudo_payload_def
  write_reply_id_to_query_id_def

lemmas era_simps = call_def acked_def execute_era_update_def current_era_def
  saturating_add_signed_def get_update_pool_icq_msgs_def get_query_id_def
  update_interchain_query_def timeout_timestamp_def DEFAULT_TIMEOUT_SECONDS_def
  DEFAULT_UPDATE_PERIOD_def DEFAULT_FAST_PERIOD_def sudo_era_update_callback_def
  execute_era_bond_def bond_delegates_def STAKE_SPLIT_THRESHOLD_def gen_delegation_txs_def
  sudo_era_bond_callback_def execute_era_collect_withdraw_def rewards_to_collect_def
  query_balance_by_addr_def load_kv_query_def sudo_era_collect_withdraw_callback_def
  execute_era_rebond_def rebond_delegates_def split_amounts_def sudo_era_rebond_callback_def
  gen_msg_send_def withdraw_not_demo

lemmas active_simps = execute_era_active_def query_delegation_by_addr_def sum_delegations_def
  era_active_pool_def era_fees_def era_new_active_def era_new_rate_def check_rate_change_def
  first_stake_fix_def DEFAULT_RATE_def

text \<open>What the storage holds after the initialisation, and how the era goes on from there.\<close>

definition demo_ready :: "sm_store \<Rightarrow> bool" where
  "demo_ready s \<longleftrightarrow> fmlookup (POOLS s) demo_addr = Some (demo_pool ActiveEnded 1000)
     \<and> LATEST_REPLY_ID s = Some 1000000001 \<and> STACK s = STACK demo_start
     \<and> fmlookup (INFO_OF_ICA_ID s) ''ica''
         = Some (demo_ica\<lparr>ica_addr := demo_addr\<rparr>,
             demo_ica\<lparr>ctrl_channel_id := ''channel-3'', host_channel_id := ''channel-4'',
               ctrl_port_id := ''p.ica-withdraw_addr'', ica_addr := ''withdraw''\<rparr>, ''gov'')
     \<and> ADDRESS_TO_REPLY_ID s = fmupd (demo_addr, ''validators'') 2000000003
         (fmupd (demo_addr, ''delegations'') 2000000002
         (fmupd (''withdraw'', ''balances'') 2000000001
         (fmupd (demo_addr, ''balances'') 2000000000 fmempty)))"

lemma demo_ready:
  "\<exists>s. play (demo_history (slash_host n)) demo_start = Inr s \<and> demo_ready s"
  by (simp add: demo_ready_def demo_start_def init_simps eval_simps demo_simps reply_simps slash_host_def)

lemma era_trace:
  assumes "demo_ready s0"
  shows "\<exists>s s' p' r. play (era_history (slash_host 6000)) s0 = Inr s
     \<and> fmlookup (POOLS s) demo_addr = Some due_pool
     \<and> call (slash_host 6000) 18 (EraActive demo_addr) s = Inr (s', r)
     \<and> fmlookup (POOLS s') demo_addr = Some p' \<and> p_rate p' = 750000"
  using assms
  by (simp add: demo_ready_def demo_start_def execute_stake_def seconds_def isub_def eval_simps
      demo_simps reply_simps era_history_def era_simps slash_host_def due_pool_def active_simps)

lemma play_append: "play (fs @ gs) s = rbind (play fs s) (play gs)"
  by (induction fs arbitrary: s) (auto simp: rbind_def split: sum.splits)

lemma history_steps:
  "f \<in> set (demo_history h @ era_history h) \<Longrightarrow> f s = Inr (s', r) \<Longrightarrow> sm_step h (\<lambda>_. []) s s'"
  by (auto simp: demo_history_def era_history_def call_def acked_def
      intro: step_sudo step_reply step_execute)

lemma call_tame: "sane m \<Longrightarrow> tame h (\<lambda>_. []) (call h n m)"
  using tame_calls(1) [of m h "\<lambda>_. []"] by (simp add: tame_def call_def)

lemma era_history_tame: "\<forall>f \<in> set (era_history h). tame h (\<lambda>_. []) f"
  by (simp add: era_history_def acked_def call_tame tame_calls)

section \<open>The rate\<close>

text \<open>C16: in every history of the stake manager, the rate of an initialised pool falls only at the end of
  an era: deposits, withdrawals, configuration, replies and acknowledgements never lower it. If the
  platform commission of the pool was at most 100% in every storage before (the code does not bound
  it, and fees above the reward can lower the rate), it falls only if the delegations that the fresh
  interchain query reports are together less than what the pool had staked when the era began, or
  if the pool has no token left.\<close>

theorem rate_falls_only_at_era_end:
  assumes "sm_history h ho (s' # s # earlier)"
    and "fmlookup (POOLS s) a = Some p" and "fmlookup (POOLS s') a = Some p'"
    and "p_status p \<noteq> RegisterEnded" and "p_rate p' < p_rate p"
  shows "p_status p = RebondEnded \<and> p_status p' = ActiveEnded
    \<and> ((\<forall>t \<in> set (s # earlier). \<forall>q. fmlookup (POOLS t) a = Some q \<longrightarrow>
            unat (p_platform_fee_commission q) \<le> 1000000) \<longrightarrow>
       p_total_lsd_token_amount p' = 0
       \<or> (\<exists>ds height. query_delegation_by_addr h s a (p_sdk_greater_or_equal_v047 p) = Inr (ds, height)
            \<and> es_last_step_height (p_era_snapshot p) < height
            \<and> (\<Sum>d\<leftarrow>ds. unat (c_amount (dl_amount d))) < unat (es_active (p_era_snapshot p))))"
proof -
  from assms(1) have hist: "sm_history h ho (s # earlier)" and step: "sm_step h ho s s'"
    by (auto elim: sm_history_ConsE)
  from sm_step_rates [OF step] assms(2-4) have ok: "rate_ok h s a p p'"
    by (auto simp: rates_ok_def initialised_def)
  have "books_ok p" if "\<forall>t \<in> set (s # earlier). \<forall>q. fmlookup (POOLS t) a = Some q \<longrightarrow>
      unat (p_platform_fee_commission q) \<le> 1000000"
    using history_solvent [OF hist _ assms(2)] that assms(2)
    by (simp add: books_ok_def within_whole_def word_le_nat_alt CAL_BASE_nat)
  with ok assms(5) show ?thesis by (auto simp: rate_ok_def slashed_def split: sum.splits)
qed

theorem rate_falls_only_at_era_end_witness:
  "\<exists>(s :: sm_store) (s' :: sm_store) p'. fmlookup (POOLS s) demo_addr = Some due_pool
    \<and> fmlookup (POOLS s') demo_addr = Some p' \<and> p_rate p' = 750000 \<and> p_status p' = ActiveEnded
    \<and> (p_total_lsd_token_amount p' = 0
       \<or> (\<exists>ds height. query_delegation_by_addr (slash_host 6000) s demo_addr
              (p_sdk_greater_or_equal_v047 due_pool) = Inr (ds, height)
            \<and> es_last_step_height (p_era_snapshot due_pool) < height
            \<and> (\<Sum>d\<leftarrow>ds. unat (c_amount (dl_amount d))) < unat (es_active (p_era_snapshot due_pool))))"
proof -
  let ?h = "slash_host 6000"
  obtain s0 where s0: "play (demo_history ?h) demo_start = Inr s0" "demo_ready s0"
    using demo_ready by blast
  obtain s s' p' r where "play (era_history ?h) s0 = Inr s"
    and p: "fmlookup (POOLS s) demo_addr = Some due_pool"
    and c: "call ?h 18 (EraActive demo_addr) s = Inr (s', r)"
    and p': "fmlookup (POOLS s') demo_addr = Some p'" "p_rate p' = 750000"
    using era_trace [OF s0(2)] by blast
  with s0(1) have s: "play (demo_history ?h @ era_history ?h) demo_start = Inr s"
    by (simp add: play_append)
  have "\<forall>f \<in> set (demo_history ?h @ era_history ?h). tame ?h (\<lambda>_. []) f"
    using demo_history_tame [of ?h] era_history_tame [of ?h] by auto
  from play_history [OF demo_start_history s this] obtain ss
    where "sm_history ?h (\<lambda>_. []) (s # ss)" and books: "\<forall>t \<in> set (s # ss). sm_books t" by blast
  moreover have "sm_step ?h (\<lambda>_. []) s s'"
    using c unfolding call_def by (rule step_execute)
  ultimately have hist: "sm_history ?h (\<lambda>_. []) (s' # s # ss)" by (blast intro: history_step)
  have "p_status due_pool \<noteq> RegisterEnded" "p_rate p' < p_rate due_pool"
    by (simp_all add: due_pool_def demo_pool_def p'(2))
  note falls = rate_falls_only_at_era_end [OF hist p p'(1) this]
  have "\<forall>t \<in> set (s # ss). \<forall>q. fmlookup (POOLS t) demo_addr = Some q \<longrightarrow>
      unat (p_platform_fee_commission q) \<le> 1000000"
    using books by (auto intro: sm_books_commission)
  with falls p p' show ?thesis by blast
qed

end
