(* ===== verification/Stake_Restake.thy ===== *)
theory Stake_Restake
  imports Stake_Rate_Properties
begin

text \<open>
  What the unguarded restaking step leads to. The second of two restaking transactions can be
  acknowledged when the pool is already in its next era; its callback sets the status of the pool
  whatever it is, and the new era goes on without its bonding step.
\<close>

section \<open>The history\<close>

text \<open>Two eras of the pool: in the first the restaking is submitted twice, and the first transaction is
  acknowledged; the second is still under way when a deposit is made and the next era begins.\<close>

definition restake_history :: "host \<Rightarrow> (sm_store \<Rightarrow> sm_result) list" where
  "restake_history h = map (\<lambda>i. reply_sm h i (Inr (Some ''query'')))
       [2000000000, 2000000001, 2000000002, 2000000003]
     @ execute_sm h (\<lambda>_. []) (demo_env 0 7) (demo_info ''bob'' [demo_coin ''ibc/ATOM'' 7000])
         (Stake ''bob'' demo_addr)
     # call h 10 (EraUpdate demo_addr) # acked h 1000000001 11
     @ call h 12 (EraBond demo_addr [''val1'']) # acked h 1000000002 13
     @ call h 14 (EraCollectWithdraw demo_addr) # acked h 1000000003 15
     @ [call h 16 (EraRebond demo_addr [''val1'']),
        reply_sm h 1000000004 (Inr (Some ''channel-1'')),
        call h 16 (EraRebond demo_addr [''val1'']),
        reply_sm h 1000000005 (Inr (Some ''channel-2'')),
        sudo_sm h (demo_env 0 17)
          (SudoResponse \<lparr>rp_sequence = Some 1, rp_source_channel = Some ''channel-1''\<rparr>)]"

definition next_era_history :: "host \<Rightarrow> (sm_store \<Rightarrow> sm_result) list" where
  "next_era_history h =
     [call h 18 (EraActive demo_addr),
      execute_sm h (\<lambda>_. []) (demo_env 0 19) (demo_info ''bob'' [demo_coin ''ibc/ATOM'' 7000])
        (Stake ''bob'' demo_addr),
      execute_sm h (\<lambda>_. []) (demo_env 172800000000000 20)
        (demo_info ''bob'' [demo_coin FEE_DENOM 200]) (EraUpdate demo_addr)]"

text \<open>The second transaction fails (the rewards are spent), and two calls of anybody end the era.\<close>

definition late_failure :: "host \<Rightarrow> (sm_store \<Rightarrow> sm_result) list" where
  "late_failure h =
     [sudo_sm h (demo_env 0 21)
        (SudoError \<lparr>rp_sequence = Some 1, rp_source_channel = Some ''channel-2''\<rparr>),
      call h 22 (EraRebond demo_addr [''val1'']),
      call h 23 (EraActive demo_addr)]"

definition restaked :: "sm_store \<Rightarrow> bool" where
  "restaked s \<longleftrightarrow> fmlookup (POOLS s) demo_addr = Some (due_pool\<lparr>p_era_snapshot :=
       (p_era_snapshot due_pool)\<lparr>es_last_step_height := 17\<rparr>\<rparr>)
     \<and> fmlookup (SUDO_PAYLOAD s) (''channel-2'', 1) = Some \<lparr>pl_message = [], pl_pool_addr = demo_addr,
         pl_port_id = ''p.ica'', pl_tx_type = TxEraRebond\<rparr>
     \<and> STACK s = STACK demo_start \<and> LATEST_REPLY_ID s = Some 1000000006
     \<and> fmlookup (INFO_OF_ICA_ID s) ''ica''
         = Some (demo_ica\<lparr>ica_addr := demo_addr\<rparr>,
             demo_ica\<lparr>ctrl_channel_id := ''channel-3'', host_channel_id := ''channel-4'',
               ctrl_port_id := ''p.ica-withdraw_addr'', ica_addr := ''withdraw''\<rparr>, ''gov'')
     \<and> fmlookup (ADDRESS_TO_REPLY_ID s) (demo_addr, ''balances'') = Some 2000000000
     \<and> fmlookup (REPLY_ID_TO_QUERY_ID s) 2000000000 = Some 1
     \<and> fmlookup (ADDRESS_TO_REPLY_ID s) (demo_addr, ''delegations'') = Some 2000000002
     \<and> fmlookup (REPLY_ID_TO_QUERY_ID s) 2000000002 = Some 1
     \<and> fmlookup (ADDRESS_TO_REPLY_ID s) (demo_addr, ''validators'') = Some 2000000003
     \<and> fmlookup (REPLY_ID_TO_QUERY_ID s) 2000000003 = Some 1
     \<and> fmlookup (ADDRESS_TO_REPLY_ID s) (''withdraw'', ''balances'') = Some 2000000001
     \<and> fmlookup (REPLY_ID_TO_QUERY_ID s) 2000000001 = Some 1"

lemma restake_trace:
  assumes "demo_ready s0"
  shows "\<exists>s. play (restake_history (slash_host 8050)) s0 = Inr s
     \<and> restaked s"
  using assms
  by (simp add: demo_ready_def demo_start_def execute_stake_def seconds_def isub_def eval_simps
      demo_simps reply_simps restake_history_def era_simps slash_host_def due_pool_def restaked_def)

lemma two_one: "\<not> (2 :: u64) \<le> 1"
  by (simp add: word_le_nat_alt)

lemma late_trace:
  assumes "restaked s0"
  shows "\<exists>s p s' p'. play (next_era_history (slash_host 8050)) s0 = Inr s
     \<and> fmlookup (POOLS s) demo_addr = Some p \<and> p_status p = EraUpdateStarted
     \<and> p_rate p = 1005621 \<and> p_active p = 15050 \<and> p_bond p = 7000
     \<and> play (late_failure (slash_host 8050)) s = Inr s'
     \<and> fmlookup (POOLS s') demo_addr = Some p' \<and> p_status p' = ActiveEnded
     \<and> p_rate p' = 537921 \<and> p_active p' = 8050 \<and> p_bond p' = 7000"
  using assms
  by (simp add: restaked_def demo_start_def execute_stake_def seconds_def isub_def eval_simps
      demo_simps reply_simps next_era_history_def late_failure_def era_simps active_simps slash_host_def
      due_pool_def sudo_error_def sudo_era_rebond_failed_callback_def two_one)

lemma restake_steps:
  "f \<in> set (restake_history h @ next_era_history h) \<Longrightarrow> f s = Inr (s', r) \<Longrightarrow> sm_step h (\<lambda>_. []) s s'"
  by (auto simp: restake_history_def next_era_history_def call_def acked_def
      intro: step_sudo step_reply step_execute)

section \<open>An era without bonding\<close>

text \<open>C26: the missing status of the restaking step loses stake: in a reachable state a pool has begun its
  next era with 7000 tokens to bond, while the second of two restaking transactions of the last era
  is under way. Its failure sets the pool back to before the restaking of the era that has just
  begun, and two calls of anybody end that era without a bond and without a collection: the rate of
  the pool falls from 1.005621 to 0.537921 although the delegations are the same 8050 as when the
  first era ended (the limit on the change of the rate is not set, as by default), and the 7000
  tokens of the transfer that is under way are recorded as still to be bonded.\<close>

theorem late_restake_failure_skips_bonding:
  "\<exists>h s s' p p'. sm_reach h (\<lambda>_. []) s \<and> fmlookup (POOLS s) demo_addr = Some p
    \<and> p_status p = EraUpdateStarted \<and> p_rate p = 1005621 \<and> p_active p = 15050 \<and> p_bond p = 7000
    \<and> play [sudo_sm h (demo_env 0 21)
          (SudoError \<lparr>rp_sequence = Some 1, rp_source_channel = Some ''channel-2''\<rparr>),
        execute_sm h (\<lambda>_. []) (demo_env 86400000000000 22) (demo_info ''bob'' [demo_coin FEE_DENOM 200])
          (EraRebond demo_addr [''val1'']),
        execute_sm h (\<lambda>_. []) (demo_env 86400000000000 23) (demo_info ''bob'' [demo_coin FEE_DENOM 200])
          (EraActive demo_addr)] s = Inr s'
    \<and> fmlookup (POOLS s') demo_addr = Some p' \<and> p_status p' = ActiveEnded
    \<and> p_rate p' = 537921 \<and> p_active p' = 8050 \<and> p_bond p' = 7000
    \<and> (\<forall>a i. kv_delegations h a i = Inr [\<lparr>dl_delegator = ''pool'', dl_validator = ''val1'',
          dl_amount = demo_coin ''uatom'' 8050\<rparr>])"
proof -
  let ?h = "slash_host 8050"
  obtain s0 where s0: "play (demo_history ?h) demo_start = Inr s0" "demo_ready s0"
    using demo_ready by blast
  obtain s1 where s1: "play (restake_history ?h) s0 = Inr s1" "restaked s1"
    using restake_trace [OF s0(2)] by blast
  obtain s p s' p' where s: "play (next_era_history ?h) s1 = Inr s"
    and rest: "fmlookup (POOLS s) demo_addr = Some p" "p_status p = EraUpdateStarted"
      "p_rate p = 1005621" "p_active p = 15050" "p_bond p = 7000"
      "play (late_failure ?h) s = Inr s'"
      "fmlookup (POOLS s') demo_addr = Some p'" "p_status p' = ActiveEnded"
      "p_rate p' = 537921" "p_active p' = 8050" "p_bond p' = 7000"
    using late_trace [OF s1(2)] by blast
  have i: "instantiate_sm (demo_info ''gov'' []) 5 empty_sm = Inr (demo_start, respond [] [])"
    by (simp add: instantiate_sm_def demo_start_def demo_info_def)
  have "play (demo_history ?h @ restake_history ?h @ next_era_history ?h) demo_start = Inr s"
    using s0(1) s1(1) s by (simp add: play_append)
  then have "sm_reach ?h (\<lambda>_. []) s"
    by (rule play_reach [OF reach_init [OF i]])
      (auto intro: history_steps restake_steps)
  moreover have "kv_delegations ?h a i = Inr [\<lparr>dl_delegator = ''pool'', dl_validator = ''val1'',
      dl_amount = demo_coin ''uatom'' 8050\<rparr>]" for a i
    by (simp add: slash_host_def)
  ultimately show ?thesis
    using rest unfolding late_failure_def call_def by blast
qed

end
