(* ===== verification/Stake_Withdraw.thy ===== *)
theory Stake_Withdraw
  imports Stake_Reach
begin

text \<open>
  The way of a transaction through the contract (a message with a payload, the reply that files the
  payload under the packet, the acknowledgement that takes it out), and withdrawals on that way:
  the loop over the records, the message that names them, and what the two callbacks do with it.
\<close>

section \<open>The way of a payload\<close>

lemma reply_id_in_range:
  assumes "msg_with_sudo_callback m pl s = Inr (sub, s1)" and "reply_ids_ok s"
  shows "REPLY_ID_RANGE_START \<le> sm_id sub \<and> sm_id sub \<le> REPLY_ID_RANGE_END"
  using assms(1)
proof (rule msg_cb_ok)
  fix i s2
  assume i: "get_next_reply_id s = Inr (i, s2)" and sub: "sub = reply_on_success m i"
  from reply_ids.alloc_id [OF assms(2) i] reply_ids.pos_bound [OF assms(2)] sub
  show ?thesis by (simp add: word_le_nat_alt range_values)
qed

lemma reply_files_payload:
  assumes "msg_with_sudo_callback m pl s = Inr (sub, s1)" and "reply_ids_ok s"
    and "parse_transfer_response h d = Some (ch, sq)"
  shows "reply_sm h (sm_id sub) (Inr (Some d)) s1 = Inr (save_sudo_payload ch sq pl s1, respond [] [])"
proof -
  from assms(1) have "fmlookup (REPLY_ID_TO_PAYLOAD s1) (sm_id sub) = Some pl"
    by (rule msg_cb_ok) simp
  with reply_id_in_range [OF assms(1,2)] assms(3) show ?thesis
    by (simp add: reply_sm_def prepare_sudo_payload_def read_reply_payload_def reply_data_def)
qed

lemma take_filed_payload:
  "take_payload \<lparr>rp_sequence = Some sq, rp_source_channel = Some ch\<rparr> (save_sudo_payload ch sq pl s)
   = Inr (pl, s\<lparr>SUDO_PAYLOAD := fmdrop (ch, sq) (fmupd (ch, sq) pl (SUDO_PAYLOAD s))\<rparr>)"
  by (simp add: take_payload_def read_sudo_payload_def save_sudo_payload_def)

lemma taken_payload_gone:
  assumes "take_payload req s = Inr (pl, s')" and "SUDO_PAYLOAD s'' = SUDO_PAYLOAD s'"
  shows "take_payload req s'' = Inl (Err CallBackErrErrorMsg)"
  using assms(1)
  by (rule take_payload_ok) (simp add: take_payload_def read_sudo_payload_def load_def assms(2))

lemma msg_cb_total:
  "reply_ids_ok s \<Longrightarrow> \<exists>sub s1. msg_with_sudo_callback m pl s = Inr (sub, s1)"
  using reply_ids.alloc_total [of s] by (auto simp: msg_with_sudo_callback_def save_reply_payload_def)

lemma msg_cb_ids: "msg_with_sudo_callback m pl s = Inr (sub, s1) \<Longrightarrow> reply_ids_ok s \<Longrightarrow> reply_ids_ok s1"
  by (erule msg_cb_ok) (drule (1) reply_ids.alloc_ok, simp add: reply_ids_ok_def)

section \<open>The loop over the records\<close>

definition amount_of :: "sm_store \<Rightarrow> string \<Rightarrow> u64 \<Rightarrow> nat" where
  "amount_of s a i = (case fmlookup (UNSTAKES_OF_INDEX s) (a, i) of None \<Rightarrow> 0
     | Some u \<Rightarrow> unat (u_amount u))"

definition withdrawable :: "sm_store \<Rightarrow> addr \<Rightarrow> string \<Rightarrow> pool_info \<Rightarrow> u64 \<Rightarrow> bool" where
  "withdrawable s who a p i = (case fmlookup (UNSTAKES_OF_INDEX s) (a, i) of None \<Rightarrow> False
     | Some u \<Rightarrow> u_pool_addr u = a \<and> u_unstaker u = who \<and> u_status u = WithdrawDefault
         \<and> unat (u_era u) + unat (p_unbonding_period p) \<le> unat (p_era p))"

text \<open>The records of a pool with the status of some of them changed.\<close>

definition with_status ::
  "withdraw_status \<Rightarrow> string \<Rightarrow> u64 set \<Rightarrow> (string \<times> u64 \<Rightarrow> unstake_info option) \<Rightarrow> string \<times> u64 \<Rightarrow> unstake_info option"
where
  "with_status st a I f = (\<lambda>k. if fst k = a \<and> snd k \<in> I then map_option (u_status_update (\<lambda>_. st)) (f k)
     else f k)"

lemma withdraw_status_not_pending: "st \<noteq> WithdrawPending \<longleftrightarrow> st = WithdrawDefault"
  by (cases st) simp_all

lemma withdraw_one_ok:
  assumes "withdraw_one info a p i (s, t) = Inr (s', t')"
  shows "withdrawable s (sender info) a p i"
    and "unat t' = unat t + amount_of s a i"
    and "fmlookup (UNSTAKES_OF_INDEX s')
      = with_status WithdrawPending a {i} (fmlookup (UNSTAKES_OF_INDEX s))"
proof -
  from assms obtain u ripe where u: "fmlookup (UNSTAKES_OF_INDEX s) (a, i) = Some u"
    and g: "u_pool_addr u = a" "u_unstaker u = sender info" "u_status u \<noteq> WithdrawPending"
    and r: "uadd (u_era u) (p_unbonding_period p) = (Inr ripe :: u64 sm_res)" "\<not> p_era p < ripe"
    and t: "uadd t (u_amount u) = (Inr t' :: u128 sm_res)"
    and s': "s' = s\<lparr>UNSTAKES_OF_INDEX := fmupd (a, i) (u\<lparr>u_status := WithdrawPending\<rparr>)
              (UNSTAKES_OF_INDEX s)\<rparr>"
    by (auto simp: withdraw_one_def rbind_eq_Inr if_Inl_eq_Inr load_eq_Inr)
  show "withdrawable s (sender info) a p i"
    using u g r(2) uadd_unat [OF r(1)]
    by (simp add: withdrawable_def withdraw_status_not_pending not_less word_le_nat_alt)
  show "unat t' = unat t + amount_of s a i"
    using uadd_unat [OF t] u by (simp add: amount_of_def)
  show "fmlookup (UNSTAKES_OF_INDEX s') = with_status WithdrawPending a {i} (fmlookup (UNSTAKES_OF_INDEX s))"
    using u s' by (auto simp: with_status_def fun_eq_iff)
qed

lemma with_status_insert:
  "with_status st a I (with_status st a {i} f) = with_status st a (insert i I) f"
  by (auto simp: with_status_def fun_eq_iff option.map_comp comp_def)

lemma with_status_other: "i \<notin> I \<Longrightarrow> with_status st a I f (a, i) = f (a, i)"
  by (simp add: with_status_def)

lemma withdraw_loop_ok:
  assumes "rfold (withdraw_one info a p) is (s, t) = Inr (s', t')"
  shows "distinct is \<and> (\<forall>i \<in> set is. withdrawable s (sender info) a p i)
    \<and> unat t' = unat t + (\<Sum>i\<leftarrow>is. amount_of s a i)
    \<and> fmlookup (UNSTAKES_OF_INDEX s')
      = with_status WithdrawPending a (set is) (fmlookup (UNSTAKES_OF_INDEX s))"
  using assms
proof (induction "is" arbitrary: s t)
  case Nil
  then show ?case by (simp add: with_status_def)
next
  case (Cons i "is")
  then obtain s1 t1 where w: "withdraw_one info a p i (s, t) = Inr (s1, t1)"
    and r: "rfold (withdraw_one info a p) is (s1, t1) = Inr (s', t')"
    by (auto simp: rbind_eq_Inr)
  note one = withdraw_one_ok [OF w] and rest = Cons.IH [OF r]
  have "\<not> withdrawable s1 (sender info) a p i"
    unfolding withdrawable_def one(3) with_status_def by (auto split: option.splits)
  with rest have new: "i \<notin> set is" by blast
  have same: "fmlookup (UNSTAKES_OF_INDEX s1) (a, j) = fmlookup (UNSTAKES_OF_INDEX s) (a, j)"
    if "j \<in> set is" for j
    using that new by (auto simp: one(3) with_status_def)
  have am: "(\<Sum>i\<leftarrow>is. amount_of s1 a i) = (\<Sum>i\<leftarrow>is. amount_of s a i)"
    by (rule arg_cong [of _ _ sum_list]) (simp add: amount_of_def same)
  show ?case
    using rest new one am same by (simp add: withdrawable_def with_status_insert)
qed

lemma withdraw_loop_ids:
  "rfold (withdraw_one info a p) is (s, t) = Inr (s', t') \<Longrightarrow> LATEST_REPLY_ID s' = LATEST_REPLY_ID s"
  by (drule rfold_invariant [where I = "\<lambda>(x, _). LATEST_REPLY_ID x = LATEST_REPLY_ID s"])
    (auto simp: withdraw_one_def res_simps)

lemma execute_withdraw_ok:
  assumes "execute_withdraw h info a rcv is s = Inr (s', r)"
  obtains p ica w adm s1 amt fee sub where "fmlookup (POOLS s) a = Some p" and "is \<noteq> []"
    and "rfold (withdraw_one info a p) is (s, 0) = Inr (s1, amt)" and "amt \<noteq> 0"
    and "fmlookup (INFO_OF_ICA_ID s1) (p_ica_id p) = Some (ica, w, adm)"
    and "msg_with_sudo_callback
           (SubmitTx (ctrl_connection_id ica) (p_ica_id p)
              [gen_msg_send a rcv (p_remote_denom p) amt] DEFAULT_TIMEOUT_SECONDS fee)
           \<lparr>pl_message = withdraw_message amt (sender info) rcv is, pl_pool_addr = a,
            pl_port_id = ctrl_port_id ica, pl_tx_type = TxUserWithdraw\<rparr> s1 = Inr (sub, s')"
    and "messages r = [sub]"
  using assms
  unfolding execute_withdraw_def rbind_eq_Inr if_Inl_eq_Inr load_pool_eq_Inr load_ica_eq_Inr
    split_paired_Ex prod.case sum.inject prod.inject
  by (elim exE conjE) (hypsubst, rule that, assumption+, simp)

section \<open>The message\<close>

lemma withdraw_message_split:
  assumes "CHR ''_'' \<notin> set who"
  shows "split_on CHR ''_'' (withdraw_message amt who rcv is)
    = to_string amt # who # split_on CHR ''_'' (rcv @ ''_'' @ join ''_'' (map to_string is))"
  using assms by (simp add: withdraw_message_def split_on_append)

lemma split_indexes:
  "is \<noteq> [] \<Longrightarrow> split_on CHR ''_'' (join ''_'' (map to_string is)) = map to_string is"
  by (rule split_on_join) auto

text \<open>The parts after the third: the tail of a receiver with separators, then the indexes.\<close>

lemma split_on_both: "split_on c (p @ c # q) = split_on c p @ split_on c q"
proof (induction p)
  case (Cons x p)
  then show ?case by (cases "split_on c p") (auto split: list.splits)
qed simp

lemma withdraw_message_parts:
  assumes "CHR ''_'' \<notin> set who" and "is \<noteq> []"
  shows "split_on CHR ''_'' (withdraw_message amt who rcv is)
    = to_string amt # who # split_on CHR ''_'' rcv @ map to_string is"
  using assms by (simp add: withdraw_message_split split_on_both split_indexes)

section \<open>The callbacks\<close>

lemma reset_one_ok:
  "fmlookup (UNSTAKES_OF_INDEX s) (a, i) = Some u \<Longrightarrow> reset_one a (to_string i) s
   = Inr (s\<lparr>UNSTAKES_OF_INDEX := fmupd (a, i) (u\<lparr>u_status := WithdrawDefault\<rparr>) (UNSTAKES_OF_INDEX s)\<rparr>)"
  by (simp add: reset_one_def)

lemma reset_all_ok:
  assumes "\<forall>i \<in> set is. fmlookup (UNSTAKES_OF_INDEX s) (a, i) \<noteq> None"
  shows "\<exists>s'. rfold (reset_one a) (map to_string is) s = Inr s'
    \<and> fmlookup (UNSTAKES_OF_INDEX s')
      = with_status WithdrawDefault a (set is) (fmlookup (UNSTAKES_OF_INDEX s))
    \<and> SUDO_PAYLOAD s' = SUDO_PAYLOAD s
    \<and> UNSTAKES_INDEX_FOR_USER s' = UNSTAKES_INDEX_FOR_USER s \<and> POOLS s' = POOLS s
    \<and> INFO_OF_ICA_ID s' = INFO_OF_ICA_ID s \<and> LATEST_REPLY_ID s' = LATEST_REPLY_ID s"
  using assms
proof (induction "is" arbitrary: s)
  case Nil
  then show ?case by (simp add: with_status_def)
next
  case (Cons i "is")
  then obtain u where u: "fmlookup (UNSTAKES_OF_INDEX s) (a, i) = Some u" by auto
  let ?s = "s\<lparr>UNSTAKES_OF_INDEX := fmupd (a, i) (u\<lparr>u_status := WithdrawDefault\<rparr>) (UNSTAKES_OF_INDEX s)\<rparr>"
  have eq: "fmlookup (UNSTAKES_OF_INDEX ?s)
      = with_status WithdrawDefault a {i} (fmlookup (UNSTAKES_OF_INDEX s))"
    using u by (auto simp: with_status_def fun_eq_iff)
  have "\<forall>j \<in> set is. fmlookup (UNSTAKES_OF_INDEX ?s) (a, j) \<noteq> None" using Cons.prems by auto
  from Cons.IH [OF this] show ?case
    using u by (simp add: reset_one_ok eq [simplified] with_status_insert)
qed

lemma with_status_swap:
  "with_status st a (insert i I) (with_status st' a I f)
    = with_status st a {i} (with_status st a I (with_status st' a I f))"
  by (auto simp: with_status_def fun_eq_iff option.map_comp comp_def)

lemma with_status_undo:
  assumes "\<And>i u. i \<in> I \<Longrightarrow> f (a, i) = Some u \<Longrightarrow> u_status u = st"
  shows "with_status st a I (with_status st' a I f) = f"
proof
  fix k :: "string \<times> u64"
  obtain b i where k: "k = (b, i)" by force
  show "with_status st a I (with_status st' a I f) k = f k"
    using assms [of i] by (cases "f k") (auto simp: with_status_def k)
qed

end
