(* ===== verification/Stake_Validator_Properties.thy ===== *)
theory Stake_Validator_Properties
  imports Stake_Withdraw Stake_Demo
begin

text \<open>
  The redelegations that replace or remove a validator, and what the pool looks like when the remote
  chain refuses them.
\<close>

text \<open>A transaction with a callback, through its reply to its acknowledgement.\<close>

lemma tx_settles:
  assumes cb: "msg_with_sudo_callback m pl s = Inr (sub, s0)" and "reply_ids_ok s"
    and "parse_transfer_response h d = Some (ch, sq)"
    and same: "REPLY_ID_TO_PAYLOAD s1 = REPLY_ID_TO_PAYLOAD s0"
  obtains s2 s3 where "reply_sm h (sm_id sub) (Inr (Some d)) s1 = Inr (s2, respond [] [])"
    and "take_payload \<lparr>rp_sequence = Some sq, rp_source_channel = Some ch\<rparr> s2 = Inr (pl, s3)"
    and "POOLS s3 = POOLS s1"
proof -
  from cb have "fmlookup (REPLY_ID_TO_PAYLOAD s1) (sm_id sub) = Some pl"
    unfolding same by (rule msg_cb_ok) simp
  with reply_id_in_range [OF cb assms(2)] assms(3)
  have "reply_sm h (sm_id sub) (Inr (Some d)) s1 = Inr (save_sudo_payload ch sq pl s1, respond [] [])"
    by (simp add: reply_sm_def prepare_sudo_payload_def read_reply_payload_def reply_data_def)
  from that [OF this take_filed_payload] show ?thesis by (simp add: save_sudo_payload_def)
qed

text \<open>The redelegations of a validator: the amounts reported for it, up to the first that is zero.\<close>

definition redelegates :: "string \<Rightarrow> string \<Rightarrow> string \<Rightarrow> string \<Rightarrow> protobuf_any \<Rightarrow> bool" where
  "redelegates a old new denom m \<longleftrightarrow> type_url m = ''/cosmos.staking.v1beta1.BeginRedelegate''
     \<and> (\<exists>n. n \<noteq> 0 \<and> any_value m = MsgBeginRedelegate a old new \<lparr>c_denom = denom, c_amount = n\<rparr>)"

lemma redelegations_redelegate:
  "m \<in> set (redelegations a old new denom ds) \<Longrightarrow> redelegates a old new denom m"
  by (induction ds) (auto simp: redelegates_def gen_redelegate_txs_def split: if_splits)

lemma execute_pool_update_validator_steps:
  assumes "execute_pool_update_validator h info a old new s = Inr (s1, r)" and "messages r = [m]"
  obtains p ica w adm msgs fee s0 where "fmlookup (POOLS s) a = Some p"
    and "p_validator_update_status p = UpdateEnd"
    and "old \<in> set (p_validator_addrs p)" and "new \<notin> set (p_validator_addrs p)"
    and "fmlookup (INFO_OF_ICA_ID s) (p_ica_id p) = Some (ica, w, adm)"
    and "msgs \<noteq> []" and "\<forall>x \<in> set msgs. redelegates a old new (p_remote_denom p) x"
    and "msg_with_sudo_callback
          (SubmitTx (ctrl_connection_id ica) (p_ica_id p) msgs DEFAULT_TIMEOUT_SECONDS fee)
          \<lparr>pl_message = join ''_'' (retain (\<lambda>v. v \<noteq> old) (p_validator_addrs p) @ [new]),
           pl_pool_addr = ica_addr ica, pl_port_id = ctrl_port_id ica,
           pl_tx_type = TxUpdateValidator\<rparr> s = Inr (m, s0)"
    and "s1 = save_pool a (p\<lparr>p_validator_update_status := UpdateStart,
          p_validator_addrs := retain (\<lambda>v. v \<noteq> old) (p_validator_addrs p) @ [new]\<rparr>) s0"
proof -
  from assms(1) obtain p and ds :: "delegation list" and ica w adm q out s0
    where p: "fmlookup (POOLS s) a = Some p" "\<not> p_validator_update_status p \<noteq> UpdateEnd"
      "\<not> old \<notin> set (p_validator_addrs p)" "new \<notin> set (p_validator_addrs p)"
      "fmlookup (INFO_OF_ICA_ID s) (p_ica_id p) = Some (ica, w, adm)"
    and c: "(if redelegations a old new (p_remote_denom p) ds \<noteq> [] then
              rbind (check_ibc_fee h info) (\<lambda>fee.
              rbind (msg_with_sudo_callback
                       (SubmitTx (ctrl_connection_id ica) (p_ica_id p)
                          (redelegations a old new (p_remote_denom p) ds) DEFAULT_TIMEOUT_SECONDS fee)
                       \<lparr>pl_message = join ''_'' (retain (\<lambda>v. v \<noteq> old) (p_validator_addrs p) @ [new]),
                        pl_pool_addr = ica_addr ica, pl_port_id = ctrl_port_id ica,
                        pl_tx_type = TxUpdateValidator\<rparr> s)
                (\<lambda>(msg, s). Inr (p\<lparr>p_validator_update_status := UpdateStart\<rparr>, [msg], s)))
            else Inr (p\<lparr>p_validator_update_status := WaitQueryUpdate\<rparr>, [], s)) = Inr (q, out, s0)"
    and s1: "s1 = save_pool a (q\<lparr>p_validator_addrs :=
        retain (\<lambda>v. v \<noteq> old) (p_validator_addrs p) @ [new]\<rparr>) s0" and r: "r = respond out []"
    unfolding execute_pool_update_validator_def Let_def rbind_eq_Inr if_Inl_eq_Inr load_pool_eq_Inr
      load_ica_eq_Inr split_paired_Ex prod.case sum.inject prod.inject
    by (elim exE conjE) (rule that, assumption+, rule sym, assumption, rule sym, assumption)
  from r assms(2) have out: "out = [m]" by simp
  with c have ne: "redelegations a old new (p_remote_denom p) ds \<noteq> []" by (auto split: if_splits)
  with c out p s1 show ?thesis
    by (auto simp: rbind_eq_Inr intro!: that [OF _ _ _ _ _ ne] dest: redelegations_redelegate)
qed

lemma execute_rm_pool_validator_steps:
  assumes "execute_rm_pool_validator h info a v s = Inr (s1, r)" and "messages r = [m]"
  obtains p ica w adm msg fee s0 t where "fmlookup (POOLS s) a = Some p"
    and "p_validator_update_status p = UpdateEnd" and "v \<in> set (p_validator_addrs p)"
    and "fmlookup (INFO_OF_ICA_ID s) (p_ica_id p) = Some (ica, w, adm)"
    and "redelegates a v t (p_remote_denom p) msg" and "t \<in> set (p_validator_addrs p)" and "t \<noteq> v"
    and "msg_with_sudo_callback
          (SubmitTx (ctrl_connection_id ica) (p_ica_id p) [msg] DEFAULT_TIMEOUT_SECONDS fee)
          \<lparr>pl_message = v, pl_pool_addr = ica_addr ica, pl_port_id = ctrl_port_id ica,
           pl_tx_type = TxRmValidator\<rparr> s = Inr (m, s0)"
    and "s1 = save_pool a (p\<lparr>p_validator_update_status := UpdateStart\<rparr>) s0"
proof -
  from assms(1) obtain p and ds :: "delegation list" and q msgs s0 where p: "fmlookup (POOLS s) a = Some p"
    "\<not> v \<notin> set (p_validator_addrs p)" "\<not> p_validator_update_status p \<noteq> UpdateEnd"
    and c: "(case List.find (\<lambda>d. dl_validator d = v) ds of
         None \<Rightarrow> Inr (p\<lparr>p_validator_update_status := WaitQueryUpdate,
                     p_validator_addrs := filter (\<lambda>x. x \<noteq> v) (p_validator_addrs p)\<rparr>, [], s)
       | Some d \<Rightarrow>
           if c_amount (dl_amount d) = 0 then Inr (p\<lparr>p_validator_update_status := WaitQueryUpdate,
                     p_validator_addrs := filter (\<lambda>x. x \<noteq> v) (p_validator_addrs p)\<rparr>, [], s)
           else
           rbind (check_ibc_fee h info) (\<lambda>fee.
           rbind (load_ica s (p_ica_id p)) (\<lambda>(pool_ica, _, _).
           rbind (ok_or (Panic UnwrapNone) (case filter (\<lambda>x. x \<noteq> v) (p_validator_addrs p) of
               [] \<Rightarrow> None | v # _ \<Rightarrow> Some v)) (\<lambda>target.
           rbind (msg_with_sudo_callback
                    (SubmitTx (ctrl_connection_id pool_ica) (p_ica_id p)
                       [gen_redelegate_txs a (dl_validator d) target (p_remote_denom p)
                          (c_amount (dl_amount d))] DEFAULT_TIMEOUT_SECONDS fee)
                    \<lparr>pl_message = v, pl_pool_addr = ica_addr pool_ica,
                     pl_port_id = ctrl_port_id pool_ica, pl_tx_type = TxRmValidator\<rparr> s)
             (\<lambda>(msg, s). Inr (p\<lparr>p_validator_update_status := UpdateStart\<rparr>, [msg], s))))))
        = Inr (q, msgs, s0)"
    and s1: "s1 = save_pool a q s0" and r: "r = respond msgs []"
    unfolding execute_rm_pool_validator_def Let_def rbind_eq_Inr if_Inl_eq_Inr load_pool_eq_Inr
      split_paired_Ex prod.case sum.inject prod.inject
    by (elim exE conjE) (rule that, assumption+, rule sym, assumption, rule sym, assumption)
  from r assms(2) have ms: "msgs = [m]" by simp
  obtain d where d: "List.find (\<lambda>d. dl_validator d = v) ds = Some d" "c_amount (dl_amount d) \<noteq> 0"
    using c ms by (auto split: option.splits if_splits)
  then have dv: "dl_validator d = v" by (auto simp: find_Some_iff)
  obtain t ts where t: "filter (\<lambda>x. x \<noteq> v) (p_validator_addrs p) = t # ts"
    using c d by (auto simp: rbind_eq_Inr ok_or_def split: list.splits)
  then have "t \<in> set (filter (\<lambda>x. x \<noteq> v) (p_validator_addrs p))" by simp
  then have "t \<in> set (p_validator_addrs p)" "t \<noteq> v" by simp_all
  moreover have "redelegates a v t (p_remote_denom p)
      (gen_redelegate_txs a (dl_validator d) t (p_remote_denom p) (c_amount (dl_amount d)))"
    using d dv by (simp add: redelegates_def gen_redelegate_txs_def)
  ultimately show ?thesis
    using c d p s1 ms t that by (auto simp: rbind_eq_Inr load_ica_eq_Inr ok_or_def)
qed

text \<open>C29: when a validator that holds stake is replaced, every message of the transaction carries the type
  URL \<open>/cosmos.staking.v1beta1.BeginRedelegate\<close> (the message type of the staking module is
  \<open>MsgBeginRedelegate\<close>). When the remote chain refuses the transaction or lets it time out, the
  pool does not return to its validators: the new validator stays in the list although nothing was
  redelegated to it, the old one stays out of it although it still holds the stake, and the status
  says that the replacement is over.\<close>

theorem refused_replacement_stays:
  assumes "execute_pool_update_validator h info a old new s = Inr (s1, r)" and "messages r = [m]"
    and "fmlookup (POOLS s) a = Some p"
    and "fmlookup (INFO_OF_ICA_ID s) (p_ica_id p) = Some (ica, w, adm)" and "ica_addr ica = a"
    and "reply_ids_ok s" and "parse_transfer_response h d = Some (ch, sq)"
  shows "\<exists>msgs fee s2 s3 vs. sm_msg m
        = SubmitTx (ctrl_connection_id ica) (p_ica_id p) msgs DEFAULT_TIMEOUT_SECONDS fee
    \<and> msgs \<noteq> [] \<and> (\<forall>x \<in> set msgs. type_url x = ''/cosmos.staking.v1beta1.BeginRedelegate'')
    \<and> reply_sm h (sm_id m) (Inr (Some d)) s1 = Inr (s2, respond [] [])
    \<and> sudo_error \<lparr>rp_sequence = Some sq, rp_source_channel = Some ch\<rparr> s2 = Inr (s3, respond [] [])
    \<and> sudo_timeout \<lparr>rp_sequence = Some sq, rp_source_channel = Some ch\<rparr> s2 = Inr (s3, respond [] [])
    \<and> fmlookup (POOLS s3) a = Some (p\<lparr>p_validator_addrs := vs\<rparr>)
    \<and> set vs = set (p_validator_addrs p) - {old} \<union> {new}
    \<and> old \<in> set (p_validator_addrs p) \<and> new \<notin> set (p_validator_addrs p)"
  using assms(1,2)
proof (rule execute_pool_update_validator_steps)
  fix p' ica' w' adm' msgs fee s0
  let ?vs = "retain (\<lambda>v. v \<noteq> old) (p_validator_addrs p) @ [new]"
  let ?pl = "\<lparr>pl_message = join ''_'' ?vs, pl_pool_addr = a, pl_port_id = ctrl_port_id ica,
    pl_tx_type = TxUpdateValidator\<rparr>"
  let ?p = "p\<lparr>p_validator_update_status := UpdateStart, p_validator_addrs := ?vs\<rparr>"
  assume "fmlookup (POOLS s) a = Some p'"
    and "fmlookup (INFO_OF_ICA_ID s) (p_ica_id p') = Some (ica', w', adm')"
    and st: "p_validator_update_status p' = UpdateEnd"
    and v: "old \<in> set (p_validator_addrs p')" "new \<notin> set (p_validator_addrs p')"
    and msgs: "msgs \<noteq> []" "\<forall>x \<in> set msgs. redelegates a old new (p_remote_denom p') x"
    and cb: "msg_with_sudo_callback
          (SubmitTx (ctrl_connection_id ica') (p_ica_id p') msgs DEFAULT_TIMEOUT_SECONDS fee)
          \<lparr>pl_message = join ''_'' (retain (\<lambda>v. v \<noteq> old) (p_validator_addrs p') @ [new]),
           pl_pool_addr = ica_addr ica', pl_port_id = ctrl_port_id ica',
           pl_tx_type = TxUpdateValidator\<rparr> s = Inr (m, s0)"
    and s1: "s1 = save_pool a (p'\<lparr>p_validator_update_status := UpdateStart,
          p_validator_addrs := retain (\<lambda>v. v \<noteq> old) (p_validator_addrs p') @ [new]\<rparr>) s0"
  with assms(3-5) have eq: "p' = p" "ica' = ica" "ica_addr ica = a" by simp_all
  note cb = cb [unfolded eq] and s1 = s1 [unfolded eq]
  from cb assms(6,7) show ?thesis
  proof (rule tx_settles)
    show "REPLY_ID_TO_PAYLOAD s1 = REPLY_ID_TO_PAYLOAD s0" by (simp add: s1 save_pool_def)
    fix s2 s3
    assume r: "reply_sm h (sm_id m) (Inr (Some d)) s1 = Inr (s2, respond [] [])"
      and t: "take_payload \<lparr>rp_sequence = Some sq, rp_source_channel = Some ch\<rparr> s2 = Inr (?pl, s3)"
      and P: "POOLS s3 = POOLS s1"
    let ?q = "?p\<lparr>p_validator_update_status := UpdateEnd\<rparr>"
    have "sudo_failed_callback (pl_tx_type ?pl) ?pl s3 = Inr (save_pool a ?q s3, respond [] [])"
      by (simp add: sudo_update_validator_failed_callback_def P s1)
    moreover have "?q = p\<lparr>p_validator_addrs := ?vs\<rparr>" using st by (simp add: eq)
    moreover have "sm_msg m = SubmitTx (ctrl_connection_id ica) (p_ica_id p) msgs DEFAULT_TIMEOUT_SECONDS fee"
      using msg_cb_frame [OF cb] by simp
    moreover have "set ?vs = set (p_validator_addrs p) - {old} \<union> {new}" by auto
    ultimately show ?thesis
      using r t msgs v
      by (intro exI [of _ msgs] exI [of _ fee] exI [of _ s2] exI [of _ "save_pool a ?q s3"]
          exI [of _ ?vs]) (simp add: sudo_error_def sudo_timeout_def redelegates_def eq)
  qed
qed

text \<open>The removal of a validator that holds stake is undone exactly when it is refused.\<close>

lemma refused_removal_restores:
  assumes "execute_rm_pool_validator h info a v s = Inr (s1, r)" and "messages r = [m]"
    and "fmlookup (POOLS s) a = Some p"
    and "fmlookup (INFO_OF_ICA_ID s) (p_ica_id p) = Some (ica, w, adm)" and "ica_addr ica = a"
    and "reply_ids_ok s" and "parse_transfer_response h d = Some (ch, sq)"
  shows "\<exists>s2 s3. reply_sm h (sm_id m) (Inr (Some d)) s1 = Inr (s2, respond [] [])
    \<and> sudo_error \<lparr>rp_sequence = Some sq, rp_source_channel = Some ch\<rparr> s2 = Inr (s3, respond [] [])
    \<and> fmlookup (POOLS s3) = fmlookup (POOLS s)"
  using assms(1,2)
proof (rule execute_rm_pool_validator_steps)
  fix p' ica' w' adm' msg fee s0 t
  let ?pl = "\<lparr>pl_message = v, pl_pool_addr = a, pl_port_id = ctrl_port_id ica,
    pl_tx_type = TxRmValidator\<rparr>"
  assume "fmlookup (POOLS s) a = Some p'"
    and "fmlookup (INFO_OF_ICA_ID s) (p_ica_id p') = Some (ica', w', adm')"
    and st: "p_validator_update_status p' = UpdateEnd"
    and cb: "msg_with_sudo_callback
          (SubmitTx (ctrl_connection_id ica') (p_ica_id p') [msg] DEFAULT_TIMEOUT_SECONDS fee)
          \<lparr>pl_message = v, pl_pool_addr = ica_addr ica', pl_port_id = ctrl_port_id ica',
           pl_tx_type = TxRmValidator\<rparr> s = Inr (m, s0)"
    and s1: "s1 = save_pool a (p'\<lparr>p_validator_update_status := UpdateStart\<rparr>) s0"
  with assms(3-5) have eq: "p' = p" "ica' = ica" "ica_addr ica = a" by simp_all
  note cb = cb [unfolded eq] and s1 = s1 [unfolded eq]
  from cb assms(6,7) show ?thesis
  proof (rule tx_settles)
    show "REPLY_ID_TO_PAYLOAD s1 = REPLY_ID_TO_PAYLOAD s0" by (simp add: s1 save_pool_def)
    fix s2 s3
    assume r: "reply_sm h (sm_id m) (Inr (Some d)) s1 = Inr (s2, respond [] [])"
      and t: "take_payload \<lparr>rp_sequence = Some sq, rp_source_channel = Some ch\<rparr> s2 = Inr (?pl, s3)"
      and P: "POOLS s3 = POOLS s1"
    have "sudo_failed_callback (pl_tx_type ?pl) ?pl s3
        = Inr (save_pool a (p\<lparr>p_validator_update_status := UpdateEnd\<rparr>) s3, respond [] [])"
      by (simp add: sudo_rm_validator_failed_callback_def P s1)
    moreover have "p\<lparr>p_validator_update_status := UpdateEnd\<rparr> = p" using st by (simp add: eq)
    ultimately show ?thesis
      using r t msg_cb_frame [OF cb] assms(3)
      by (intro exI [of _ s2] exI [of _ "save_pool a p s3"])
        (auto simp: sudo_error_def P s1 fun_eq_iff)
  qed
qed

text \<open>The pool \<open>demo_addr\<close> replaces \<open>val1\<close>, which holds 1100, by \<open>val2\<close>.\<close>

definition demo_staked :: sm_store where
  "demo_staked = demo_start\<lparr>POOLS := fmupd demo_addr (demo_pool ActiveEnded 1000) fmempty,
     INFO_OF_ICA_ID := fmupd ''ica'' (demo_ica\<lparr>ica_addr := demo_addr\<rparr>,
       demo_ica\<lparr>ica_addr := ''withdraw''\<rparr>, ''gov'') fmempty,
     ADDRESS_TO_REPLY_ID := fmupd (demo_addr, query_kind_to_string Delegations) 3 fmempty,
     REPLY_ID_TO_QUERY_ID := fmupd 3 13 fmempty\<rparr>"

lemma demo_replacement:
  "\<exists>s1 r m. execute_pool_update_validator demo_host (demo_info ''gov'' [demo_coin FEE_DENOM 200])
     demo_addr ''val1'' ''val2'' demo_staked = Inr (s1, r) \<and> messages r = [m]"
  by (simp add: execute_pool_update_validator_def demo_staked_def demo_start_def
      query_delegation_by_addr_def load_kv_query_def get_query_id_def eval_simps demo_simps)

theorem refused_replacement_stays_witness:
  "\<exists>(s1 :: sm_store) (m :: sm_out sub_msg) s2 s3 vs.
      reply_sm demo_host (sm_id m) (Inr (Some ''ch'')) s1 = Inr (s2, respond [] [])
    \<and> sudo_error \<lparr>rp_sequence = Some 1, rp_source_channel = Some ''ch''\<rparr> s2 = Inr (s3, respond [] [])
    \<and> fmlookup (POOLS s3) demo_addr = Some ((demo_pool ActiveEnded 1000)\<lparr>p_validator_addrs := vs\<rparr>)
    \<and> set vs = {''val2''}"
proof -
  obtain s1 r m where w: "execute_pool_update_validator demo_host
      (demo_info ''gov'' [demo_coin FEE_DENOM 200]) demo_addr ''val1'' ''val2'' demo_staked = Inr (s1, r)"
    "messages r = [m]"
    using demo_replacement by blast
  have s: "fmlookup (POOLS demo_staked) demo_addr = Some (demo_pool ActiveEnded 1000)"
    "fmlookup (INFO_OF_ICA_ID demo_staked) (p_ica_id (demo_pool ActiveEnded 1000))
      = Some (demo_ica\<lparr>ica_addr := demo_addr\<rparr>, demo_ica\<lparr>ica_addr := ''withdraw''\<rparr>, ''gov'')"
    "ica_addr (demo_ica\<lparr>ica_addr := demo_addr\<rparr>) = demo_addr" "reply_ids_ok demo_staked"
    by (simp_all add: demo_staked_def demo_start_def reply_ids_ok_def in_range_def empty_sm_def
        demo_pool_def new_pool_info_def)
  have d: "parse_transfer_response demo_host ''ch'' = Some (''ch'', 1)" by (simp add: demo_host_def)
  have v: "set (p_validator_addrs (demo_pool ActiveEnded 1000)) - {''val1''} \<union> {''val2''} = {''val2''}"
    by (simp add: demo_pool_def)
  from refused_replacement_stays [OF w s d, unfolded v] show ?thesis by (elim exE conjE) (intro exI conjI)
qed

end
