(* ===== verification/Scenario.thy ===== *)
theory Scenario
  imports Chain Pages
begin

text \<open>
  Scenarios: the unit tests of the repository as sequences of checked calls. A check runs an entry
  point or a query on the storage and says what it must return; a refused call keeps the storage, as
  on a chain (no test of the repository looks at what a refused call left behind). What the test
  fixtures of the standard crate answer (address validation, expiry, the block of \<open>mock_env\<close>) stays a
  parameter; \<open>mock_api\<close> and \<open>mock_env\<close> say what the tests rely on.
\<close>

section \<open>Checks\<close>

type_synonym 's check = "'s \<Rightarrow> 's option"

fun checks :: "'s check list \<Rightarrow> 's \<Rightarrow> bool" where
  "checks [] s = True"
| "checks (c # cs) s = (case c s of None \<Rightarrow> False | Some s' \<Rightarrow> checks cs s')"

definition accepted :: "('s \<Rightarrow> ('e, 's \<times> 'r) res) \<Rightarrow> ('r \<Rightarrow> bool) \<Rightarrow> 's check" where
  "accepted f P s = (case f s of Inl _ \<Rightarrow> None | Inr (s', r) \<Rightarrow> if P r then Some s' else None)"

definition refused :: "('s \<Rightarrow> ('e, 'a) res) \<Rightarrow> ('e fail \<Rightarrow> bool) \<Rightarrow> 's check" where
  "refused f P s = (case f s of Inl e \<Rightarrow> if P e then Some s else None | Inr _ \<Rightarrow> None)"

definition answered :: "('s \<Rightarrow> ('e, 'a) res) \<Rightarrow> ('a \<Rightarrow> bool) \<Rightarrow> 's check" where
  "answered q P s = (case q s of Inl _ \<Rightarrow> None | Inr a \<Rightarrow> if P a then Some s else None)"

text \<open>Conditions on what a call returns.\<close>

definition anything :: "'a \<Rightarrow> bool" where
  "anything r \<longleftrightarrow> True"

definition error_is :: "'e \<Rightarrow> 'e fail \<Rightarrow> bool" where
  "error_is e f = (case f of Err e' \<Rightarrow> e' = e | Panic _ \<Rightarrow> False)"

section \<open>Keys of concrete maps\<close>

text \<open>The keys of a map that is built by updates, in order.\<close>

lemma sorted_keys_insert:
  "sorted_list_of_fset (finsert x A) = insort x (sorted_list_of_fset (A |-| {|x|}))"
  by (simp add: sorted_list_of_fset.rep_eq sorted_list_of_set_insert_remove)

lemma finsert_minus:
  "finsert x A |-| {|y|} = (if x = y then A |-| {|y|} else finsert x (A |-| {|y|}))"
  by auto

lemma mem_second_keys: "b |\<in>| second_keys m a \<longleftrightarrow> fmlookup m (a, b) \<noteq> None"
  by (force simp: second_keys_def fmlookup_dom_iff)

lemma second_keys_fmupd: "second_keys (fmupd k v m) a
    = (if fst k = a then finsert (snd k) (second_keys m a) else second_keys m a)"
  by (rule fset_eqI) (auto simp: mem_second_keys)

lemma second_keys_fmempty: "second_keys fmempty a = {||}"
  by (rule fset_eqI) (simp add: mem_second_keys)

lemma sorted_keys_empty: "sorted_list_of_fset {||} = []"
  by (simp add: sorted_list_of_fset.rep_eq)

lemmas sorted_keys_simps = sorted_keys_insert sorted_keys_empty finsert_minus second_keys_fmupd
  second_keys_fmempty

section \<open>Fixtures\<close>

text \<open>
  \<open>MockApi\<close> accepts normalized addresses of a length between 3 and 54 bytes and refuses shorter ones;
  an expiration has passed when the block has reached it.
\<close>

definition plain_byte :: "char \<Rightarrow> bool" where
  "plain_byte c \<longleftrightarrow> (97 \<le> byte c \<and> byte c \<le> 122) \<or> (48 \<le> byte c \<and> byte c \<le> 57) \<or> byte c = 45"

definition plain_address :: "string \<Rightarrow> bool" where
  "plain_address a \<longleftrightarrow> 3 \<le> length a \<and> length a \<le> 54 \<and> list_all plain_byte a"

definition mock_api :: "api \<Rightarrow> bool" where
  "mock_api api \<longleftrightarrow> (\<forall>a. plain_address a \<longrightarrow> addr_validate api a = Inr a)
     \<and> (\<forall>a. length a < 3 \<longrightarrow> (\<exists>e. addr_validate api a = Inl e))
     \<and> (\<forall>e env. is_expired api e env = (case e of AtHeight h \<Rightarrow> h \<le> block_height env
          | AtTime t \<Rightarrow> t \<le> block_time env | Never \<Rightarrow> False))"

lemma mock_api_accepts: "mock_api api \<Longrightarrow> plain_address a \<Longrightarrow> addr_validate api a = Inr a"
  by (simp add: mock_api_def)

lemma mock_api_refuses: "mock_api api \<Longrightarrow> length a < 3 \<Longrightarrow> \<exists>e. addr_validate api a = Inl e"
  by (simp add: mock_api_def)

lemma mock_api_expired:
  "mock_api api \<Longrightarrow> is_expired api (AtHeight h) env = (h \<le> block_height env)"
  "mock_api api \<Longrightarrow> is_expired api (AtTime t) env = (t \<le> block_time env)"
  "mock_api api \<Longrightarrow> is_expired api Never env = False"
  by (simp_all add: mock_api_def)

text \<open>The block of \<open>mock_env\<close>: a height and a time that the tests can count up and down from.\<close>

definition mock_env :: "env \<Rightarrow> bool" where
  "mock_env env \<longleftrightarrow> block_height env < 123456
     \<and> 1000000000 \<le> block_time env \<and> block_time env < 3767626296000000000"

lemma mock_env_height:
  assumes "mock_env env"
  shows "\<not> 123456 \<le> block_height env" and "\<not> block_height env + 1 \<le> block_height env"
    and "block_height env \<le> block_height env + 1"
proof -
  have h: "block_height env < 123456" using assms by (simp add: mock_env_def)
  then show "\<not> 123456 \<le> block_height env" by simp
  from h have "unat (block_height env) < 123456" by (simp add: word_less_nat_alt)
  then have "unat (block_height env + 1) = unat (block_height env) + 1"
    by (simp add: unat_word_ariths)
  then show "\<not> block_height env + 1 \<le> block_height env" "block_height env \<le> block_height env + 1"
    by (simp_all add: word_le_nat_alt)
qed

lemma mock_env_time:
  assumes "mock_env env"
  shows "block_time env - 1000000000 \<le> block_time env"
    and "\<not> block_time env + 10000000000 \<le> block_time env"
    and "t \<ge> 3767626296000000000 \<Longrightarrow> \<not> t \<le> block_time env"
proof -
  from assms have t: "1000000000 \<le> block_time env" "block_time env < 3767626296000000000"
    by (simp_all add: mock_env_def)
  then have n: "1000000000 \<le> unat (block_time env)" "unat (block_time env) < 3767626296000000000"
    by (simp_all add: word_less_nat_alt word_le_nat_alt)
  then have "unat (block_time env - 1000000000) = unat (block_time env) - 1000000000"
    using unat_sub [OF t(1)] by simp
  then show "block_time env - 1000000000 \<le> block_time env" by (simp add: word_le_nat_alt)
  from n have "unat (block_time env + 10000000000) = unat (block_time env) + 10000000000"
    by (simp add: unat_word_ariths)
  then show "\<not> block_time env + 10000000000 \<le> block_time env" by (simp add: word_le_nat_alt)
  show "t \<ge> 3767626296000000000 \<Longrightarrow> \<not> t \<le> block_time env" using t(2) by simp
qed

text \<open>There are such fixtures.\<close>

definition test_api :: api where
  "test_api = \<lparr>addr_validate = (\<lambda>a. if length a < 3 then Inl (GenericErr ''too short'') else Inr a),
     is_expired = is_expired accept_all\<rparr>"

lemma test_api: "mock_api test_api"
  by (auto simp: mock_api_def test_api_def plain_address_def split: expiration.splits)

definition test_env :: env where
  "test_env = \<lparr>block_height = 12345, block_time = 1571797419879305533,
     contract_addr = ''cosmos2contract''\<rparr>"

lemma test_env: "mock_env test_env"
  by (simp add: mock_env_def test_env_def)

end
