(* ===== verification/Lsd_Tests.thy ===== *)
theory Lsd_Tests
  imports Lsd_Contract Lsd_Enumerable Scenario
begin

text \<open>
  The unit tests of contracts/lsd\_token (contract.rs, msg.rs), run on the model: each test is a
  definition under its name, with the messages, the checks and their order of the source, and a
  lemma that the model passes it. They are evidence that the definitions of \<open>Lsd_Contract\<close> are
  those of the code. Tests that are commented out in the source are left out.
\<close>

section \<open>Fixtures\<close>

definition mock_info :: "addr \<Rightarrow> message_info" where
  "mock_info who = \<lparr>sender = who, funds = []\<rparr>"

definition no_submessages :: "lsd_out response \<Rightarrow> bool" where
  "no_submessages r \<longleftrightarrow> length (messages r) = 0"

definition std_failure :: "lsd_error fail \<Rightarrow> bool" where
  "std_failure f = (case f of Err (Std_lsd _) \<Rightarrow> True | _ \<Rightarrow> False)"

definition not_found :: "lsd_error fail \<Rightarrow> bool" where
  "not_found f = (case f of Err (Std_lsd (NotFound _)) \<Rightarrow> True | _ \<Rightarrow> False)"

definition overflow :: "lsd_error fail \<Rightarrow> bool" where
  "overflow f = (case f of Err (Std_lsd OverflowErr) \<Rightarrow> True | _ \<Rightarrow> False)"

definition does :: "api \<Rightarrow> env \<Rightarrow> addr \<Rightarrow> lsd_execute_msg \<Rightarrow> (lsd_out response \<Rightarrow> bool) \<Rightarrow> lsd_store check" where
  "does api env who m = accepted (execute_lsd api env (mock_info who) m)"

definition fails :: "api \<Rightarrow> env \<Rightarrow> addr \<Rightarrow> lsd_execute_msg \<Rightarrow> (lsd_error fail \<Rightarrow> bool) \<Rightarrow> lsd_store check" where
  "fails api env who m = refused (execute_lsd api env (mock_info who) m)"

definition get_balance :: "api \<Rightarrow> addr \<Rightarrow> u128 \<Rightarrow> lsd_store check" where
  "get_balance api a n = answered (query_balance api a) (\<lambda>b. b = n)"

definition meta_is :: "string \<Rightarrow> string \<Rightarrow> u8 \<Rightarrow> u128 \<Rightarrow> lsd_store check" where
  "meta_is nm sy dec n = answered query_token_info (\<lambda>i. i = (nm, sy, dec, n))"

definition supply_is :: "u128 \<Rightarrow> lsd_store check" where
  "supply_is n = answered query_token_info (\<lambda>(nm, sy, dec, t). t = n)"

definition auto_gen :: "addr \<Rightarrow> u128 \<Rightarrow> instantiate_minter_data option \<Rightarrow> instantiate_msg_lsd" where
  "auto_gen a n mint = \<lparr>in_name = ''Auto Gen'', in_symbol = ''AUTO'', in_decimals = 3,
     in_initial_balances = [\<lparr>cw_address = a, cw_amount = n\<rparr>], in_mint = mint, in_marketing = None\<rparr>"

definition do_instantiate_mint ::
  "api \<Rightarrow> addr \<Rightarrow> u128 \<Rightarrow> instantiate_minter_data option \<Rightarrow> lsd_store check list" where
  "do_instantiate_mint api a n mint =
     [accepted (instantiate_lsd api (auto_gen a n mint)) no_submessages, meta_is ''Auto Gen'' ''AUTO'' 3 n,
      get_balance api a n]"

definition do_instantiate_with_minter ::
  "api \<Rightarrow> addr \<Rightarrow> u128 \<Rightarrow> addr \<Rightarrow> u128 option \<Rightarrow> lsd_store check list" where
  "do_instantiate_with_minter api a n minter cap =
     do_instantiate_mint api a n (Some \<lparr>imd_admin = minter, imd_minter = minter, imd_cap = cap\<rparr>)"

definition do_instantiate :: "api \<Rightarrow> addr \<Rightarrow> u128 \<Rightarrow> lsd_store check list" where
  "do_instantiate api a n = do_instantiate_mint api a n None"

lemmas check_simps = accepted_def refused_def answered_def mock_info_def no_submessages_def
  anything_def error_is_def std_failure_def not_found_def overflow_def does_def fails_def
  get_balance_def meta_is_def supply_is_def query_balance_def query_token_info_def Let_def

lemmas instantiate_simps = do_instantiate_def do_instantiate_with_minter_def do_instantiate_mint_def
  auto_gen_def instantiate_lsd_def empty_lsd_def validate_instantiate_def has_valid_name_def
  has_valid_symbol_def valid_symbol_byte_def byte_def create_accounts_def validate_accounts_def
  create_account_def instantiate_get_cap_def instantiate_mint_def instantiate_marketing_def
  get_or_zero_def uadd_def load_item_def

lemmas address_simps = mock_api_accepts plain_address_def plain_byte_def

lemmas balance_simps = execute_transfer_lsd_def execute_burn_def execute_mint_def execute_send_def
  lower_balance_def raise_balance_def lower_supply_def checked_sub_def get_cap_def

section \<open>Instantiation\<close>

definition cash_token ::
  "cw20_coin list \<Rightarrow> instantiate_minter_data option \<Rightarrow> instantiate_marketing_info option
     \<Rightarrow> instantiate_msg_lsd" where
  "cash_token balances mint marketing = \<lparr>in_name = ''Cash Token'', in_symbol = ''CASH'',
     in_decimals = 9, in_initial_balances = balances, in_mint = mint, in_marketing = marketing\<rparr>"

definition basic :: "api \<Rightarrow> bool" where
  "basic api = checks
     [accepted (instantiate_lsd api
        (cash_token [\<lparr>cw_address = ''addr0000'', cw_amount = 11223344\<rparr>] None None)) no_submessages,
      meta_is ''Cash Token'' ''CASH'' 9 11223344,
      get_balance api ''addr0000'' 11223344] empty_lsd"

definition mintable :: "api \<Rightarrow> bool" where
  "mintable api = checks
     [accepted (instantiate_lsd api
        (cash_token [\<lparr>cw_address = ''addr0000'', cw_amount = 11223344\<rparr>]
          (Some \<lparr>imd_admin = ''asmodat'', imd_minter = ''asmodat'', imd_cap = Some 511223344\<rparr>) None)) no_submessages,
      meta_is ''Cash Token'' ''CASH'' 9 11223344,
      get_balance api ''addr0000'' 11223344] empty_lsd"

definition mintable_over_cap :: "api \<Rightarrow> bool" where
  "mintable_over_cap api = checks
     [refused (instantiate_lsd api
        (cash_token [\<lparr>cw_address = ''addr0000'', cw_amount = 11223344\<rparr>]
          (Some \<lparr>imd_admin = ''asmodat'', imd_minter = ''asmodat'', imd_cap = Some 11223300\<rparr>) None))
        (error_is (Std_lsd (GenericErr ''Initial supply greater than cap'')))] empty_lsd"

lemma instantiate_tests:
  assumes "mock_api api"
  shows "basic api" and "mintable api" and "mintable_over_cap api"
  using assms
  by (simp_all add: basic_def mintable_def mintable_over_cap_def cash_token_def check_simps
      instantiate_simps address_simps)

text \<open>The marketing data of the tests: its account is \<open>who\<close>, its logo a URL.\<close>

definition project_of :: "string \<Rightarrow> instantiate_marketing_info" where
  "project_of who = \<lparr>im_project = Some ''Project'', im_description = Some ''Description'',
     im_marketing = Some who, im_logo = Some (Url ''url'')\<rparr>"

definition marketing_is ::
  "string option \<Rightarrow> string option \<Rightarrow> addr option \<Rightarrow> logo_info option \<Rightarrow> lsd_store check" where
  "marketing_is p d m l = answered query_marketing_info
     (\<lambda>i. i = \<lparr>mk_project = p, mk_description = d, mk_logo = l, mk_marketing = m\<rparr>)"

definition no_logo :: "lsd_store check" where
  "no_logo = refused query_download_logo not_found"

definition marketing_basic :: "api \<Rightarrow> bool" where
  "marketing_basic api = checks
     [accepted (instantiate_lsd api (cash_token [] None (Some (project_of ''marketing'')))) no_submessages,
      marketing_is (Some ''Project'') (Some ''Description'') (Some ''marketing'') (Some (UrlInfo ''url'')),
      no_logo] empty_lsd"

definition invalid_marketing :: "api \<Rightarrow> bool" where
  "invalid_marketing api = checks
     [refused (instantiate_lsd api (cash_token [] None (Some (project_of ''m'')))) std_failure,
      no_logo] empty_lsd"

lemmas marketing_simps = cash_token_def project_of_def marketing_is_def no_logo_def
  query_marketing_info_def query_download_logo_def

lemma marketing_instantiate_tests:
  assumes "mock_api api"
  shows "marketing_basic api" and "invalid_marketing api"
  using assms mock_api_refuses [OF assms, of "''m''"]
  by (auto simp: marketing_basic_def invalid_marketing_def marketing_simps check_simps
      instantiate_simps address_simps)

section \<open>Minting\<close>

definition can_mint_by_minter :: "api \<Rightarrow> env \<Rightarrow> bool" where
  "can_mint_by_minter api env = checks
     (do_instantiate_with_minter api ''genesis'' 11223344 ''asmodat'' (Some 511223344) @
     [does api env ''asmodat'' (Mint ''lucky'' 222222222) no_submessages,
      get_balance api ''genesis'' 11223344,
      get_balance api ''lucky'' 222222222,
      does api env ''asmodat'' (Mint ''lucky'' 0) anything,
      fails api env ''asmodat'' (Mint ''lucky'' 333222222) (error_is CannotExceedCap)]) empty_lsd"

definition others_cannot_mint :: "api \<Rightarrow> env \<Rightarrow> bool" where
  "others_cannot_mint api env = checks
     (do_instantiate_with_minter api ''genesis'' 1234 ''minter'' None @
     [fails api env ''anyone else'' (Mint ''lucky'' 222) (error_is Unauthorized_lsd)]) empty_lsd"

definition no_one_mints_if_minter_unset :: "api \<Rightarrow> env \<Rightarrow> bool" where
  "no_one_mints_if_minter_unset api env = checks
     (do_instantiate api ''genesis'' 1234 @
     [fails api env ''genesis'' (Mint ''lucky'' 222) (error_is Unauthorized_lsd)]) empty_lsd"

lemma mint_tests:
  assumes "mock_api api"
  shows "can_mint_by_minter api env" and "others_cannot_mint api env"
    and "no_one_mints_if_minter_unset api env"
  using assms
  by (simp_all add: can_mint_by_minter_def others_cannot_mint_def no_one_mints_if_minter_unset_def
      check_simps instantiate_simps address_simps balance_simps)

section \<open>Balances\<close>

definition bash_shell :: "cw20_coin list \<Rightarrow> instantiate_msg_lsd" where
  "bash_shell balances = \<lparr>in_name = ''Bash Shell'', in_symbol = ''BASH'', in_decimals = 6,
     in_initial_balances = balances, in_mint = None, in_marketing = None\<rparr>"

definition instantiate_multiple_accounts :: "api \<Rightarrow> bool" where
  "instantiate_multiple_accounts api = checks
     [refused (instantiate_lsd api
        (bash_shell [\<lparr>cw_address = ''addr0001'', cw_amount = 11223344\<rparr>,
          \<lparr>cw_address = ''addr0001'', cw_amount = 7890987\<rparr>]))
        (error_is DuplicateInitialBalanceAddresses),
      accepted (instantiate_lsd api
        (bash_shell [\<lparr>cw_address = ''addr0001'', cw_amount = 11223344\<rparr>,
          \<lparr>cw_address = ''addr0002'', cw_amount = 7890987\<rparr>])) no_submessages,
      meta_is ''Bash Shell'' ''BASH'' 6 (11223344 + 7890987),
      get_balance api ''addr0001'' 11223344,
      get_balance api ''addr0002'' 7890987] empty_lsd"

definition queries_work :: "api \<Rightarrow> bool" where
  "queries_work api = checks
     (do_instantiate api ''addr0001'' 12340000 @
     [meta_is ''Auto Gen'' ''AUTO'' 3 12340000,
      answered (query_lsd api (QBalance ''addr0001'')) (\<lambda>r. r = RBalance 12340000),
      answered (query_lsd api (QBalance ''addr0002'')) (\<lambda>r. r = RBalance 0)]) empty_lsd"

definition transfer_test :: "api \<Rightarrow> env \<Rightarrow> bool" where
  "transfer_test api env = checks
     (do_instantiate api ''addr0001'' 12340000 @
     [does api env ''addr0001'' (Transfer ''addr0002'' 0) anything,
      fails api env ''addr0001'' (Transfer ''addr0002'' 12340321) overflow,
      fails api env ''addr0002'' (Transfer ''addr0001'' 76543) overflow,
      does api env ''addr0001'' (Transfer ''addr0002'' 76543) no_submessages,
      get_balance api ''addr0001'' (12340000 - 76543),
      get_balance api ''addr0002'' 76543,
      supply_is 12340000]) empty_lsd"

definition burn_test :: "api \<Rightarrow> env \<Rightarrow> bool" where
  "burn_test api env = checks
     (do_instantiate api ''addr0001'' 12340000 @
     [does api env ''addr0001'' (Burn 0) anything,
      supply_is 12340000,
      fails api env ''addr0001'' (Burn 12340321) overflow,
      supply_is 12340000,
      does api env ''addr0001'' (Burn 76543) no_submessages,
      get_balance api ''addr0001'' (12340000 - 76543),
      supply_is (12340000 - 76543)]) empty_lsd"

text \<open>The message a send wraps for the contract, and the payload of the tests.\<close>

definition receive_message :: "addr \<Rightarrow> addr \<Rightarrow> u128 \<Rightarrow> string \<Rightarrow> lsd_out response \<Rightarrow> bool" where
  "receive_message contract who n m r \<longleftrightarrow>
     length (messages r) = 1 \<and> messages r ! 0 = no_reply (Cw20Receive contract who n m)"

definition some_123 :: string where
  "some_123 = [CHR 0x7B, CHR 0x22] @ ''some'' @ [CHR 0x22] @ '':123'' @ [CHR 0x7D]"

definition send_test :: "api \<Rightarrow> env \<Rightarrow> bool" where
  "send_test api env = checks
     (do_instantiate api ''addr0001'' 12340000 @
     [does api env ''addr0001'' (Send ''addr0002'' 0 some_123) anything,
      fails api env ''addr0001'' (Send ''addr0002'' 12340321 some_123) overflow,
      does api env ''addr0001'' (Send ''addr0002'' 76543 some_123)
        (receive_message ''addr0002'' ''addr0001'' 76543 some_123),
      get_balance api ''addr0001'' (12340000 - 76543),
      get_balance api ''addr0002'' 76543,
      supply_is 12340000]) empty_lsd"

lemma balance_tests:
  assumes "mock_api api"
  shows "instantiate_multiple_accounts api" and "queries_work api" and "transfer_test api env"
    and "burn_test api env" and "send_test api env"
proof -
  note defs = check_simps instantiate_simps address_simps balance_simps
  show "instantiate_multiple_accounts api"
    using assms by (simp add: instantiate_multiple_accounts_def bash_shell_def defs)
  show "queries_work api" using assms by (simp add: queries_work_def rmap1_def defs)
  show "transfer_test api env" using assms by (simp add: transfer_test_def defs)
  show "burn_test api env" using assms by (simp add: burn_test_def defs)
  show "send_test api env" using assms by (simp add: send_test_def receive_message_def defs)
qed

section \<open>Marketing\<close>

text \<open>Every test of the marketing data instantiates with the data above and ends without a logo file.\<close>

definition with_project :: "api \<Rightarrow> addr \<Rightarrow> lsd_store check" where
  "with_project api who =
     accepted (instantiate_lsd api (cash_token [] None (Some (project_of who)))) anything"

definition no_messages :: "lsd_out response \<Rightarrow> bool" where
  "no_messages r \<longleftrightarrow> messages r = []"

definition update_unauthorised :: "api \<Rightarrow> env \<Rightarrow> bool" where
  "update_unauthorised api env = checks
     [with_project api ''marketing'',
      fails api env ''creator'' (UpdateMarketing (Some ''New project'') (Some ''Better description'') (Some ''creator''))
        (error_is Unauthorized_lsd),
      marketing_is (Some ''Project'') (Some ''Description'') (Some ''marketing'') (Some (UrlInfo ''url'')),
      no_logo] empty_lsd"

definition update_project :: "api \<Rightarrow> env \<Rightarrow> bool" where
  "update_project api env = checks
     [with_project api ''creator'',
      does api env ''creator'' (UpdateMarketing (Some ''New project'') None None) no_messages,
      marketing_is (Some ''New project'') (Some ''Description'') (Some ''creator'') (Some (UrlInfo ''url'')),
      no_logo] empty_lsd"

definition clear_project :: "api \<Rightarrow> env \<Rightarrow> bool" where
  "clear_project api env = checks
     [with_project api ''creator'',
      does api env ''creator'' (UpdateMarketing (Some '''') None None) no_messages,
      marketing_is None (Some ''Description'') (Some ''creator'') (Some (UrlInfo ''url'')),
      no_logo] empty_lsd"

definition update_description :: "api \<Rightarrow> env \<Rightarrow> bool" where
  "update_description api env = checks
     [with_project api ''creator'',
      does api env ''creator'' (UpdateMarketing None (Some ''Better description'') None) no_messages,
      marketing_is (Some ''Project'') (Some ''Better description'') (Some ''creator'') (Some (UrlInfo ''url'')),
      no_logo] empty_lsd"

definition clear_description :: "api \<Rightarrow> env \<Rightarrow> bool" where
  "clear_description api env = checks
     [with_project api ''creator'',
      does api env ''creator'' (UpdateMarketing None (Some '''') None) no_messages,
      marketing_is (Some ''Project'') None (Some ''creator'') (Some (UrlInfo ''url'')),
      no_logo] empty_lsd"

definition update_marketing_test :: "api \<Rightarrow> env \<Rightarrow> bool" where
  "update_marketing_test api env = checks
     [with_project api ''creator'',
      does api env ''creator'' (UpdateMarketing None None (Some ''marketing'')) no_messages,
      marketing_is (Some ''Project'') (Some ''Description'') (Some ''marketing'') (Some (UrlInfo ''url'')),
      no_logo] empty_lsd"

definition update_marketing_invalid :: "api \<Rightarrow> env \<Rightarrow> bool" where
  "update_marketing_invalid api env = checks
     [with_project api ''creator'',
      fails api env ''creator'' (UpdateMarketing None None (Some ''m''))
        std_failure,
      marketing_is (Some ''Project'') (Some ''Description'') (Some ''creator'') (Some (UrlInfo ''url'')),
      no_logo] empty_lsd"

definition clear_marketing :: "api \<Rightarrow> env \<Rightarrow> bool" where
  "clear_marketing api env = checks
     [with_project api ''creator'',
      does api env ''creator'' (UpdateMarketing None None (Some '''')) no_messages,
      marketing_is (Some ''Project'') (Some ''Description'') None (Some (UrlInfo ''url'')),
      no_logo] empty_lsd"

definition update_logo_url :: "api \<Rightarrow> env \<Rightarrow> bool" where
  "update_logo_url api env = checks
     [with_project api ''creator'',
      does api env ''creator'' (UploadLogo (Url ''new_url'')) no_messages,
      marketing_is (Some ''Project'') (Some ''Description'') (Some ''creator'') (Some (UrlInfo ''new_url'')),
      no_logo] empty_lsd"

definition PNG_HEADER :: string where
  "PNG_HEADER = [CHR 0x89, CHR ''P'', CHR ''N'', CHR ''G'', CHR 0x0D, CHR 0x0A, CHR 0x1A, CHR 0x0A]"

text \<open>The picture of the tests, in two parts: the oversized one has 6000 bytes between them.\<close>

definition svg_head :: string where
  "svg_head = ''<?xml version='' @ [CHR 0x22] @ ''1.0'' @ [CHR 0x22] @ ''?><svg>''"

definition svg_tail :: string where
  "svg_tail = ''</svg>''"

definition update_logo_png :: "api \<Rightarrow> env \<Rightarrow> bool" where
  "update_logo_png api env = checks
     [with_project api ''creator'',
      does api env ''creator'' (UploadLogo (Embedded (Png PNG_HEADER))) no_messages,
      marketing_is (Some ''Project'') (Some ''Description'') (Some ''creator'') (Some EmbeddedInfo),
      answered query_download_logo (\<lambda>l. l = (''image/png'', PNG_HEADER))] empty_lsd"

definition update_logo_svg :: "api \<Rightarrow> env \<Rightarrow> bool" where
  "update_logo_svg api env = checks
     [with_project api ''creator'',
      does api env ''creator'' (UploadLogo (Embedded (Svg (svg_head @ svg_tail)))) no_messages,
      marketing_is (Some ''Project'') (Some ''Description'') (Some ''creator'') (Some EmbeddedInfo),
      answered query_download_logo (\<lambda>l. l = (''image/svg+xml'', svg_head @ svg_tail))] empty_lsd"

definition update_logo_png_oversized :: "api \<Rightarrow> env \<Rightarrow> bool" where
  "update_logo_png_oversized api env = checks
     [with_project api ''creator'',
      fails api env ''creator'' (UploadLogo (Embedded (Png (PNG_HEADER @ replicate 6000 (CHR 0x01)))))
        (error_is LogoTooBig),
      marketing_is (Some ''Project'') (Some ''Description'') (Some ''creator'') (Some (UrlInfo ''url'')),
      no_logo] empty_lsd"

definition update_logo_svg_oversized :: "api \<Rightarrow> env \<Rightarrow> bool" where
  "update_logo_svg_oversized api env = checks
     [with_project api ''creator'',
      fails api env ''creator'' (UploadLogo (Embedded (Svg (svg_head @ replicate 6000 (CHR ''x'') @ svg_tail))))
        (error_is LogoTooBig),
      marketing_is (Some ''Project'') (Some ''Description'') (Some ''creator'') (Some (UrlInfo ''url'')),
      no_logo] empty_lsd"

definition update_logo_png_invalid :: "api \<Rightarrow> env \<Rightarrow> bool" where
  "update_logo_png_invalid api env = checks
     [with_project api ''creator'',
      fails api env ''creator'' (UploadLogo (Embedded (Png [CHR 0x01])))
        (error_is InvalidPngHeader),
      marketing_is (Some ''Project'') (Some ''Description'') (Some ''creator'') (Some (UrlInfo ''url'')),
      no_logo] empty_lsd"

definition update_logo_svg_invalid :: "api \<Rightarrow> env \<Rightarrow> bool" where
  "update_logo_svg_invalid api env = checks
     [with_project api ''creator'',
      fails api env ''creator'' (UploadLogo (Embedded (Svg [CHR 0x01])))
        (error_is InvalidXmlPreamble),
      marketing_is (Some ''Project'') (Some ''Description'') (Some ''creator'') (Some (UrlInfo ''url'')),
      no_logo] empty_lsd"

lemmas update_simps = with_project_def no_messages_def execute_update_marketing_def
  execute_upload_logo_def update_text_def marketing_simps check_simps instantiate_simps address_simps

lemma marketing_tests:
  assumes "mock_api api"
  shows "update_unauthorised api env"
    and "update_project api env"
    and "clear_project api env"
    and "update_description api env"
    and "clear_description api env"
    and "update_marketing_test api env"
    and "clear_marketing api env"
    and "update_logo_url api env"
  using assms
  by (simp_all add: update_unauthorised_def update_project_def clear_project_def update_description_def clear_description_def update_marketing_test_def clear_marketing_def update_logo_url_def update_simps)

lemma marketing_invalid_test:
  assumes "mock_api api"
  shows "update_marketing_invalid api env"
  using assms mock_api_refuses [OF assms, of "''m''"]
  by (auto simp: update_marketing_invalid_def update_simps)

lemma png_header_eq: "png_header = PNG_HEADER"
  unfolding png_header_def PNG_HEADER_def by code_simp

lemma svg_ok: "verify_xml_preamble (svg_head @ x) = Inr ()"
  by (simp add: verify_xml_preamble_def first_inclusive_def svg_head_def suffix_to_prefix)

lemma svg_bad: "verify_xml_preamble [CHR 0x01] = Inl (Err InvalidXmlPreamble)"
  by (simp add: verify_xml_preamble_def first_inclusive_def)

lemma svg_length: "length svg_head = 26" "length svg_tail = 6" "length PNG_HEADER = 8"
  by (simp_all add: svg_head_def svg_tail_def PNG_HEADER_def)

lemma png_bad: "\<not> prefix PNG_HEADER [CHR 0x01]"
  by (simp add: PNG_HEADER_def)

lemma logo_tests:
  assumes "mock_api api"
  shows "update_logo_png api env"
    and "update_logo_svg api env"
    and "update_logo_png_oversized api env"
    and "update_logo_svg_oversized api env"
    and "update_logo_png_invalid api env"
    and "update_logo_svg_invalid api env"
  using assms
  by (simp_all add: update_logo_png_def update_logo_svg_def update_logo_png_oversized_def update_logo_svg_oversized_def update_logo_png_invalid_def update_logo_svg_invalid_def
      verify_png_logo_def verify_xml_logo_def LOGO_SIZE_CAP_def png_header_eq png_bad svg_ok svg_bad svg_length
      update_simps)

section \<open>The validation of the instantiate message\<close>

definition named :: "string \<Rightarrow> string \<Rightarrow> instantiate_msg_lsd" where
  "named nm sy = \<lparr>in_name = nm, in_symbol = sy, in_decimals = 0, in_initial_balances = [],
     in_mint = None, in_marketing = None\<rparr>"

definition validate_instantiatemsg_name :: bool where
  "validate_instantiatemsg_name \<longleftrightarrow>
     \<not> has_valid_name (named (replicate 2 CHR ''a'') [])
     \<and> has_valid_name (named (replicate 3 CHR ''a'') [])
     \<and> \<not> has_valid_name (named (replicate 51 CHR ''a'') [])"

definition validate_instantiatemsg_symbol :: bool where
  "validate_instantiatemsg_symbol \<longleftrightarrow>
     \<not> has_valid_symbol (named [] (replicate 2 CHR ''a''))
     \<and> has_valid_symbol (named [] (replicate 3 CHR ''a''))
     \<and> \<not> has_valid_symbol (named [] (replicate 13 CHR ''a''))
     \<and> list_all (\<lambda>c. \<not> has_valid_symbol (named [] (replicate 3 (char_of c)))) [64, 91, 123 :: nat]"

lemma message_tests: "validate_instantiatemsg_name" "validate_instantiatemsg_symbol"
  by (simp_all add: validate_instantiatemsg_name_def validate_instantiatemsg_symbol_def named_def
      has_valid_name_def has_valid_symbol_def valid_symbol_byte_def byte_def list_all_iff)

end
