(* ===== verification/Lsd_Allowance_Tests.thy ===== *)
theory Lsd_Allowance_Tests
  imports Lsd_Tests
begin

text \<open>
  The unit tests of contracts/lsd\_token/src/allowances.rs and enumerable.rs and the migration test of
  contract.rs, run on the model.
\<close>

section \<open>Allowances\<close>

definition instantiated :: "api \<Rightarrow> addr \<Rightarrow> u128 \<Rightarrow> lsd_store check list" where
  "instantiated api a n = [accepted (instantiate_lsd api (auto_gen a n None)) anything,
     answered query_token_info anything]"

definition allowance_is :: "api \<Rightarrow> addr \<Rightarrow> addr \<Rightarrow> u128 \<Rightarrow> expiration \<Rightarrow> lsd_store check" where
  "allowance_is api ow sp n e =
     answered (query_allowance api ow sp) (\<lambda>a. a = \<lparr>al_allowance = n, al_expires = e\<rparr>)"

definition no_allowance :: "api \<Rightarrow> addr \<Rightarrow> addr \<Rightarrow> lsd_store check" where
  "no_allowance api ow sp = answered (query_allowance api ow sp) (\<lambda>a. a = default_allowance)"

definition increase_decrease_allowances :: "api \<Rightarrow> env \<Rightarrow> bool" where
  "increase_decrease_allowances api env = checks
     (instantiated api ''addr0001'' 12340000 @
     [no_allowance api ''addr0001'' ''addr0002'',
      does api env ''addr0001'' (IncreaseAllowance ''addr0002'' 7777 (Some (AtHeight 123456))) anything,
      allowance_is api ''addr0001'' ''addr0002'' 7777 (AtHeight 123456),
      does api env ''addr0001'' (DecreaseAllowance ''addr0002'' 4444 None) anything,
      allowance_is api ''addr0001'' ''addr0002'' (7777 - 4444) (AtHeight 123456),
      does api env ''addr0001'' (IncreaseAllowance ''addr0002'' 87654
        (Some (AtTime (8888888888 * 1000000000)))) anything,
      allowance_is api ''addr0001'' ''addr0002'' (7777 - 4444 + 87654)
        (AtTime (8888888888 * 1000000000)),
      does api env ''addr0001'' (DecreaseAllowance ''addr0002'' 99988647623876347 None) anything,
      no_allowance api ''addr0001'' ''addr0002'']) empty_lsd"

definition allowances_independent :: "api \<Rightarrow> env \<Rightarrow> bool" where
  "allowances_independent api env = checks
     (instantiated api ''addr0001'' 12340000 @
     [no_allowance api ''addr0001'' ''addr0002'',
      no_allowance api ''addr0001'' ''addr0003'',
      no_allowance api ''addr0002'' ''addr0003'',
      does api env ''addr0001'' (IncreaseAllowance ''addr0002'' 7777 (Some (AtHeight 123456))) anything,
      does api env ''addr0001'' (IncreaseAllowance ''addr0003'' 87654 None) anything,
      allowance_is api ''addr0001'' ''addr0002'' 7777 (AtHeight 123456),
      allowance_is api ''addr0001'' ''addr0003'' 87654 Never,
      no_allowance api ''addr0002'' ''addr0003'',
      does api env ''addr0002'' (IncreaseAllowance ''addr0003'' 1821
        (Some (AtTime (3767626296 * 1000000000)))) anything,
      allowance_is api ''addr0001'' ''addr0002'' 7777 (AtHeight 123456),
      allowance_is api ''addr0001'' ''addr0003'' 87654 Never,
      allowance_is api ''addr0002'' ''addr0003'' 1821 (AtTime (3767626296 * 1000000000))]) empty_lsd"

definition no_self_allowance :: "api \<Rightarrow> env \<Rightarrow> bool" where
  "no_self_allowance api env = checks
     (instantiated api ''addr0001'' 12340000 @
     [fails api env ''addr0001'' (IncreaseAllowance ''addr0001'' 7777 None) (error_is CannotSetOwnAccount),
      fails api env ''addr0001'' (DecreaseAllowance ''addr0001'' 7777 None) (error_is CannotSetOwnAccount)])
     empty_lsd"

lemmas allowance_simps = instantiated_def allowance_is_def no_allowance_def query_allowance_def
  default_allowance_def execute_increase_allowance_def execute_decrease_allowance_def increase_fn_def
  usub_def checked_sub_def
  mock_api_expired mock_env_height mock_env_time

lemma allowance_tests:
  assumes "mock_api api" and "mock_env env"
  shows "increase_decrease_allowances api env" and "allowances_independent api env"
    and "no_self_allowance api env"
proof -
  note defs = allowance_simps check_simps instantiate_simps address_simps
  show "increase_decrease_allowances api env"
    using assms by (simp add: increase_decrease_allowances_def defs)
  show "allowances_independent api env" using assms by (simp add: allowances_independent_def defs)
  show "no_self_allowance api env" using assms by (simp add: no_self_allowance_def defs)
qed

section \<open>Spending allowances\<close>

definition next_block :: "env \<Rightarrow> env" where
  "next_block env = env\<lparr>block_height := block_height env + 1\<rparr>"

definition first_attribute :: "string \<Rightarrow> lsd_out response \<Rightarrow> bool" where
  "first_attribute act r \<longleftrightarrow> attributes r ! 0 = (''action'', act)"

definition transfer_from_respects_limits :: "api \<Rightarrow> env \<Rightarrow> bool" where
  "transfer_from_respects_limits api env = checks
     (instantiated api ''addr0001'' 999999 @
     [does api env ''addr0001'' (IncreaseAllowance ''addr0002'' 77777 None) anything,
      does api env ''addr0002'' (TransferFrom ''addr0001'' ''addr0003'' 44444)
        (first_attribute ''transfer_from''),
      get_balance api ''addr0001'' (999999 - 44444),
      get_balance api ''addr0003'' 44444,
      allowance_is api ''addr0001'' ''addr0002'' (77777 - 44444) Never,
      fails api env ''addr0002'' (TransferFrom ''addr0001'' ''addr0003'' 33443) overflow,
      does api env ''addr0001'' (IncreaseAllowance ''addr0002'' 1000
        (Some (AtHeight (block_height env + 1)))) anything,
      fails api (next_block env) ''addr0002'' (TransferFrom ''addr0001'' ''addr0003'' 33443)
        (error_is Expired)]) empty_lsd"

definition burn_from_respects_limits :: "api \<Rightarrow> env \<Rightarrow> bool" where
  "burn_from_respects_limits api env = checks
     (instantiated api ''addr0001'' 999999 @
     [does api env ''addr0001'' (IncreaseAllowance ''addr0002'' 77777 None) anything,
      does api env ''addr0002'' (BurnFrom ''addr0001'' 44444) (first_attribute ''burn_from''),
      get_balance api ''addr0001'' (999999 - 44444),
      allowance_is api ''addr0001'' ''addr0002'' (77777 - 44444) Never,
      fails api env ''addr0002'' (BurnFrom ''addr0001'' 33443) overflow,
      does api env ''addr0001'' (IncreaseAllowance ''addr0002'' 1000
        (Some (AtHeight (block_height env + 1)))) anything,
      fails api (next_block env) ''addr0002'' (BurnFrom ''addr0001'' 33443) (error_is Expired)])
     empty_lsd"

definition send_from_respects_limits :: "api \<Rightarrow> env \<Rightarrow> bool" where
  "send_from_respects_limits api env = checks
     (instantiated api ''addr0001'' 999999 @
     [does api env ''addr0001'' (IncreaseAllowance ''addr0002'' 77777 None) anything,
      does api env ''addr0002'' (SendFrom ''addr0001'' ''cool-dex'' 44444 some_123)
        (\<lambda>r. first_attribute ''send_from'' r
           \<and> receive_message ''cool-dex'' ''addr0002'' 44444 some_123 r),
      get_balance api ''addr0001'' (999999 - 44444),
      get_balance api ''cool-dex'' 44444,
      allowance_is api ''addr0001'' ''addr0002'' (77777 - 44444) Never,
      fails api env ''addr0002'' (SendFrom ''addr0001'' ''cool-dex'' 33443 some_123) overflow,
      does api env ''addr0001'' (IncreaseAllowance ''addr0002'' 1000
        (Some (AtHeight (block_height env + 1)))) anything,
      fails api (next_block env) ''addr0002'' (SendFrom ''addr0001'' ''cool-dex'' 33443 some_123)
        (error_is Expired)]) empty_lsd"

definition no_past_expiration :: "api \<Rightarrow> env \<Rightarrow> bool" where
  "no_past_expiration api env = checks
     (instantiated api ''addr0001'' 12340000 @
     [fails api env ''addr0001'' (IncreaseAllowance ''addr0002'' 7777
        (Some (AtHeight (block_height env)))) (error_is InvalidExpiration),
      fails api env ''addr0001'' (IncreaseAllowance ''addr0002'' 7777
        (Some (AtTime (block_time env - 1000000000)))) (error_is InvalidExpiration),
      does api env ''addr0001'' (IncreaseAllowance ''addr0002'' 7777
        (Some (AtHeight (block_height env + 1)))) anything,
      allowance_is api ''addr0001'' ''addr0002'' 7777 (AtHeight (block_height env + 1)),
      does api env ''addr0001'' (IncreaseAllowance ''addr0002'' 7777
        (Some (AtTime (block_time env + 10000000000)))) anything,
      allowance_is api ''addr0001'' ''addr0002'' (7777 + 7777) (AtTime (block_time env + 10000000000)),
      fails api env ''addr0001'' (IncreaseAllowance ''addr0002'' 7777
        (Some (AtHeight (block_height env)))) (error_is InvalidExpiration),
      does api env ''addr0001'' (DecreaseAllowance ''addr0002'' 7777
        (Some (AtHeight (block_height env + 1)))) anything,
      allowance_is api ''addr0001'' ''addr0002'' 7777 (AtHeight (block_height env + 1))]) empty_lsd"

lemmas spending_simps = next_block_def first_attribute_def receive_message_def deduct_allowance_def
  deduct_fn_def execute_transfer_from_def execute_burn_from_def execute_send_from_def allowance_simps
  check_simps instantiate_simps address_simps balance_simps

lemma spending_tests:
  assumes "mock_api api" and "mock_env env"
  shows "transfer_from_respects_limits api env" and "burn_from_respects_limits api env"
    and "send_from_respects_limits api env" and "no_past_expiration api env"
proof -
  show "transfer_from_respects_limits api env"
    using assms by (simp add: transfer_from_respects_limits_def spending_simps)
  show "burn_from_respects_limits api env"
    using assms by (simp add: burn_from_respects_limits_def spending_simps)
  show "send_from_respects_limits api env"
    using assms by (simp add: send_from_respects_limits_def spending_simps)
  show "no_past_expiration api env"
    using assms by (simp add: no_past_expiration_def spending_simps)
qed

section \<open>Pages\<close>

definition query_all_owner_allowances_works :: "api \<Rightarrow> env \<Rightarrow> bool" where
  "query_all_owner_allowances_works api env = checks
     (instantiated api ''owner'' 12340000 @
     [answered (query_owner_allowances api ''owner'' None None) (\<lambda>l. l = []),
      does api env ''owner'' (IncreaseAllowance ''earlier'' 7777 (Some (AtHeight 123456))) anything,
      does api env ''owner'' (IncreaseAllowance ''later'' 54321 None) anything,
      answered (query_owner_allowances api ''owner'' None None) (\<lambda>l. length l = 2),
      answered (query_owner_allowances api ''owner'' None (Some 1))
        (\<lambda>l. length l = 1 \<and> l ! 0 = (''earlier'', 7777, AtHeight 123456)),
      answered (query_owner_allowances api ''owner'' (Some ''earlier'') (Some 10000))
        (\<lambda>l. length l = 1 \<and> l ! 0 = (''later'', 54321, Never))]) empty_lsd"

definition query_all_spender_allowances_works :: "api \<Rightarrow> env \<Rightarrow> bool" where
  "query_all_spender_allowances_works api env = checks
     (instantiated api ''owner1'' 12340000 @
     [answered (query_spender_allowances api ''spender'' None None) (\<lambda>l. l = []),
      does api env ''owner1'' (IncreaseAllowance ''spender'' 7777 (Some (AtHeight 123456))) anything] @
      instantiated api ''owner2'' 12340000 @
     [does api env ''owner2'' (IncreaseAllowance ''spender'' 54321 None) anything,
      answered (query_lsd api (QAllSpenderAllowances ''spender'' None None))
        (\<lambda>r. case r of RAllowances l \<Rightarrow> length l = 2 | _ \<Rightarrow> False),
      answered (query_lsd api (QAllSpenderAllowances ''spender'' None (Some 1)))
        (\<lambda>r. r = RAllowances [(''owner1'', 7777, AtHeight 123456)]),
      answered (query_lsd api (QAllSpenderAllowances ''spender'' (Some ''owner1'') (Some 10000)))
        (\<lambda>r. r = RAllowances [(''owner2'', 54321, Never)])]) empty_lsd"

definition query_all_accounts_works :: "api \<Rightarrow> env \<Rightarrow> bool" where
  "query_all_accounts_works api env = checks
     (instantiated api ''acct01'' 12340000 @
     [does api env ''acct01'' (Transfer ''zebra'' 222222) anything,
      does api env ''acct01'' (Transfer ''nice'' 333333) anything,
      does api env ''acct01'' (Transfer ''aaaardvark'' 444444) anything,
      answered (query_all_accounts None None)
        (\<lambda>l. l = [''aaaardvark'', ''acct01'', ''nice'', ''zebra'']),
      answered (query_all_accounts None (Some 2)) (\<lambda>l. l = [''aaaardvark'', ''acct01'']),
      answered (query_all_accounts (Some ''acct01'') (Some 1)) (\<lambda>l. l = [''nice'']),
      answered (query_all_accounts (Some ''nice'') (Some 777)) (\<lambda>l. l = [''zebra''])]) empty_lsd"

lemmas page_simps = query_owner_allowances_def query_spender_allowances_def query_all_accounts_def
  page_entries_def page_def page_limit_def after_bound_def DEFAULT_LIMIT_def
  MAX_LIMIT_def rmap1_def sorted_keys_simps

lemma page_tests:
  assumes "mock_api api" and "mock_env env"
  shows "query_all_owner_allowances_works api env" and "query_all_spender_allowances_works api env"
    and "query_all_accounts_works api env"
proof -
  note defs = page_simps spending_simps
  show "query_all_owner_allowances_works api env"
    using assms by (simp add: query_all_owner_allowances_works_def defs)
  show "query_all_spender_allowances_works api env"
    using assms by (simp add: query_all_spender_allowances_works_def defs)
  show "query_all_accounts_works api env"
    using assms by (simp add: query_all_accounts_works_def defs)
qed

section \<open>Migration\<close>

text \<open>
  \<open>ensure_from_older_version\<close> accepts a contract whose stored version is the one of the code, and
  keeps that version; it is older than 0.14.0.
\<close>

definition test_migrate ::
  "api \<Rightarrow> env \<Rightarrow> string version_check
     \<Rightarrow> (string \<Rightarrow> string \<Rightarrow> bool) \<Rightarrow> bool" where
  "test_migrate api env ensure lt = checks
     [accepted (instantiate_lsd api \<lparr>in_name = ''Token'', in_symbol = ''TOKEN'', in_decimals = 6,
        in_initial_balances = [\<lparr>cw_address = ''sender'', cw_amount = 100\<rparr>], in_mint = None,
        in_marketing = None\<rparr>) anything,
      answered (query_lsd api (QAllAllowances ''sender'' None None)) (\<lambda>r. r = RAllowances []),
      does api env ''sender'' (IncreaseAllowance ''spender'' 7777 (Some (AtHeight 123456))) anything,
      accepted (migrate_lsd ensure lt) anything,
      answered (query_lsd api (QBalance ''sender'')) (\<lambda>r. r = RBalance 100),
      answered (query_lsd api (QAllSpenderAllowances ''spender'' None None))
        (\<lambda>r. r = RAllowances [(''sender'', 7777, AtHeight 123456)])] empty_lsd"

definition mock_versions ::
  "string version_check
     \<Rightarrow> (string \<Rightarrow> string \<Rightarrow> bool) \<Rightarrow> bool" where
  "mock_versions ensure lt \<longleftrightarrow> lt CONTRACT_VERSION_lsd ''0.14.0''
     \<and> ensure CONTRACT_NAME_lsd CONTRACT_VERSION_lsd (Some (CONTRACT_NAME_lsd, CONTRACT_VERSION_lsd))
       = Inr (CONTRACT_VERSION_lsd, Some (CONTRACT_NAME_lsd, CONTRACT_VERSION_lsd))"

lemma one_allowance_key:
  "allowance_keys (s\<lparr>ALLOWANCES := fmupd (ow, sp) al fmempty\<rparr>) = [(ow, sp)]"
proof -
  have "ffilter (\<lambda>k. fst k = ow) {|(ow, sp)|} = {|(ow, sp)|}" by auto
  then show ?thesis by (simp add: allowance_keys_def sorted_keys_insert sorted_keys_empty)
qed

lemma migrate_test:
  assumes "mock_api api" and "mock_env env" and "mock_versions ensure lt"
  shows "test_migrate api env ensure lt"
proof -
  have keys: "allowance_keys \<lparr>LSD_VERSION = a, TOKEN_INFO = b, MARKETING_INFO = c, LOGO = d,
      BALANCES = e, ALLOWANCES = fmupd (ow, sp) al fmempty, ALLOWANCES_SPENDER = f\<rparr> = [(ow, sp)]"
    for a b c d e f ow sp al
    using one_allowance_key [where s = "\<lparr>LSD_VERSION = a, TOKEN_INFO = b, MARKETING_INFO = c, LOGO = d,
      BALANCES = e, ALLOWANCES = fmempty, ALLOWANCES_SPENDER = f\<rparr>" and ow = ow and sp = sp and al = al]
    by simp
  have v: "lt CONTRACT_VERSION_lsd ''0.14.0''"
    "ensure CONTRACT_NAME_lsd CONTRACT_VERSION_lsd (Some (CONTRACT_NAME_lsd, CONTRACT_VERSION_lsd))
       = Inr (CONTRACT_VERSION_lsd, Some (CONTRACT_NAME_lsd, CONTRACT_VERSION_lsd))"
    using assms(3) by (simp_all add: mock_versions_def)
  show ?thesis
    using assms(1,2)
    by (simp add: test_migrate_def migrate_lsd_def v keys copy_allowance_def page_simps spending_simps)
qed

end
