(* ===== verification/Ics20_Tests.thy ===== *)
theory Ics20_Tests
  imports Ics20_Ibc Scenario
begin

text \<open>
  The unit tests of contracts/cw20-ics20 (contract.rs, ibc.rs) and their fixtures (test\_helpers.rs),
  run on the model. The libraries of the host stay parameters: \<open>mock_ics\<close> says what the tests rely on,
  and \<open>enc\<close> is the encoder of the transfer message. The tests of JSON texts and of the parser of versions
  are tests of the libraries and are left out.
\<close>

section \<open>Fixtures\<close>

datatype payment_error = NoFundsSent | MultipleDenoms | NonPayable

definition mock_codec :: "ics_host \<Rightarrow> (transfer_msg \<Rightarrow> binary) \<Rightarrow> bool" where
  "mock_codec h enc \<longleftrightarrow> (\<forall>m. parse_transfer h (enc m) = Inr m)
     \<and> (\<forall>p. \<exists>b. encode_packet h p = Inr b \<and> parse_packet h b = Inr p)
     \<and> (\<forall>a. \<exists>b. encode_ack h a = Inr b \<and> parse_ack h b = Inr a)"

definition mock_payments :: "ics_host \<Rightarrow> (payment_error \<Rightarrow> string) \<Rightarrow> bool" where
  "mock_payments h text \<longleftrightarrow>
     (\<forall>info. one_coin h info = (case funds info of
         [] \<Rightarrow> Inl (text NoFundsSent)
       | [c] \<Rightarrow> if c_amount c = 0 then Inl (text NoFundsSent) else Inr c
       | _ \<Rightarrow> Inl (text MultipleDenoms)))
     \<and> (\<forall>info. nonpayable h info = (if funds info = [] then Inr () else Inl (text NonPayable)))"

definition mock_semver :: "ics_host \<Rightarrow> bool" where
  "mock_semver h \<longleftrightarrow> (\<exists>v v1 v2 v3. parse_semver h CONTRACT_VERSION_ICS = Inr v
     \<and> parse_semver h MIGRATE_MIN_VERSION = Inr v1 \<and> parse_semver h MIGRATE_VERSION_2 = Inr v2
     \<and> parse_semver h MIGRATE_VERSION_3 = Inr v3
     \<and> \<not> semver_less h v v \<and> \<not> semver_less h v v1 \<and> semver_less h v2 v \<and> semver_less h v3 v
     \<and> \<not> semver_less h v v3 \<and> \<not> semver_less h v3 v1 \<and> semver_less h v2 v3 \<and> \<not> semver_less h v3 v3)"

definition mock_ics ::
  "ics_host \<Rightarrow> (transfer_msg \<Rightarrow> binary) \<Rightarrow> (payment_error \<Rightarrow> string) \<Rightarrow> bool" where
  "mock_ics h enc text \<longleftrightarrow> mock_api (h_api h) \<and> mock_codec h enc \<and> mock_payments h text \<and> mock_semver h"

definition DEFAULT_TIMEOUT :: u64 where
  "DEFAULT_TIMEOUT = 3600"

definition CONTRACT_PORT :: string where
  "CONTRACT_PORT = ''ibc:wasm1234567890abcdef''"

definition REMOTE_PORT :: string where
  "REMOTE_PORT = ''transfer''"

definition CONNECTION_ID :: string where
  "CONNECTION_ID = ''connection-2''"

definition mock_channel :: "string \<Rightarrow> ibc_channel" where
  "mock_channel i = \<lparr>ch_endpoint = \<lparr>port_id = CONTRACT_PORT, channel_id = i\<rparr>,
     ch_counterparty_endpoint = \<lparr>port_id = REMOTE_PORT, channel_id = i @ ''5''\<rparr>,
     ch_order = ICS20_ORDERING, ch_version = ICS20_VERSION, ch_connection_id = CONNECTION_ID\<rparr>"

definition mock_channel_info :: "string \<Rightarrow> channel_info" where
  "mock_channel_info i = \<lparr>ci_id = i,
     ci_counterparty_endpoint = \<lparr>port_id = REMOTE_PORT, channel_id = i @ ''5''\<rparr>,
     ci_connection_id = CONNECTION_ID\<rparr>"

definition add_channel :: "string \<Rightarrow> ics_store check list" where
  "add_channel i = [accepted (ibc_channel_open (OpenInit (mock_channel i))) anything,
     accepted (ibc_channel_connect (OpenAck (mock_channel i) ICS20_VERSION)) anything]"

definition no_submessages_ics :: "ics_msg response \<Rightarrow> bool" where
  "no_submessages_ics r \<longleftrightarrow> length (messages r) = 0"

definition setup_ics :: "ics_host \<Rightarrow> string list \<Rightarrow> (string \<times> u64) list \<Rightarrow> ics_store check list" where
  "setup_ics h channels allow =
     accepted (instantiate_ics h \<lparr>im_default_timeout = DEFAULT_TIMEOUT, im_gov_contract = ''gov'',
        im_allowlist = map (\<lambda>(c, gas). \<lparr>am_contract = c, am_gas_limit = Some gas\<rparr>) allow,
        im_default_gas_limit = None\<rparr>) no_submessages_ics
     # concat (map add_channel channels)"

section \<open>What the fixtures give\<close>

text \<open>The storage after \<open>setup\<close>.\<close>

definition ready :: "string list \<Rightarrow> (string \<times> u64) list \<Rightarrow> ics_store" where
  "ready channels allow = \<lparr>ICS_VERSION = Some (CONTRACT_NAME_ICS, CONTRACT_VERSION_ICS),
     ADMIN = Some ''gov'',
     ICS_CONFIG = Some (ConfigNow \<lparr>default_timeout = DEFAULT_TIMEOUT, default_gas_limit = None\<rparr>),
     REPLY_ARGS = None,
     CHANNEL_INFO = fold (\<lambda>i. fmupd i (mock_channel_info i)) channels fmempty,
     CHANNEL_STATE = fmempty,
     ALLOW_LIST = fold (\<lambda>(c, gas). fmupd c \<lparr>ai_gas_limit = Some gas\<rparr>) allow fmempty\<rparr>"

lemma checks_setup:
  assumes "mock_api (h_api h)" and "list_all (\<lambda>(c, gas). plain_address c) allow"
    and "checks cs (ready channels allow)"
  shows "checks (setup_ics h channels allow @ cs) empty_ics"
proof -
  have gov: "addr_validate (h_api h) ''gov'' = Inr ''gov''"
    using assms(1) by (simp add: mock_api_accepts plain_address_def plain_byte_def byte_def)
  have saved: "rfold (save_allowed h) (map (\<lambda>(c, gas). \<lparr>am_contract = c, am_gas_limit = Some gas\<rparr>) allow) s
      = Inr (s\<lparr>ALLOW_LIST := fold (\<lambda>(c, gas). fmupd c \<lparr>ai_gas_limit = Some gas\<rparr>) allow (ALLOW_LIST s)\<rparr>)"
    for s
    using assms(1,2)
    by (induction allow arbitrary: s) (auto simp: save_allowed_def mock_api_accepts)
  have opened: "checks (concat (map add_channel cis) @ cs) s
      = checks cs (s\<lparr>CHANNEL_INFO := fold (\<lambda>i. fmupd i (mock_channel_info i)) cis (CHANNEL_INFO s)\<rparr>)" for cis s
    by (induction cis arbitrary: s)
      (simp_all add: add_channel_def accepted_def anything_def ibc_channel_open_def ibc_channel_connect_def
        enforce_order_and_version_def mock_channel_def mock_channel_info_def Let_def)
  show ?thesis
    using assms(3)
    by (simp add: setup_ics_def accepted_def instantiate_ics_def gov saved no_submessages_ics_def Let_def opened
        ready_def empty_ics_def)
qed

lemma codec_functions:
  assumes "mock_codec h enc"
  obtains bp ba where "\<And>p. encode_packet h p = Inr (bp p)" "\<And>p. parse_packet h (bp p) = Inr p"
    "\<And>a. encode_ack h a = Inr (ba a)" "\<And>a. parse_ack h (ba a) = Inr a"
    "\<And>m. parse_transfer h (enc m) = Inr m"
  using assms unfolding mock_codec_def by metis

lemma plus_seconds_mock:
  assumes "mock_env env" and "unat d < 10000"
  shows "plus_seconds (block_time env) d = Inr (block_time env + d * 1000000000)"
proof -
  have "unat (block_time env) < 3767626296000000000"
    using assms(1) by (simp add: mock_env_def word_less_nat_alt)
  moreover have "unat (d * 1000000000) = unat d * 1000000000"
    using unat_mul_exact [of d 1000000000] assms(2) by simp
  ultimately show ?thesis using assms(2) by (simp add: plus_seconds_def umul_def uadd_def)
qed

lemma migrate_same_version:
  assumes "mock_semver h" and "ICS_VERSION s = Some (CONTRACT_NAME_ICS, CONTRACT_VERSION_ICS)"
  shows "migrate_ics h env g s = rbind (set_default_gas_limit g s) (\<lambda>s. Inr (s, respond [] []))"
  using assms unfolding mock_semver_def by (auto simp: migrate_ics_def version_ics_def load_item_def)

lemma migrate_v3:
  assumes "mock_semver h" and "ICS_VERSION s = Some (CONTRACT_NAME_ICS, MIGRATE_VERSION_3)"
  shows "migrate_ics h env g s = rbind (update_balances h env s) (\<lambda>s.
     rbind (set_default_gas_limit g s) (\<lambda>s.
     Inr (s\<lparr>ICS_VERSION := Some (CONTRACT_NAME_ICS, CONTRACT_VERSION_ICS)\<rparr>, respond [] [])))"
  using assms unfolding mock_semver_def by (auto simp: migrate_ics_def version_ics_def load_item_def)

section \<open>contract.rs\<close>

definition mock_info_ics :: "addr \<Rightarrow> coin list \<Rightarrow> message_info" where
  "mock_info_ics who cs = \<lparr>sender = who, funds = cs\<rparr>"

definition coin_of :: "u128 \<Rightarrow> string \<Rightarrow> coin" where
  "coin_of n d = \<lparr>c_denom = d, c_amount = n\<rparr>"

definition does_ics :: "ics_host \<Rightarrow> env \<Rightarrow> message_info \<Rightarrow> ics_execute_msg
    \<Rightarrow> (ics_msg response \<Rightarrow> bool) \<Rightarrow> ics_store check" where
  "does_ics h env info m = accepted (execute_ics h env info m)"

definition fails_ics :: "ics_host \<Rightarrow> env \<Rightarrow> message_info \<Rightarrow> ics_execute_msg \<Rightarrow> ics_error \<Rightarrow> ics_store check" where
  "fails_ics h env info m e = refused (execute_ics h env info m) (error_is e)"

text \<open>The response is one packet without a gas limit: its channel, its timeout and its data.\<close>

definition sends_packet ::
  "ics_host \<Rightarrow> string \<Rightarrow> u64 \<Rightarrow> (ics20_packet \<Rightarrow> bool) \<Rightarrow> ics_msg response \<Rightarrow> bool" where
  "sends_packet h channel timeout P r \<longleftrightarrow> length (messages r) = 1
     \<and> sm_gas_limit (messages r ! 0) = None
     \<and> (case sm_msg (messages r ! 0) of
          SendPacket c data t \<Rightarrow> c = channel \<and> t = timeout
            \<and> (case parse_packet h data of Inr p \<Rightarrow> P p | Inl _ \<Rightarrow> False)
        | _ \<Rightarrow> False)"

definition foreign_transfer :: "string \<Rightarrow> u64 option \<Rightarrow> string option \<Rightarrow> transfer_msg" where
  "foreign_transfer channel timeout memo = \<lparr>tm_channel = channel,
     tm_remote_address = ''foreign-address'', tm_timeout = timeout, tm_memo = memo\<rparr>"

definition setup_and_query :: "ics_host \<Rightarrow> bool" where
  "setup_and_query h = checks (setup_ics h [''channel-3'', ''channel-7''] [] @
     [answered (query_ics h ListChannels)
        (\<lambda>r. r = RChannels [mock_channel_info ''channel-3'', mock_channel_info ''channel-7'']),
      answered (query_ics h (Channel ''channel-3''))
        (\<lambda>r. case r of RChannel c \<Rightarrow> cr_info c = mock_channel_info ''channel-3''
             \<and> length (cr_total_sent c) = 0 \<and> length (cr_balances c) = 0
           | _ \<Rightarrow> False),
      refused (query_ics h (Channel ''channel-10''))
        (error_is (Std_ics (NotFound ''ChannelInfo'')))]) empty_ics"

definition proper_checks_on_execute_native ::
  "ics_host \<Rightarrow> (payment_error \<Rightarrow> string) \<Rightarrow> env \<Rightarrow> bool" where
  "proper_checks_on_execute_native h text env = checks
     (setup_ics h [''channel-5'', ''channel-10''] [] @
     [does_ics h env (mock_info_ics ''foobar'' [coin_of 1234567 ''ucosm''])
        (TransferNative (foreign_transfer ''channel-5'' None None))
        (sends_packet h ''channel-5'' (block_time env + DEFAULT_TIMEOUT * 1000000000)
          (\<lambda>p. p_amount p = 1234567 \<and> p_denom p = ''ucosm'' \<and> p_sender p = ''foobar''
             \<and> p_receiver p = ''foreign-address'')),
      fails_ics h env (mock_info_ics ''foobar'' [])
        (TransferNative (foreign_transfer ''channel-5'' None None)) (Payment (text NoFundsSent)),
      fails_ics h env (mock_info_ics ''foobar'' [coin_of 1234567 ''ucosm'', coin_of 54321 ''uatom''])
        (TransferNative (foreign_transfer ''channel-5'' None None)) (Payment (text MultipleDenoms)),
      fails_ics h env (mock_info_ics ''foobar'' [coin_of 1234567 ''ucosm''])
        (TransferNative (foreign_transfer ''channel-45'' None None)) (NoSuchChannel ''channel-45'')])
     empty_ics"

definition my_account :: "(transfer_msg \<Rightarrow> binary) \<Rightarrow> ics_execute_msg" where
  "my_account enc = Receive \<lparr>rw_sender = ''my-account'', rw_amount = 888777666,
     rw_msg = enc (foreign_transfer ''channel-15'' (Some 7777) None)\<rparr>"

definition proper_checks_on_execute_cw20 ::
  "ics_host \<Rightarrow> (transfer_msg \<Rightarrow> binary) \<Rightarrow> (payment_error \<Rightarrow> string) \<Rightarrow> env \<Rightarrow> bool" where
  "proper_checks_on_execute_cw20 h enc text env = checks
     (setup_ics h [''channel-3'', ''channel-15''] [(''my-token'', 123456)] @
     [does_ics h env (mock_info_ics ''my-token'' []) (my_account enc)
        (sends_packet h ''channel-15'' (block_time env + 7777 * 1000000000)
          (\<lambda>p. p_amount p = 888777666 \<and> p_denom p = ''cw20:my-token'' \<and> p_sender p = ''my-account''
             \<and> p_receiver p = ''foreign-address'')),
      fails_ics h env (mock_info_ics ''foobar'' [coin_of 1234567 ''ucosm'']) (my_account enc)
        (Payment (text NonPayable))]) empty_ics"

definition execute_cw20_fails_if_not_whitelisted ::
  "ics_host \<Rightarrow> (transfer_msg \<Rightarrow> binary) \<Rightarrow> env \<Rightarrow> bool" where
  "execute_cw20_fails_if_not_whitelisted h enc env = checks
     (setup_ics h [''channel-15''] [] @
     [fails_ics h env (mock_info_ics ''my-token'' []) (my_account enc) NotOnAllowList,
      accepted (migrate_ics h env (Some 123456)) anything,
      does_ics h env (mock_info_ics ''my-token'' []) (my_account enc) anything]) empty_ics"

text \<open>A test writes to the storage and to the balances of the bank; the latter are the host's.\<close>

definition store :: "(ics_store \<Rightarrow> ics_store) \<Rightarrow> ics_store check" where
  "store f s = Some (f s)"

definition v3_migration_works :: "ics_host \<Rightarrow> env \<Rightarrow> bool" where
  "v3_migration_works h env = (let h = h\<lparr>bank_balance := (\<lambda>a d.
       Inr (if a = contract_addr env \<and> d = ''ucosm'' then 50000 else 0))\<rparr> in checks
     (setup_ics h [''channel-15''] [(''my-token'', 123456)] @
     [store (\<lambda>s. s\<lparr>ICS_VERSION := Some (CONTRACT_NAME_ICS, MIGRATE_VERSION_3)\<rparr>),
      store (\<lambda>s. s\<lparr>CHANNEL_STATE := fmupd (''channel-15'', ''ucosm'')
        \<lparr>outstanding = 36000, total_sent = 100000\<rparr> (CHANNEL_STATE s)\<rparr>),
      accepted (migrate_ics h env (Some 123456)) anything,
      answered (query_channel ''channel-15'') (\<lambda>c. cr_balances c = [amount_native 50000 ''ucosm'']
        \<and> cr_total_sent c = [amount_native 114000 ''ucosm'']),
      answered query_config (\<lambda>c. cf_default_gas_limit c = Some 123456)]) empty_ics)"

definition test_with_memo :: "ics_host \<Rightarrow> env \<Rightarrow> string \<Rightarrow> bool" where
  "test_with_memo h env memo = checks
     (setup_ics h [''channel-5'', ''channel-10''] [] @
     [does_ics h env (mock_info_ics ''foobar'' [coin_of 1234567 ''ucosm''])
        (TransferNative (foreign_transfer ''channel-5'' None (Some memo)))
        (sends_packet h ''channel-5'' (block_time env + DEFAULT_TIMEOUT * 1000000000)
          (\<lambda>p. p_amount p = 1234567 \<and> p_denom p = ''ucosm'' \<and> p_sender p = ''foobar''
             \<and> p_receiver p = ''foreign-address'' \<and> p_memo p = Some memo))]) empty_ics"

text \<open>The messages of the first release had no memo; the JSON of the packet is left out.\<close>

definition memo_is_backwards_compatible :: "ics_host \<Rightarrow> env \<Rightarrow> bool" where
  "memo_is_backwards_compatible h env = checks
     (setup_ics h [''channel-5'', ''channel-10''] [] @
     [does_ics h env (mock_info_ics ''foobar'' [coin_of 1234567 ''ucosm''])
        (TransferNative (foreign_transfer ''channel-5'' None None))
        (\<lambda>r. length (messages r) = 1 \<and> (case sm_msg (messages r ! 0) of
            SendPacket c data t \<Rightarrow>
              (case parse_packet h data of Inr p \<Rightarrow> p_memo p = None | Inl _ \<Rightarrow> False)
          | _ \<Rightarrow> False))]) empty_ics"

definition execute_with_memo_works :: "ics_host \<Rightarrow> env \<Rightarrow> bool" where
  "execute_with_memo_works h env = test_with_memo h env ''memo''"

definition execute_with_empty_string_memo_works :: "ics_host \<Rightarrow> env \<Rightarrow> bool" where
  "execute_with_empty_string_memo_works h env = test_with_memo h env []"

lemmas ics_test_simps = does_ics_def fails_ics_def accepted_def refused_def answered_def error_is_def
  anything_def mock_info_ics_def coin_of_def sends_packet_def foreign_transfer_def no_reply_def
  execute_receive_def execute_transfer_ics_def check_sendable_def load_config_def has_def
  new_packet_def with_memo_def validate_packet_def increase_channel_balance_def uadd_def
  default_channel_state_def DEFAULT_TIMEOUT_def plus_seconds_mock set_default_gas_limit_def
  my_account_def ready_def load_def mock_api_accepts plain_address_def plain_byte_def byte_def

lemma contract_tests:
  assumes "mock_ics h enc text" and env: "mock_env env"
  shows "setup_and_query h" and "proper_checks_on_execute_native h text env"
    and "proper_checks_on_execute_cw20 h enc text env"
    and "execute_cw20_fails_if_not_whitelisted h enc env" and "test_with_memo h env memo"
    and "memo_is_backwards_compatible h env"
proof -
  from assms(1) have api: "mock_api (h_api h)" and cod: "mock_codec h enc" and pay: "mock_payments h text"
    and semver: "mock_semver h"
    by (simp_all add: mock_ics_def)
  obtain bp ba where codec: "\<And>p. encode_packet h p = Inr (bp p)" "\<And>p. parse_packet h (bp p) = Inr p"
    "\<And>a. encode_ack h a = Inr (ba a)" "\<And>a. parse_ack h (ba a) = Inr a"
    "\<And>m. parse_transfer h (enc m) = Inr m"
    by (rule codec_functions [OF cod], rule that)
  note defs = ics_test_simps codec pay [unfolded mock_payments_def]
  show "setup_and_query h"
    unfolding setup_and_query_def
    by (rule checks_setup [OF api])
      (simp_all add: ics_test_simps query_list_def query_channel_def channel_states_def
        sorted_keys_simps)
  show "proper_checks_on_execute_native h text env"
    unfolding proper_checks_on_execute_native_def
    by (rule checks_setup [OF api]) (use env in \<open>simp_all add: defs Let_def\<close>)
  show "proper_checks_on_execute_cw20 h enc text env"
    unfolding proper_checks_on_execute_cw20_def
    by (rule checks_setup [OF api]) (use env api in \<open>simp_all add: defs Let_def\<close>)
  show "execute_cw20_fails_if_not_whitelisted h enc env"
    unfolding execute_cw20_fails_if_not_whitelisted_def
    by (rule checks_setup [OF api]) (use env api semver in \<open>simp_all add: defs migrate_same_version Let_def\<close>)
  show "test_with_memo h env memo"
    unfolding test_with_memo_def
    by (rule checks_setup [OF api]) (use env in \<open>simp_all add: defs Let_def\<close>)
  show "memo_is_backwards_compatible h env"
    unfolding memo_is_backwards_compatible_def
    by (rule checks_setup [OF api]) (use env in \<open>simp_all add: defs Let_def\<close>)
qed

lemma memo_tests:
  assumes "mock_ics h enc text" and "mock_env env"
  shows "execute_with_memo_works h env" and "execute_with_empty_string_memo_works h env"
  unfolding execute_with_memo_works_def execute_with_empty_string_memo_works_def
  by (rule contract_tests(5) [OF assms])+

text \<open>The host of the migration test differs from \<open>h\<close> in the balances of the bank.\<close>

lemma v3_migration_test:
  assumes "mock_ics h enc text"
  shows "v3_migration_works h env"
proof -
  let ?h = "h\<lparr>bank_balance := (\<lambda>a d.
       Inr (if a = contract_addr env \<and> d = ''ucosm'' then 50000 else 0))\<rparr>"
  have api: "mock_api (h_api ?h)" and semver: "mock_semver ?h"
    using assms by (simp_all add: mock_ics_def mock_semver_def)
  show ?thesis
    unfolding v3_migration_works_def Let_def
    by (rule checks_setup [OF api])
      (use semver in \<open>simp_all add: ics_test_simps store_def migrate_v3 update_balances_def
        update_denom_def held_balance_def from_parts_def channel_states_def sorted_keys_simps usub_def
        query_channel_def query_config_def amount_native_def Let_def\<close>)
qed

section \<open>ibc.rs\<close>

definition cw20_payment :: "u128 \<Rightarrow> string \<Rightarrow> string \<Rightarrow> u64 option \<Rightarrow> ics_msg sub_msg" where
  "cw20_payment n a recipient gas =
     reply_on_error (WasmExecute a (Cw20Transfer recipient n) []) RECEIVE_ID gas"

definition native_payment :: "u128 \<Rightarrow> string \<Rightarrow> string \<Rightarrow> ics_msg sub_msg" where
  "native_payment n denom recipient =
     reply_on_error (BankSend recipient [coin_of n denom]) RECEIVE_ID None"

text \<open>A packet that returns a token of this chain; \<open>data\<close> is its encoding.\<close>

definition mock_packet :: "u128 \<Rightarrow> string \<Rightarrow> string \<Rightarrow> ics20_packet" where
  "mock_packet n denom receiver = \<lparr>p_amount = n,
     p_denom = REMOTE_PORT @ ''/'' @ ''channel-1234'' @ ''/'' @ denom, p_receiver = receiver,
     p_sender = ''remote-sender'', p_memo = None\<rparr>"

definition mock_receive_packet ::
  "(ics20_packet \<Rightarrow> binary) \<Rightarrow> string \<Rightarrow> u128 \<Rightarrow> string \<Rightarrow> string \<Rightarrow> ibc_packet" where
  "mock_receive_packet bp my_channel n denom receiver = \<lparr>pk_data = bp (mock_packet n denom receiver),
     pk_src = \<lparr>port_id = REMOTE_PORT, channel_id = ''channel-1234''\<rparr>,
     pk_dest = \<lparr>port_id = CONTRACT_PORT, channel_id = my_channel\<rparr>\<rparr>"

text \<open>The acknowledgement of a receipt, and the error that the tests expect in it.\<close>

definition ack_of :: "ics_host \<Rightarrow> receive_response \<Rightarrow> ics20_ack option" where
  "ack_of h r = (case parse_ack h (rr_ack r) of Inl _ \<Rightarrow> None | Inr a \<Rightarrow> Some a)"

definition no_funds :: "ics_host \<Rightarrow> receive_response \<Rightarrow> bool" where
  "no_funds h r \<longleftrightarrow> rr_messages r = []
     \<and> ack_of h r = Some (AckError (display_ics (std_text h) InsufficientFunds))"

definition pays :: "ics_host \<Rightarrow> ics_msg sub_msg \<Rightarrow> receive_response \<Rightarrow> bool" where
  "pays h m r \<longleftrightarrow> length (rr_messages r) = 1 \<and> m = rr_messages r ! 0
     \<and> (case ack_of h r of Some (AckResult _) \<Rightarrow> True | _ \<Rightarrow> False)"

definition channel_is :: "string \<Rightarrow> amount \<Rightarrow> amount \<Rightarrow> ics_store check" where
  "channel_is channel held all_sent = answered (query_channel channel)
     (\<lambda>c. cr_balances c = [held] \<and> cr_total_sent c = [all_sent])"

definition sent_transfer :: "string \<Rightarrow> string \<Rightarrow> transfer_msg" where
  "sent_transfer channel remote = \<lparr>tm_channel = channel, tm_remote_address = remote,
     tm_timeout = None, tm_memo = None\<rparr>"

definition send_receive_cw20 ::
  "ics_host \<Rightarrow> (transfer_msg \<Rightarrow> binary) \<Rightarrow> (ics20_packet \<Rightarrow> binary) \<Rightarrow> env \<Rightarrow> bool" where
  "send_receive_cw20 h enc bp env = (let
       recv = mock_receive_packet bp ''channel-9'' 876543210 ''cw20:token-addr'' ''local-rcpt'';
       recv_high = mock_receive_packet bp ''channel-9'' 1876543210 ''cw20:token-addr'' ''local-rcpt'' in
     checks (setup_ics h [''channel-1'', ''channel-7'', ''channel-9''] [(''token-addr'', 1234567)] @
     [accepted (ibc_packet_receive h recv) (no_funds h),
      does_ics h env (mock_info_ics ''token-addr'' [])
        (Receive \<lparr>rw_sender = ''local-sender'', rw_amount = 987654321,
           rw_msg = enc (sent_transfer ''channel-9'' ''remote-rcpt'')\<rparr>)
        (\<lambda>r. messages r = [no_reply (SendPacket ''channel-9''
           (bp \<lparr>p_amount = 987654321, p_denom = ''cw20:token-addr'', p_receiver = ''remote-rcpt'',
              p_sender = ''local-sender'', p_memo = None\<rparr>)
           (block_time env + DEFAULT_TIMEOUT * 1000000000))]),
      channel_is ''channel-9'' (amount_cw20 987654321 ''token-addr'') (amount_cw20 987654321 ''token-addr''),
      accepted (ibc_packet_receive h recv_high) (no_funds h),
      accepted (ibc_packet_receive h recv)
        (pays h (cw20_payment 876543210 ''token-addr'' ''local-rcpt'' (Some 1234567))),
      channel_is ''channel-9'' (amount_cw20 111111111 ''token-addr'') (amount_cw20 987654321 ''token-addr'')])
     empty_ics)"

definition send_receive_native ::
  "ics_host \<Rightarrow> (ics20_packet \<Rightarrow> binary) \<Rightarrow> env \<Rightarrow> bool" where
  "send_receive_native h bp env = (let
       recv = mock_receive_packet bp ''channel-9'' 876543210 ''uatom'' ''local-rcpt'';
       recv_high = mock_receive_packet bp ''channel-9'' 1876543210 ''uatom'' ''local-rcpt'' in
     checks (setup_ics h [''channel-1'', ''channel-7'', ''channel-9''] [] @
     [accepted (ibc_packet_receive h recv) (no_funds h),
      does_ics h env (mock_info_ics ''local-sender'' [coin_of 987654321 ''uatom''])
        (TransferNative (sent_transfer ''channel-9'' ''my-remote-address'')) anything,
      channel_is ''channel-9'' (amount_native 987654321 ''uatom'') (amount_native 987654321 ''uatom''),
      accepted (ibc_packet_receive h recv_high) (no_funds h),
      accepted (ibc_packet_receive h recv) (pays h (native_payment 876543210 ''uatom'' ''local-rcpt'')),
      channel_is ''channel-9'' (amount_native 111111111 ''uatom'') (amount_native 987654321 ''uatom'')])
     empty_ics)"

definition check_gas_limit_handles_all_cases :: "ics_host \<Rightarrow> env \<Rightarrow> bool" where
  "check_gas_limit_handles_all_cases h env = checks
     (setup_ics h [''channel-9''] [(''foobar'', 777666)] @
     [answered (check_gas_limit h (amount_cw20 500 ''foobar'')) (\<lambda>g. g = Some 777666),
      refused (check_gas_limit h (amount_cw20 500 ''tokenz'')) anything,
      accepted (migrate_ics h env (Some 54321)) anything,
      answered (check_gas_limit h (amount_cw20 500 ''foobar'')) (\<lambda>g. g = Some 777666),
      answered (check_gas_limit h (amount_cw20 500 ''tokenz'')) (\<lambda>g. g = Some 54321)]) empty_ics"

lemmas receive_test_simps = mock_receive_packet_def mock_packet_def ack_of_def no_funds_def pays_def
  channel_is_def sent_transfer_def cw20_payment_def native_payment_def ibc_packet_receive_def
  do_ibc_packet_receive_def receive_send_def failed_receive_def ack_success_def ack_fail_def
  encode_unwrap_def parse_voucher_denom_def splitn3_def REMOTE_PORT_def reduce_channel_balance_def
  checked_sub_def check_gas_limit_def query_channel_def channel_states_def sorted_keys_simps
  from_parts_def amount_cw20_def amount_native_def reply_on_error_def

lemma ibc_tests:
  assumes "mock_ics h enc text" and env: "mock_env env" and bp: "\<And>p. encode_packet h p = Inr (bp p)"
  shows "send_receive_cw20 h enc bp env" and "send_receive_native h bp env"
    and "check_gas_limit_handles_all_cases h env"
proof -
  from assms(1) have api: "mock_api (h_api h)" and cod: "mock_codec h enc" and pay: "mock_payments h text"
    and semver: "mock_semver h"
    by (simp_all add: mock_ics_def)
  obtain bp' ba where codec: "\<And>p. encode_packet h p = Inr (bp' p)" "\<And>p. parse_packet h (bp' p) = Inr p"
    "\<And>a. encode_ack h a = Inr (ba a)" "\<And>a. parse_ack h (ba a) = Inr a"
    "\<And>m. parse_transfer h (enc m) = Inr m"
    by (rule codec_functions [OF cod], rule that)
  have eq: "bp' = bp" using bp codec(1) by (simp add: fun_eq_iff)
  note defs = ics_test_simps codec [unfolded eq] pay [unfolded mock_payments_def] receive_test_simps
  show "send_receive_cw20 h enc bp env"
    unfolding send_receive_cw20_def Let_def
    by (rule checks_setup [OF api]) (use env api in \<open>simp_all add: defs Let_def\<close>)
  show "send_receive_native h bp env"
    unfolding send_receive_native_def Let_def
    by (rule checks_setup [OF api]) (use env in \<open>simp_all add: defs Let_def\<close>)
  show "check_gas_limit_handles_all_cases h env"
    unfolding check_gas_limit_handles_all_cases_def
    by (rule checks_setup [OF api])
      (use api semver in \<open>simp_all add: ics_test_simps check_gas_limit_def amount_cw20_def migrate_same_version\<close>)
qed

section \<open>A host that has the fixtures\<close>

text \<open>Texts one after the other, each with a mark before every character and one at its end.\<close>

fun marked :: "string \<Rightarrow> string" where
  "marked [] = ''.''"
| "marked (c # cs) = CHR ''x'' # c # marked cs"

fun unmarked :: "string \<Rightarrow> string \<times> string" where
  "unmarked (CHR ''x'' # c # cs) = (let (a, r) = unmarked cs in (c # a, r))"
| "unmarked (_ # cs) = ([], cs)"
| "unmarked [] = ([], [])"

lemma unmarked_marked: "unmarked (marked a @ r) = (a, r)"
  by (induction a) simp_all

lemma unmarked_end: "unmarked (marked a) = (a, [])"
  using unmarked_marked [of a "[]"] by simp

fun show_option :: "string option \<Rightarrow> string" where
  "show_option None = []"
| "show_option (Some a) = CHR ''s'' # a"

fun read_option :: "string \<Rightarrow> string option" where
  "read_option [] = None"
| "read_option (_ # a) = Some a"

lemma read_show_option: "read_option (show_option a) = a"
  by (cases a) simp_all

definition mark_packet :: "ics20_packet \<Rightarrow> binary" where
  "mark_packet p = marked (to_string (p_amount p)) @ marked (p_denom p) @ marked (p_receiver p)
     @ marked (p_sender p) @ marked (show_option (p_memo p))"

definition unmark_packet :: "binary \<Rightarrow> ics20_packet" where
  "unmark_packet b = (let (n, b) = unmarked b; (d, b) = unmarked b; (r, b) = unmarked b;
     (s, b) = unmarked b; (m, b) = unmarked b in
     \<lparr>p_amount = the (parse_uint n), p_denom = d, p_receiver = r, p_sender = s, p_memo = read_option m\<rparr>)"

lemma unmark_packet: "unmark_packet (mark_packet p) = p"
  by (simp add: unmark_packet_def mark_packet_def unmarked_marked unmarked_end read_show_option)

definition mark_transfer :: "transfer_msg \<Rightarrow> binary" where
  "mark_transfer m = marked (tm_channel m) @ marked (tm_remote_address m)
     @ marked (show_option (map_option to_string (tm_timeout m))) @ marked (show_option (tm_memo m))"

definition unmark_transfer :: "binary \<Rightarrow> transfer_msg" where
  "unmark_transfer b = (let (c, b) = unmarked b; (r, b) = unmarked b; (t, b) = unmarked b;
     (m, b) = unmarked b in
     \<lparr>tm_channel = c, tm_remote_address = r, tm_timeout = map_option (the \<circ> parse_uint) (read_option t),
      tm_memo = read_option m\<rparr>)"

lemma unmark_transfer: "unmark_transfer (mark_transfer m) = m"
proof -
  have "map_option (the \<circ> parse_uint) (map_option to_string t) = t" for t :: "u64 option"
    by (cases t) simp_all
  then show ?thesis
    by (simp add: unmark_transfer_def mark_transfer_def unmarked_marked unmarked_end read_show_option)
qed

fun payment_text :: "payment_error \<Rightarrow> string" where
  "payment_text NoFundsSent = ''No funds sent''"
| "payment_text MultipleDenoms = ''Sent more than one denomination''"
| "payment_text NonPayable = ''This message does no accept funds''"

definition test_host :: ics_host where
  "test_host = \<lparr>h_api = test_api,
     one_coin = (\<lambda>info. case funds info of [] \<Rightarrow> Inl (payment_text NoFundsSent)
       | [c] \<Rightarrow> if c_amount c = 0 then Inl (payment_text NoFundsSent) else Inr c
       | _ \<Rightarrow> Inl (payment_text MultipleDenoms)),
     nonpayable = (\<lambda>info. if funds info = [] then Inr () else Inl (payment_text NonPayable)),
     admin_assert = (\<lambda>cell a. Inr ()), admin_update = (\<lambda>cell a new. Inr (new, [])),
     parse_transfer = (\<lambda>b. Inr (unmark_transfer b)), parse_packet = (\<lambda>b. Inr (unmark_packet b)),
     encode_packet = (\<lambda>p. Inr (mark_packet p)),
     parse_ack = (\<lambda>b. case b of CHR ''r'' # v \<Rightarrow> Inr (AckResult v)
       | CHR ''e'' # v \<Rightarrow> Inr (AckError v) | _ \<Rightarrow> Inl ParseErr),
     encode_ack = (\<lambda>a. case a of AckResult v \<Rightarrow> Inr (CHR ''r'' # v) | AckError v \<Rightarrow> Inr (CHR ''e'' # v)),
     std_text = (\<lambda>_. ''error''), parse_semver = Inr,
     semver_less = (\<lambda>a b. a \<noteq> b \<and> (b = CONTRACT_VERSION_ICS
       \<or> (a = MIGRATE_VERSION_2 \<and> b = MIGRATE_VERSION_3))),
     bank_balance = (\<lambda>_ _. Inr 0), cw20_balance = (\<lambda>_ _. Inr 0), query_port_id = Inr CONTRACT_PORT\<rparr>"

lemma test_host: "mock_ics test_host mark_transfer payment_text"
proof -
  have "mock_codec test_host mark_transfer"
    by (simp add: mock_codec_def test_host_def unmark_transfer unmark_packet split: ics20_ack.split)
  moreover have "mock_payments test_host payment_text"
    by (simp add: mock_payments_def test_host_def)
  moreover have "mock_semver test_host"
    by (simp add: mock_semver_def test_host_def CONTRACT_VERSION_ICS_def MIGRATE_VERSION_2_def
        MIGRATE_VERSION_3_def MIGRATE_MIN_VERSION_def)
  moreover have "mock_api (h_api test_host)" by (simp add: test_host_def test_api)
  ultimately show ?thesis by (simp add: mock_ics_def)
qed

end
