(* ===== verification/Stake_Withdraw_Properties.thy ===== *)
theory Stake_Withdraw_Properties
  imports Stake_Withdraw Stake_Demo
begin

text \<open>
  The properties of withdrawals: what one pays, what its acknowledgement does to the records, and
  what a receiver that is not an address does to them.
\<close>

lemma fold_fmdrop:
  "fmlookup (fold (\<lambda>i. fmdrop (a, i)) xs m) k
   = (if fst k = a \<and> snd k \<in> set xs then None else fmlookup m k)"
  by (induction xs arbitrary: m) (auto simp: prod_eq_iff)

lemma withdrawable_present:
  "withdrawable s who a p i \<Longrightarrow> \<exists>u. fmlookup (UNSTAKES_OF_INDEX s) (a, i) = Some u
    \<and> u_status u = WithdrawDefault \<and> u_unstaker u = who"
  by (auto simp: withdrawable_def split: option.splits)

text \<open>What the reply and the acknowledgement of a withdrawal find in the storage.\<close>

lemma withdraw_in_flight:
  assumes "execute_withdraw h info a rcv is s = Inr (s1, r1)" and "messages r1 = [m]"
    and "reply_ids_ok s" and "parse_transfer_response h d = Some (ch, sq)"
  obtains p amt pl s2 s3 where "fmlookup (POOLS s) a = Some p"
    and "distinct is" and "is \<noteq> []" and "\<And>i. i \<in> set is \<Longrightarrow> withdrawable s (sender info) a p i"
    and "pl_message pl = withdraw_message amt (sender info) rcv is" and "pl_pool_addr pl = a"
    and "pl_tx_type pl = TxUserWithdraw"
    and "reply_sm h (sm_id m) (Inr (Some d)) s1 = Inr (s2, respond [] [])"
    and "take_payload \<lparr>rp_sequence = Some sq, rp_source_channel = Some ch\<rparr> s2 = Inr (pl, s3)"
    and "fmlookup (UNSTAKES_OF_INDEX s3)
      = with_status WithdrawPending a (set is) (fmlookup (UNSTAKES_OF_INDEX s))"
    and "UNSTAKES_INDEX_FOR_USER s3 = UNSTAKES_INDEX_FOR_USER s"
    and "POOLS s3 = POOLS s" and "INFO_OF_ICA_ID s3 = INFO_OF_ICA_ID s" and "reply_ids_ok s3"
    and "\<exists>ica. fmlookup (INFO_OF_ICA_ID s) (p_ica_id p) = Some ica"
  using assms(1)
proof (rule execute_withdraw_ok)
  fix p and ica w :: ica_info and adm s0 amt fee sub
  let ?pl = "\<lparr>pl_message = withdraw_message amt (sender info) rcv is, pl_pool_addr = a,
      pl_port_id = ctrl_port_id ica, pl_tx_type = TxUserWithdraw\<rparr>"
  assume p: "fmlookup (POOLS s) a = Some p" and ne: "is \<noteq> []"
    and l: "rfold (withdraw_one info a p) is (s, 0) = Inr (s0, amt)"
    and i: "fmlookup (INFO_OF_ICA_ID s0) (p_ica_id p) = Some (ica, w, adm)"
    and m: "msg_with_sudo_callback
           (SubmitTx (ctrl_connection_id ica) (p_ica_id p)
              [gen_msg_send a rcv (p_remote_denom p) amt] DEFAULT_TIMEOUT_SECONDS fee)
           ?pl s0 = Inr (sub, s1)" and r: "messages r1 = [sub]"
  from l have "LATEST_REPLY_ID s0 = LATEST_REPLY_ID s" by (rule withdraw_loop_ids)
  with assms(3) have ids: "reply_ids_ok s0" by (simp add: reply_ids_ok_def)
  from r assms(2) have sub: "sub = m" by simp
  note fr = msg_cb_frame [OF m] and loop = withdraw_loop_ok [OF l] and lf = withdraw_loop_frame [OF l]
  show thesis
    by (rule that [OF p _ ne, of ?pl amt, OF _ _ _ _ _ reply_files_payload [OF m ids assms(4),
        unfolded sub] take_filed_payload]) (use fr loop lf i msg_cb_ids [OF m ids] in
          \<open>auto simp: save_sudo_payload_def reply_ids_ok_def\<close>)
qed

section \<open>What a withdrawal pays\<close>

text \<open>C17: a withdrawal that is accepted sends exactly one bank transfer to the remote chain, of the
  sum of the records it names; the records are distinct, belong to the sender, were not in another
  withdrawal and are past their unbonding period, and all of them are pending afterwards, with
  every other record as it was.\<close>

theorem withdraw_pays_exactly:
  assumes "execute_withdraw h info a rcv is s = Inr (s', r)"
  shows "\<exists>p (ica :: ica_info) fee amt i. fmlookup (POOLS s) a = Some p
    \<and> messages r = [reply_on_success (SubmitTx (ctrl_connection_id ica) (p_ica_id p)
        [gen_msg_send a rcv (p_remote_denom p) amt] DEFAULT_TIMEOUT_SECONDS fee) i]
    \<and> unat amt = (\<Sum>i\<leftarrow>is. amount_of s a i) \<and> amt \<noteq> 0 \<and> distinct is
    \<and> (\<forall>i \<in> set is. withdrawable s (sender info) a p i)
    \<and> fmlookup (UNSTAKES_OF_INDEX s')
        = with_status WithdrawPending a (set is) (fmlookup (UNSTAKES_OF_INDEX s))
    \<and> POOLS s' = POOLS s"
  using assms
proof (rule execute_withdraw_ok)
  fix p and ica :: ica_info and s1 amt fee and sub :: "sm_out sub_msg" and pl :: sudo_payload
  assume p: "fmlookup (POOLS s) a = Some p" and "amt \<noteq> 0" "messages r = [sub]"
    and l: "rfold (withdraw_one info a p) is (s, 0) = Inr (s1, amt)"
    and m: "msg_with_sudo_callback
           (SubmitTx (ctrl_connection_id ica) (p_ica_id p)
              [gen_msg_send a rcv (p_remote_denom p) amt] DEFAULT_TIMEOUT_SECONDS fee)
           \<lparr>pl_message = withdraw_message amt (sender info) rcv is, pl_pool_addr = a,
            pl_port_id = ctrl_port_id ica, pl_tx_type = TxUserWithdraw\<rparr> s1 = Inr (sub, s')"
  moreover obtain i where "sub = reply_on_success (SubmitTx (ctrl_connection_id ica) (p_ica_id p)
      [gen_msg_send a rcv (p_remote_denom p) amt] DEFAULT_TIMEOUT_SECONDS fee) i"
    using m by (rule msg_cb_ok)
  ultimately show ?thesis
    using withdraw_loop_ok [OF l] withdraw_loop_frame [OF l] msg_cb_frame [OF m]
    by (intro exI [of _ p] exI [of _ ica] exI [of _ fee] exI [of _ amt] exI [of _ i])
      (simp add: gen_msg_send_def)
qed

definition demo_record :: "addr \<Rightarrow> u128 \<Rightarrow> u64 \<Rightarrow> unstake_info" where
  "demo_record who n i = \<lparr>u_era = 2, u_pool_addr = ''pool'', u_unstaker = who, u_amount = n,
     u_status = WithdrawDefault, u_index = i\<rparr>"

definition demo_unstaked :: sm_store where
  "demo_unstaked = empty_sm\<lparr>
     POOLS := fmupd ''pool'' ((demo_pool ActiveEnded 1000)\<lparr>p_era := 9\<rparr>) fmempty,
     INFO_OF_ICA_ID := fmupd ''ica'' (demo_ica, demo_ica, ''gov'') fmempty,
     UNSTAKES_OF_INDEX := fmupd (''pool'', 7) (demo_record ''eve'' 900 7)
       (fmupd (''pool'', 8) (demo_record ''eve'' 10 8) fmempty),
     UNSTAKES_INDEX_FOR_USER := fmupd (''eve'', ''pool'') [7, 8] fmempty\<rparr>"

lemmas withdraw_eval = execute_withdraw_def withdraw_one_def demo_unstaked_def demo_record_def
  demo_simps eval_simps

lemma demo_withdraw:
  "\<exists>s' r. execute_withdraw demo_host (demo_info ''eve'' [demo_coin FEE_DENOM 200]) ''pool'' ''remote''
      [8, 7] demo_unstaked = Inr (s', r)"
  by (simp add: withdraw_eval)

theorem withdraw_pays_exactly_witness:
  "\<exists>(s' :: sm_store) (r :: sm_out response). \<exists>p (ica :: ica_info) fee amt i. fmlookup (POOLS demo_unstaked) ''pool'' = Some p
    \<and> messages r = [reply_on_success (SubmitTx (ctrl_connection_id ica) (p_ica_id p)
        [gen_msg_send ''pool'' ''remote'' (p_remote_denom p) amt]
          DEFAULT_TIMEOUT_SECONDS fee) i]
    \<and> unat amt = (\<Sum>i\<leftarrow>[8, 7]. amount_of demo_unstaked ''pool'' i) \<and> amt \<noteq> 0
    \<and> distinct [8, 7 :: u64]
    \<and> (\<forall>i \<in> set [8, 7]. withdrawable demo_unstaked
        (sender (demo_info ''eve'' [demo_coin FEE_DENOM 200])) ''pool'' p i)
    \<and> fmlookup (UNSTAKES_OF_INDEX s') = with_status WithdrawPending ''pool'' (set [8, 7])
        (fmlookup (UNSTAKES_OF_INDEX demo_unstaked))
    \<and> POOLS s' = POOLS demo_unstaked"
proof -
  obtain s' and r :: "sm_out response" where w: "execute_withdraw demo_host
      (demo_info ''eve'' [demo_coin FEE_DENOM 200]) ''pool'' ''remote'' [8, 7] demo_unstaked = Inr (s', r)"
    using demo_withdraw by blast
  show ?thesis
    by (rule exI [of _ s'], rule exI [of _ r]) (rule withdraw_pays_exactly [OF w])
qed

section \<open>The acknowledgement\<close>

text \<open>C19: when neither the sender nor the receiver of a withdrawal contains an underscore, and the remote
  chain refuses the withdrawal or lets it time out, the callback that the reply has filed for its
  packet gives every record the status it had before, and no other record changes: the withdrawal
  leaves no trace in the records. The code checks neither text; with an underscore in the receiver
  the claim fails (\<open>pending_record_withdrawn_again\<close> below).\<close>

theorem withdraw_failure_restores:
  assumes "execute_withdraw h info a rcv is s = Inr (s1, r1)" and "messages r1 = [m]"
    and "reply_ids_ok s" and "parse_transfer_response h d = Some (ch, sq)"
    and "CHR ''_'' \<notin> set (sender info)" and "CHR ''_'' \<notin> set rcv"
  shows "\<exists>s2 s3. reply_sm h (sm_id m) (Inr (Some d)) s1 = Inr (s2, respond [] [])
    \<and> sudo_error \<lparr>rp_sequence = Some sq, rp_source_channel = Some ch\<rparr> s2 = Inr (s3, respond [] [])
    \<and> sudo_timeout \<lparr>rp_sequence = Some sq, rp_source_channel = Some ch\<rparr> s2 = Inr (s3, respond [] [])
    \<and> fmlookup (UNSTAKES_OF_INDEX s3) = fmlookup (UNSTAKES_OF_INDEX s)
    \<and> UNSTAKES_INDEX_FOR_USER s3 = UNSTAKES_INDEX_FOR_USER s"
  using assms(1-4)
proof (rule withdraw_in_flight)
  fix p amt pl s2 s3
  assume w: "\<And>i. i \<in> set is \<Longrightarrow> withdrawable s (sender info) a p i" and ne: "is \<noteq> []"
    and pl: "pl_message pl = withdraw_message amt (sender info) rcv is" "pl_pool_addr pl = a"
      "pl_tx_type pl = TxUserWithdraw"
    and r: "reply_sm h (sm_id m) (Inr (Some d)) s1 = Inr (s2, respond [] [])"
    and t: "take_payload \<lparr>rp_sequence = Some sq, rp_source_channel = Some ch\<rparr> s2 = Inr (pl, s3)"
    and s3: "fmlookup (UNSTAKES_OF_INDEX s3)
      = with_status WithdrawPending a (set is) (fmlookup (UNSTAKES_OF_INDEX s))"
      "UNSTAKES_INDEX_FOR_USER s3 = UNSTAKES_INDEX_FOR_USER s"
  have parts: "drop 3 (split_on CHR ''_'' (pl_message pl)) = map to_string is"
    using withdraw_message_parts [OF assms(5) ne] split_on_no_sep [OF assms(6)] pl(1)
    by (simp add: eval_nat_numeral)
  have pres: "\<forall>i \<in> set is. fmlookup (UNSTAKES_OF_INDEX s3) (a, i) \<noteq> None"
    using withdrawable_present [OF w] by (force simp: s3(1) with_status_def)
  have undo: "with_status WithdrawDefault a (set is) (with_status WithdrawPending a (set is)
      (fmlookup (UNSTAKES_OF_INDEX s))) = fmlookup (UNSTAKES_OF_INDEX s)"
    by (rule with_status_undo) (use withdrawable_present [OF w] in force)
  from reset_all_ok [OF pres] obtain s4
    where "rfold (reset_one a) (map to_string is) s3 = Inr s4"
      and "fmlookup (UNSTAKES_OF_INDEX s4) = fmlookup (UNSTAKES_OF_INDEX s)"
      and "UNSTAKES_INDEX_FOR_USER s4 = UNSTAKES_INDEX_FOR_USER s"
    by (auto simp: s3 undo)
  with r t pl show ?thesis
    by (intro exI [of _ s2] exI [of _ s4])
      (simp add: sudo_error_def sudo_timeout_def sudo_withdraw_failed_callback_def parts [simplified pl(1)])
qed

lemma demo_withdraw_messages:
  "\<exists>s' r m. execute_withdraw demo_host (demo_info ''eve'' [demo_coin FEE_DENOM 200]) ''pool'' ''remote''
      [8, 7] demo_unstaked = Inr (s', r) \<and> messages r = [m]"
  by (simp add: withdraw_eval)

lemma demo_ids: "reply_ids_ok demo_unstaked" "parse_transfer_response demo_host ''ch'' = Some (''ch'', 1)"
  by (simp_all add: reply_ids_ok_def in_range_def demo_unstaked_def empty_sm_def demo_host_def)

theorem withdraw_failure_restores_witness:
  "\<exists>(s1 :: sm_store) (m :: sm_out sub_msg) s2 s3.
      reply_sm demo_host (sm_id m) (Inr (Some ''ch'')) s1 = Inr (s2, respond [] [])
    \<and> sudo_error \<lparr>rp_sequence = Some 1, rp_source_channel = Some ''ch''\<rparr> s2 = Inr (s3, respond [] [])
    \<and> sudo_timeout \<lparr>rp_sequence = Some 1, rp_source_channel = Some ''ch''\<rparr> s2 = Inr (s3, respond [] [])
    \<and> fmlookup (UNSTAKES_OF_INDEX s3) = fmlookup (UNSTAKES_OF_INDEX demo_unstaked)
    \<and> UNSTAKES_INDEX_FOR_USER s3 = UNSTAKES_INDEX_FOR_USER demo_unstaked"
proof -
  obtain s1 r m where w: "execute_withdraw demo_host
      (demo_info ''eve'' [demo_coin FEE_DENOM 200]) ''pool'' ''remote'' [8, 7] demo_unstaked = Inr (s1, r)"
    "messages r = [m]"
    using demo_withdraw_messages by blast
  show ?thesis
    by (rule exI [of _ s1], rule exI [of _ m], rule withdraw_failure_restores [OF w demo_ids])
      (simp_all add: demo_info_def)
qed

text \<open>C20: when the remote chain accepts a withdrawal, the callback removes exactly the records that
  were paid and their indexes from the list of their owner, in its order; it does so provided that
  neither the sender nor a part of the receiver reads as the index of a record.\<close>

theorem withdraw_success_clears:
  assumes "execute_withdraw h info a rcv is s = Inr (s1, r1)" and "messages r1 = [m]"
    and "reply_ids_ok s" and "parse_transfer_response h d = Some (ch, sq)"
    and "CHR ''_'' \<notin> set (sender info)" and "set is \<subseteq> set (unstakes_of s (sender info) a)"
    and "\<forall>i \<in> set (unstakes_of s (sender info) a).
           to_string i \<noteq> sender info \<and> to_string i \<notin> set (split_on CHR ''_'' rcv)"
  shows "\<exists>s2 s3 r3. reply_sm h (sm_id m) (Inr (Some d)) s1 = Inr (s2, respond [] [])
    \<and> sudo_response env \<lparr>rp_sequence = Some sq, rp_source_channel = Some ch\<rparr> s2 = Inr (s3, r3)
    \<and> (\<forall>b i. fmlookup (UNSTAKES_OF_INDEX s3) (b, i)
        = (if b = a \<and> i \<in> set is then None else fmlookup (UNSTAKES_OF_INDEX s) (b, i)))
    \<and> unstakes_of s3 (sender info) a = filter (\<lambda>i. i \<notin> set is) (unstakes_of s (sender info) a)"
  using assms(1-4)
proof (rule withdraw_in_flight)
  fix p amt pl s2 s3
  assume ne: "is \<noteq> []"
    and pl: "pl_message pl = withdraw_message amt (sender info) rcv is" "pl_pool_addr pl = a"
      "pl_tx_type pl = TxUserWithdraw"
    and r: "reply_sm h (sm_id m) (Inr (Some d)) s1 = Inr (s2, respond [] [])"
    and t: "take_payload \<lparr>rp_sequence = Some sq, rp_source_channel = Some ch\<rparr> s2 = Inr (pl, s3)"
    and s3: "fmlookup (UNSTAKES_OF_INDEX s3)
      = with_status WithdrawPending a (set is) (fmlookup (UNSTAKES_OF_INDEX s))"
      "UNSTAKES_INDEX_FOR_USER s3 = UNSTAKES_INDEX_FOR_USER s"
  let ?parts = "to_string amt # sender info # split_on CHR ''_'' rcv @ map to_string is"
  let ?us = "unstakes_of s (sender info) a"
  have parts: "split_on CHR ''_'' (pl_message pl) = ?parts"
    using withdraw_message_parts [OF assms(5) ne] pl(1) by simp
  have len: "\<not> length ?parts \<le> 3"
    using ne by (cases "split_on CHR ''_'' rcv"; cases "is") auto
  have gone: "to_string i \<in> set (tl ?parts) \<longleftrightarrow> i \<in> set is" if "i \<in> set ?us" for i
    using that assms(7) by auto
  obtain us where us: "fmlookup (UNSTAKES_INDEX_FOR_USER s) (sender info, a) = Some us"
    using assms(6) ne
    by (cases "fmlookup (UNSTAKES_INDEX_FOR_USER s) (sender info, a)") (simp_all add: unstakes_of_def)
  then have eq: "?us = us" by (simp add: unstakes_of_def)
  have f: "filter (\<lambda>i. to_string i \<in> set (tl ?parts)) us = filter (\<lambda>i. i \<in> set is) us"
    "filter (\<lambda>i. \<not> to_string i \<in> set (tl ?parts)) us = filter (\<lambda>i. i \<notin> set is) us"
    using gone eq by (auto intro!: filter_cong)
  let ?s4 = "s3\<lparr>UNSTAKES_OF_INDEX := fold (\<lambda>i. fmdrop (a, i)) (filter (\<lambda>i. i \<in> set is) us)
                     (UNSTAKES_OF_INDEX s3),
                  UNSTAKES_INDEX_FOR_USER := fmupd (sender info, a)
                     (filter (\<lambda>i. i \<notin> set is) us) (UNSTAKES_INDEX_FOR_USER s3)\<rparr>"
  obtain r3 where cb: "sudo_withdraw_callback pl s3 = Inr (?s4, r3)"
    using len unfolding sudo_withdraw_callback_def Let_def parts
    by (simp add: s3(2) us pl(2) retain_def f [simplified] del: length_append)
  have recs: "fmlookup (UNSTAKES_OF_INDEX ?s4) (b, i)
      = (if b = a \<and> i \<in> set is then None else fmlookup (UNSTAKES_OF_INDEX s) (b, i))" for b i
    using assms(6) eq by (auto simp: fold_fmdrop s3(1) with_status_def)
  have list: "unstakes_of ?s4 (sender info) a = filter (\<lambda>i. i \<notin> set is) ?us"
    by (simp add: unstakes_of_def us)
  from r t cb recs list pl(3) show ?thesis
    by (intro exI [of _ s2] exI [of _ ?s4] exI [of _ r3]) (simp add: sudo_response_def)
qed

theorem withdraw_success_clears_witness:
  "\<exists>(s1 :: sm_store) (m :: sm_out sub_msg) s2 s3 r3.
      reply_sm demo_host (sm_id m) (Inr (Some ''ch'')) s1 = Inr (s2, respond [] [])
    \<and> sudo_response (demo_env 0 9) \<lparr>rp_sequence = Some 1, rp_source_channel = Some ''ch''\<rparr> s2
        = Inr (s3, r3)
    \<and> (\<forall>b i. fmlookup (UNSTAKES_OF_INDEX s3) (b, i) = (if b = ''pool'' \<and> i \<in> set [8, 7] then None
        else fmlookup (UNSTAKES_OF_INDEX demo_unstaked) (b, i)))
    \<and> unstakes_of s3 (sender (demo_info ''eve'' [demo_coin FEE_DENOM 200])) ''pool''
      = filter (\<lambda>i. i \<notin> set [8, 7])
          (unstakes_of demo_unstaked (sender (demo_info ''eve'' [demo_coin FEE_DENOM 200])) ''pool'')"
proof -
  obtain s1 r m where w: "execute_withdraw demo_host
      (demo_info ''eve'' [demo_coin FEE_DENOM 200]) ''pool'' ''remote'' [8, 7] demo_unstaked = Inr (s1, r)"
    "messages r = [m]"
    using demo_withdraw_messages by blast
  have digit: "to_string i \<noteq> ''eve'' \<and> to_string i \<noteq> ''remote''" for i :: u64
    using to_string_digits [of "CHR ''e''" i] by (auto simp: is_digit_def byte_def)
  show ?thesis
    by (rule exI [of _ s1], rule exI [of _ m], rule withdraw_success_clears [OF w demo_ids])
      (use digit in \<open>simp_all add: demo_info_def demo_unstaked_def unstakes_of_def\<close>)
qed

section \<open>A receiver that is not an address\<close>

text \<open>A withdrawal of a single record is accepted when the record is free and ripe.\<close>

lemma withdraw_single:
  assumes "fmlookup (POOLS s) a = Some p" and "withdrawable s (sender info) a p j"
    and "fmlookup (UNSTAKES_OF_INDEX s) (a, j) = Some u" and "u_amount u \<noteq> 0"
    and "check_ibc_fee h info = Inr fee" and "fmlookup (INFO_OF_ICA_ID s) (p_ica_id p) = Some (ica, w, adm)"
    and "reply_ids_ok s"
  shows "\<exists>s' r. execute_withdraw h info a rcv [j] s = Inr (s', r)
    \<and> map sm_msg (messages r) = [SubmitTx (ctrl_connection_id ica) (p_ica_id p)
        [gen_msg_send a rcv (p_remote_denom p) (u_amount u)] DEFAULT_TIMEOUT_SECONDS fee]"
proof -
  let ?s = "s\<lparr>UNSTAKES_OF_INDEX := fmupd (a, j) (u\<lparr>u_status := WithdrawPending\<rparr>) (UNSTAKES_OF_INDEX s)\<rparr>"
  from assms(2,3) have u: "u_pool_addr u = a" "u_unstaker u = sender info" "u_status u \<noteq> WithdrawPending"
    and ripe: "unat (u_era u) + unat (p_unbonding_period p) \<le> unat (p_era p)"
    by (simp_all add: withdrawable_def)
  from ripe have "unat (u_era u) + unat (p_unbonding_period p) < 2 ^ 64"
    using unsigned_less [of "p_era p", where ?'a = nat] by simp
  then have "uadd (u_era u) (p_unbonding_period p) = (Inr (u_era u + p_unbonding_period p) :: u64 sm_res)"
    and "\<not> p_era p < u_era u + p_unbonding_period p"
    using ripe by (simp_all add: uadd_def word_less_nat_alt unat_word_ariths not_less)
  then have one: "withdraw_one info a p j (s, 0) = Inr (?s, u_amount u)"
    using assms(3) u unsigned_less [of "u_amount u", where ?'a = nat]
    by (simp add: withdraw_one_def uadd_def)
  have ids: "reply_ids_ok ?s" using assms(7) by (simp add: reply_ids_ok_def)
  let ?m = "SubmitTx (ctrl_connection_id ica) (p_ica_id p)
      [gen_msg_send a rcv (p_remote_denom p) (u_amount u)] DEFAULT_TIMEOUT_SECONDS fee"
  obtain sub s' where m: "msg_with_sudo_callback ?m
      \<lparr>pl_message = withdraw_message (u_amount u) (sender info) rcv [j], pl_pool_addr = a,
       pl_port_id = ctrl_port_id ica, pl_tx_type = TxUserWithdraw\<rparr> ?s = Inr (sub, s')"
    using msg_cb_total [OF ids] by blast
  have "execute_withdraw h info a rcv [j] s = Inr (s', respond [sub] [])"
    using assms(1,4,5,6) one m by (simp add: execute_withdraw_def)
  with msg_cb_frame [OF m] show ?thesis by simp
qed

text \<open>C21: the receiver of a withdrawal is any text. Let a record be in a withdrawal that is under way, so
  that a second withdrawal of it is refused. A withdrawal of other records, by anybody, to a receiver
  that ends in an underscore and the index of that record fails on the remote chain, and its failure
  callback makes the record available: no other record differs from before, and the owner can
  withdraw the same amount once more while the first transfer is still under way.\<close>

theorem pending_record_withdrawn_again:
  assumes "execute_withdraw h info a (x @ ''_'' @ to_string j) is s = Inr (s1, r1)"
    and "messages r1 = [m]" and "reply_ids_ok s" and "parse_transfer_response h d = Some (ch, sq)"
    and "CHR ''_'' \<notin> set (sender info)" and "CHR ''_'' \<notin> set x"
    and u: "fmlookup (UNSTAKES_OF_INDEX s) (a, j) = Some u" and "u_status u = WithdrawPending"
    and "u_pool_addr u = a" and "u_unstaker u = sender owner" and "u_amount u \<noteq> 0"
    and "fmlookup (POOLS s) a = Some p"
    and "unat (u_era u) + unat (p_unbonding_period p) \<le> unat (p_era p)"
    and "check_ibc_fee h owner = Inr fee"
  shows "execute_withdraw h owner a rcv [j] s = Inl (Err (UnstakeIndexStatusNotMatch j))
    \<and> (\<exists>s2 s3. reply_sm h (sm_id m) (Inr (Some d)) s1 = Inr (s2, respond [] [])
      \<and> sudo_error \<lparr>rp_sequence = Some sq, rp_source_channel = Some ch\<rparr> s2 = Inr (s3, respond [] [])
      \<and> sudo_timeout \<lparr>rp_sequence = Some sq, rp_source_channel = Some ch\<rparr> s2 = Inr (s3, respond [] [])
      \<and> fmlookup (UNSTAKES_OF_INDEX s3) = with_status WithdrawDefault a {j} (fmlookup (UNSTAKES_OF_INDEX s))
      \<and> (\<exists>s4 r4 conn. execute_withdraw h owner a rcv [j] s3 = Inr (s4, r4)
          \<and> map sm_msg (messages r4) = [SubmitTx conn (p_ica_id p)
              [gen_msg_send a rcv (p_remote_denom p) (u_amount u)] DEFAULT_TIMEOUT_SECONDS fee]))"
  using assms(1-4)
proof (rule withdraw_in_flight)
  fix p' amt pl s2 s3
  assume p': "fmlookup (POOLS s) a = Some p'"
    and w: "\<And>i. i \<in> set is \<Longrightarrow> withdrawable s (sender info) a p' i" and ne: "is \<noteq> []"
    and pl: "pl_message pl = withdraw_message amt (sender info) (x @ ''_'' @ to_string j) is"
      "pl_pool_addr pl = a" "pl_tx_type pl = TxUserWithdraw"
    and r: "reply_sm h (sm_id m) (Inr (Some d)) s1 = Inr (s2, respond [] [])"
    and t: "take_payload \<lparr>rp_sequence = Some sq, rp_source_channel = Some ch\<rparr> s2 = Inr (pl, s3)"
    and s3: "fmlookup (UNSTAKES_OF_INDEX s3)
      = with_status WithdrawPending a (set is) (fmlookup (UNSTAKES_OF_INDEX s))"
      "POOLS s3 = POOLS s" "INFO_OF_ICA_ID s3 = INFO_OF_ICA_ID s" "reply_ids_ok s3"
    and "\<exists>ica. fmlookup (INFO_OF_ICA_ID s) (p_ica_id p') = Some ica"
  then obtain ica w' adm where ica: "fmlookup (INFO_OF_ICA_ID s) (p_ica_id p) = Some (ica, w', adm)"
    using assms(12) by auto
  have refused: "execute_withdraw h owner a rcv [j] s = Inl (Err (UnstakeIndexStatusNotMatch j))"
    using assms(7-12) by (simp add: execute_withdraw_def withdraw_one_def)
  have "split_on CHR ''_'' (x @ ''_'' @ to_string j) = [x, to_string j]"
    using assms(6) by (simp add: split_on_append split_on_no_sep)
  then have parts: "drop 3 (split_on CHR ''_'' (pl_message pl)) = map to_string (j # is)"
    using withdraw_message_parts [OF assms(5) ne] pl(1) by (simp add: eval_nat_numeral)
  have pres: "\<forall>i \<in> set (j # is). fmlookup (UNSTAKES_OF_INDEX s3) (a, i) \<noteq> None"
    using withdrawable_present [OF w] u by (force simp: s3 with_status_def)
  from reset_all_ok [OF pres] obtain s4
    where s4: "rfold (reset_one a) (map to_string (j # is)) s3 = Inr s4"
      "fmlookup (UNSTAKES_OF_INDEX s4)
        = with_status WithdrawDefault a (set (j # is)) (fmlookup (UNSTAKES_OF_INDEX s3))"
      "POOLS s4 = POOLS s" "INFO_OF_ICA_ID s4 = INFO_OF_ICA_ID s" "LATEST_REPLY_ID s4 = LATEST_REPLY_ID s3"
    using s3 by auto
  have "with_status WithdrawDefault a (set is) (with_status WithdrawPending a (set is)
      (fmlookup (UNSTAKES_OF_INDEX s))) = fmlookup (UNSTAKES_OF_INDEX s)"
    by (rule with_status_undo) (use withdrawable_present [OF w] in force)
  then have recs: "fmlookup (UNSTAKES_OF_INDEX s4) = with_status WithdrawDefault a {j} (fmlookup (UNSTAKES_OF_INDEX s))"
    unfolding s4(2) s3(1) by (metis list.simps(15) with_status_swap)
  have "withdrawable s4 (sender owner) a p j"
    using assms(7-10,13) by (simp add: withdrawable_def recs with_status_def)
  moreover have "fmlookup (UNSTAKES_OF_INDEX s4) (a, j) = Some (u\<lparr>u_status := WithdrawDefault\<rparr>)"
    using u by (simp add: recs with_status_def)
  moreover have "reply_ids_ok s4" using s3(4) s4(5) by (simp add: reply_ids_ok_def)
  ultimately have again: "\<exists>s5 r5. execute_withdraw h owner a rcv [j] s4 = Inr (s5, r5)
    \<and> map sm_msg (messages r5) = [SubmitTx (ctrl_connection_id ica) (p_ica_id p)
        [gen_msg_send a rcv (p_remote_denom p) (u_amount u)] DEFAULT_TIMEOUT_SECONDS fee]"
    using withdraw_single [of s4 a p owner j "u\<lparr>u_status := WithdrawDefault\<rparr>" h fee ica w' adm rcv]
      assms(11,12,14) s4(3,4) ica by simp
  have "sudo_withdraw_failed_callback pl s3 = Inr (s4, respond [] [])"
    using s4(1) by (simp add: sudo_withdraw_failed_callback_def parts pl(2) del: list.map)
  then have acks:
    "sudo_error \<lparr>rp_sequence = Some sq, rp_source_channel = Some ch\<rparr> s2 = Inr (s4, respond [] [])"
    "sudo_timeout \<lparr>rp_sequence = Some sq, rp_source_channel = Some ch\<rparr> s2 = Inr (s4, respond [] [])"
    using t pl(3) by (simp_all add: sudo_error_def sudo_timeout_def)
  from again obtain s5 r5 where again: "execute_withdraw h owner a rcv [j] s4 = Inr (s5, r5)"
    "map sm_msg (messages r5) = [SubmitTx (ctrl_connection_id ica) (p_ica_id p)
        [gen_msg_send a rcv (p_remote_denom p) (u_amount u)] DEFAULT_TIMEOUT_SECONDS fee]"
    by (elim exE conjE) (rule that)
  show ?thesis by (intro conjI exI) (rule refused, rule r, rule acks(1), rule acks(2), rule recs, rule again(1), rule again(2))
qed

text \<open>The owner of the record 7 has it in a withdrawal, and withdraws 8 to \<open>x_7\<close>.\<close>

definition demo_pending :: sm_store where
  "demo_pending = demo_unstaked\<lparr>UNSTAKES_OF_INDEX :=
     fmupd (''pool'', 7) ((demo_record ''eve'' 900 7)\<lparr>u_status := WithdrawPending\<rparr>)
       (UNSTAKES_OF_INDEX demo_unstaked)\<rparr>"

lemma demo_inject:
  "\<exists>s' r m. execute_withdraw demo_host (demo_info ''eve'' [demo_coin FEE_DENOM 200]) ''pool''
      (''x'' @ ''_'' @ to_string (7 :: u64)) [8] demo_pending = Inr (s', r) \<and> messages r = [m]"
  by (simp add: demo_pending_def withdraw_eval)

theorem pending_record_withdrawn_again_witness:
  "\<exists>(s1 :: sm_store) (m :: sm_out sub_msg) fee.
    execute_withdraw demo_host (demo_info ''eve'' [demo_coin FEE_DENOM 200]) ''pool'' ''remote'' [7] demo_pending
      = Inl (Err (UnstakeIndexStatusNotMatch 7))
    \<and> (\<exists>s2 s3. reply_sm demo_host (sm_id m) (Inr (Some ''ch'')) s1 = Inr (s2, respond [] [])
      \<and> sudo_error \<lparr>rp_sequence = Some 1, rp_source_channel = Some ''ch''\<rparr> s2 = Inr (s3, respond [] [])
      \<and> sudo_timeout \<lparr>rp_sequence = Some 1, rp_source_channel = Some ''ch''\<rparr> s2 = Inr (s3, respond [] [])
      \<and> fmlookup (UNSTAKES_OF_INDEX s3)
          = with_status WithdrawDefault ''pool'' {7} (fmlookup (UNSTAKES_OF_INDEX demo_pending))
      \<and> (\<exists>s4 r4 conn. execute_withdraw demo_host (demo_info ''eve'' [demo_coin FEE_DENOM 200])
            ''pool'' ''remote'' [7] s3 = Inr (s4, r4)
          \<and> map sm_msg (messages r4) = [SubmitTx conn (p_ica_id (demo_pool ActiveEnded 1000))
              [gen_msg_send ''pool'' ''remote'' (p_remote_denom (demo_pool ActiveEnded 1000)) 900]
              DEFAULT_TIMEOUT_SECONDS fee]))"
proof -
  let ?u = "(demo_record ''eve'' 900 7)\<lparr>u_status := WithdrawPending\<rparr>"
  let ?p = "(demo_pool ActiveEnded 1000)\<lparr>p_era := 9\<rparr>"
  obtain s1 r m where w: "execute_withdraw demo_host (demo_info ''eve'' [demo_coin FEE_DENOM 200])
      ''pool'' (''x'' @ ''_'' @ to_string (7 :: u64)) [8] demo_pending = Inr (s1, r)" "messages r = [m]"
    using demo_inject by blast
  have ids: "reply_ids_ok demo_pending" using demo_ids(1) by (simp add: demo_pending_def reply_ids_ok_def)
  obtain fee where fee: "check_ibc_fee demo_host (demo_info ''eve'' [demo_coin FEE_DENOM 200]) = Inr fee"
    using w(1) by (auto simp: execute_withdraw_def rbind_eq_Inr if_Inl_eq_Inr)
  have u: "fmlookup (UNSTAKES_OF_INDEX demo_pending) (''pool'', 7) = Some ?u"
    and p: "fmlookup (POOLS demo_pending) ''pool'' = Some ?p"
    by (simp_all add: demo_pending_def demo_unstaked_def)
  have facts: "u_status ?u = WithdrawPending" "u_pool_addr ?u = ''pool''" "u_amount ?u = 900"
    "u_unstaker ?u = sender (demo_info ''eve'' [demo_coin FEE_DENOM 200])"
    "unat (u_era ?u) + unat (p_unbonding_period ?p) \<le> unat (p_era ?p)"
    "CHR ''_'' \<notin> set (sender (demo_info ''eve'' [demo_coin FEE_DENOM 200]))" "CHR ''_'' \<notin> set ''x''"
    by (simp_all add: demo_record_def demo_info_def demo_pool_def new_pool_info_def)
  have "u_amount ?u \<noteq> 0" using facts(3) by simp
  from pending_record_withdrawn_again [OF w ids demo_ids(2) facts(6,7) u facts(1,2,4) this p facts(5) fee,
      of "''remote''"]
  show ?thesis
    by (intro exI [of _ s1] exI [of _ m] exI [of _ fee]) (simp add: facts(3))
qed

end
