(* ===== verification/Stake_Phases.thy ===== *)
theory Stake_Phases
  imports Stake_Withdraw
begin

text \<open>
  The status of a pool as a state machine: the edges that messages take, and the phases that end
  with an acknowledgement, as an interface that four pairs of callbacks implement.
\<close>

section \<open>The edges of the status\<close>

definition era_edges :: "(era_status \<times> era_status) set" where
  "era_edges = {(RegisterEnded, InitStarted), (ActiveEnded, EraUpdateStarted),
     (ActiveEnded, EraUpdateEnded), (EraUpdateEnded, BondStarted), (BondEnded, WithdrawStarted),
     (BondEnded, WithdrawEnded), (WithdrawEnded, RebondEnded), (RebondEnded, ActiveEnded)}"

definition edge_ok :: "pool_info \<Rightarrow> pool_info \<Rightarrow> bool" where
  "edge_ok p p' \<longleftrightarrow> p_status p' = p_status p \<or> (p_status p, p_status p') \<in> era_edges"

definition on_edges :: "sm_store \<Rightarrow> sm_store \<Rightarrow> bool" where
  "on_edges s s' \<longleftrightarrow> (\<forall>a p. fmlookup (POOLS s) a = Some p \<longrightarrow>
     (\<exists>p'. fmlookup (POOLS s') a = Some p' \<and> edge_ok p p'))"

lemma edge_ok_refl [simp]: "edge_ok p p"
  by (simp add: edge_ok_def)

lemma on_edges_same: "POOLS s' = POOLS s \<Longrightarrow> on_edges s s'"
  by (simp add: on_edges_def)

lemma on_edges_save:
  "fmlookup (POOLS s) a = Some p \<Longrightarrow> POOLS s' = POOLS s \<Longrightarrow> edge_ok p p' \<Longrightarrow> on_edges s (save_pool a p' s')"
  by (simp add: on_edges_def)

lemma on_edges_upd:
  "fmlookup (POOLS s) a = Some p \<Longrightarrow> POOLS s' = fmupd a p' (POOLS s) \<Longrightarrow> edge_ok p p' \<Longrightarrow> on_edges s s'"
  by (simp add: on_edges_def)

lemmas edge_simps = res_simps Let_def edge_ok_def era_edges_def

lemma execute_user_edges:
  "execute_stake who a info s = Inr (s', r) \<Longrightarrow> on_edges s s'"
  "execute_withdraw h info a rcv is s = Inr (s', r) \<Longrightarrow> on_edges s s'"
  "execute_stake_lsm h env info who a s = Inr (s', r) \<Longrightarrow> on_edges s s'"
  by (auto simp: execute_stake_def execute_withdraw_def execute_stake_lsm_def edge_simps
      dest!: msg_cb_frame withdraw_loop_frame intro!: on_edges_save intro: on_edges_same)

lemma execute_unstake_edges:
  assumes "execute_unstake info n a s = Inr (s', r)"
  shows "on_edges s s'"
  using assms by (rule execute_unstake_steps) (rule on_edges_upd, assumption, simp, simp add: edge_ok_def)

lemma execute_redeem_edges:
  "execute_redeem_token_for_share h info a cs s = Inr (s', r) \<Longrightarrow> on_edges s s'"
  by (auto simp: execute_redeem_token_for_share_def edge_simps dest!: msg_cb_frame
      intro!: on_edges_save)

lemma execute_era_update_edges:
  "execute_era_update h env info a s = Inr (s', r) \<Longrightarrow> on_edges s s'"
  by (auto simp: execute_era_update_def edge_simps dest!: msg_cb_frame intro!: on_edges_save
      split: if_splits)

lemma execute_era_bond_edges:
  "execute_era_bond h ho env info a vs s = Inr (s', r) \<Longrightarrow> on_edges s s'"
  by (auto simp: execute_era_bond_def edge_simps dest!: msg_cb_frame bond_unbonds_frame
      intro!: on_edges_save split: if_splits)

lemma execute_era_collect_withdraw_edges:
  "execute_era_collect_withdraw h info a s = Inr (s', r) \<Longrightarrow> on_edges s s'"
  by (auto simp: execute_era_collect_withdraw_def edge_simps dest!: msg_cb_frame
      intro!: on_edges_save split: if_splits)

lemma execute_era_rebond_edges:
  "execute_era_rebond h info a vs s = Inr (s', r) \<Longrightarrow> on_edges s s'"
  by (auto simp: execute_era_rebond_def edge_simps dest!: msg_cb_frame
      intro!: on_edges_save intro: on_edges_same split: if_splits)

lemma execute_era_active_edges:
  assumes "execute_era_active h a s = Inr (s', r)"
  shows "on_edges s s'"
  using assms
proof (rule execute_era_active_steps)
  fix p p' p'' and k :: stack and d pf sf
  assume p: "fmlookup (POOLS s) a = Some p" "p_status p = RebondEnded"
    and e: "era_active_pool p k d = Inr (p', pf, sf)"
    and "\<exists>t. p'' = p'\<lparr>p_total_platform_fee := t\<rparr>" and P: "POOLS s' = fmupd a p'' (POOLS s)"
  then obtain t where t: "p'' = p'\<lparr>p_total_platform_fee := t\<rparr>" by (elim exE)
  from e have "p_status p' = ActiveEnded" by (rule era_active_pool_steps) simp
  with p(2) t have "edge_ok p p''" by (simp add: edge_ok_def era_edges_def)
  then show ?thesis by (rule on_edges_upd [OF p(1) P])
qed

lemma execute_validator_edges:
  "execute_rm_pool_validator h info a v s = Inr (s', r) \<Longrightarrow> on_edges s s'"
  "execute_pool_update_validator h info a old new s = Inr (s', r) \<Longrightarrow> on_edges s s'"
  "execute_add_pool_validators h info a v s = Inr (s', r) \<Longrightarrow> on_edges s s'"
  "execute_update_validators_icq h info a s = Inr (s', r) \<Longrightarrow> on_edges s s'"
  "execute_pool_delegate h info a n s = Inr (s', r) \<Longrightarrow> on_edges s s'"
  by (auto simp: execute_rm_pool_validator_def execute_pool_update_validator_def
      execute_add_pool_validators_def execute_update_validators_icq_def execute_pool_delegate_def
      edge_simps dest!: msg_cb_frame intro!: on_edges_save intro: on_edges_same
      split: if_splits option.splits)

lemma execute_admin_edges:
  "execute_register_pool h env info conn i s = Inr (s', r) \<Longrightarrow> on_edges s s'"
  "execute_config_stack info k s = Inr (s', r) \<Longrightarrow> on_edges s s'"
  "execute_open_channel info a ch s = Inr (s', r) \<Longrightarrow> on_edges s s'"
  "update_icq_update_period h info a n s = Inr (s', r) \<Longrightarrow> on_edges s s'"
  by (auto simp: execute_register_pool_def execute_config_stack_def execute_open_channel_def
      update_icq_update_period_def edge_simps intro!: on_edges_same split: if_splits)

lemma config_era_status: "config_era env e p = Inr p' \<Longrightarrow> p_status p' = p_status p"
  by (auto simp: config_era_def res_simps split: option.splits)

lemma execute_config_pool_edges:
  "execute_config_pool info env m s = Inr (s', r) \<Longrightarrow> on_edges s s'"
  unfolding execute_config_pool_def Let_def rbind_eq_Inr if_Inl_eq_Inr load_pool_eq_Inr sum.inject
    prod.inject
  by (elim exE conjE, hypsubst, rule on_edges_save, assumption, simp, drule config_era_status)
    (simp add: edge_ok_def)

lemma prepared_edges:
  assumes "prepare_pool h info p ica w s = Inr x" and "fmlookup (POOLS s) (ica_addr ica) = Some p"
    and "(case x of Inl res \<Rightarrow> Inr res
          | Inr _ \<Rightarrow> rbind (mk p) (\<lambda>p. rbind code (\<lambda>c. deal_pool h env info p ica w c n sy s)))
         = Inr (s', r)"
  shows "on_edges s s'"
proof (cases x)
  case (Inl res)
  with assms(1,3) show ?thesis by (auto dest: prepare_pool_frame intro: on_edges_same)
next
  case (Inr u)
  with assms(1) have st: "p_status p = RegisterEnded"
    by (auto simp: prepare_pool_def res_simps split: if_splits)
  from Inr assms(3) obtain p' c where d: "deal_pool h env info p' ica w c n sy s = Inr (s', r)"
    by (auto simp: rbind_eq_Inr)
  from d obtain t where P: "POOLS s' = fmupd (ica_addr ica)
      (p'\<lparr>p_lsd_token := t, p_status := InitStarted\<rparr>) (POOLS s)" by (rule deal_pool_frame)
  show ?thesis
    by (rule on_edges_upd [OF assms(2) P]) (simp add: st edge_ok_def era_edges_def)
qed

lemma execute_init_edges:
  "execute_init_pool h env info m s = Inr (s', r) \<Longrightarrow> on_edges s s'"
  "execute_migrate_pool h env info m' s = Inr (s', r) \<Longrightarrow> on_edges s s'"
  unfolding execute_init_pool_def execute_migrate_pool_def rbind_eq_Inr if_Inl_eq_Inr
    split_paired_Ex prod.case load_pool_eq_Inr
  by (elim exE conjE, erule (2) prepared_edges)+

lemmas execute_edges = execute_user_edges execute_unstake_edges execute_redeem_edges
  execute_era_update_edges execute_era_bond_edges execute_era_collect_withdraw_edges
  execute_era_rebond_edges execute_era_active_edges execute_validator_edges execute_admin_edges
  execute_config_pool_edges execute_init_edges

lemma execute_sm_edges: "execute_sm h ho env info m s = Inr (s', r) \<Longrightarrow> on_edges s s'"
  by (cases m) (simp_all add: execute_edges)

section \<open>Phases that wait for an acknowledgement\<close>

text \<open>
  What the callbacks of a phase promise: each saves the pool of its payload and sends nothing; the
  success moves the pool to the end of the phase, with the height of the step and what the phase
  settles in its accounts, the failure moves it back before the phase and undoes what the step
  did. Beside the pool only the unbonding times of its validators may change, and only on success.
  Only a failure at era 0 is refused.
\<close>

definition at_height :: "u64 \<Rightarrow> era_status \<Rightarrow> pool_info \<Rightarrow> pool_info" where
  "at_height n st p = p\<lparr>p_status := st,
     p_era_snapshot := (p_era_snapshot p)\<lparr>es_last_step_height := n\<rparr>\<rparr>"

definition other_times :: "string \<Rightarrow> (string \<times> string, u64 list) fmap \<Rightarrow> (string \<times> string, u64 list) fmap \<Rightarrow> bool"
where
  "other_times a T T' \<longleftrightarrow> (\<forall>b v. b \<noteq> a \<longrightarrow> fmlookup T' (b, v) = fmlookup T (b, v))"

locale ack_phase =
  fixes ok :: "env \<Rightarrow> sudo_payload \<Rightarrow> sm_store \<Rightarrow> sm_result"
    and failed :: "sudo_payload \<Rightarrow> sm_store \<Rightarrow> sm_result"
    and before :: era_status
    and ended :: era_status
    and settle :: "pool_info \<Rightarrow> pool_info"
    and undo :: "pool_info \<Rightarrow> pool_info"
    and times :: bool
  assumes ok_pool: "ok env pl s = Inr (s', r) \<Longrightarrow>
      \<exists>p T. fmlookup (POOLS s) (pl_pool_addr pl) = Some p
        \<and> s' = s\<lparr>POOLS := fmupd (pl_pool_addr pl) (settle (at_height (block_height env) ended p)) (POOLS s),
                 VALIDATORS_UNBONDS_TIME := T\<rparr>
        \<and> other_times (pl_pool_addr pl) (VALIDATORS_UNBONDS_TIME s) T
        \<and> (\<not> times \<longrightarrow> T = VALIDATORS_UNBONDS_TIME s) \<and> messages r = []"
    and failed_pool: "failed pl s = Inr (s', r) \<Longrightarrow>
      \<exists>p. fmlookup (POOLS s) (pl_pool_addr pl) = Some p
        \<and> s' = s\<lparr>POOLS := fmupd (pl_pool_addr pl) (undo (p\<lparr>p_status := before\<rparr>)) (POOLS s)\<rparr>
        \<and> messages r = []"
    and failed_total: "fmlookup (POOLS s) (pl_pool_addr pl) = Some p \<Longrightarrow> p_era p \<noteq> 0 \<Longrightarrow>
      \<exists>s' r. failed pl s = Inr (s', r)"
    and keeps_status: "p_status (settle p) = p_status p" "p_status (undo p) = p_status p"
begin

lemma ok_settles:
  assumes "ok env pl s = Inr (s', r)"
  shows "\<exists>p'. fmlookup (POOLS s') (pl_pool_addr pl) = Some p' \<and> p_status p' = ended"
    and "b \<noteq> pl_pool_addr pl \<Longrightarrow> fmlookup (POOLS s') b = fmlookup (POOLS s) b"
  using ok_pool [OF assms] by (auto simp: keeps_status at_height_def)

lemma failed_settles:
  assumes "failed pl s = Inr (s', r)"
  shows "\<exists>p'. fmlookup (POOLS s') (pl_pool_addr pl) = Some p' \<and> p_status p' = before"
    and "b \<noteq> pl_pool_addr pl \<Longrightarrow> fmlookup (POOLS s') b = fmlookup (POOLS s) b"
  using failed_pool [OF assms] by (auto simp: keeps_status)

lemma failure_allows_retry:
  assumes "fmlookup (POOLS s) (pl_pool_addr pl) = Some p" and "p_era p \<noteq> 0"
  obtains s' r p' where "failed pl s = Inr (s', r)"
    and "fmlookup (POOLS s') (pl_pool_addr pl) = Some p'" and "p_status p' = before"
  using failed_total [OF assms] failed_settles(1) by blast

end

text \<open>
  What the bonding step settles, and what the failure of the first step undoes; the other phases
  settle and undo nothing.
\<close>

definition bonded :: "pool_info \<Rightarrow> pool_info" where
  "bonded p = p\<lparr>p_bond := p_bond p - es_bond (p_era_snapshot p),
     p_unbond := p_unbond p - es_unbond (p_era_snapshot p)\<rparr>"

definition back_one_era :: "pool_info \<Rightarrow> pool_info" where
  "back_one_era p = p\<lparr>p_era := p_era p - 1, p_era_snapshot := zero_snapshot\<rparr>"

lemma era_before_status:
  "p\<lparr>p_era := e, p_status := st, p_era_snapshot := z\<rparr> = p\<lparr>p_status := st, p_era := e, p_era_snapshot := z\<rparr>"
  for p :: pool_info
  by (cases p) simp

lemma push_timestamps_times:
  "\<exists>T. fold (push_timestamp a now) vs s = s\<lparr>VALIDATORS_UNBONDS_TIME := T\<rparr>
     \<and> other_times a (VALIDATORS_UNBONDS_TIME s) T"
proof (induction vs arbitrary: s)
  case Nil
  show ?case by (rule exI [of _ "VALIDATORS_UNBONDS_TIME s"]) (simp add: other_times_def)
next
  case (Cons v vs)
  let ?s = "push_timestamp a now v s"
  have one: "VALIDATORS_UNBONDS_TIME_update (\<lambda>_. T) ?s = s\<lparr>VALIDATORS_UNBONDS_TIME := T\<rparr>" for T
    by (simp add: push_timestamp_def Let_def)
  have "other_times a (VALIDATORS_UNBONDS_TIME s) (VALIDATORS_UNBONDS_TIME ?s)"
    by (simp add: push_timestamp_def Let_def other_times_def)
  moreover from Cons.IH [of ?s] obtain T where "fold (push_timestamp a now) vs ?s = ?s\<lparr>VALIDATORS_UNBONDS_TIME := T\<rparr>"
    and "other_times a (VALIDATORS_UNBONDS_TIME ?s) T" by blast
  ultimately show ?case by (intro exI [of _ T]) (simp add: one other_times_def)
qed

lemma usub_Inr: "usub x y = (Inr z :: 'a::len word sm_res) \<Longrightarrow> z = x - y"
  by (auto simp: usub_def split: if_splits)

lemma era_bond_ok:
  assumes "sudo_era_bond_callback env pl s = Inr (s', r)"
  shows "\<exists>p T. fmlookup (POOLS s) (pl_pool_addr pl) = Some p
    \<and> s' = s\<lparr>POOLS := fmupd (pl_pool_addr pl) (bonded (at_height (block_height env) BondEnded p)) (POOLS s),
             VALIDATORS_UNBONDS_TIME := T\<rparr>
    \<and> other_times (pl_pool_addr pl) (VALIDATORS_UNBONDS_TIME s) T \<and> messages r = []"
proof -
  let ?s = "if pl_message pl \<noteq> '''' then fold (push_timestamp (pl_pool_addr pl) (seconds env))
      (split_on CHR ''_'' (pl_message pl)) s else s"
  obtain T where T: "?s = s\<lparr>VALIDATORS_UNBONDS_TIME := T\<rparr>"
    "other_times (pl_pool_addr pl) (VALIDATORS_UNBONDS_TIME s) T"
  proof (cases "pl_message pl = ''''")
    case True
    then show ?thesis by (intro that [of "VALIDATORS_UNBONDS_TIME s"]) (simp_all add: other_times_def)
  next
    case False
    obtain T where "fold (push_timestamp (pl_pool_addr pl) (seconds env))
        (split_on CHR ''_'' (pl_message pl)) s = s\<lparr>VALIDATORS_UNBONDS_TIME := T\<rparr>"
      "other_times (pl_pool_addr pl) (VALIDATORS_UNBONDS_TIME s) T"
      using push_timestamps_times by blast
    then show ?thesis by (intro that [of T]) (simp_all add: False)
  qed
  with assms obtain p bond unbond where p: "fmlookup (POOLS s) (pl_pool_addr pl) = Some p"
    and "usub (p_bond p) (es_bond (p_era_snapshot p)) = (Inr bond :: u128 sm_res)"
    and "usub (p_unbond p) (es_unbond (p_era_snapshot p)) = (Inr unbond :: u128 sm_res)"
    and s': "s' = save_pool (pl_pool_addr pl) (p\<lparr>p_status := BondEnded,
       p_era_snapshot := (p_era_snapshot p)\<lparr>es_last_step_height := block_height env\<rparr>,
       p_bond := bond, p_unbond := unbond\<rparr>) (s\<lparr>VALIDATORS_UNBONDS_TIME := T\<rparr>)"
    and r: "messages r = []"
    unfolding sudo_era_bond_callback_def Let_def T(1)
    by (auto simp: res_simps)
  then have "bond = p_bond p - es_bond (p_era_snapshot p)" "unbond = p_unbond p - es_unbond (p_era_snapshot p)"
    by (auto dest: usub_Inr)
  with p s' r T(2) show ?thesis
    by (intro exI [of _ p] exI [of _ T]) (simp add: bonded_def at_height_def save_pool_def)
qed

lemmas ack_simps = res_simps Let_def at_height_def other_times_def save_pool_def

interpretation era_update: ack_phase sudo_era_update_callback sudo_era_update_failed_callback
  ActiveEnded EraUpdateEnded id back_one_era False
  by unfold_locales (auto simp: sudo_era_update_callback_def sudo_era_update_failed_callback_def
      ack_simps back_one_era_def era_before_status usub_def word_le_nat_alt unat_gt_0 Suc_le_eq)

interpretation era_bond: ack_phase sudo_era_bond_callback sudo_era_bond_failed_callback
  EraUpdateEnded BondEnded bonded id True
proof unfold_locales
  show "\<exists>p T. fmlookup (POOLS s) (pl_pool_addr pl) = Some p
      \<and> s' = s\<lparr>POOLS := fmupd (pl_pool_addr pl) (bonded (at_height (block_height env) BondEnded p)) (POOLS s),
               VALIDATORS_UNBONDS_TIME := T\<rparr>
      \<and> other_times (pl_pool_addr pl) (VALIDATORS_UNBONDS_TIME s) T
      \<and> (\<not> True \<longrightarrow> T = VALIDATORS_UNBONDS_TIME s) \<and> messages r = []"
    if "sudo_era_bond_callback env pl s = Inr (s', r)" for env pl s s' r
    using era_bond_ok [OF that] by simp
qed (auto simp: sudo_era_bond_failed_callback_def ack_simps bonded_def)

interpretation era_collect: ack_phase sudo_era_collect_withdraw_callback
  sudo_era_collect_withdraw_failed_callback BondEnded WithdrawEnded id id False
  by unfold_locales (auto simp: sudo_era_collect_withdraw_callback_def
      sudo_era_collect_withdraw_failed_callback_def ack_simps)

interpretation era_rebond: ack_phase sudo_era_rebond_callback sudo_era_rebond_failed_callback
  WithdrawEnded RebondEnded id id False
  by unfold_locales (auto simp: sudo_era_rebond_callback_def sudo_era_rebond_failed_callback_def
      ack_simps)

text \<open>The phase a transaction belongs to: the status before it, during it and after it.\<close>

fun phase_of :: "tx_type \<Rightarrow> (era_status \<times> era_status \<times> era_status) option" where
  "phase_of TxEraUpdate = Some (ActiveEnded, EraUpdateStarted, EraUpdateEnded)"
| "phase_of TxEraBond = Some (EraUpdateEnded, BondStarted, BondEnded)"
| "phase_of TxEraCollectWithdraw = Some (BondEnded, WithdrawStarted, WithdrawEnded)"
| "phase_of TxEraRebond = Some (WithdrawEnded, RebondStarted, RebondEnded)"
| "phase_of _ = None"

fun settle_of :: "tx_type \<Rightarrow> pool_info \<Rightarrow> pool_info" where
  "settle_of TxEraBond p = bonded p"
| "settle_of _ p = p"

fun undo_of :: "tx_type \<Rightarrow> pool_info \<Rightarrow> pool_info" where
  "undo_of TxEraUpdate p = back_one_era p"
| "undo_of _ p = p"

lemma effects_of:
  "settle_of TxEraBond = bonded" "t \<noteq> TxEraBond \<Longrightarrow> settle_of t = id"
  "undo_of TxEraUpdate = back_one_era" "t \<noteq> TxEraUpdate \<Longrightarrow> undo_of t = id"
  by (cases t; simp add: fun_eq_iff)+

lemma phase_callback:
  assumes "phase_of t = Some (b, st, e)"
  obtains ok failed where "ack_phase ok failed b e (settle_of t) (undo_of t) (t = TxEraBond)"
    and "\<And>env pl s. sudo_callback env t pl s = ok env pl s"
    and "\<And>pl s. sudo_failed_callback t pl s = failed pl s"
  using assms
  by (cases t) (auto simp: effects_of intro: that era_update.ack_phase_axioms era_bond.ack_phase_axioms
      era_collect.ack_phase_axioms era_rebond.ack_phase_axioms)

text \<open>The message that does one step of the era of a pool.\<close>

fun era_step :: "string \<Rightarrow> sm_execute_msg \<Rightarrow> bool" where
  "era_step a (EraUpdate b) = (b = a)"
| "era_step a (EraBond b _) = (b = a)"
| "era_step a (EraCollectWithdraw b) = (b = a)"
| "era_step a (EraRebond b _) = (b = a)"
| "era_step a (EraActive b) = (b = a)"
| "era_step a _ = False"

lemma started_refuses:
  assumes "fmlookup (POOLS s) a = Some p"
    and "p_status p \<in> {EraUpdateStarted, BondStarted, WithdrawStarted}" and "era_step a m"
  shows "execute_sm h ho env info m s \<in> {Inl (Err StatusNotAllow), Inl (Err PoolIsPaused)}"
  using assms
  by (cases m) (auto simp: execute_era_update_def execute_era_bond_def
      execute_era_collect_withdraw_def execute_era_rebond_def execute_era_active_def)

lemma execute_era_rebond_steps:
  assumes "execute_era_rebond h info a vs s = Inr (s', r)" and "messages r \<noteq> []"
  obtains p ica w adm msgs fee sub where "fmlookup (POOLS s) a = Some p"
    and "p_status p = WithdrawEnded" and "es_restake_amount (p_era_snapshot p) \<noteq> 0"
    and "fmlookup (INFO_OF_ICA_ID s) (p_ica_id p) = Some (ica, w, adm)"
    and "rebond_delegates a (p\<lparr>p_status := RebondStarted\<rparr>) vs = Inr msgs"
    and "check_ibc_fee h info = Inr fee"
    and "msg_with_sudo_callback
           (SubmitTx (ctrl_connection_id ica) (p_ica_id p) msgs DEFAULT_TIMEOUT_SECONDS fee)
           \<lparr>pl_message = '''', pl_pool_addr = a, pl_port_id = ctrl_port_id ica,
            pl_tx_type = TxEraRebond\<rparr> s = Inr (sub, s')" and "messages r = [sub]"
proof -
  from assms(1) obtain p ica w adm where p: "fmlookup (POOLS s) a = Some p" "p_status p = WithdrawEnded"
    "fmlookup (INFO_OF_ICA_ID s) (p_ica_id p) = Some (ica, w, adm)"
    by (auto simp: execute_era_rebond_def rbind_eq_Inr if_Inl_eq_Inr load_pool_eq_Inr
        load_ica_eq_Inr Let_def simp del: if_split)
  moreover have "es_restake_amount (p_era_snapshot p) \<noteq> 0"
    using assms p by (auto simp: execute_era_rebond_def)
  ultimately show ?thesis
    using assms that by (auto simp: execute_era_rebond_def rbind_eq_Inr)
qed

lemma icq_msgs_no_reply:
  "get_update_pool_icq_msgs h s a i per = Inr ms \<Longrightarrow> sub \<in> set ms \<Longrightarrow> sm_reply sub = ReplyNever"
  by (auto simp: get_update_pool_icq_msgs_def res_simps)

lemma active_no_reply:
  "execute_era_active h a s = Inr (s', r) \<Longrightarrow> sub \<in> set (messages r) \<Longrightarrow> sm_reply sub = ReplyNever"
  unfolding execute_era_active_def Let_def rbind_eq_Inr if_Inl_eq_Inr split_paired_Ex prod.case
    sum.inject prod.inject
  by (elim exE conjE) (auto simp: rbind_eq_Inr dest: icq_msgs_no_reply split: if_splits)

lemma tx_step_started:
  assumes "execute_sm h ho env info m s = Inr (s', r)" and "era_step a m"
    and "\<forall>vs. m \<noteq> EraRebond a vs" and "\<exists>sub \<in> set (messages r). sm_reply sub = ReplySuccess"
  shows "\<exists>p'. fmlookup (POOLS s') a = Some p'
      \<and> p_status p' \<in> {EraUpdateStarted, BondStarted, WithdrawStarted}"
  using assms
  by (cases m) (auto simp: execute_era_update_def execute_era_bond_def
      execute_era_collect_withdraw_def res_simps Let_def dest!: active_no_reply icq_msgs_no_reply
      split: if_splits)

end
