(* ===== verification/Stake_Waiting.thy ===== *)
theory Stake_Waiting
  imports Stake_Phases
begin

text \<open>
  What can happen to the status of a pool while a transaction of its era is under way: nothing, until
  an acknowledgement for this pool arrives.
\<close>

section \<open>The status of one pool\<close>

definition keeps_status_of :: "string \<Rightarrow> sm_store \<Rightarrow> sm_store \<Rightarrow> bool" where
  "keeps_status_of a s s' \<longleftrightarrow> (\<forall>p. fmlookup (POOLS s) a = Some p \<longrightarrow>
     (\<exists>p'. fmlookup (POOLS s') a = Some p' \<and> p_status p' = p_status p))"

lemma keeps_status_same: "fmlookup (POOLS s') a = fmlookup (POOLS s) a \<Longrightarrow> keeps_status_of a s s'"
  by (simp add: keeps_status_of_def)

lemma keeps_status_save:
  "fmlookup (POOLS s) b = Some p \<Longrightarrow> POOLS s' = POOLS s \<Longrightarrow> p_status p' = p_status p
   \<Longrightarrow> keeps_status_of a s (save_pool b p' s')"
  by (auto simp: keeps_status_of_def)

lemma keeps_status_cong:
  "POOLS s1 = POOLS s \<Longrightarrow> keeps_status_of a s1 s' = keeps_status_of a s s'"
  by (simp add: keeps_status_of_def)

text \<open>The acknowledgements of an era step, and of the initialisation, set the status.\<close>

definition sets_status :: "tx_type \<Rightarrow> bool" where
  "sets_status t \<longleftrightarrow> phase_of t \<noteq> None \<or> t = TxSetWithdrawAddr"

lemma user_callback_status:
  "sudo_withdraw_callback pl s = Inr (s', r) \<Longrightarrow> keeps_status_of a s s'"
  "sudo_withdraw_failed_callback pl s = Inr (s', r) \<Longrightarrow> keeps_status_of a s s'"
  "sudo_stake_lsm_failed_callback pl s = Inr (s', r) \<Longrightarrow> keeps_status_of a s s'"
  by (auto simp: sudo_withdraw_callback_def sudo_withdraw_failed_callback_def
      sudo_stake_lsm_failed_callback_def quiet_simps dest: reset_one_frame intro!: keeps_status_same
      split: if_splits option.splits)

lemma lsm_callback_status:
  assumes "sudo_stake_lsm_callback pl s = Inr (s', r)"
  shows "keeps_status_of a s s'"
proof -
  from assms obtain p A T cs where "fmlookup (POOLS s) (pl_pool_addr pl) = Some p"
    and "s' = save_pool (pl_pool_addr pl) (p\<lparr>p_active := A, p_total_lsd_token_amount := T,
      p_share_tokens := cs\<rparr>) s"
    unfolding sudo_stake_lsm_callback_def Let_def rbind_eq_Inr load_pool_eq_Inr case_five_eq_Inr
      sum.inject prod.inject
    by (elim exE conjE) (rule that, assumption, rule sym, assumption)
  then show ?thesis by (auto intro: keeps_status_save)
qed

lemma pool_callback_status:
  "sudo_update_validator_callback pl s = Inr (s', r) \<Longrightarrow> keeps_status_of a s s'"
  "sudo_update_validator_failed_callback pl s = Inr (s', r) \<Longrightarrow> keeps_status_of a s s'"
  "sudo_rm_validator_callback pl s = Inr (s', r) \<Longrightarrow> keeps_status_of a s s'"
  "sudo_rm_validator_failed_callback pl s = Inr (s', r) \<Longrightarrow> keeps_status_of a s s'"
  "sudo_redeem_token_for_share_callback pl s = Inr (s', r) \<Longrightarrow> keeps_status_of a s s'"
  "sudo_redeem_token_for_share_failed_callback pl s = Inr (s', r) \<Longrightarrow> keeps_status_of a s s'"
  by (auto simp: sudo_update_validator_callback_def sudo_update_validator_failed_callback_def
      sudo_rm_validator_callback_def sudo_rm_validator_failed_callback_def
      sudo_redeem_token_for_share_callback_def sudo_redeem_token_for_share_failed_callback_def
      quiet_simps intro!: keeps_status_save)

lemma other_callback_status:
  "sudo_callback env t pl s = Inr (s', r) \<Longrightarrow> \<not> sets_status t \<Longrightarrow> keeps_status_of a s s'"
  "sudo_failed_callback t pl s = Inr (s', r) \<Longrightarrow> \<not> sets_status t \<Longrightarrow> keeps_status_of a s s'"
  by (cases t; simp add: sets_status_def user_callback_status lsm_callback_status pool_callback_status)+

lemma other_pool_status:
  assumes "pl_pool_addr pl \<noteq> a"
  shows "sudo_callback env t pl s = Inr (s', r) \<Longrightarrow> sets_status t \<Longrightarrow> keeps_status_of a s s'"
    and "sudo_failed_callback t pl s = Inr (s', r) \<Longrightarrow> sets_status t \<Longrightarrow> keeps_status_of a s s'"
proof -
  have "keeps_status_of a s s'"
    if "sudo_callback env t pl s = Inr (s', r) \<or> sudo_failed_callback t pl s = Inr (s', r)"
      and "sets_status t"
  proof (cases "phase_of t")
    case None
    with that assms show ?thesis
      by (auto simp: sets_status_def sudo_set_withdraw_addr_callback_def
          sudo_set_withdraw_addr_failed_callback_def res_simps intro!: keeps_status_same)
  next
    case (Some x)
    then obtain b st e where "phase_of t = Some (b, st, e)" by (cases x) auto
    then obtain ok failed where ph: "ack_phase ok failed b e (settle_of t) (undo_of t) (t = TxEraBond)"
      and "\<And>env pl s. sudo_callback env t pl s = ok env pl s"
      and "\<And>pl s. sudo_failed_callback t pl s = failed pl s" by (rule phase_callback) blast
    with that(1) assms ack_phase.ok_settles(2) [OF ph] ack_phase.failed_settles(2) [OF ph] show ?thesis
      by (intro keeps_status_same) metis
  qed
  then show "sudo_callback env t pl s = Inr (s', r) \<Longrightarrow> sets_status t \<Longrightarrow> keeps_status_of a s s'"
    and "sudo_failed_callback t pl s = Inr (s', r) \<Longrightarrow> sets_status t \<Longrightarrow> keeps_status_of a s s'" by auto
qed

section \<open>Until an acknowledgement arrives\<close>

text \<open>The message brings the result of a transaction that sets the status of the pool \<open>a\<close>.\<close>

definition names_pool :: "string \<Rightarrow> sm_store \<Rightarrow> request_packet \<Rightarrow> bool" where
  "names_pool a s req = (case take_payload req s of
       Inl _ \<Rightarrow> False
     | Inr (pl, _) \<Rightarrow> pl_pool_addr pl = a \<and> sets_status (pl_tx_type pl))"

fun acknowledges :: "string \<Rightarrow> sm_store \<Rightarrow> sudo_msg \<Rightarrow> bool" where
  "acknowledges a s (SudoResponse req) = names_pool a s req"
| "acknowledges a s (SudoError req) = names_pool a s req"
| "acknowledges a s (SudoTimeout req) = names_pool a s req"
| "acknowledges a s _ = False"

lemma unrelated_ack_status:
  assumes "take_payload req s = Inr (pl, s1)" and "\<not> names_pool a s req"
  shows "sudo_callback env (pl_tx_type pl) pl s1 = Inr (s', r) \<Longrightarrow> keeps_status_of a s s'"
    and "sudo_failed_callback (pl_tx_type pl) pl s1 = Inr (s', r) \<Longrightarrow> keeps_status_of a s s'"
proof -
  have n: "pl_pool_addr pl \<noteq> a \<or> \<not> sets_status (pl_tx_type pl)"
    using assms by (simp add: names_pool_def)
  note pools = keeps_status_cong [OF take_payload_pools [OF assms(1)], symmetric]
  show "keeps_status_of a s s'" if "sudo_callback env (pl_tx_type pl) pl s1 = Inr (s', r)"
    unfolding pools using n other_callback_status(1) [OF that] other_pool_status(1) [OF _ that] by blast
  show "keeps_status_of a s s'" if "sudo_failed_callback (pl_tx_type pl) pl s1 = Inr (s', r)"
    unfolding pools using n other_callback_status(2) [OF that] other_pool_status(2) [OF _ that] by blast
qed

lemma open_ack_status:
  assumes "sudo_open_ack h port ch cch v s = Inr (s', r)"
  shows "keeps_status_of a s s'"
proof -
  have step: "(if c \<and> \<not> has (POOLS s) b then save_pool b q s else s)\<lparr>INFO_OF_ICA_ID := m\<rparr> = s'
      \<Longrightarrow> keeps_status_of a s s'" for c b q m
    by (auto simp: keeps_status_of_def has_def split: if_splits)
  from assms show ?thesis
    unfolding sudo_open_ack_def case_option_eq_Inr case_pair_eq_Inr rbind_eq_Inr Let_def
      split_paired_Ex prod.case sum.inject prod.inject conj_assoc [symmetric]
    by (elim exE conjE) (erule step)
qed

lemma chain_status:
  "reply_sm h i res s = Inr (s', r) \<Longrightarrow> keeps_status_of a s s'"
  "sudo_kv_query_result h q s = Inr (s', r) \<Longrightarrow> keeps_status_of a s s'"
  by (auto simp: reply_sm_def prepare_sudo_payload_def write_reply_id_to_query_id_def
      save_sudo_payload_def sudo_kv_query_result_def res_simps Let_def intro!: keeps_status_same
      split: if_splits option.splits)

lemma sudo_sm_status:
  "sudo_sm h env m s = Inr (s', r) \<Longrightarrow> \<not> acknowledges a s m \<Longrightarrow> keeps_status_of a s s'"
  by (cases m) (auto simp: sudo_response_def sudo_error_def sudo_timeout_def rbind_eq_Inr
      intro: unrelated_ack_status open_ack_status chain_status keeps_status_same)

text \<open>Any steps of the contract but those acknowledgements.\<close>

inductive unacked ::
  "host \<Rightarrow> (string set \<Rightarrow> string list) \<Rightarrow> string \<Rightarrow> sm_store \<Rightarrow> sm_store \<Rightarrow> bool" for h ho a s where
  unacked_none: "unacked h ho a s s"
| unacked_execute: "unacked h ho a s t \<Longrightarrow> execute_sm h ho env info m t = Inr (u, r) \<Longrightarrow>
     unacked h ho a s u"
| unacked_reply: "unacked h ho a s t \<Longrightarrow> reply_sm h i res t = Inr (u, r) \<Longrightarrow> unacked h ho a s u"
| unacked_sudo: "unacked h ho a s t \<Longrightarrow> sudo_sm h env q t = Inr (u, r) \<Longrightarrow>
     \<not> acknowledges a t q \<Longrightarrow> unacked h ho a s u"
| unacked_migrate: "unacked h ho a s t \<Longrightarrow> migrate_sm t = Inr (u, r) \<Longrightarrow> unacked h ho a s u"

definition in_flight :: "pool_info \<Rightarrow> bool" where
  "in_flight p \<longleftrightarrow> p_status p \<in> {EraUpdateStarted, BondStarted, WithdrawStarted}"

lemma in_flight_stays:
  assumes "execute_sm h ho env info m s = Inr (s', r)" and "fmlookup (POOLS s) a = Some p"
    and "in_flight p"
  shows "\<exists>p'. fmlookup (POOLS s') a = Some p' \<and> p_status p' = p_status p"
  using execute_sm_edges [OF assms(1)] assms(2,3)
  by (fastforce simp: on_edges_def edge_ok_def era_edges_def in_flight_def)

lemma unacked_status:
  "unacked h ho a s t \<Longrightarrow> fmlookup (POOLS s) a = Some p \<Longrightarrow> in_flight p
   \<Longrightarrow> \<exists>p'. fmlookup (POOLS t) a = Some p' \<and> p_status p' = p_status p"
proof (induction rule: unacked.induct)
  case (unacked_execute t env info m u r)
  then obtain p1 where "fmlookup (POOLS t) a = Some p1" "p_status p1 = p_status p" "in_flight p1"
    by (auto simp: in_flight_def)
  with in_flight_stays [OF unacked_execute.hyps(2)] show ?case by fastforce
next
  case (unacked_reply t i res u r)
  with chain_status(1) show ?case by (metis keeps_status_of_def)
next
  case (unacked_sudo t env q u r)
  with sudo_sm_status show ?case by (metis keeps_status_of_def)
qed (auto simp: migrate_sm_def)

end
