(* ===== verification/Stake_Era_Properties.thy ===== *)
theory Stake_Era_Properties
  imports Stake_Waiting Stake_Demo
begin

text \<open>
  The properties of the era of a pool: the order of its steps, what an acknowledgement settles, the
  amounts that are bonded, the new rate.
\<close>

section \<open>The order of the steps\<close>

text \<open>C22: whatever message is executed, the status of every pool stays or moves along one edge of the
  cycle of an era (update, bond, collect, rebond, active) or from the registration to the
  initialisation: no message of a user or an admin skips, repeats or reverses a step.\<close>

theorem era_order:
  assumes "execute_sm h ho env info m s = Inr (s', r)" and "fmlookup (POOLS s) a = Some p"
    and "fmlookup (POOLS s') a = Some p'"
  shows "p_status p' = p_status p \<or> (p_status p, p_status p') \<in> era_edges"
  using execute_sm_edges [OF assms(1)] assms(2,3) by (fastforce simp: on_edges_def edge_ok_def)

definition demo_sm :: "era_status \<Rightarrow> sm_store" where
  "demo_sm st = empty_sm\<lparr>
     POOLS := fmupd ''pool'' ((demo_pool st 1000)\<lparr>p_era := 9,
       p_era_snapshot := \<lparr>es_era = 9, es_bond = 300, es_unbond = 100, es_active = 900,
         es_restake_amount = 50, es_last_step_height = 5\<rparr>\<rparr>) fmempty,
     STACK := Some \<lparr>sk_admin = ''gov'', sk_stack_fee_receiver = ''gov'',
       sk_stack_fee_commission = 100000, sk_pools = [], sk_lsd_token_code_id = 5\<rparr>,
     TOTAL_STACK_FEE := fmupd ''pool'' 0 fmempty,
     INFO_OF_ICA_ID := fmupd ''ica'' (demo_ica, demo_ica, ''gov'') fmempty,
     ADDRESS_TO_REPLY_ID := fmupd (''pool'', ''balances'') 1
       (fmupd (''pool'', ''delegations'') 1 (fmupd (''pool'', ''validators'') 1 fmempty)),
     REPLY_ID_TO_QUERY_ID := fmupd 1 1 fmempty\<rparr>"

definition demo_payload :: "tx_type \<Rightarrow> sudo_payload" where
  "demo_payload t = \<lparr>pl_message = '''', pl_pool_addr = ''pool'', pl_port_id = ''p'', pl_tx_type = t\<rparr>"

abbreviation "demo_fee \<equiv> demo_info ''keeper'' [demo_coin FEE_DENOM 200]"

lemma demo_bond:
  "\<exists>s r p'. execute_sm demo_host (\<lambda>_. []) (demo_env 0 1) demo_fee (EraBond ''pool'' [''val1''])
      (demo_sm EraUpdateEnded) = Inr (s, r) \<and> fmlookup (POOLS s) ''pool'' = Some p'
    \<and> p_status p' = BondStarted \<and> (\<exists>sub. messages r = [sub] \<and> sm_reply sub = ReplySuccess)"
  by (simp add: demo_sm_def execute_era_bond_def bond_delegates_def STAKE_SPLIT_THRESHOLD_def
      demo_simps eval_simps)

lemma demo_rebond:
  "\<exists>s r. execute_sm demo_host (\<lambda>_. []) (demo_env 0 1) demo_fee (EraRebond ''pool'' [''val1''])
      (demo_sm WithdrawEnded) = Inr (s, r) \<and> messages r \<noteq> []"
  by (simp add: demo_sm_def execute_era_rebond_def rebond_delegates_def split_amounts_def
      demo_simps eval_simps)

theorem era_order_witness:
  "\<exists>p (p' :: pool_info). fmlookup (POOLS (demo_sm EraUpdateEnded)) ''pool'' = Some p
    \<and> (p_status p' = p_status p \<or> (p_status p, p_status p') \<in> era_edges)"
proof -
  obtain s r p' where b: "execute_sm demo_host (\<lambda>_. []) (demo_env 0 1) demo_fee
      (EraBond ''pool'' [''val1'']) (demo_sm EraUpdateEnded) = Inr (s, r)"
    "fmlookup (POOLS s) ''pool'' = Some p'" using demo_bond by blast
  obtain p where p: "fmlookup (POOLS (demo_sm EraUpdateEnded)) ''pool'' = Some p"
    by (simp add: demo_sm_def)
  from era_order [OF b(1) p b(2)] p show ?thesis by blast
qed

text \<open>C23: the acknowledgement of the transaction of a step takes the payload out, so that a second one for
  the same packet is refused, sends nothing, and changes no part of the storage but the pool of the
  step. A success moves the pool to the end of the step at the height of the block and, for the
  bonding, takes the snapshot of the era off what is still to be bonded and unbonded; a failure or a
  timeout moves it back before the step and, for the first step, back to the era before. Every other
  field of the pool is as it was. Only the success of the bonding also writes the unbonding times,
  those of the validators of this pool.\<close>

theorem ack_settles_phase:
  assumes "fmlookup (SUDO_PAYLOAD s) (ch, sq) = Some pl"
    and "phase_of (pl_tx_type pl) = Some (before, started, ended)"
    and "m \<in> {SudoResponse, SudoError, SudoTimeout}"
    and "req = \<lparr>rp_sequence = Some sq, rp_source_channel = Some ch\<rparr>"
    and "sudo_sm h env (m req) s = Inr (s', r)"
  shows "\<exists>p T. fmlookup (POOLS s) (pl_pool_addr pl) = Some p
    \<and> s' = s\<lparr>SUDO_PAYLOAD := fmdrop (ch, sq) (SUDO_PAYLOAD s),
        POOLS := fmupd (pl_pool_addr pl)
          (if m = SudoResponse
           then settle_of (pl_tx_type pl) (p\<lparr>p_status := ended,
             p_era_snapshot := (p_era_snapshot p)\<lparr>es_last_step_height := block_height env\<rparr>\<rparr>)
           else undo_of (pl_tx_type pl) (p\<lparr>p_status := before\<rparr>)) (POOLS s),
        VALIDATORS_UNBONDS_TIME := T\<rparr>
    \<and> (\<forall>b v. b \<noteq> pl_pool_addr pl \<longrightarrow> fmlookup T (b, v) = fmlookup (VALIDATORS_UNBONDS_TIME s) (b, v))
    \<and> (m \<noteq> SudoResponse \<or> pl_tx_type pl \<noteq> TxEraBond \<longrightarrow> T = VALIDATORS_UNBONDS_TIME s)
    \<and> messages r = []
    \<and> (\<forall>m' \<in> {SudoResponse, SudoError, SudoTimeout}.
        sudo_sm h env' (m' req) s' = Inl (Err CallBackErrErrorMsg))"
proof -
  obtain ok failed where ph: "ack_phase ok failed before ended (settle_of (pl_tx_type pl))
      (undo_of (pl_tx_type pl)) (pl_tx_type pl = TxEraBond)"
    and ok: "\<And>env pl' s. sudo_callback env (pl_tx_type pl) pl' s = ok env pl' s"
    and failed: "\<And>pl' s. sudo_failed_callback (pl_tx_type pl) pl' s = failed pl' s"
    using assms(2) by (rule phase_callback) auto
  let ?s = "s\<lparr>SUDO_PAYLOAD := fmdrop (ch, sq) (SUDO_PAYLOAD s)\<rparr>"
  have t: "take_payload req s = Inr (pl, ?s)"
    using assms(1,4) by (simp add: take_payload_def read_sudo_payload_def)
  have again: "sudo_sm h env' (m' req) s' = Inl (Err CallBackErrErrorMsg)"
    if "SUDO_PAYLOAD s' = SUDO_PAYLOAD ?s" "m' \<in> {SudoResponse, SudoError, SudoTimeout}" for m'
    using taken_payload_gone [OF t that(1)] that(2)
    by (auto simp: sudo_response_def sudo_error_def sudo_timeout_def)
  show ?thesis
  proof (cases "m = SudoResponse")
    case True
    with assms(5) t ok have "ok env pl ?s = Inr (s', r)" by (simp add: sudo_response_def)
    from ack_phase.ok_pool [OF ph this] obtain p T where eff: "fmlookup (POOLS ?s) (pl_pool_addr pl) = Some p"
      "s' = ?s\<lparr>POOLS := fmupd (pl_pool_addr pl)
         (settle_of (pl_tx_type pl) (at_height (block_height env) ended p)) (POOLS ?s),
         VALIDATORS_UNBONDS_TIME := T\<rparr>"
      "other_times (pl_pool_addr pl) (VALIDATORS_UNBONDS_TIME ?s) T"
      "pl_tx_type pl \<noteq> TxEraBond \<longrightarrow> T = VALIDATORS_UNBONDS_TIME ?s" "messages r = []" by blast
    with again True show ?thesis
      by (intro exI [of _ p] exI [of _ T]) (simp add: other_times_def at_height_def)
  next
    case False
    with assms(3,5) t failed have "failed pl ?s = Inr (s', r)"
      by (auto simp: sudo_error_def sudo_timeout_def)
    from ack_phase.failed_pool [OF ph this] obtain p where "fmlookup (POOLS ?s) (pl_pool_addr pl) = Some p"
      "s' = ?s\<lparr>POOLS := fmupd (pl_pool_addr pl) (undo_of (pl_tx_type pl) (p\<lparr>p_status := before\<rparr>)) (POOLS ?s)\<rparr>"
      "messages r = []" by blast
    with again False show ?thesis
      by (intro exI [of _ p] exI [of _ "VALIDATORS_UNBONDS_TIME s"]) simp
  qed
qed

text \<open>The pool of \<open>demo_sm\<close> with its bonding under way, and the success of the transaction.\<close>

definition demo_acked :: sm_store where
  "demo_acked = save_sudo_payload ''ch'' 1 ((demo_payload TxEraBond)\<lparr>pl_message := ''val1''\<rparr>)
     ((demo_sm BondStarted)\<lparr>POOLS := fmmap (\<lambda>p. p\<lparr>p_unbond := 100\<rparr>) (POOLS (demo_sm BondStarted))\<rparr>)"

lemma demo_success:
  "\<exists>s r. sudo_sm demo_host (demo_env 0 2)
      (SudoResponse \<lparr>rp_sequence = Some 1, rp_source_channel = Some ''ch''\<rparr>) demo_acked = Inr (s, r)
    \<and> VALIDATORS_UNBONDS_TIME s = fmupd (''pool'', ''val1'') [0] fmempty"
  by (simp add: demo_acked_def sudo_response_def take_filed_payload demo_payload_def demo_sm_def
      sudo_era_bond_callback_def push_timestamp_def seconds_def demo_simps eval_simps)

theorem ack_settles_phase_witness:
  "\<exists>(s' :: sm_store) p T. fmlookup (POOLS demo_acked) ''pool'' = Some p
    \<and> s' = demo_acked\<lparr>SUDO_PAYLOAD := fmdrop (''ch'', 1) (SUDO_PAYLOAD demo_acked),
        POOLS := fmupd ''pool'' (bonded (p\<lparr>p_status := BondEnded,
             p_era_snapshot := (p_era_snapshot p)\<lparr>es_last_step_height := 2\<rparr>\<rparr>)) (POOLS demo_acked),
        VALIDATORS_UNBONDS_TIME := T\<rparr>
    \<and> (\<forall>b v. b \<noteq> ''pool'' \<longrightarrow> fmlookup T (b, v) = fmlookup (VALIDATORS_UNBONDS_TIME demo_acked) (b, v))
    \<and> VALIDATORS_UNBONDS_TIME s' = fmupd (''pool'', ''val1'') [0] fmempty"
proof -
  obtain s' r where t: "sudo_sm demo_host (demo_env 0 2)
      (SudoResponse \<lparr>rp_sequence = Some 1, rp_source_channel = Some ''ch''\<rparr>) demo_acked = Inr (s', r)"
    and v: "VALIDATORS_UNBONDS_TIME s' = fmupd (''pool'', ''val1'') [0] fmempty"
    using demo_success by blast
  have pl: "fmlookup (SUDO_PAYLOAD demo_acked) (''ch'', 1)
      = Some ((demo_payload TxEraBond)\<lparr>pl_message := ''val1''\<rparr>)"
    by (simp add: demo_acked_def save_sudo_payload_def)
  have ph: "phase_of (pl_tx_type ((demo_payload TxEraBond)\<lparr>pl_message := ''val1''\<rparr>))
      = Some (EraUpdateEnded, BondStarted, BondEnded)" by (simp add: demo_payload_def)
  from ack_settles_phase [where m = SudoResponse and env' = "demo_env 0 3", OF pl ph _ refl t] v show ?thesis
    by (intro exI [of _ s']) (auto simp: demo_payload_def demo_env_def)
qed

text \<open>C24: a step of an era that sends a transaction to the remote chain (the update, the bonding or the
  collection; the restaking is not guarded, see below) leaves its pool in a started
  status. Whatever calls of anybody, replies and messages of the chain follow, the pool keeps that
  status and refuses every step of its era, as long as none of the messages of the chain is the
  result of a transaction of an era step or of the initialisation of this pool.\<close>

theorem era_step_waits:
  assumes "execute_sm h ho env info m s = Inr (s', r)" and "era_step a m"
    and "\<forall>vs. m \<noteq> EraRebond a vs" and "\<exists>sub \<in> set (messages r). sm_reply sub = ReplySuccess"
    and "unacked h ho a s' t"
  shows "(\<exists>p' p. fmlookup (POOLS s') a = Some p' \<and> fmlookup (POOLS t) a = Some p
      \<and> p_status p' \<in> {EraUpdateStarted, BondStarted, WithdrawStarted} \<and> p_status p = p_status p')
    \<and> (\<forall>m' env' info'. era_step a m' \<longrightarrow>
        execute_sm h ho env' info' m' t \<in> {Inl (Err StatusNotAllow), Inl (Err PoolIsPaused)})"
proof -
  obtain p' where p': "fmlookup (POOLS s') a = Some p'"
    "p_status p' \<in> {EraUpdateStarted, BondStarted, WithdrawStarted}"
    using tx_step_started [OF assms(1-4)] by blast
  obtain p where p: "fmlookup (POOLS t) a = Some p" "p_status p = p_status p'"
    using unacked_status [OF assms(5) p'(1)] p'(2) by (auto simp: in_flight_def)
  have "p_status p \<in> {EraUpdateStarted, BondStarted, WithdrawStarted}" using p(2) p'(2) by simp
  from started_refuses [OF p(1) this] p' p show ?thesis by blast
qed

text \<open>A bonding, its reply, a message of the chain for another packet, and a deposit by a user.\<close>

lemma demo_waiting:
  "\<exists>s1 s2 s3 s4 r1 r2 r3 r4 sub. execute_sm demo_host (\<lambda>_. []) (demo_env 0 1) demo_fee
      (EraBond ''pool'' [''val1'']) (demo_sm EraUpdateEnded) = Inr (s1, r1)
    \<and> messages r1 = [sub] \<and> sm_reply sub = ReplySuccess
    \<and> reply_sm demo_host (sm_id sub) (Inr (Some ''ch'')) s1 = Inr (s2, r2)
    \<and> sudo_sm demo_host (demo_env 0 2) (SudoKVQueryResult 9) s2 = Inr (s3, r3)
    \<and> execute_sm demo_host (\<lambda>_. []) (demo_env 0 3) (demo_info ''bob'' [demo_coin ''ibc/ATOM'' 500])
        (Stake ''bob'' ''pool'') s3 = Inr (s4, r4)"
  by (simp add: demo_sm_def execute_era_bond_def bond_delegates_def STAKE_SPLIT_THRESHOLD_def
      reply_sm_def prepare_sudo_payload_def read_reply_payload_def reply_data_def save_sudo_payload_def
      sudo_kv_query_result_def execute_stake_def demo_simps eval_simps)

theorem era_step_waits_witness:
  "\<exists>(s' :: sm_store) t p. unacked demo_host (\<lambda>_. []) ''pool'' s' t
    \<and> fmlookup (POOLS t) ''pool'' = Some p \<and> p_status p \<in> {EraUpdateStarted, BondStarted, WithdrawStarted}
    \<and> (\<forall>m'. era_step ''pool'' m' \<longrightarrow> execute_sm demo_host (\<lambda>_. []) (demo_env 0 4) demo_fee m' t
         \<in> {Inl (Err StatusNotAllow), Inl (Err PoolIsPaused)})"
proof -
  obtain s1 s2 s3 s4 r1 r2 r3 r4 sub where b: "execute_sm demo_host (\<lambda>_. []) (demo_env 0 1) demo_fee
      (EraBond ''pool'' [''val1'']) (demo_sm EraUpdateEnded) = Inr (s1, r1)"
    "messages r1 = [sub]" "sm_reply sub = ReplySuccess"
    and rp: "reply_sm demo_host (sm_id sub) (Inr (Some ''ch'')) s1 = Inr (s2, r2)"
    and q: "sudo_sm demo_host (demo_env 0 2) (SudoKVQueryResult 9) s2 = Inr (s3, r3)"
    and d: "execute_sm demo_host (\<lambda>_. []) (demo_env 0 3) (demo_info ''bob'' [demo_coin ''ibc/ATOM'' 500])
        (Stake ''bob'' ''pool'') s3 = Inr (s4, r4)"
    using demo_waiting by blast
  have u: "unacked demo_host (\<lambda>_. []) ''pool'' s1 s4"
    by (rule unacked_execute [OF unacked_sudo [OF unacked_reply [OF unacked_none rp] q] d]) simp
  have w: "(\<exists>p' p. fmlookup (POOLS s1) ''pool'' = Some p' \<and> fmlookup (POOLS s4) ''pool'' = Some p
      \<and> p_status p' \<in> {EraUpdateStarted, BondStarted, WithdrawStarted} \<and> p_status p = p_status p')
    \<and> (\<forall>m' env' info'. era_step ''pool'' m' \<longrightarrow> execute_sm demo_host (\<lambda>_. []) env' info' m' s4
        \<in> {Inl (Err StatusNotAllow), Inl (Err PoolIsPaused)})"
    by (rule era_step_waits [OF b(1) _ _ _ u]) (simp_all add: b)
  with u w show ?thesis by fastforce
qed

text \<open>C25: the restaking of the rewards is not guarded while its transaction is under way: the handler
  computes the status \<open>RebondStarted\<close> but does not store it, so the same call is accepted again and
  sends the same delegations once more.\<close>

theorem rebond_submits_twice:
  assumes "execute_sm h ho env info (EraRebond a vs) s = Inr (s1, r1)" and "messages r1 \<noteq> []"
    and "reply_ids_ok s"
  shows "POOLS s1 = POOLS s \<and> (\<exists>s2 r2. execute_sm h ho env' info (EraRebond a vs) s1 = Inr (s2, r2)
    \<and> map sm_msg (messages r2) = map sm_msg (messages r1))"
proof -
  from assms(1) have "execute_era_rebond h info a vs s = Inr (s1, r1)" by simp
  from this assms(2) obtain p ica w adm msgs fee sub where p: "fmlookup (POOLS s) a = Some p"
    and st: "p_status p = WithdrawEnded" "es_restake_amount (p_era_snapshot p) \<noteq> 0"
    and i: "fmlookup (INFO_OF_ICA_ID s) (p_ica_id p) = Some (ica, w, adm)"
    and d: "rebond_delegates a (p\<lparr>p_status := RebondStarted\<rparr>) vs = Inr msgs"
    and f: "check_ibc_fee h info = Inr fee"
    and m: "msg_with_sudo_callback
              (SubmitTx (ctrl_connection_id ica) (p_ica_id p) msgs DEFAULT_TIMEOUT_SECONDS fee)
              \<lparr>pl_message = '''', pl_pool_addr = a, pl_port_id = ctrl_port_id ica,
               pl_tx_type = TxEraRebond\<rparr> s = Inr (sub, s1)" and r: "messages r1 = [sub]"
    by (rule execute_era_rebond_steps)
  note fr = msg_cb_frame [OF m]
  from msg_cb_total [OF msg_cb_ids [OF m assms(3)]] obtain sub2 s2
    where m2: "msg_with_sudo_callback
              (SubmitTx (ctrl_connection_id ica) (p_ica_id p) msgs DEFAULT_TIMEOUT_SECONDS fee)
              \<lparr>pl_message = '''', pl_pool_addr = a, pl_port_id = ctrl_port_id ica,
               pl_tx_type = TxEraRebond\<rparr> s1 = Inr (sub2, s2)" by blast
  have "execute_era_rebond h info a vs s1 = Inr (s2, respond [sub2] [])"
    using p st i d f m2 fr by (simp add: execute_era_rebond_def)
  moreover have "sm_msg sub2 = sm_msg sub" using fr msg_cb_frame [OF m2] by simp
  ultimately show ?thesis using fr r by simp
qed

theorem rebond_submits_twice_witness:
  "\<exists>(s1 :: sm_store) (r1 :: sm_out response). POOLS s1 = POOLS (demo_sm WithdrawEnded) \<and> (\<exists>s2 r2.
    execute_sm demo_host (\<lambda>_. []) (demo_env 0 2) demo_fee (EraRebond ''pool'' [''val1'']) s1
      = Inr (s2, r2) \<and> map sm_msg (messages r2) = map sm_msg (messages r1))"
proof -
  obtain s1 and r1 :: "sm_out response" where e: "execute_sm demo_host (\<lambda>_. []) (demo_env 0 1) demo_fee
      (EraRebond ''pool'' [''val1'']) (demo_sm WithdrawEnded) = Inr (s1, r1)" "messages r1 \<noteq> []"
    using demo_rebond by blast
  show ?thesis
    by (rule exI [of _ s1], rule exI [of _ r1], rule rebond_submits_twice [OF e])
      (simp add: reply_ids_ok_def in_range_def demo_sm_def empty_sm_def)
qed

end
