(* ===== verification/Stake_Amounts.thy ===== *)
theory Stake_Amounts
  imports Stake_Era_Properties
begin

text \<open>
  The amounts of an era: the split of an amount over validators, the unbonding of an amount from the
  delegations, the rate and the fees at its end; and the number of an era under a change of its
  length.
\<close>

section \<open>Splits\<close>

lemma split_amounts_ok:
  assumes "split_amounts amt n = Inr xs" and "n \<noteq> 0" and "n < 2 ^ 32"
  shows "length xs = n" and "(\<Sum>x\<leftarrow>xs. unat x) = unat amt"
proof -
  from assms(1) obtain q x r f where q: "udiv amt (of_nat n) = (Inr q :: u128 sm_res)"
    and x: "umul q (of_nat n) = (Inr x :: u128 sm_res)" and r: "usub amt x = (Inr r :: u128 sm_res)"
    and f: "uadd q r = (Inr f :: u128 sm_res)" and xs: "xs = f # replicate (n - 1) q"
    unfolding split_amounts_def rbind_eq_Inr sum.inject
    by (elim exE conjE) (rule that, assumption+, rule sym, assumption)
  have n: "unat (of_nat n :: u128) = n"
    using assms(3) by (simp add: unat_of_nat take_bit_nat_eq_self)
  from umul_unat [OF x] usub_unat [OF r] uadd_unat [OF f] n
  have "unat f + n * unat q = unat amt + unat q" by (simp add: mult.commute)
  moreover obtain k where "n = Suc k" using assms(2) by (cases n) auto
  ultimately show "(\<Sum>x\<leftarrow>xs. unat x) = unat amt" by (simp add: xs sum_list_replicate)
  show "length xs = n" using assms(2) by (simp add: xs)
qed

text \<open>What a list of messages to the remote chain delegates and undelegates.\<close>

fun delegated :: "protobuf_any list \<Rightarrow> (string \<times> nat) list" where
  "delegated [] = []"
| "delegated (ProtobufAny _ (MsgDelegate _ v c) # ms) = (v, unat (c_amount c)) # delegated ms"
| "delegated (_ # ms) = delegated ms"

fun undelegated :: "protobuf_any list \<Rightarrow> (string \<times> nat) list" where
  "undelegated [] = []"
| "undelegated (ProtobufAny _ (MsgUndelegate _ v c) # ms) = (v, unat (c_amount c)) # undelegated ms"
| "undelegated (_ # ms) = undelegated ms"

lemma delegated_split:
  "length xs = length vs \<Longrightarrow>
   delegated (map2 (\<lambda>v n. gen_delegation_txs a v d n) vs xs) = zip vs (map unat xs)"
  by (induction xs vs rule: list_induct2) (simp_all add: gen_delegation_txs_def)

lemma undelegated_split:
  "undelegated (map2 (\<lambda>v n. gen_delegation_txs a v d n) vs xs) = []"
  by (induction vs arbitrary: xs; case_tac xs) (simp_all add: gen_delegation_txs_def)

lemma no_amounts_withdraw [simp]:
  "delegated (map (withdraw_reward_msg a) vs) = []"
  "undelegated (map (withdraw_reward_msg a) vs) = []"
  by (induction vs) (simp_all add: withdraw_reward_msg_def)

lemma amounts_append:
  "delegated (xs @ ys) = delegated xs @ delegated ys"
  "undelegated (xs @ ys) = undelegated xs @ undelegated ys"
  by (induction xs rule: delegated.induct; simp)+

lemma amounts_undelegate:
  "delegated (map (\<lambda>(v, n). ProtobufAny u (MsgUndelegate a v \<lparr>c_denom = d, c_amount = n\<rparr>)) xs) = []"
  "undelegated (map (\<lambda>(v, n). ProtobufAny u (MsgUndelegate a v \<lparr>c_denom = d, c_amount = n\<rparr>)) xs)
     = map (\<lambda>(v, n). (v, unat n)) xs"
  by (induction xs) auto

lemma bond_delegates_ok:
  assumes "bond_delegates a p vs = Inr ms" and "length vs < 2 ^ 32"
  shows "sum_list (map snd (delegated ms)) = unat (es_bond (p_era_snapshot p)) - unat (es_unbond (p_era_snapshot p))"
    and "set (map fst (delegated ms)) \<subseteq> set (p_validator_addrs p)" and "undelegated ms = []"
proof -
  from assms(1) obtain amt where amt: "usub (es_bond (p_era_snapshot p)) (es_unbond (p_era_snapshot p)) = (Inr amt :: u128 sm_res)"
    and ne: "vs \<noteq> []" and vs: "list_all (\<lambda>v. v \<in> set (p_validator_addrs p)) vs"
    and eq: "(if amt < STAKE_SPLIT_THRESHOLD then
         Inr (gen_delegation_txs a (hd vs) (p_remote_denom p) amt
           # map (withdraw_reward_msg a) (tl vs))
       else rbind (split_amounts amt (length vs)) (\<lambda>amounts.
         Inr (map2 (\<lambda>v n. gen_delegation_txs a v (p_remote_denom p) n) vs amounts))) = Inr ms"
    by (auto simp: bond_delegates_def rbind_eq_Inr if_Inl_eq_Inr simp del: if_split)
  have ms: "if amt < STAKE_SPLIT_THRESHOLD then
       ms = gen_delegation_txs a (hd vs) (p_remote_denom p) amt # map (withdraw_reward_msg a) (tl vs)
     else \<exists>xs. split_amounts amt (length vs) = Inr xs
       \<and> ms = map2 (\<lambda>v n. gen_delegation_txs a v (p_remote_denom p) n) vs xs"
    using eq by (auto simp: rbind_eq_Inr)
  have sub: "unat amt = unat (es_bond (p_era_snapshot p)) - unat (es_unbond (p_era_snapshot p))"
    using usub_unat [OF amt] by simp
  have "sum_list (map snd (delegated ms)) = unat amt
      \<and> set (map fst (delegated ms)) \<subseteq> set (p_validator_addrs p) \<and> undelegated ms = []"
  proof (cases "amt < STAKE_SPLIT_THRESHOLD")
    case True
    with ms ne vs show ?thesis by (cases vs) (auto simp: gen_delegation_txs_def)
  next
    case False
    with ms obtain xs where xs: "split_amounts amt (length vs) = Inr xs"
      and m: "ms = map2 (\<lambda>v n. gen_delegation_txs a v (p_remote_denom p) n) vs xs" by auto
    note sp = split_amounts_ok [OF xs _ assms(2)]
    have d: "delegated ms = zip vs (map unat xs)" unfolding m by (rule delegated_split) (use sp ne in simp)
    show ?thesis
      using sp ne vs unfolding d by (auto simp: m undelegated_split list_all_iff dest: set_zip_leftD)
  qed
  with sub show "sum_list (map snd (delegated ms)) = unat (es_bond (p_era_snapshot p)) - unat (es_unbond (p_era_snapshot p))"
    and "set (map fst (delegated ms)) \<subseteq> set (p_validator_addrs p)" and "undelegated ms = []" by auto
qed

section \<open>Unbonding\<close>

lemma allocate_loop_ok:
  "allocate_loop now per ds (s, rem, infos) = Inr (s', rem', infos') \<Longrightarrow>
   (\<Sum>x\<leftarrow>infos'. unat (snd x)) + unat rem' = (\<Sum>x\<leftarrow>infos. unat (snd x)) + unat rem
   \<and> (\<forall>x \<in> set infos'. x \<in> set infos \<or> (\<exists>d \<in> set ds. fst x = dl_validator d \<and> snd x \<le> c_amount (dl_amount d)))"
proof (induction ds arbitrary: s rem infos)
  case (Cons d ds)
  show ?case
  proof (cases "rem = 0")
    case True
    with Cons.prems show ?thesis by simp
  next
    case False
    with Cons.prems obtain full s1
      where c: "clear_timestamps now per (dl_delegator d, dl_validator d) s = Inr (full, s1)"
        and r: "(if full then allocate_loop now per ds (s1, rem, infos)
          else let current = (if c_amount (dl_amount d) < rem then c_amount (dl_amount d) else rem) in
            rbind (usub rem current) (\<lambda>rest. allocate_loop now per ds (s1, rest, infos @ [(dl_validator d, current)])))
          = Inr (s', rem', infos')"
      by (auto simp: rbind_eq_Inr)
    show ?thesis
    proof (cases full)
      case True
      with r have "allocate_loop now per ds (s1, rem, infos) = Inr (s', rem', infos')" by simp
      from Cons.IH [OF this] show ?thesis by fastforce
    next
      case False
      define cur where "cur = (if c_amount (dl_amount d) < rem then c_amount (dl_amount d) else rem)"
      from False r obtain rest where u: "usub rem cur = (Inr rest :: u128 sm_res)"
        and l: "allocate_loop now per ds (s1, rest, infos @ [(dl_validator d, cur)]) = Inr (s', rem', infos')"
        by (auto simp: rbind_eq_Inr Let_def cur_def)
      have "cur \<le> c_amount (dl_amount d)" by (simp add: cur_def not_less)
      with Cons.IH [OF l] usub_unat [OF u] show ?thesis by fastforce
    qed
  qed
qed simp

lemma allocate_unbond_ok:
  assumes "allocate_unbond_amount now ds amt per s = Inr (infos, s')"
  shows "(\<Sum>x\<leftarrow>infos. unat (snd x)) = unat amt"
    and "\<forall>x \<in> set infos. \<exists>d \<in> set ds. fst x = dl_validator d \<and> snd x \<le> c_amount (dl_amount d)"
proof -
  from assms obtain rem where l: "allocate_loop now per (sorted_delegations ds) (s, amt, []) = Inr (s', rem, infos)"
    and r: "rem = 0"
    by (auto simp: allocate_unbond_amount_def rbind_eq_Inr if_Inl_eq_Inr)
  from allocate_loop_ok [OF l] r
  show "(\<Sum>x\<leftarrow>infos. unat (snd x)) = unat amt"
    and "\<forall>x \<in> set infos. \<exists>d \<in> set ds. fst x = dl_validator d \<and> snd x \<le> c_amount (dl_amount d)"
    by (simp_all add: sorted_delegations_def)
qed

lemma bond_unbonds_ok:
  assumes "bond_unbonds h ho env a p s = Inr (ms, str, s')"
  shows "sum_list (map snd (undelegated ms)) = unat (es_unbond (p_era_snapshot p)) - unat (es_bond (p_era_snapshot p))"
    and "delegated ms = []"
    and "\<exists>ds height. query_delegation_by_addr h s a (p_sdk_greater_or_equal_v047 p) = Inr (ds, height)
      \<and> es_last_step_height (p_era_snapshot p) < height
      \<and> (\<forall>x \<in> set (undelegated ms). \<exists>d \<in> set ds. fst x = dl_validator d \<and> snd x \<le> unat (c_amount (dl_amount d)))"
proof -
  from assms obtain amt ds height infos s2
    where amt: "usub (es_unbond (p_era_snapshot p)) (es_bond (p_era_snapshot p)) = (Inr amt :: u128 sm_res)"
      and q: "query_delegation_by_addr h s a (p_sdk_greater_or_equal_v047 p) = Inr (ds, height)"
      and ht: "\<not> height \<le> es_last_step_height (p_era_snapshot p)"
      and i: "(if 0 < amt then
              rbind (umul (p_unbonding_period p) (p_era_seconds p)) (\<lambda>period.
              rbind (allocate_unbond_amount (seconds env) ds amt period s) (\<lambda>(infos, s).
              if infos = [] then Inl (Err ValidatorForUnbondNotEnough)
              else Inr (infos, s)))
            else Inr ([], s)) = (Inr (infos, s2) :: ((string \<times> u128) list \<times> sm_store) sm_res)"
      and ms: "map (\<lambda>(v, n). ProtobufAny ''/cosmos.staking.v1beta1.MsgUndelegate''
             (MsgUndelegate a v \<lparr>c_denom = p_remote_denom p, c_amount = n\<rparr>)) infos
           @ (if length (map fst infos) \<noteq> length (map dl_validator ds)
           then map (withdraw_reward_msg a)
                  (ho (set (map dl_validator ds) - set (map fst infos)))
           else []) = ms"
    unfolding bond_unbonds_def rbind_eq_Inr if_Inl_eq_Inr Let_def split_paired_Ex prod.case sum.inject
      prod.inject
    by (elim exE conjE) (rule that, assumption+)
  have "(\<Sum>x\<leftarrow>infos. unat (snd x)) = unat amt
    \<and> (\<forall>x \<in> set infos. \<exists>d \<in> set ds. fst x = dl_validator d \<and> snd x \<le> c_amount (dl_amount d))"
    using i by (cases "0 < amt") (auto simp: rbind_eq_Inr allocate_unbond_ok word_gt_0 dest: allocate_unbond_ok(2)
        split: if_splits)
  moreover have "undelegated ms = map (\<lambda>(v, n). (v, unat n)) infos" "delegated ms = []"
    using ms by (auto simp: amounts_append amounts_undelegate)
  ultimately show "sum_list (map snd (undelegated ms)) = unat (es_unbond (p_era_snapshot p)) - unat (es_bond (p_era_snapshot p))"
    and "delegated ms = []"
    and "\<exists>ds height. query_delegation_by_addr h s a (p_sdk_greater_or_equal_v047 p) = Inr (ds, height)
      \<and> es_last_step_height (p_era_snapshot p) < height
      \<and> (\<forall>x \<in> set (undelegated ms). \<exists>d \<in> set ds. fst x = dl_validator d \<and> snd x \<le> unat (c_amount (dl_amount d)))"
    using usub_unat [OF amt] q ht
    by (auto simp: comp_def case_prod_unfold word_le_nat_alt word_less_nat_alt not_le)
qed

text \<open>C27: the bonding step of an era sends the difference of what users staked and unstaked to the
  validators and nothing else: when more was staked, delegations to validators of the pool that add
  up to the difference exactly; otherwise undelegations that add up to it, none of them larger than
  a delegation to its validator in a result newer than the last step.\<close>

theorem era_bond_amounts:
  assumes "execute_era_bond h ho env info a vs s = Inr (s', r)" and "fmlookup (POOLS s) a = Some p"
    and "length vs < 2 ^ 32"
  shows "\<exists>conn msgs fee i. messages r = [reply_on_success (SubmitTx conn (p_ica_id p) msgs
        DEFAULT_TIMEOUT_SECONDS fee) i]
    \<and> (let bond = unat (es_bond (p_era_snapshot p)); unbond = unat (es_unbond (p_era_snapshot p)) in
      if unbond < bond
      then sum_list (map snd (delegated msgs)) = bond - unbond \<and> undelegated msgs = []
        \<and> set (map fst (delegated msgs)) \<subseteq> set (p_validator_addrs p)
      else sum_list (map snd (undelegated msgs)) = unbond - bond \<and> delegated msgs = []
        \<and> (\<exists>ds height. query_delegation_by_addr h s a (p_sdk_greater_or_equal_v047 p) = Inr (ds, height)
            \<and> es_last_step_height (p_era_snapshot p) < height
            \<and> (\<forall>x \<in> set (undelegated msgs). \<exists>d \<in> set ds.
                fst x = dl_validator d \<and> snd x \<le> unat (c_amount (dl_amount d)))))"
proof -
  from assms(1,2) obtain msgs str s1 ica w adm fee sub s2
    where b: "(if es_bond (p_era_snapshot p) \<le> es_unbond (p_era_snapshot p)
            then bond_unbonds h ho env a p s
            else rbind (bond_delegates a p vs) (\<lambda>ms. Inr (ms, '''', s))) = Inr (msgs, str, s1)"
      and m: "msg_with_sudo_callback
              (SubmitTx (ctrl_connection_id ica) (p_ica_id p) msgs DEFAULT_TIMEOUT_SECONDS fee)
              \<lparr>pl_message = str, pl_pool_addr = a, pl_port_id = ctrl_port_id (ica :: ica_info),
               pl_tx_type = TxEraBond\<rparr> s1 = Inr (sub, s2)" and r: "messages r = [sub]"
    by (auto simp: execute_era_bond_def rbind_eq_Inr if_Inl_eq_Inr load_pool_eq_Inr simp del: if_split)
  obtain i where "sub = reply_on_success
      (SubmitTx (ctrl_connection_id ica) (p_ica_id p) msgs DEFAULT_TIMEOUT_SECONDS fee) i"
    using m by (rule msg_cb_ok)
  with r have sent: "messages r = [reply_on_success
      (SubmitTx (ctrl_connection_id ica) (p_ica_id p) msgs DEFAULT_TIMEOUT_SECONDS fee) i]" by simp
  show ?thesis
  proof (cases "es_bond (p_era_snapshot p) \<le> es_unbond (p_era_snapshot p)")
    case True
    with b have "bond_unbonds h ho env a p s = Inr (msgs, str, s1)" by simp
    note u = bond_unbonds_ok [OF this]
    from True have n: "\<not> unat (es_unbond (p_era_snapshot p)) < unat (es_bond (p_era_snapshot p))"
      by (simp add: word_le_nat_alt)
    show ?thesis
      by (rule exI [of _ "ctrl_connection_id ica"], rule exI [of _ msgs], rule exI [of _ fee],
          rule exI [of _ i]) (simp only: sent Let_def if_not_P [OF n] u simp_thms)
  next
    case False
    with b have "bond_delegates a p vs = Inr msgs" by (auto simp: rbind_eq_Inr)
    note d = bond_delegates_ok [OF this assms(3)]
    from False have n: "unat (es_unbond (p_era_snapshot p)) < unat (es_bond (p_era_snapshot p))"
      by (simp add: word_le_nat_alt)
    show ?thesis
      by (rule exI [of _ "ctrl_connection_id ica"], rule exI [of _ msgs], rule exI [of _ fee],
          rule exI [of _ i]) (simp only: sent Let_def if_P [OF n] d simp_thms)
  qed
qed

theorem era_bond_amounts_witness:
  "\<exists>(r :: sm_out response) p. fmlookup (POOLS (demo_sm EraUpdateEnded)) ''pool'' = Some p
    \<and> (\<exists>conn msgs fee i. messages r = [reply_on_success (SubmitTx conn (p_ica_id p) msgs
        DEFAULT_TIMEOUT_SECONDS fee) i]
    \<and> (let bond = unat (es_bond (p_era_snapshot p)); unbond = unat (es_unbond (p_era_snapshot p)) in
      if unbond < bond
      then sum_list (map snd (delegated msgs)) = bond - unbond \<and> undelegated msgs = []
        \<and> set (map fst (delegated msgs)) \<subseteq> set (p_validator_addrs p)
      else sum_list (map snd (undelegated msgs)) = unbond - bond \<and> delegated msgs = []
        \<and> (\<exists>ds height. query_delegation_by_addr demo_host (demo_sm EraUpdateEnded) ''pool''
              (p_sdk_greater_or_equal_v047 p) = Inr (ds, height)
            \<and> es_last_step_height (p_era_snapshot p) < height
            \<and> (\<forall>x \<in> set (undelegated msgs). \<exists>d \<in> set ds.
                fst x = dl_validator d \<and> snd x \<le> unat (c_amount (dl_amount d))))))"
proof -
  obtain s r where b: "execute_era_bond demo_host (\<lambda>_. []) (demo_env 0 1) demo_fee ''pool''
      [''val1''] (demo_sm EraUpdateEnded) = Inr (s, r)" using demo_bond by auto
  obtain p where p: "fmlookup (POOLS (demo_sm EraUpdateEnded)) ''pool'' = Some p"
    by (simp add: demo_sm_def)
  show ?thesis
    by (rule exI [of _ r], rule exI [of _ p], rule conjI [OF p], rule era_bond_amounts [OF b p]) simp
qed

end
