(* ===== verification/Stake_Era_Update.thy ===== *)
theory Stake_Era_Update
  imports Stake_Amounts
begin

text \<open>
  The number of the era: the step that advances it, its failure, and a change of the length of eras.
\<close>

lemma status_first:
  "p\<lparr>p_status := x, p_era := n, p_era_snapshot := es\<rparr>
   = p\<lparr>p_era := n, p_era_snapshot := es, p_status := x\<rparr>"
  by (cases p) simp

lemma execute_era_update_ok:
  assumes "execute_era_update h env info a s = Inr (s', r)"
  obtains p era n p' where "fmlookup (POOLS s) a = Some p" and "\<not> p_paused p"
    and "p_status p = ActiveEnded" and "p_validator_update_status p = UpdateEnd"
    and "current_era env p = Inr era" and "p_era p < era" and "uadd (p_era p) 1 = (Inr n :: u64 sm_res)"
    and "p' = p\<lparr>p_era := n, p_era_snapshot := \<lparr>es_era = n, es_bond = p_bond p,
           es_unbond = p_unbond p, es_active = p_active p, es_restake_amount = 0,
           es_last_step_height = block_height env\<rparr>,
         p_status := (if p_bond p = 0 then EraUpdateEnded else EraUpdateStarted)\<rparr>"
    and "POOLS s' = fmupd a p' (POOLS s)"
proof -
  from assms obtain p era n ms where p: "fmlookup (POOLS s) a = Some p" "\<not> p_paused p"
    "p_status p = ActiveEnded" "p_validator_update_status p = UpdateEnd"
    "current_era env p = Inr era" "p_era p < era" "uadd (p_era p) 1 = (Inr n :: u64 sm_res)"
    and q: "get_update_pool_icq_msgs h s a (p_ica_id p) DEFAULT_FAST_PERIOD = Inr ms"
    unfolding execute_era_update_def Let_def rbind_eq_Inr if_Inl_eq_Inr load_pool_eq_Inr
    by (elim exE conjE) (rule that, assumption+, auto simp: not_le)
  show ?thesis
  proof (rule that [OF p refl])
    show "POOLS s' = fmupd a (p\<lparr>p_era := n, p_era_snapshot := \<lparr>es_era = n, es_bond = p_bond p,
           es_unbond = p_unbond p, es_active = p_active p, es_restake_amount = 0,
           es_last_step_height = block_height env\<rparr>,
         p_status := (if p_bond p = 0 then EraUpdateEnded else EraUpdateStarted)\<rparr>) (POOLS s)"
      using assms p q
      by (cases "p_bond p = 0")
        (auto simp: execute_era_update_def rbind_eq_Inr not_le [symmetric] status_first
          dest!: msg_cb_frame)
  qed
qed

text \<open>C28: the first step of an era advances the number of the era by one, never past the era of the
  block, and takes the snapshot the later steps work on; when its transfer fails, the callback
  restores the pool as it was, with the snapshot cleared.\<close>

theorem era_update_advances:
  assumes "execute_era_update h env info a s = Inr (s', r)" and "fmlookup (POOLS s) a = Some p"
  shows "\<exists>p' era. fmlookup (POOLS s') a = Some p' \<and> current_era env p = Inr era
    \<and> unat (p_era p') = unat (p_era p) + 1 \<and> p_era p' \<le> era
    \<and> es_bond (p_era_snapshot p') = p_bond p \<and> es_unbond (p_era_snapshot p') = p_unbond p
    \<and> es_active (p_era_snapshot p') = p_active p
    \<and> (p_bond p \<noteq> 0 \<longrightarrow> (\<forall>pl s2. pl_pool_addr pl = a \<longrightarrow> fmlookup (POOLS s2) a = Some p' \<longrightarrow>
        sudo_era_update_failed_callback pl s2
          = Inr (save_pool a (p\<lparr>p_era_snapshot := zero_snapshot\<rparr>) s2, respond [] [])))"
  using assms(1)
proof (rule execute_era_update_ok)
  fix p0 era n p'
  assume p: "fmlookup (POOLS s) a = Some p0" and st: "p_status p0 = ActiveEnded"
    and e: "current_era env p0 = Inr era" "p_era p0 < era"
    and n: "uadd (p_era p0) 1 = (Inr n :: u64 sm_res)"
    and p': "p' = p0\<lparr>p_era := n, p_era_snapshot := \<lparr>es_era = n, es_bond = p_bond p0,
           es_unbond = p_unbond p0, es_active = p_active p0, es_restake_amount = 0,
           es_last_step_height = block_height env\<rparr>,
         p_status := (if p_bond p0 = 0 then EraUpdateEnded else EraUpdateStarted)\<rparr>"
    and P: "POOLS s' = fmupd a p' (POOLS s)"
  from p assms(2) have eq: "p0 = p" by simp
  have un: "unat n = unat (p_era p) + 1" using uadd_unat [OF n] eq by simp
  have undone: "usub n 1 = (Inr (p_era p) :: u64 sm_res)"
    using n eq by (auto simp: res_simps word_le_nat_alt unat_add_exact)
  have "sudo_era_update_failed_callback pl s2
      = Inr (save_pool a (p\<lparr>p_era_snapshot := zero_snapshot\<rparr>) s2, respond [] [])"
    if "p_bond p \<noteq> 0" "pl_pool_addr pl = a" "fmlookup (POOLS s2) a = Some p'" for pl s2
  proof -
    have "p'\<lparr>p_era := p_era p, p_status := ActiveEnded, p_era_snapshot := zero_snapshot\<rparr>
        = p\<lparr>p_era_snapshot := zero_snapshot\<rparr>"
      using st unfolding p' eq by (cases p) simp
    moreover have "p_era p' = n" by (simp add: p')
    ultimately show ?thesis
      using that undone by (simp add: sudo_era_update_failed_callback_def Let_def)
  qed
  then show ?thesis
    using P e un by (intro exI [of _ p'] exI [of _ era])
      (simp add: p' eq word_le_nat_alt word_less_nat_alt)
qed

lemma demo_update:
  "\<exists>s r. execute_era_update demo_host (demo_env (90000 * 10 ^ 13) 7) demo_fee ''pool''
      (demo_sm ActiveEnded) = Inr (s, r)"
  by (simp add: demo_sm_def execute_era_update_def current_era_def seconds_def
      saturating_add_signed_def get_update_pool_icq_msgs_def get_query_id_def
      update_interchain_query_def timeout_timestamp_def DEFAULT_TIMEOUT_SECONDS_def demo_simps eval_simps)

theorem era_update_advances_witness:
  "\<exists>(s' :: sm_store) p p'. fmlookup (POOLS (demo_sm ActiveEnded)) ''pool'' = Some p
    \<and> fmlookup (POOLS s') ''pool'' = Some p' \<and> unat (p_era p') = unat (p_era p) + 1"
proof -
  obtain s' r where u: "execute_era_update demo_host (demo_env (90000 * 10 ^ 13) 7) demo_fee ''pool''
      (demo_sm ActiveEnded) = Inr (s', r)" using demo_update by blast
  obtain p where p: "fmlookup (POOLS (demo_sm ActiveEnded)) ''pool'' = Some p"
    by (simp add: demo_sm_def)
  from era_update_advances [OF u p] p show ?thesis by blast
qed

lemma uint_small: "unat w < 2 ^ 63 \<Longrightarrow> uint (w :: u64) < 9223372036854775808"
  using of_nat_less_iff [of "unat w" "2 ^ 63", where 'a = int] by simp

lemma sint_small:
  assumes "unat w < 2 ^ 63"
  shows "sint (w :: u64) = uint w"
proof -
  have "- (2 ^ 63) \<le> uint w" by (rule order_trans [of _ 0]) simp_all
  with uint_small [OF assms] show ?thesis by (simp add: sint_uint signed_take_bit_int_eq_self)
qed

text \<open>C30: a change of the length of eras by the admin keeps the number of the current era: at the block
  of the change the new length and offset give the same era as the old ones, and the unbonding
  period covers the three weeks of the remote chain with at least one whole era to spare.\<close>

theorem config_keeps_era:
  assumes "config_era env (Some e) p = Inr p'" and "current_era env p = Inr era"
    and "unat era < 2 ^ 63" and "unat (seconds env) < 2 ^ 63"
  shows "current_era env p' = Inr era \<and> p_era_seconds p' = e
    \<and> 1814400 \<le> (unat (p_unbonding_period p') - 1) * unat e"
proof -
  from assms(1,2) obtain q off where e: "MIN_ERA_SECONDS \<le> e" "e \<le> MAX_ERA_SECONDS"
    and q: "udiv (seconds env) e = (Inr q :: u64 sm_res)" and off: "isub era q = (Inr off :: u64 sm_res)"
    and p': "p' = p\<lparr>p_era_seconds := e, p_offset := off, p_unbonding_period := unbonding_eras e\<rparr>"
    by (auto simp: config_era_def rbind_eq_Inr if_Inl_eq_Inr not_less)
  have uq: "unat q = unat (seconds env) div unat e" using udiv_unat [OF q] by simp
  then have q63: "unat q < 2 ^ 63"
    using le_less_trans [OF div_le_dividend assms(4), of "unat e"] by simp
  note small = uint_small [OF assms(3)] uint_small [OF q63]
  have off': "off = word_of_int (uint era - uint q)"
    using off by (simp add: isub_def Let_def sint_small [OF assms(3)] sint_small [OF q63] split: if_splits)
  have "sint off = uint era - uint q"
    unfolding off' sint_sbintrunc' using small
    by (intro signed_take_bit_int_eq_self)
      (simp_all, (use uint_ge_0 [of era] uint_ge_0 [of q] in linarith)+)
  then have "saturating_add_signed q off = era"
    using small by (simp add: saturating_add_signed_def Let_def)
  then have cur: "current_era env p' = Inr era" by (simp add: current_era_def p' q)
  have eb: "28800 \<le> unat e" "unat e \<le> 86400"
    using e by (simp_all add: MIN_ERA_SECONDS_def MAX_ERA_SECONDS_def word_le_nat_alt)
  define k :: nat where "k = 1814400 div unat e + (if 1814400 mod unat e = 0 then 0 else 1)"
  have kb: "k \<le> 64"
  proof -
    have "1814400 div unat e \<le> 1814400 div 28800" using eb(1) by (intro div_le_mono2) simp_all
    then show ?thesis by (simp add: k_def)
  qed
  have "UNBONDING_SECONDS mod e = 0 \<longleftrightarrow> 1814400 mod unat e = 0"
    by (simp add: UNBONDING_SECONDS_def unat_eq_0 [symmetric] unat_mod)
  then have "unbonding_eras e = of_nat (k + 1)"
    by (simp add: unbonding_eras_def k_def UNBONDING_SECONDS_def word_arith_nat_div)
  then have "unat (p_unbonding_period p') = k + 1"
    using kb by (simp add: p' unat_of_nat take_bit_nat_eq_self del: of_nat_Suc of_nat_add)
  moreover have "1814400 \<le> k * unat e"
  proof (cases "1814400 mod unat e = 0")
    case True
    then show ?thesis using mult_div_mod_eq [of "unat e" 1814400] by (simp add: k_def mult.commute)
  next
    case False
    have "1814400 = unat e * (1814400 div unat e) + 1814400 mod unat e" by simp
    moreover have "1814400 mod unat e \<le> unat e" using eb(1) by (simp add: less_imp_le)
    ultimately have "1814400 \<le> unat e * (1814400 div unat e) + unat e" by linarith
    with False show ?thesis by (simp add: k_def algebra_simps)
  qed
  ultimately show ?thesis using cur by (simp add: p')
qed

lemma demo_config:
  "\<exists>p'. config_era (demo_env (90000 * 10 ^ 13) 7) (Some 43200) (demo_pool ActiveEnded 1000) = Inr p'"
  "current_era (demo_env (90000 * 10 ^ 13) 7) (demo_pool ActiveEnded 1000) = Inr 10416"
  by (simp_all add: config_era_def current_era_def seconds_def saturating_add_signed_def isub_def
      MIN_ERA_SECONDS_def MAX_ERA_SECONDS_def demo_simps eval_simps)

theorem config_keeps_era_witness:
  "\<exists>p'. current_era (demo_env (90000 * 10 ^ 13) 7) p' = Inr 10416 \<and> p_era_seconds p' = 43200"
proof -
  obtain p' where c: "config_era (demo_env (90000 * 10 ^ 13) 7) (Some 43200) (demo_pool ActiveEnded 1000)
      = Inr p'" using demo_config(1) by blast
  from config_keeps_era [OF c demo_config(2)] show ?thesis
    by (auto simp: seconds_def demo_env_def)
qed

end
