(* ===== verification/Stake_Records.thy ===== *)
theory Stake_Records
  imports Stake_Withdraw
begin

text \<open>
  The records of what users withdraw: the map from indexes to records (\<open>UNSTAKES_OF_INDEX\<close>) and the
  list of indexes of each user (\<open>UNSTAKES_INDEX_FOR_USER\<close>) tell the same story in every reachable
  storage. A record stands under its own pool and index, below the counter of its pool, and is listed
  once, in the list of its owner; every listed index has its record. A pool that is only registered
  has no records, so its initialisation may set the counter to zero.
\<close>

definition records_ok :: "sm_store \<Rightarrow> bool" where
  "records_ok s \<longleftrightarrow>
     (\<forall>a i u. fmlookup (UNSTAKES_OF_INDEX s) (a, i) = Some u \<longrightarrow>
        u_pool_addr u = a \<and> u_index u = i \<and> i \<in> set (unstakes_of s (u_unstaker u) a)
        \<and> (\<exists>p. fmlookup (POOLS s) a = Some p \<and> i \<le> p_next_unstake_index p
             \<and> p_status p \<noteq> RegisterEnded))
   \<and> (\<forall>who a. distinct (unstakes_of s who a) \<and> (\<forall>i \<in> set (unstakes_of s who a).
        \<exists>u. fmlookup (UNSTAKES_OF_INDEX s) (a, i) = Some u \<and> u_unstaker u = who))
   \<and> (\<forall>a p. fmlookup (POOLS s) a = Some p \<longrightarrow> p_status p = RegisterEnded \<longrightarrow>
        p_total_lsd_token_amount p = 0 \<and> p_rate p = 0)"

lemma records_okD:
  assumes "records_ok s"
  shows "fmlookup (UNSTAKES_OF_INDEX s) (a, i) = Some u \<Longrightarrow> u_pool_addr u = a \<and> u_index u = i
      \<and> i \<in> set (unstakes_of s (u_unstaker u) a)
      \<and> (\<exists>p. fmlookup (POOLS s) a = Some p \<and> i \<le> p_next_unstake_index p
           \<and> p_status p \<noteq> RegisterEnded)"
    and "distinct (unstakes_of s who a)"
    and "i \<in> set (unstakes_of s who a) \<Longrightarrow>
      \<exists>u. fmlookup (UNSTAKES_OF_INDEX s) (a, i) = Some u \<and> u_unstaker u = who"
    and "fmlookup (POOLS s) a = Some p \<Longrightarrow> p_status p = RegisterEnded \<Longrightarrow>
      p_total_lsd_token_amount p = 0 \<and> p_rate p = 0"
  using assms unfolding records_ok_def by blast+

section \<open>Operations that leave the records alone\<close>

definition keeps_counter :: "pool_info \<Rightarrow> pool_info \<Rightarrow> bool" where
  "keeps_counter p p' \<longleftrightarrow> p_next_unstake_index p' = p_next_unstake_index p
     \<and> (p_status p' = RegisterEnded \<longrightarrow> p_status p = RegisterEnded
          \<and> p_total_lsd_token_amount p' = p_total_lsd_token_amount p \<and> p_rate p' = p_rate p)"

definition same_records :: "sm_store \<Rightarrow> sm_store \<Rightarrow> bool" where
  "same_records s s' \<longleftrightarrow> UNSTAKES_OF_INDEX s' = UNSTAKES_OF_INDEX s
     \<and> UNSTAKES_INDEX_FOR_USER s' = UNSTAKES_INDEX_FOR_USER s"

definition off_records :: "sm_store \<Rightarrow> sm_store \<Rightarrow> bool" where
  "off_records s s' \<longleftrightarrow> same_records s s' \<and> (POOLS s' = POOLS s
     \<or> (\<exists>a p p'. fmlookup (POOLS s) a = Some p \<and> POOLS s' = fmupd a p' (POOLS s)
          \<and> keeps_counter p p'))"

lemma off_records_refl [simp]: "off_records s s"
  by (simp add: off_records_def same_records_def)

lemma off_same: "same_records s s' \<Longrightarrow> POOLS s' = POOLS s \<Longrightarrow> off_records s s'"
  by (simp add: off_records_def)

lemma off_save:
  "fmlookup (POOLS s) a = Some p \<Longrightarrow> POOLS s' = POOLS s \<Longrightarrow> same_records s s' \<Longrightarrow> keeps_counter p p'
   \<Longrightarrow> off_records s (save_pool a p' s')"
  by (auto simp: off_records_def same_records_def save_pool_def)

lemma unstakes_of_same: "same_records s s' \<Longrightarrow> unstakes_of s' = unstakes_of s"
  by (simp add: same_records_def unstakes_of_def fun_eq_iff)

text \<open>A pool is replaced while the records stay: its counter may only grow, and a pool that has
  records stays initialised.\<close>

lemma records_pool:
  assumes ok: "records_ok s" and same: "same_records s s'" and P: "POOLS s' = fmupd a p' (POOLS s)"
    and old: "\<And>p. fmlookup (POOLS s) a = Some p \<Longrightarrow> p_status p \<noteq> RegisterEnded \<Longrightarrow>
        p_next_unstake_index p \<le> p_next_unstake_index p' \<and> p_status p' \<noteq> RegisterEnded"
    and new: "p_status p' = RegisterEnded \<Longrightarrow> p_total_lsd_token_amount p' = 0 \<and> p_rate p' = 0"
  shows "records_ok s'"
proof -
  have maps: "UNSTAKES_OF_INDEX s' = UNSTAKES_OF_INDEX s" "unstakes_of s' = unstakes_of s"
    using same unstakes_of_same [OF same] by (simp_all add: same_records_def)
  have "\<exists>q. fmlookup (POOLS s') b = Some q \<and> i \<le> p_next_unstake_index q \<and> p_status q \<noteq> RegisterEnded"
    if "\<exists>q. fmlookup (POOLS s) b = Some q \<and> i \<le> p_next_unstake_index q \<and> p_status q \<noteq> RegisterEnded"
    for b i
    using that old by (cases "b = a") (auto simp: P intro: order_trans)
  then show ?thesis
    using ok new unfolding records_ok_def maps P by (auto split: if_splits)
qed

lemma off_records_ok:
  assumes "off_records s s'" and ok: "records_ok s"
  shows "records_ok s'"
proof -
  from assms(1) have same: "same_records s s'" by (simp add: off_records_def)
  show ?thesis
  proof (cases "POOLS s' = POOLS s")
    case True
    then show ?thesis
      using ok unstakes_of_same [OF same] same by (simp add: records_ok_def same_records_def)
  next
    case False
    with assms(1) obtain a p p' where p: "fmlookup (POOLS s) a = Some p"
        "POOLS s' = fmupd a p' (POOLS s)" "keeps_counter p p'"
      by (auto simp: off_records_def)
    show ?thesis
      by (rule records_pool [OF ok same p(2)])
         (use p(1,3) records_okD(4) [OF ok p(1)] in \<open>auto simp: keeps_counter_def\<close>)
  qed
qed

lemmas off_simps = res_simps Let_def keeps_counter_def same_records_def

lemma era_steps_off:
  "execute_era_update h env info a s = Inr (s', r) \<Longrightarrow> off_records s s'"
  "execute_era_bond h ho env info a vs s = Inr (s', r) \<Longrightarrow> off_records s s'"
  "execute_era_collect_withdraw h info a s = Inr (s', r) \<Longrightarrow> off_records s s'"
  "execute_era_rebond h info a vs s = Inr (s', r) \<Longrightarrow> off_records s s'"
  by (auto simp: execute_era_update_def execute_era_bond_def execute_era_collect_withdraw_def
      execute_era_rebond_def off_simps dest!: msg_cb_frame bond_unbonds_frame
      intro!: off_save intro: off_same split: if_splits)

lemma era_callbacks_off:
  "sudo_era_update_callback env pl s = Inr (s', r) \<Longrightarrow> off_records s s'"
  "sudo_era_update_failed_callback pl s = Inr (s', r) \<Longrightarrow> off_records s s'"
  "sudo_era_bond_callback env pl s = Inr (s', r) \<Longrightarrow> off_records s s'"
  "sudo_era_bond_failed_callback pl s = Inr (s', r) \<Longrightarrow> off_records s s'"
  "sudo_era_collect_withdraw_callback env pl s = Inr (s', r) \<Longrightarrow> off_records s s'"
  "sudo_era_collect_withdraw_failed_callback pl s = Inr (s', r) \<Longrightarrow> off_records s s'"
  "sudo_era_rebond_callback env pl s = Inr (s', r) \<Longrightarrow> off_records s s'"
  "sudo_era_rebond_failed_callback pl s = Inr (s', r) \<Longrightarrow> off_records s s'"
  by (auto simp: sudo_era_update_callback_def sudo_era_update_failed_callback_def
      sudo_era_bond_callback_def sudo_era_bond_failed_callback_def
      sudo_era_collect_withdraw_callback_def sudo_era_collect_withdraw_failed_callback_def
      sudo_era_rebond_callback_def sudo_era_rebond_failed_callback_def off_simps intro!: off_save)

lemma lsm_off:
  "execute_stake_lsm h env info who a s = Inr (s', r) \<Longrightarrow> off_records s s'"
  "sudo_stake_lsm_failed_callback pl s = Inr (s', r) \<Longrightarrow> off_records s s'"
  "execute_redeem_token_for_share h info a cs s = Inr (s', r) \<Longrightarrow> off_records s s'"
  "sudo_redeem_token_for_share_callback pl s = Inr (s', r) \<Longrightarrow> off_records s s'"
  "sudo_redeem_token_for_share_failed_callback pl s = Inr (s', r) \<Longrightarrow> off_records s s'"
  by (auto simp: execute_stake_lsm_def sudo_stake_lsm_failed_callback_def
      execute_redeem_token_for_share_def sudo_redeem_token_for_share_callback_def
      sudo_redeem_token_for_share_failed_callback_def off_simps dest!: msg_cb_frame
      intro!: off_save intro: off_same)

lemma validators_off:
  "execute_rm_pool_validator h info a v s = Inr (s', r) \<Longrightarrow> off_records s s'"
  "execute_pool_update_validator h info a old new s = Inr (s', r) \<Longrightarrow> off_records s s'"
  "execute_add_pool_validators h info a v s = Inr (s', r) \<Longrightarrow> off_records s s'"
  "execute_update_validators_icq h info a s = Inr (s', r) \<Longrightarrow> off_records s s'"
  "execute_pool_delegate h info a n s = Inr (s', r) \<Longrightarrow> off_records s s'"
  "sudo_rm_validator_callback pl s = Inr (s', r) \<Longrightarrow> off_records s s'"
  "sudo_rm_validator_failed_callback pl s = Inr (s', r) \<Longrightarrow> off_records s s'"
  "sudo_update_validator_callback pl s = Inr (s', r) \<Longrightarrow> off_records s s'"
  "sudo_update_validator_failed_callback pl s = Inr (s', r) \<Longrightarrow> off_records s s'"
  by (auto simp: execute_rm_pool_validator_def execute_pool_update_validator_def
      execute_add_pool_validators_def execute_update_validators_icq_def
      execute_pool_delegate_def sudo_rm_validator_callback_def
      sudo_rm_validator_failed_callback_def sudo_update_validator_callback_def
      sudo_update_validator_failed_callback_def off_simps dest!: msg_cb_frame
      intro!: off_save split: if_splits option.splits)

lemma admin_off:
  "execute_register_pool h env info conn i s = Inr (s', r) \<Longrightarrow> off_records s s'"
  "execute_config_stack info k s = Inr (s', r) \<Longrightarrow> off_records s s'"
  "execute_open_channel info a ch s = Inr (s', r) \<Longrightarrow> off_records s s'"
  "update_icq_update_period h info a n s = Inr (s', r) \<Longrightarrow> off_records s s'"
  "sudo_set_withdraw_addr_callback pl s = Inr (s', r) \<Longrightarrow> off_records s s'"
  "sudo_set_withdraw_addr_failed_callback pl s = Inr (s', r) \<Longrightarrow> off_records s s'"
  by (auto simp: execute_register_pool_def execute_config_stack_def execute_open_channel_def
      update_icq_update_period_def sudo_set_withdraw_addr_callback_def
      sudo_set_withdraw_addr_failed_callback_def off_simps intro!: off_save intro: off_same
      split: if_splits)

lemma chain_off:
  "reply_sm h i res s = Inr (s', r) \<Longrightarrow> off_records s s'"
  "sudo_kv_query_result h q s = Inr (s', r) \<Longrightarrow> off_records s s'"
  "migrate_sm s = Inr (s', r) \<Longrightarrow> off_records s s'"
  by (auto simp: reply_sm_def prepare_sudo_payload_def write_reply_id_to_query_id_def
      save_sudo_payload_def sudo_kv_query_result_def migrate_sm_def off_simps intro!: off_same
      split: if_splits option.splits)

section \<open>Creation, initialisation, configuration\<close>

lemma records_new_pool:
  assumes "records_ok s" and "same_records s s'" and "POOLS s' = fmupd a p' (POOLS s)"
    and "\<And>p. fmlookup (POOLS s) a = Some p \<Longrightarrow> p_status p = RegisterEnded"
    and "p_status p' = RegisterEnded \<Longrightarrow> p_total_lsd_token_amount p' = 0 \<and> p_rate p' = 0"
  shows "records_ok s'"
  using assms(1-3) by (rule records_pool) (use assms(4,5) in auto)

lemma sudo_open_ack_records:
  assumes "sudo_open_ack h port ch cch v s = Inr (s', r)" and "records_ok s"
  shows "records_ok s'"
proof -
  have step: "off_records s s' \<or> (\<exists>a i admin. same_records s s' \<and> fmlookup (POOLS s) a = None
      \<and> POOLS s' = fmupd a (new_pool_info i admin) (POOLS s))"
    if "(if c \<and> d \<and> \<not> has (POOLS s) a then save_pool a (new_pool_info i admin) s else s)
        \<lparr>INFO_OF_ICA_ID := m\<rparr> = s'" for c d a i admin m
  proof (cases "c \<and> d \<and> \<not> has (POOLS s) a")
    case True
    with that have "same_records s s'" "fmlookup (POOLS s) a = None"
        "POOLS s' = fmupd a (new_pool_info i admin) (POOLS s)"
      by (auto simp: same_records_def)
    then show ?thesis by blast
  next
    case False
    with that show ?thesis by (auto simp: same_records_def intro!: off_same)
  qed
  from assms(1) have "off_records s s' \<or> (\<exists>a i admin. same_records s s'
      \<and> fmlookup (POOLS s) a = None \<and> POOLS s' = fmupd a (new_pool_info i admin) (POOLS s))"
    unfolding sudo_open_ack_def case_option_eq_Inr case_pair_eq_Inr rbind_eq_Inr Let_def
      split_paired_Ex prod.case sum.inject prod.inject
    by (elim exE conjE) (erule step)
  then show ?thesis
  proof (elim disjE exE conjE)
    fix a i admin
    assume n: "same_records s s'" "fmlookup (POOLS s) a = None"
      "POOLS s' = fmupd a (new_pool_info i admin) (POOLS s)"
    have "p_total_lsd_token_amount (new_pool_info i admin) = 0 \<and> p_rate (new_pool_info i admin) = 0"
      by (simp add: new_pool_info_def)
    then show ?thesis
      by (intro records_new_pool [OF assms(2) n(1,3)]) (use n(2) in simp_all)
  qed (rule off_records_ok [OF _ assms(2)])
qed

lemma deal_pool_records:
  assumes "deal_pool h env info p' ica w c n sy s = Inr (s', r)" and "records_ok s"
    and "fmlookup (POOLS s) (ica_addr ica) = Some p" and "p_status p = RegisterEnded"
  shows "records_ok s'"
proof -
  have "same_records s s'"
    using assms(1)
    by (auto simp: deal_pool_def off_simps dest!: register_pool_queries_frame set_withdraw_frame)
  moreover obtain t where "POOLS s' = fmupd (ica_addr ica)
      (p'\<lparr>p_lsd_token := t, p_status := InitStarted\<rparr>) (POOLS s)"
    using assms(1) by (rule deal_pool_frame)
  ultimately show ?thesis
    by (rule records_new_pool [OF assms(2)]) (use assms(3,4) in simp_all)
qed

lemma prepare_pool_off:
  "prepare_pool h info p ica w s = Inr (Inl (s', r)) \<Longrightarrow> off_records s s'"
  by (auto simp: prepare_pool_def res_simps same_records_def dest!: set_withdraw_frame
      intro!: off_same split: if_splits)

lemma prepared_records:
  assumes "prepare_pool h info p ica w s = Inr x" and "fmlookup (POOLS s) (ica_addr ica) = Some p"
    and "(case x of Inl res \<Rightarrow> Inr res
          | Inr _ \<Rightarrow> rbind (mk p) (\<lambda>p. rbind code (\<lambda>c. deal_pool h env info p ica w c n sy s)))
         = Inr (s', r)" and "records_ok s"
  shows "records_ok s'"
proof (cases x)
  case (Inl res)
  with assms(1,3) show ?thesis
    by (auto intro: off_records_ok [OF _ assms(4)] prepare_pool_off)
next
  case (Inr u)
  with assms(1) have st: "p_status p = RegisterEnded"
    by (auto simp: prepare_pool_def res_simps split: if_splits)
  from Inr assms(3) obtain p' c where "deal_pool h env info p' ica w c n sy s = Inr (s', r)"
    by (auto simp: rbind_eq_Inr)
  then show ?thesis by (rule deal_pool_records [OF _ assms(4,2) st])
qed

lemma execute_init_records:
  "execute_init_pool h env info m s = Inr (s', r) \<Longrightarrow> records_ok s \<Longrightarrow> records_ok s'"
  "execute_migrate_pool h env info m' s = Inr (s', r) \<Longrightarrow> records_ok s \<Longrightarrow> records_ok s'"
  unfolding execute_init_pool_def execute_migrate_pool_def rbind_eq_Inr if_Inl_eq_Inr
    split_paired_Ex prod.case load_pool_eq_Inr
  by (elim exE conjE, erule (3) prepared_records)+

lemma config_era_counter: "config_era env e p = Inr p' \<Longrightarrow> keeps_counter p p'"
  by (auto simp: config_era_def off_simps split: option.splits)

lemma execute_config_pool_off:
  "execute_config_pool info env m s = Inr (s', r) \<Longrightarrow> off_records s s'"
  unfolding execute_config_pool_def Let_def rbind_eq_Inr if_Inl_eq_Inr load_pool_eq_Inr sum.inject
    prod.inject
  by (elim exE conjE, hypsubst, rule off_save, assumption, simp, simp add: same_records_def,
      drule config_era_counter) (simp add: keeps_counter_def)

section \<open>Deposits, rewards, unstakes\<close>

text \<open>A pool that is only registered has rate zero: nothing is minted for it.\<close>

lemma minted_off:
  assumes "records_ok s" and "fmlookup (POOLS s) a = Some p" and "p_rate p \<noteq> 0"
    and "p_status p' = p_status p" and "p_next_unstake_index p' = p_next_unstake_index p"
  shows "off_records s (save_pool a p' s)"
proof -
  have "p_status p \<noteq> RegisterEnded" using records_okD(4) [OF assms(1,2)] assms(3) by blast
  then have "keeps_counter p p'" using assms(4,5) by (simp add: keeps_counter_def)
  then show ?thesis by (intro off_save [OF assms(2)]) (simp_all add: same_records_def)
qed

lemma deposits_off:
  assumes "records_ok s"
  shows "execute_stake who a info s = Inr (s', r) \<Longrightarrow> off_records s s'"
    and "sudo_stake_lsm_callback pl s = Inr (s', r) \<Longrightarrow> off_records s s'"
  by (auto simp: execute_stake_def sudo_stake_lsm_callback_def res_simps Let_def
      intro!: minted_off [OF assms])

lemma era_active_off:
  assumes "execute_era_active h a s = Inr (s', r)"
  shows "off_records s s'"
  using assms
proof (rule execute_era_active_steps)
  fix p k d p' pf sf p''
  assume p: "fmlookup (POOLS s) a = Some p" and e: "era_active_pool p k d = Inr (p', pf, sf)"
    and t: "\<exists>t. p'' = p'\<lparr>p_total_platform_fee := t\<rparr>" and P: "POOLS s' = fmupd a p'' (POOLS s)"
    and same: "UNSTAKES_OF_INDEX s' = UNSTAKES_OF_INDEX s
      \<and> UNSTAKES_INDEX_FOR_USER s' = UNSTAKES_INDEX_FOR_USER s"
  from e have "p_status p' = ActiveEnded \<and> p_next_unstake_index p' = p_next_unstake_index p"
    by (rule era_active_pool_steps) simp
  with t have "keeps_counter p p''" by (auto simp: keeps_counter_def)
  with p P same show ?thesis unfolding off_records_def same_records_def by blast
qed

text \<open>An unstake takes the next index, which no record has, and lists it last.\<close>

lemma execute_unstake_records:
  assumes ex: "execute_unstake info n a s = Inr (s', r)" and ok: "records_ok s"
  shows "records_ok s'"
  using ex
proof (rule execute_unstake_steps)
  fix p :: pool_info and burn msgs x t i unbond active tot u
  let ?who = "sender info"
  let ?p' = "p\<lparr>p_next_unstake_index := i, p_unbond := unbond, p_active := active,
    p_total_lsd_token_amount := tot\<rparr>"
  assume p: "fmlookup (POOLS s) a = Some p" and b: "burn \<noteq> 0"
    and i: "uadd (p_next_unstake_index p) 1 = (Inr i :: u64 sm_res)"
    and tot: "usub (p_total_lsd_token_amount p) burn = (Inr tot :: u128 sm_res)"
    and u: "u = \<lparr>u_era = p_era p, u_pool_addr = a, u_unstaker = ?who, u_amount = t - 5,
               u_status = WithdrawDefault, u_index = i\<rparr>"
    and s': "s' = (save_pool a ?p' (s\<lparr>UNSTAKES_OF_INDEX := fmupd (a, i) u (UNSTAKES_OF_INDEX s)\<rparr>))
      \<lparr>UNSTAKES_INDEX_FOR_USER := fmupd (?who, a)
         (unstakes_of s ?who a @ [i]) (UNSTAKES_INDEX_FOR_USER s)\<rparr>"
  note D = records_okD [OF ok]
  have lt: "p_next_unstake_index p < i"
    using uadd_unat [OF i] by (simp add: word_less_nat_alt)
  have new: "fmlookup (UNSTAKES_OF_INDEX s) (a, i) = None"
    using D(1) [of a i] p lt by (cases "fmlookup (UNSTAKES_OF_INDEX s) (a, i)") auto
  have st: "p_status p \<noteq> RegisterEnded"
    using D(4) [OF p] tot b by (auto simp: usub_eq_Inr)
  have lists: "unstakes_of s' w c = (if w = ?who \<and> c = a then unstakes_of s ?who a @ [i]
      else unstakes_of s w c)" for w c
    by (auto simp: s' unstakes_of_def)
  have recs: "fmlookup (UNSTAKES_OF_INDEX s') k = (if k = (a, i) then Some u
      else fmlookup (UNSTAKES_OF_INDEX s) k)" for k
    by (simp add: s')
  have pools: "fmlookup (POOLS s') c = (if c = a then Some ?p' else fmlookup (POOLS s) c)" for c
    by (simp add: s')
  have fresh: "i \<notin> set (unstakes_of s w a)" for w
    using D(3) [of i w a] new by auto
  have "u_pool_addr v = c \<and> u_index v = j \<and> j \<in> set (unstakes_of s' (u_unstaker v) c)
      \<and> (\<exists>p. fmlookup (POOLS s') c = Some p \<and> j \<le> p_next_unstake_index p
           \<and> p_status p \<noteq> RegisterEnded)"
    if v: "fmlookup (UNSTAKES_OF_INDEX s') (c, j) = Some v" for c j v
  proof (cases "(c, j) = (a, i)")
    case True
    with v have "v = u" by (simp add: recs)
    with True st show ?thesis by (simp add: lists pools) (simp add: u)
  next
    case False
    with v have "fmlookup (UNSTAKES_OF_INDEX s) (c, j) = Some v" by (simp only: recs if_False)
    from D(1) [OF this] p lt show ?thesis by (auto simp: lists pools)
  qed
  moreover have "distinct (unstakes_of s' w c)" for w c
    using D(2) fresh by (simp add: lists)
  moreover have "\<exists>v. fmlookup (UNSTAKES_OF_INDEX s') (c, j) = Some v \<and> u_unstaker v = w"
    if "j \<in> set (unstakes_of s' w c)" for w c j
    using that D(3) [of j w c] fresh by (auto simp: lists recs u split: if_splits)
  moreover have "p_total_lsd_token_amount q = 0 \<and> p_rate q = 0"
    if "fmlookup (POOLS s') c = Some q" and "p_status q = RegisterEnded" for c q
    using that D(4) [of c q] st by (auto simp: pools split: if_splits)
  ultimately show ?thesis unfolding records_ok_def by blast
qed

section \<open>Withdrawals\<close>

text \<open>A change of the status of records keeps the two maps in step.\<close>

definition status_only :: "sm_store \<Rightarrow> sm_store \<Rightarrow> bool" where
  "status_only s s' \<longleftrightarrow> POOLS s' = POOLS s
     \<and> UNSTAKES_INDEX_FOR_USER s' = UNSTAKES_INDEX_FOR_USER s
     \<and> (\<forall>k. map_option (u_status_update (\<lambda>_. WithdrawDefault)) (fmlookup (UNSTAKES_OF_INDEX s') k)
          = map_option (u_status_update (\<lambda>_. WithdrawDefault)) (fmlookup (UNSTAKES_OF_INDEX s) k))"

lemma status_only_refl [simp]: "status_only s s"
  by (simp add: status_only_def)

lemma status_only_trans: "status_only s t \<Longrightarrow> status_only t u \<Longrightarrow> status_only s u"
  by (simp add: status_only_def)

lemma status_only_upd:
  "fmlookup (UNSTAKES_OF_INDEX s) k = Some u
   \<Longrightarrow> status_only s (s\<lparr>UNSTAKES_OF_INDEX := fmupd k (u\<lparr>u_status := st\<rparr>) (UNSTAKES_OF_INDEX s)\<rparr>)"
  by (auto simp: status_only_def)

lemma status_only_record:
  assumes "status_only s s'" and "fmlookup (UNSTAKES_OF_INDEX s') k = Some u'"
  shows "\<exists>u. fmlookup (UNSTAKES_OF_INDEX s) k = Some u \<and> u_pool_addr u = u_pool_addr u'
    \<and> u_index u = u_index u' \<and> u_unstaker u = u_unstaker u' \<and> u_amount u = u_amount u' \<and> u_era u = u_era u'"
proof -
  have "map_option (u_status_update (\<lambda>_. WithdrawDefault)) (fmlookup (UNSTAKES_OF_INDEX s) k)
      = map_option (u_status_update (\<lambda>_. WithdrawDefault)) (fmlookup (UNSTAKES_OF_INDEX s') k)"
    using assms(1) unfolding status_only_def by metis
  with assms(2) have "map_option (u_status_update (\<lambda>_. WithdrawDefault))
      (fmlookup (UNSTAKES_OF_INDEX s) k) = Some (u'\<lparr>u_status := WithdrawDefault\<rparr>)" by simp
  then obtain u where "fmlookup (UNSTAKES_OF_INDEX s) k = Some u"
      "u\<lparr>u_status := WithdrawDefault\<rparr> = u'\<lparr>u_status := WithdrawDefault\<rparr>" by auto
  then show ?thesis
    by (cases u, cases u') auto
qed

lemma status_only_sym: "status_only s s' \<Longrightarrow> status_only s' s"
  by (simp add: status_only_def)

lemma status_only_records:
  assumes "status_only s s'" and ok: "records_ok s"
  shows "records_ok s'"
proof -
  have maps: "POOLS s' = POOLS s" "unstakes_of s' = unstakes_of s"
    using assms(1) by (simp_all add: status_only_def unstakes_of_def fun_eq_iff)
  note old = status_only_record [OF assms(1)] and forth = status_only_record [OF status_only_sym [OF assms(1)]]
  note D = records_okD [OF ok]
  have "u_pool_addr u = a \<and> u_index u = i \<and> i \<in> set (unstakes_of s (u_unstaker u) a)
      \<and> (\<exists>p. fmlookup (POOLS s) a = Some p \<and> i \<le> p_next_unstake_index p
           \<and> p_status p \<noteq> RegisterEnded)"
    if "fmlookup (UNSTAKES_OF_INDEX s') (a, i) = Some u" for a i u
    using old [OF that] D(1) by metis
  moreover have "\<exists>u. fmlookup (UNSTAKES_OF_INDEX s') (a, i) = Some u \<and> u_unstaker u = who"
    if "i \<in> set (unstakes_of s who a)" for i who a
    using D(3) [OF that] forth by metis
  ultimately show ?thesis
    using D(2,4) unfolding records_ok_def maps by blast
qed

lemma withdraw_loop_status:
  "rfold (withdraw_one info a p) is (s, t) = Inr (s', t') \<Longrightarrow> status_only s s'"
proof (induction "is" arbitrary: s t)
  case (Cons i "is")
  then obtain s1 t1 where w: "withdraw_one info a p i (s, t) = Inr (s1, t1)"
    and r: "rfold (withdraw_one info a p) is (s1, t1) = Inr (s', t')"
    by (auto simp: res_simps)
  from w have "status_only s s1"
    by (auto simp: withdraw_one_def res_simps intro: status_only_upd)
  with Cons.IH [OF r] show ?case by (blast intro: status_only_trans)
qed simp

lemma reset_loop_status:
  "rfold (reset_one a) is s = Inr s' \<Longrightarrow> status_only s s'"
proof (induction "is" arbitrary: s)
  case (Cons i "is")
  then obtain s1 where w: "reset_one a i s = Inr s1" and r: "rfold (reset_one a) is s1 = Inr s'"
    by (auto simp: res_simps)
  from w have "status_only s s1"
    by (auto simp: reset_one_def res_simps intro: status_only_upd split: option.splits)
  with Cons.IH [OF r] show ?case by (blast intro: status_only_trans)
qed simp

lemma execute_withdraw_records:
  assumes "execute_withdraw h info a rcv is s = Inr (s', r)" and "records_ok s"
  shows "records_ok s'"
proof -
  from assms(1) obtain s1 t m pl sub where w: "rfold (withdraw_one info a m) is (s, 0) = Inr (s1, t)"
    and c: "\<exists>x. msg_with_sudo_callback x pl s1 = Inr (sub, s')"
    unfolding execute_withdraw_def rbind_eq_Inr if_Inl_eq_Inr split_paired_Ex prod.case sum.inject
      prod.inject
    by (elim exE conjE) (rule that, assumption, hypsubst, rule exI, assumption)
  from c have "off_records s1 s'"
    by (auto simp: same_records_def dest!: msg_cb_frame intro!: off_same)
  with status_only_records [OF withdraw_loop_status [OF w] assms(2)] show ?thesis
    by (blast intro: off_records_ok)
qed

text \<open>The success callback removes records and their indexes together.\<close>

lemma fold_fmdrop_lookup:
  "fmlookup (fold (\<lambda>i. fmdrop (a, i)) is m) (c, j) = (if c = a \<and> j \<in> set is then None else fmlookup m (c, j))"
  by (induction "is" arbitrary: m) auto

lemma sudo_withdraw_callback_records:
  assumes "sudo_withdraw_callback pl s = Inr (s', r)" and ok: "records_ok s"
  shows "records_ok s'"
proof -
  let ?a = "pl_pool_addr pl" and ?who = "split_on CHR ''_'' (pl_message pl) ! 1"
  let ?gone = "\<lambda>i :: u64. to_string i \<in> set (tl (split_on CHR ''_'' (pl_message pl)))"
  show ?thesis
  proof (cases "fmlookup (UNSTAKES_INDEX_FOR_USER s) (?who, ?a)")
    case None
    with assms(1) have "s' = s" by (auto simp: sudo_withdraw_callback_def Let_def split: if_splits)
    with ok show ?thesis by simp
  next
    case (Some us)
    with assms(1) have s': "s' = s\<lparr>UNSTAKES_OF_INDEX := fold (\<lambda>i. fmdrop (?a, i)) (filter ?gone us)
          (UNSTAKES_OF_INDEX s), UNSTAKES_INDEX_FOR_USER := fmupd (?who, ?a)
          (retain (\<lambda>i. \<not> ?gone i) us) (UNSTAKES_INDEX_FOR_USER s)\<rparr>"
      by (auto simp: sudo_withdraw_callback_def Let_def split: if_splits)
    have us: "us = unstakes_of s ?who ?a" using Some by (simp add: unstakes_of_def)
    have lists: "unstakes_of s' w c = (if w = ?who \<and> c = ?a then retain (\<lambda>i. \<not> ?gone i) us
        else unstakes_of s w c)" for w c
      by (auto simp: s' unstakes_of_def)
    have recs: "fmlookup (UNSTAKES_OF_INDEX s') (c, j)
        = (if c = ?a \<and> j \<in> set us \<and> ?gone j then None else fmlookup (UNSTAKES_OF_INDEX s) (c, j))" for c j
      by (simp add: s' fold_fmdrop_lookup)
    have pools: "POOLS s' = POOLS s" by (simp add: s')
    note D = records_okD [OF ok]
    have owner: "u_unstaker u = ?who"
      if "fmlookup (UNSTAKES_OF_INDEX s) (?a, j) = Some u" "j \<in> set us" for j u
      using D(3) [of j ?who ?a] that us by simp
    have "u_pool_addr u = c \<and> u_index u = j \<and> j \<in> set (unstakes_of s' (u_unstaker u) c)
        \<and> (\<exists>p. fmlookup (POOLS s) c = Some p \<and> j \<le> p_next_unstake_index p
             \<and> p_status p \<noteq> RegisterEnded)"
      if "fmlookup (UNSTAKES_OF_INDEX s') (c, j) = Some u" for c j u
    proof -
      from that have u: "fmlookup (UNSTAKES_OF_INDEX s) (c, j) = Some u"
          "\<not> (c = ?a \<and> j \<in> set us \<and> ?gone j)"
        by (auto simp: recs split: if_splits)
      from D(1) [OF u(1)] u(2) show ?thesis by (auto simp: lists us)
    qed
    moreover have "distinct (unstakes_of s' w c)" for w c
      using D(2) by (simp add: lists us distinct_retain)
    moreover have "\<exists>u. fmlookup (UNSTAKES_OF_INDEX s') (c, j) = Some u \<and> u_unstaker u = w"
      if j: "j \<in> set (unstakes_of s' w c)" for j w c
    proof -
      have "j \<in> set (unstakes_of s w c)" using j by (auto simp: lists us split: if_splits)
      from D(3) [OF this] obtain u where u: "fmlookup (UNSTAKES_OF_INDEX s) (c, j) = Some u"
          "u_unstaker u = w" by blast
      have "\<not> (c = ?a \<and> j \<in> set us \<and> ?gone j)"
        using j owner [of j u] u by (auto simp: lists split: if_splits)
      with u show ?thesis by (auto simp: recs)
    qed
    ultimately show ?thesis
      using D(4) unfolding records_ok_def pools by blast
  qed
qed

lemma sudo_withdraw_failed_records:
  assumes "sudo_withdraw_failed_callback pl s = Inr (s', r)" and "records_ok s"
  shows "records_ok s'"
proof -
  from assms(1) have "status_only s s'"
    by (auto simp: sudo_withdraw_failed_callback_def res_simps dest: reset_loop_status)
  then show ?thesis by (rule status_only_records [OF _ assms(2)])
qed

section \<open>Reachable storages\<close>

lemmas off_execute = era_steps_off lsm_off validators_off admin_off era_active_off
  execute_config_pool_off

lemma execute_sm_records:
  assumes "execute_sm h ho env info m s = Inr (s', r)" and ok: "records_ok s"
  shows "records_ok s'"
  using assms(1)
  by (cases m) (auto intro: off_records_ok [OF _ ok] off_execute deposits_off [OF ok]
      execute_init_records [OF _ ok] execute_unstake_records [OF _ ok]
      execute_withdraw_records [OF _ ok])

lemma sudo_callback_records:
  assumes "sudo_callback env t pl s = Inr (s', r)" and ok: "records_ok s"
  shows "records_ok s'"
  using assms(1)
  by (cases t) (auto intro: off_records_ok [OF _ ok] era_callbacks_off lsm_off validators_off
      admin_off deposits_off [OF ok] sudo_withdraw_callback_records [OF _ ok])

lemma sudo_failed_callback_records:
  assumes "sudo_failed_callback t pl s = Inr (s', r)" and ok: "records_ok s"
  shows "records_ok s'"
  using assms(1)
  by (cases t) (auto intro: off_records_ok [OF _ ok] era_callbacks_off lsm_off validators_off
      admin_off sudo_withdraw_failed_records [OF _ ok])

lemma take_payload_off: "take_payload req s = Inr (pl, s') \<Longrightarrow> off_records s s'"
  by (erule take_payload_ok) (simp add: off_same same_records_def)

lemma sudo_sm_records:
  assumes "sudo_sm h env m s = Inr (s', r)" and "records_ok s"
  shows "records_ok s'"
  using assms
  by (cases m) (auto simp: sudo_response_def sudo_error_def sudo_timeout_def rbind_eq_Inr
      intro: sudo_callback_records sudo_failed_callback_records sudo_open_ack_records
        off_records_ok [OF take_payload_off] off_records_ok [OF chain_off(2)])

lemma sm_step_records: "sm_step h ho s s' \<Longrightarrow> records_ok s \<Longrightarrow> records_ok s'"
  by (erule sm_stepE) (auto intro: execute_sm_records sudo_sm_records
      off_records_ok [OF chain_off(1)] off_records_ok [OF chain_off(3)])

lemma sm_reach_records: "sm_reach h ho s \<Longrightarrow> records_ok s"
proof (induction rule: sm_reach.induct)
  case (reach_init info code s r)
  then show ?case
    by (auto simp: instantiate_sm_def empty_sm_def records_ok_def unstakes_of_def)
qed (rule sm_step_records)

end
