(* ===== verification/Stake_Records_Properties.thy ===== *)
theory Stake_Records_Properties
  imports Stake_Records Stake_Demo
begin

text \<open>
  What the users of a pool can rely on about their records: the query returns exactly the records
  they own, and an unstake adds one record under an index that was never used, next to the old ones.
\<close>

lemma rmap_load:
  assumes "\<And>i. i \<in> set is \<Longrightarrow> \<exists>u. fmlookup m (a, i) = Some u"
  shows "rmap (\<lambda>i. load e m (a, i)) is = Inr (map (\<lambda>i. the (fmlookup m (a, i))) is)"
  using assms
proof (induction "is")
  case (Cons i "is")
  from Cons.prems [of i] obtain u where "fmlookup m (a, i) = Some u" by auto
  with Cons show ?case by simp
qed simp

text \<open>C38: in every storage the contract can reach, the query for the unstakes of a user in a pool never
  fails, and returns exactly the records of that pool whose owner is that user, each once.\<close>

theorem user_unstakes_exact:
  assumes "sm_reach h ho s"
  shows "\<exists>us. query_user_unstake a who s = Inr us \<and> distinct (map u_index us)
    \<and> set us = {u. \<exists>i. fmlookup (UNSTAKES_OF_INDEX s) (a, i) = Some u \<and> u_unstaker u = who}"
proof -
  note D = records_okD [OF sm_reach_records [OF assms]]
  let ?is = "unstakes_of s who a"
  let ?us = "map (\<lambda>i. the (fmlookup (UNSTAKES_OF_INDEX s) (a, i))) ?is"
  have u: "\<exists>u. fmlookup (UNSTAKES_OF_INDEX s) (a, i) = Some u \<and> u_unstaker u = who \<and> u_index u = i"
    if "i \<in> set ?is" for i
    using D(3) [OF that] D(1) by blast
  have "query_user_unstake a who s = Inr ?us"
  proof (cases "fmlookup (UNSTAKES_INDEX_FOR_USER s) (who, a)")
    case None
    then show ?thesis by (simp add: query_user_unstake_def unstakes_of_def)
  next
    case (Some js)
    then have "?is = js" by (simp add: unstakes_of_def)
    with Some u show ?thesis
      by (simp add: query_user_unstake_def) (rule rmap_load, blast)
  qed
  moreover have "map u_index ?us = ?is"
  proof -
    have "u_index (the (fmlookup (UNSTAKES_OF_INDEX s) (a, i))) = i" if "i \<in> set ?is" for i
      using u [OF that] by auto
    then show ?thesis by (simp add: map_idI)
  qed
  moreover have "set ?us = {u. \<exists>i. fmlookup (UNSTAKES_OF_INDEX s) (a, i) = Some u \<and> u_unstaker u = who}"
  proof (intro equalityI subsetI)
    fix x
    assume "x \<in> set ?us"
    then obtain i where i: "i \<in> set ?is" "x = the (fmlookup (UNSTAKES_OF_INDEX s) (a, i))" by auto
    from u [OF i(1)] i(2) show "x \<in> {u. \<exists>i. fmlookup (UNSTAKES_OF_INDEX s) (a, i) = Some u
        \<and> u_unstaker u = who}" by auto
  next
    fix x
    assume "x \<in> {u. \<exists>i. fmlookup (UNSTAKES_OF_INDEX s) (a, i) = Some u \<and> u_unstaker u = who}"
    then obtain i where i: "fmlookup (UNSTAKES_OF_INDEX s) (a, i) = Some x" "u_unstaker x = who" by blast
    from D(1) [OF i(1)] i(2) have "i \<in> set ?is" by simp
    with i(1) show "x \<in> set ?us" by force
  qed
  ultimately show ?thesis using D(2) by (intro exI [of _ ?us]) simp
qed

text \<open>An accepted unstake of a reachable storage records the withdrawal under an index of the pool
  that no record has, appends it to the list of the sender, and leaves every other record and list
  as they were; the record holds the worth of the burnt tokens at the rate less five units, for the
  current era of the pool, and the burnt tokens are what the commission leaves of the amount.\<close>

theorem unstake_adds_record:
  assumes "sm_reach h ho s" and "execute_unstake info n a s = Inr (s', r)"
  shows "\<exists>p i u burn fees. fmlookup (POOLS s) a = Some p
    \<and> fmlookup (UNSTAKES_OF_INDEX s) (a, i) = None
    \<and> UNSTAKES_OF_INDEX s' = fmupd (a, i) u (UNSTAKES_OF_INDEX s)
    \<and> UNSTAKES_INDEX_FOR_USER s' = fmupd (sender info, a) (unstakes_of s (sender info) a @ [i])
        (UNSTAKES_INDEX_FOR_USER s)
    \<and> unstake_commission p (sender info) n = Inr (burn, fees)
    \<and> u_unstaker u = sender info \<and> u_era u = p_era p \<and> u_status u = WithdrawDefault
    \<and> unat (u_amount u) + 5 = unat burn * unat (p_rate p) div 1000000
    \<and> messages r = fees @ [no_reply (LsdBurnFrom (p_lsd_token p) (sender info) burn)]"
  using assms(2)
proof (rule execute_unstake_steps)
  fix p :: pool_info and burn msgs x t i unbond active tot u
  assume p: "fmlookup (POOLS s) a = Some p"
    and c: "unstake_commission p (sender info) n = Inr (burn, msgs)"
    and x: "umul burn (p_rate p) = (Inr x :: u128 sm_res)" "udiv x CAL_BASE = (Inr t :: u128 sm_res)"
    and i: "uadd (p_next_unstake_index p) 1 = (Inr i :: u64 sm_res)" and t: "5 < t"
    and u: "u = \<lparr>u_era = p_era p, u_pool_addr = a, u_unstaker = sender info, u_amount = t - 5,
               u_status = WithdrawDefault, u_index = i\<rparr>"
    and s': "s' = (save_pool a (p\<lparr>p_next_unstake_index := i, p_unbond := unbond, p_active := active,
                p_total_lsd_token_amount := tot\<rparr>)
              (s\<lparr>UNSTAKES_OF_INDEX := fmupd (a, i) u (UNSTAKES_OF_INDEX s)\<rparr>))
              \<lparr>UNSTAKES_INDEX_FOR_USER := fmupd (sender info, a)
                 (unstakes_of s (sender info) a @ [i]) (UNSTAKES_INDEX_FOR_USER s)\<rparr>"
    and r: "messages r = msgs @ [no_reply (LsdBurnFrom (p_lsd_token p) (sender info) burn)]"
  have "p_next_unstake_index p < i" using uadd_unat [OF i] by (simp add: word_less_nat_alt)
  then have new: "fmlookup (UNSTAKES_OF_INDEX s) (a, i) = None"
    using records_okD(1) [OF sm_reach_records [OF assms(1)], of a i] p
    by (cases "fmlookup (UNSTAKES_OF_INDEX s) (a, i)") auto
  have "unat t = unat burn * unat (p_rate p) div 1000000"
    using umul_unat [OF x(1)] udiv_unat [OF x(2)] by (simp add: CAL_BASE_nat)
  moreover have "unat (t - 5) + 5 = unat t"
    using t by (simp add: unat_sub word_le_nat_alt word_less_nat_alt)
  ultimately have amt: "unat (u_amount u) + 5 = unat burn * unat (p_rate p) div 1000000"
    by (simp add: u)
  show ?thesis
    by (rule exI [of _ p], rule exI [of _ i], rule exI [of _ u], rule exI [of _ burn], rule exI [of _ msgs])
       (use p new c r amt s' in \<open>simp add: u\<close>)
qed

text \<open>Both at the demonstration storage, in which \<open>alice\<close> unstakes 100 of her 1000 tokens.\<close>

lemma demo_unstakes:
  "\<exists>s s' r. sm_reach demo_host (\<lambda>_. []) s
     \<and> execute_unstake (demo_info ''alice'' []) 100 demo_addr s = Inr (s', r)
     \<and> messages r = [no_reply (LsdBurnFrom (CHR ''t'' # replicate 40 CHR ''a'') ''alice'' 100)]"
proof -
  from demo_reach_fresh obtain s where s: "sm_reach demo_host (\<lambda>_. []) s"
    "fmlookup (POOLS s) demo_addr = Some (demo_pool ActiveEnded 1000)"
    "UNSTAKES_INDEX_FOR_USER s = fmempty" by blast
  have "\<exists>s' r. execute_unstake (demo_info ''alice'' []) 100 demo_addr s = Inr (s', r)
     \<and> messages r = [no_reply (LsdBurnFrom (CHR ''t'' # replicate 40 CHR ''a'') ''alice'' 100)]"
    by (simp add: execute_unstake_def load_pool_def s(2,3) unstakes_of_def ulen_def
        unstake_commission_def demo_pool_def new_pool_info_def demo_info_def eval_simps)
  with s(1) show ?thesis by blast
qed

theorem unstake_adds_record_witness:
  "\<exists>s s' r i (u :: unstake_info). execute_unstake (demo_info ''alice'' []) 100 demo_addr s = Inr (s', r)
     \<and> fmlookup (UNSTAKES_OF_INDEX s) (demo_addr, i) = None
     \<and> UNSTAKES_OF_INDEX s' = fmupd (demo_addr, i) u (UNSTAKES_OF_INDEX s) \<and> u_unstaker u = ''alice''"
proof -
  from demo_unstakes obtain s s' r where s: "sm_reach demo_host (\<lambda>_. []) s"
      "execute_unstake (demo_info ''alice'' []) 100 demo_addr s = Inr (s', r)" by blast
  moreover have "sender (demo_info ''alice'' []) = ''alice''" by (simp add: demo_info_def)
  ultimately show ?thesis using unstake_adds_record [OF s] by metis
qed

theorem user_unstakes_exact_witness:
  "\<exists>s s' r us. execute_unstake (demo_info ''alice'' []) 100 demo_addr s = Inr (s', r)
     \<and> query_user_unstake demo_addr ''alice'' s' = Inr us"
proof -
  from demo_unstakes obtain s s' r where s: "sm_reach demo_host (\<lambda>_. []) s"
      "execute_unstake (demo_info ''alice'' []) 100 demo_addr s = Inr (s', r)" by blast
  have "sm_step demo_host (\<lambda>_. []) s s'"
    by (rule step_execute [where m = "Unstake 100 demo_addr"]) (use s(2) in simp_all)
  then have "sm_reach demo_host (\<lambda>_. []) s'" by (rule reach_step [OF s(1)])
  from user_unstakes_exact [OF this] s(2) show ?thesis by blast
qed

end
