(* ===== verification/Stake_Lsm_Properties.thy ===== *)
theory Stake_Lsm_Properties
  imports Stake_Withdraw Stake_Demo
begin

text \<open>
  What becomes of tokenised shares whose transfer to the pool fails or succeeds: the payload is one
  string of five parts separated by underscores, and its first part is an address that no check
  keeps free of them.
\<close>

lemma split_on_length: "length (split_on c s) = Suc (length (filter (\<lambda>x. x = c) s))"
  by (induction s) (auto split: list.splits simp: length_Suc_conv)

lemma five_parts_only:
  assumes "length (split_on CHR ''_'' (pl_message pl)) \<noteq> 5"
  shows "sudo_stake_lsm_callback pl s = Inl (Err (UnsupportedMessage (pl_message pl)))"
    and "sudo_stake_lsm_failed_callback pl s = Inl (Err (UnsupportedMessage (pl_message pl)))"
  using assms
  by (auto simp: sudo_stake_lsm_callback_def sudo_stake_lsm_failed_callback_def split: list.splits)

lemma lsm_message_parts:
  assumes "CHR ''_'' \<notin> set ibc" and "CHR ''_'' \<notin> set den"
  shows "split_on CHR ''_'' (lsm_message who n k ibc den)
    = split_on CHR ''_'' who @ [to_string n, to_string k, ibc, den]"
  using assms by (simp add: lsm_message_def split_on_both split_on_append split_on_no_sep)

lemma execute_stake_lsm_payload:
  assumes "execute_stake_lsm h env info who a s = Inr (s', r)"
  obtains p c ch den v n port sub m where "load_pool s a = Inr p" and "funds info = [c]"
    and "lsm_denom h p (c_denom c) = Inr (ch, den, v)" and "n \<noteq> 0"
    and "msg_with_sudo_callback m \<lparr>pl_message = lsm_message who n (c_amount c) (c_denom c) den,
      pl_pool_addr = a, pl_port_id = port, pl_tx_type = TxStakeLsm\<rparr> s = Inr (sub, s')"
    and "messages r = [sub]"
proof -
  from assms have "\<exists>p c ch den v n port sub m. load_pool s a = Inr p \<and> funds info = [c]
    \<and> lsm_denom h p (c_denom c) = Inr (ch, den, v) \<and> n \<noteq> 0
    \<and> msg_with_sudo_callback m \<lparr>pl_message = lsm_message who n (c_amount c) (c_denom c) den,
      pl_pool_addr = a, pl_port_id = port, pl_tx_type = TxStakeLsm\<rparr> s = Inr (sub, s')
    \<and> messages r = [sub]"
    by (fastforce simp: execute_stake_lsm_def res_simps split: option.splits)
  then show ?thesis by (elim exE conjE) (rule that)
qed

text \<open>C39: tokenised shares sent with \<open>StakeLsm\<close> come back when the transfer to the pool fails: the
  acknowledgement returns exactly the coin to the address the call named, provided that address has
  no underscore. With an underscore in the address, which nothing checks, the payload does not parse:
  the failure handler and the success handler both refuse it, so the shares are neither returned nor
  turned into share tokens.\<close>

theorem lsm_refund_unless_underscore:
  assumes "execute_stake_lsm h env info who a s = Inr (s', r)" and "funds info = [c]"
    and "load_pool s a = Inr p" and "lsm_denom h p (c_denom c) = Inr (ch, den, v)"
    and "CHR ''_'' \<notin> set (c_denom c)" and "CHR ''_'' \<notin> set den"
  shows "\<exists>i pl. fmlookup (REPLY_ID_TO_PAYLOAD s') i = Some pl
    \<and> messages r = [reply_on_success (sm_msg (hd (messages r))) i]
    \<and> (\<forall>t. sudo_failed_callback (pl_tx_type pl) pl t
          = (if CHR ''_'' \<in> set who then Inl (Err (UnsupportedMessage (pl_message pl)))
             else Inr (t, respond [no_reply (BankSend who [c])] [])))
    \<and> (\<forall>t env. CHR ''_'' \<in> set who \<longrightarrow> sudo_callback env (pl_tx_type pl) pl t
          = Inl (Err (UnsupportedMessage (pl_message pl))))"
  using assms(1)
proof (rule execute_stake_lsm_payload)
  fix p' c' ch' den' v' n port sub m
  let ?pl = "\<lparr>pl_message = lsm_message who n (c_amount c) (c_denom c) den, pl_pool_addr = a,
    pl_port_id = port, pl_tx_type = TxStakeLsm\<rparr>"
  assume "load_pool s a = Inr p'" and "funds info = [c']"
    and "lsm_denom h p' (c_denom c') = Inr (ch', den', v')"
    and cb: "msg_with_sudo_callback m \<lparr>pl_message = lsm_message who n (c_amount c') (c_denom c') den',
      pl_pool_addr = a, pl_port_id = port, pl_tx_type = TxStakeLsm\<rparr> s = Inr (sub, s')"
    and r: "messages r = [sub]"
  with assms(2-4) have eq: "c' = c" "den' = den" by simp_all
  note parts = lsm_message_parts [OF assms(5,6), of who n "c_amount c"]
  from cb obtain i where i: "sub = reply_on_success m i" "fmlookup (REPLY_ID_TO_PAYLOAD s') i = Some ?pl"
    unfolding eq by (rule msg_cb_ok) simp
  have ok: "sudo_stake_lsm_failed_callback ?pl t = Inr (t, respond [no_reply (BankSend who [c])] [])"
    if "CHR ''_'' \<notin> set who" for t
    using parts that by (cases c) (simp add: sudo_stake_lsm_failed_callback_def split_on_no_sep)
  have "length (split_on CHR ''_'' (pl_message ?pl)) \<noteq> 5" if "CHR ''_'' \<in> set who"
    using that by (auto simp: parts split_on_length filter_empty_conv)
  note bad = five_parts_only [OF this]
  show ?thesis
    by (rule exI [of _ i], rule exI [of _ ?pl]) (use i r ok bad in auto)
qed

text \<open>A pool that takes shares of the validator \<open>val1\<close>, and a deposit of 500 of them.\<close>

definition demo_lsm_host :: host where
  "demo_lsm_host = demo_host\<lparr>query_denom_trace := (\<lambda>_. Inr (''transfer/channel-7'', ''val1/1''))\<rparr>"

definition demo_lsm :: sm_store where
  "demo_lsm = demo_start\<lparr>
     POOLS := fmupd demo_addr ((demo_pool ActiveEnded 1000)\<lparr>p_lsm_support := True\<rparr>) fmempty,
     INFO_OF_ICA_ID := fmupd ''ica'' (demo_ica, demo_ica\<lparr>ica_addr := ''withdraw''\<rparr>, ''gov'') fmempty,
     ADDRESS_TO_REPLY_ID := fmupd (demo_addr, query_kind_to_string Validators) 4 fmempty,
     REPLY_ID_TO_QUERY_ID := fmupd 4 14 fmempty\<rparr>"

lemma demo_stake_lsm:
  "\<exists>s' r. execute_stake_lsm demo_lsm_host (demo_env 0 9) (demo_info ''alice'' [demo_coin ''ibc/SHARE'' 500])
      who demo_addr demo_lsm = Inr (s', r)"
  by (simp add: execute_stake_lsm_def demo_lsm_def demo_lsm_host_def lsm_denom_def
      query_denom_trace_from_ibc_denom_def query_validator_by_addr_def load_kv_query_def get_query_id_def
      lsm_token_amount_def lsm_timeout_def parse_uint_def is_digit_def digits_value_def byte_def
      DEFAULT_TIMEOUT_SECONDS_def demo_start_def eval_simps demo_simps)

theorem lsm_refund_unless_underscore_witness:
  "\<exists>pl pl' t. sudo_failed_callback (pl_tx_type pl) pl demo_lsm
      = Inr (demo_lsm, respond [no_reply (BankSend ''bob'' [demo_coin ''ibc/SHARE'' 500])] [])
    \<and> sudo_failed_callback (pl_tx_type pl') pl' demo_lsm = Inl t
    \<and> sudo_callback (demo_env 0 10) (pl_tx_type pl') pl' demo_lsm = Inl t"
proof -
  let ?info = "demo_info ''alice'' [demo_coin ''ibc/SHARE'' 500]"
  have f: "funds ?info = [demo_coin ''ibc/SHARE'' 500]" by (simp add: demo_info_def)
  have p: "load_pool demo_lsm demo_addr = Inr ((demo_pool ActiveEnded 1000)\<lparr>p_lsm_support := True\<rparr>)"
    by (simp add: demo_lsm_def)
  have d: "lsm_denom demo_lsm_host ((demo_pool ActiveEnded 1000)\<lparr>p_lsm_support := True\<rparr>)
      (c_denom (demo_coin ''ibc/SHARE'' 500)) = Inr (''channel-7'', ''val1/1'', ''val1'')"
    by (simp add: lsm_denom_def query_denom_trace_from_ibc_denom_def demo_lsm_host_def demo_simps)
  have u: "CHR ''_'' \<notin> set (c_denom (demo_coin ''ibc/SHARE'' 500))" "CHR ''_'' \<notin> set ''val1/1''"
    by (simp_all add: demo_coin_def)
  note refund = lsm_refund_unless_underscore [OF _ f p d u]
  obtain s r where "execute_stake_lsm demo_lsm_host (demo_env 0 9) ?info ''bob'' demo_addr demo_lsm = Inr (s, r)"
    using demo_stake_lsm by blast
  from refund [OF this] obtain pl where 1: "sudo_failed_callback (pl_tx_type pl) pl demo_lsm
      = Inr (demo_lsm, respond [no_reply (BankSend ''bob'' [demo_coin ''ibc/SHARE'' 500])] [])" by auto
  obtain s' r' where "execute_stake_lsm demo_lsm_host (demo_env 0 9) ?info ''x_7'' demo_addr demo_lsm = Inr (s', r')"
    using demo_stake_lsm by blast
  from refund [OF this] obtain pl' where "sudo_failed_callback (pl_tx_type pl') pl' demo_lsm
      = Inl (Err (UnsupportedMessage (pl_message pl')))"
    and "sudo_callback (demo_env 0 10) (pl_tx_type pl') pl' demo_lsm
      = Inl (Err (UnsupportedMessage (pl_message pl')))" by auto
  with 1 show ?thesis by blast
qed

end
