(* ===== verification/Stake_Query.thy ===== *)
theory Stake_Query
  imports Stake_Contract
begin

text \<open>
  The query entry point of the stake manager (contract.rs \<open>query\<close>, the messages of msg.rs, the
  records of state.rs): each message is answered by one of the queries of query.rs. The answers are
  the values before their serialisation. The address of an interchain account is asked of the host
  (\<open>ask_ica\<close>: owner, account, connection).
\<close>

datatype sm_query_msg =
    GetRegisteredQuery u64
  | GetIcaRegisteredQuery string query_kind
  | BalanceQuery string bool
  | DelegationsQuery string bool
  | ValidatorsQuery string
  | PoolInfoQuery string
  | StackInfoQuery
  | TotalStackFeeQuery string
  | EraSnapshotQuery string
  | InterchainAccountAddress string string  \<comment> \<open>account, connection\<close>
  | InterchainAccountAddressFromContract string
  | UserUnstake string addr
  | UserUnstakeIndex string addr
  | EraRateQuery string u64
  | QueryIdsQuery string

record ica_infos =
  pool_address_ica_info :: ica_info
  withdraw_address_ica_info :: ica_info
  ica_admin :: addr

record query_ids_answer =
  withdraw_balance_query_id :: u64
  pool_balance_query_id :: u64
  pool_delegations_query_id :: u64
  pool_validators_query_id :: u64

datatype sm_answer =
    AnsRegistered registered_query
  | AnsBalance "coin list" u64  \<comment> \<open>coins, height of the last result\<close>
  | AnsDelegations "delegation list" u64
  | AnsValidators "staking_validator list" u64
  | AnsPool pool_info
  | AnsStack stack
  | AnsAmount u128
  | AnsSnapshot era_snapshot
  | AnsIcaAddress string
  | AnsIcaInfos ica_infos
  | AnsUnstakes "unstake_info list"
  | AnsIndexes "u64 list option"
  | AnsRate "u128 option"
  | AnsQueryIds query_ids_answer

definition get_registered_query :: "host \<Rightarrow> u64 \<Rightarrow> registered_query sm_res" where
  "get_registered_query h query_id = from_std Std_sm (query_registered h query_id)"

definition query_interchain_address ::
  "(addr \<Rightarrow> string \<Rightarrow> string \<Rightarrow> std_error + string) \<Rightarrow> env \<Rightarrow> string \<Rightarrow> string \<Rightarrow> string sm_res" where
  "query_interchain_address ask_ica env i conn =
     from_std Std_sm (ask_ica (contract_addr env) i conn)"

definition ica_infos_of :: "ica_info \<times> ica_info \<times> addr \<Rightarrow> ica_infos" where
  "ica_infos_of x = (case x of (p, w, a) \<Rightarrow>
     \<lparr>pool_address_ica_info = p, withdraw_address_ica_info = w, ica_admin = a\<rparr>)"

definition query_ids_of :: "u64 \<times> u64 \<times> u64 \<times> u64 \<Rightarrow> query_ids_answer" where
  "query_ids_of x = (case x of (wb, pb, pd, pv) \<Rightarrow>
     \<lparr>withdraw_balance_query_id = wb, pool_balance_query_id = pb, pool_delegations_query_id = pd,
      pool_validators_query_id = pv\<rparr>)"

definition answer :: "('a \<Rightarrow> sm_answer) \<Rightarrow> 'a sm_res \<Rightarrow> sm_answer sm_res" where
  "answer k r = rbind r (\<lambda>x. Inr (k x))"

fun query_sm ::
  "host \<Rightarrow> (addr \<Rightarrow> string \<Rightarrow> string \<Rightarrow> std_error + string) \<Rightarrow> env \<Rightarrow> sm_query_msg \<Rightarrow> sm_store
     \<Rightarrow> sm_answer sm_res" where
  "query_sm h ask_ica env (GetRegisteredQuery i) s = answer AnsRegistered (get_registered_query h i)"
| "query_sm h ask_ica env (GetIcaRegisteredQuery a k) s =
     answer AnsRegistered (get_ica_registered_query h a k s)"
| "query_sm h ask_ica env (BalanceQuery a v047) s =
     answer (\<lambda>(cs, hgt). AnsBalance cs hgt) (query_balance_by_addr h s a v047)"
| "query_sm h ask_ica env (DelegationsQuery a v047) s =
     answer (\<lambda>(ds, hgt). AnsDelegations ds hgt) (query_delegation_by_addr h s a v047)"
| "query_sm h ask_ica env (ValidatorsQuery a) s =
     answer (\<lambda>(vs, hgt). AnsValidators vs hgt) (query_validator_by_addr h s a)"
| "query_sm h ask_ica env (PoolInfoQuery a) s = answer AnsPool (query_pool_info a s)"
| "query_sm h ask_ica env StackInfoQuery s = answer AnsStack (query_stack_info s)"
| "query_sm h ask_ica env (TotalStackFeeQuery a) s = answer AnsAmount (query_total_stack_fee a s)"
| "query_sm h ask_ica env (EraSnapshotQuery a) s = answer AnsSnapshot (query_era_snapshot a s)"
| "query_sm h ask_ica env (InterchainAccountAddress i conn) s =
     answer AnsIcaAddress (query_interchain_address ask_ica env i conn)"
| "query_sm h ask_ica env (InterchainAccountAddressFromContract i) s =
     answer (\<lambda>x. AnsIcaInfos (ica_infos_of x)) (query_interchain_address_contract i s)"
| "query_sm h ask_ica env (UserUnstake a who) s = answer AnsUnstakes (query_user_unstake a who s)"
| "query_sm h ask_ica env (UserUnstakeIndex a who) s =
     Inr (AnsIndexes (query_user_unstake_index a who s))"
| "query_sm h ask_ica env (EraRateQuery a era) s = Inr (AnsRate (query_era_rate a era s))"
| "query_sm h ask_ica env (QueryIdsQuery a) s =
     answer (\<lambda>x. AnsQueryIds (query_ids_of x)) (query_ids a s)"

lemma answer_eq [simp]: "answer k r = Inr y \<longleftrightarrow> (\<exists>x. r = Inr x \<and> y = k x)"
  by (auto simp: answer_def rbind_eq_Inr)

end
