(* ===== verification/Stake_Query_Properties.thy ===== *)
theory Stake_Query_Properties
  imports Stake_Query Stake_Demo
begin

text \<open>
  The ids the query entry point reports and the ids the update of the period uses are the same
  four.
\<close>

text \<open>C40: the interchain queries of a pool, as \<open>QueryIds\<close> reports them, are exactly those whose period an
  accepted \<open>UpdateIcqUpdatePeriod\<close> changes, in the order pool balance, withdraw balance, delegations,
  validators, and all four get the new period; the storage stays as it is.\<close>

theorem period_update_hits_reported_queries:
  assumes "update_icq_update_period h info a period s = Inr (s', r)"
  shows "\<exists>q. query_sm h ask_ica env (QueryIdsQuery a) s = Inr (AnsQueryIds q) \<and> s' = s
    \<and> map sm_msg (messages r) = map (\<lambda>i. UpdateInterchainQuery i None (Some period))
        [pool_balance_query_id q, withdraw_balance_query_id q, pool_delegations_query_id q,
         pool_validators_query_id q]"
proof -
  from assms obtain p ms where p: "load_pool s a = Inr p"
    and m: "get_update_pool_icq_msgs h s a (p_ica_id p) period = Inr ms"
    and r: "s' = s" "messages r = ms"
    by (auto simp: update_icq_update_period_def res_simps)
  from m obtain pb x w y wb pd pv us where ids: "get_query_id s a Balances = Inr pb"
      "load_ica s (p_ica_id p) = Inr (x, w, y)" "get_query_id s (ica_addr w) Balances = Inr wb"
      "get_query_id s a Delegations = Inr pd" "get_query_id s a Validators = Inr pv"
    and us: "rmap (\<lambda>i. update_interchain_query h i None (Some period)) [pb, wb, pd, pv] = Inr us"
    and ms: "ms = map no_reply us"
    unfolding get_update_pool_icq_msgs_def rbind_eq_Inr split_paired_Ex prod.case
    by (auto simp: rbind_eq_Inr)
  from ids p have q: "query_ids a s = Inr (wb, pb, pd, pv)" by (simp add: query_ids_def)
  have "us = map (\<lambda>i. UpdateInterchainQuery i None (Some period)) [pb, wb, pd, pv]"
    using us by (auto simp: update_interchain_query_def res_simps)
  then show ?thesis
    using q r by (auto simp: query_ids_of_def ms)
qed

definition demo_queries :: sm_store where
  "demo_queries = demo_start\<lparr>
     POOLS := fmupd demo_addr (demo_pool ActiveEnded 1000) fmempty,
     INFO_OF_ICA_ID := fmupd ''ica'' (demo_ica, demo_ica\<lparr>ica_addr := ''withdraw''\<rparr>, ''gov'') fmempty,
     ADDRESS_TO_REPLY_ID := fmupd (demo_addr, query_kind_to_string Balances) 1
       (fmupd (''withdraw'', query_kind_to_string Balances) 2
       (fmupd (demo_addr, query_kind_to_string Delegations) 3
       (fmupd (demo_addr, query_kind_to_string Validators) 4 fmempty))),
     REPLY_ID_TO_QUERY_ID := fmupd 1 11 (fmupd 2 12 (fmupd 3 13 (fmupd 4 14 fmempty)))\<rparr>"

lemma demo_addr_other: "replicate 44 CHR ''a'' \<noteq> ''withdraw''"
  by (simp add: numeral_eq_Suc)

lemma demo_period_update:
  "update_icq_update_period demo_host (demo_info ''gov'' []) demo_addr 100 demo_queries
   = Inr (demo_queries, respond (map (\<lambda>i. no_reply (UpdateInterchainQuery i None (Some 100)))
       [11, 12, 13, 14]) [])"
  by (simp add: update_icq_update_period_def demo_queries_def load_pool_def get_update_pool_icq_msgs_def
      get_query_id_def load_ica_def update_interchain_query_def DEFAULT_FAST_PERIOD_def demo_start_def
      eval_simps demo_simps demo_addr_other)

theorem period_update_hits_reported_queries_witness:
  "\<exists>q. query_sm demo_host (\<lambda>_ _ _. Inr ''pool'') (demo_env 0 9) (QueryIdsQuery demo_addr) demo_queries
      = Inr (AnsQueryIds q)
    \<and> [pool_balance_query_id q, withdraw_balance_query_id q, pool_delegations_query_id q,
        pool_validators_query_id q] = [11, 12, 13, 14]"
  using period_update_hits_reported_queries [OF demo_period_update,
      of "\<lambda>_ _ _. Inr ''pool''" "demo_env 0 9"] by auto

end
