(* ===== verification/Stake_Tokens.thy ===== *)
theory Stake_Tokens
  imports Stake_Records
begin

text \<open>
  The tokens the stake manager asks its token contracts to mint and to burn, against the totals it
  keeps in its pools: no call lets the mints outrun what the totals grow by. The composition with
  the token contract is in \<open>System\<close>.
\<close>

section \<open>Totals and messages\<close>

definition part :: "addr \<Rightarrow> pool_info \<Rightarrow> nat" where
  "part t p = (if p_lsd_token p = t then unat (p_total_lsd_token_amount p) else 0)"

text \<open>What the pools of a token contract count together.\<close>

definition tracked_map :: "addr \<Rightarrow> sm_store \<Rightarrow> (string, u128) fmap" where
  "tracked_map t s = fmmap (\<lambda>p. if p_lsd_token p = t then p_total_lsd_token_amount p else 0) (POOLS s)"

definition tracked :: "addr \<Rightarrow> sm_store \<Rightarrow> nat" where
  "tracked t s = map_total (tracked_map t s)"

fun mints :: "addr \<Rightarrow> sm_out \<Rightarrow> nat" where
  "mints t (LsdMint t' _ n) = (if t' = t then unat n else 0)"
| "mints t _ = 0"

fun burns :: "addr \<Rightarrow> sm_out \<Rightarrow> nat" where
  "burns t (LsdBurnFrom t' _ n) = (if t' = t then unat n else 0)"
| "burns t _ = 0"

fun no_token :: "sm_out \<Rightarrow> bool" where
  "no_token (LsdMint _ _ _) = False"
| "no_token (LsdBurnFrom _ _ _) = False"
| "no_token (LsdInstantiate2 _ _ _ _ _ _ _ _ _) = False"
| "no_token _ = True"

fun creates :: "sm_out \<Rightarrow> bool" where
  "creates (LsdInstantiate2 _ _ _ _ _ _ _ _ _) = True"
| "creates _ = False"

definition minted :: "addr \<Rightarrow> sm_out sub_msg list \<Rightarrow> nat" where
  "minted t ms = sum_list (map (\<lambda>m. mints t (sm_msg m)) ms)"

definition burned :: "addr \<Rightarrow> sm_out sub_msg list \<Rightarrow> nat" where
  "burned t ms = sum_list (map (\<lambda>m. burns t (sm_msg m)) ms)"

lemma minted_simps [simp]:
  "minted t [] = 0" "minted t (m # ms) = mints t (sm_msg m) + minted t ms"
  "minted t (xs @ ys) = minted t xs + minted t ys"
  "burned t [] = 0" "burned t (m # ms) = burns t (sm_msg m) + burned t ms"
  "burned t (xs @ ys) = burned t xs + burned t ys"
  by (simp_all add: minted_def burned_def)

lemma no_token_zero: "no_token m \<Longrightarrow> mints t m = 0 \<and> burns t m = 0 \<and> \<not> creates m"
  by (cases m) simp_all

lemma no_token_list:
  "(\<And>m. m \<in> set ms \<Longrightarrow> no_token (sm_msg m)) \<Longrightarrow> minted t ms = 0 \<and> burned t ms = 0"
  by (induction ms) (auto simp: no_token_zero)

lemma tracked_upd:
  assumes "POOLS s' = fmupd a p' (POOLS s)"
  shows "tracked t s' + (case fmlookup (POOLS s) a of None \<Rightarrow> 0 | Some p \<Rightarrow> part t p)
       = tracked t s + part t p'"
proof -
  have "tracked_map t s' = fmupd a (if p_lsd_token p' = t then p_total_lsd_token_amount p' else 0)
      (tracked_map t s)"
    unfolding tracked_map_def assms fmmap_fmupd ..
  moreover have "unat (get_or_zero (tracked_map t s) a)
      = (case fmlookup (POOLS s) a of None \<Rightarrow> 0 | Some p \<Rightarrow> part t p)"
    by (simp add: tracked_map_def get_or_zero_def part_def split: option.split)
  ultimately show ?thesis
    using map_total_upd [of a "if p_lsd_token p' = t then p_total_lsd_token_amount p' else 0"
        "tracked_map t s"]
    by (auto simp: tracked_def part_def split: if_splits)
qed

lemma tracked_same: "POOLS s' = POOLS s \<Longrightarrow> tracked t s' = tracked t s"
  by (simp only: tracked_def tracked_map_def)

section \<open>Calls that leave the totals alone\<close>

text \<open>
  What a call owes that creates no token contract: the totals cover its mints less its burns, and
  every pool keeps its token.
\<close>

definition calm :: "sm_store \<Rightarrow> sm_store \<Rightarrow> sm_out sub_msg list \<Rightarrow> bool" where
  "calm s s' ms \<longleftrightarrow> (\<forall>m \<in> set ms. \<not> creates (sm_msg m))
     \<and> (\<forall>a p'. fmlookup (POOLS s') a = Some p' \<longrightarrow> p_lsd_token p' \<noteq> [] \<longrightarrow>
          (\<exists>p. fmlookup (POOLS s) a = Some p \<and> p_lsd_token p = p_lsd_token p'))"

definition token_books :: "sm_store \<Rightarrow> sm_store \<Rightarrow> sm_out sub_msg list \<Rightarrow> bool" where
  "token_books s s' ms \<longleftrightarrow>
     (\<forall>t. tracked t s + minted t ms \<le> tracked t s' + burned t ms) \<and> calm s s' ms"

definition same_tokens :: "pool_info \<Rightarrow> pool_info \<Rightarrow> bool" where
  "same_tokens p p' \<longleftrightarrow> p_lsd_token p' = p_lsd_token p
     \<and> p_total_lsd_token_amount p' = p_total_lsd_token_amount p"

lemma no_token_calm: "(\<And>m. m \<in> set ms \<Longrightarrow> no_token (sm_msg m)) \<Longrightarrow> \<forall>m \<in> set ms. \<not> creates (sm_msg m)"
  using no_token_zero by blast

lemma idle_same:
  assumes "POOLS s' = POOLS s" and "\<And>m. m \<in> set ms \<Longrightarrow> no_token (sm_msg m)"
  shows "token_books s s' ms"
  using tracked_same [OF assms(1)] no_token_list [OF assms(2)] no_token_calm [OF assms(2)] assms(1)
  by (simp add: token_books_def calm_def)

lemma calm_upd:
  assumes "POOLS s' = fmupd a p' (POOLS s)" and "\<forall>m \<in> set ms. \<not> creates (sm_msg m)"
    and "p_lsd_token p' \<noteq> [] \<Longrightarrow> \<exists>p. fmlookup (POOLS s) a = Some p \<and> p_lsd_token p = p_lsd_token p'"
  shows "calm s s' ms"
  using assms by (auto simp: calm_def)

lemma idle_save:
  assumes "fmlookup (POOLS s) a = Some p" and "POOLS s1 = POOLS s" and "same_tokens p p'"
    and "\<And>m. m \<in> set ms \<Longrightarrow> no_token (sm_msg m)"
  shows "token_books s (save_pool a p' s1) ms"
proof -
  have P: "POOLS (save_pool a p' s1) = fmupd a p' (POOLS s)" using assms(2) by simp
  have "tracked t (save_pool a p' s1) = tracked t s" for t
    using tracked_upd [OF P, of t] assms(1,3) by (simp add: part_def same_tokens_def split: if_splits)
  moreover have "minted t ms = 0 \<and> burned t ms = 0" for t
    by (rule no_token_list) (rule assms(4))
  moreover have "calm s (save_pool a p' s1) ms"
    by (rule calm_upd [OF P no_token_calm [OF assms(4)]])
      (use assms(1,3) in \<open>auto simp: same_tokens_def\<close>)
  ultimately show ?thesis by (simp add: token_books_def)
qed

lemmas idle_simps = res_simps Let_def same_tokens_def

lemma update_no_token: "update_interchain_query h i keys per = Inr m \<Longrightarrow> no_token m"
  by (auto simp: update_interchain_query_def res_simps)

lemma icq_no_token:
  "get_update_pool_icq_msgs h s a i per = Inr ms \<Longrightarrow> m \<in> set ms \<Longrightarrow> no_token (sm_msg m)"
  by (auto simp: get_update_pool_icq_msgs_def update_interchain_query_def res_simps)

lemma registered_query_no_token:
  "register_balance_query_msg h c a d per = Inr m \<Longrightarrow> no_token m"
  "register_delegator_delegations_query_msg h c a vs per v = Inr m \<Longrightarrow> no_token m"
  "register_staking_validators_query_msg h c vs per = Inr m \<Longrightarrow> no_token m"
  by (auto simp: register_balance_query_msg_def register_delegator_delegations_query_msg_def
      register_staking_validators_query_msg_def res_simps)

lemma register_query_no_token:
  "register_query_submsg m a k s = Inr (sub, s') \<Longrightarrow> no_token (sm_msg sub) = no_token m"
  by (auto simp: register_query_submsg_def res_simps Let_def)

lemma pool_queries_no_token:
  "register_pool_queries h p ica w s = Inr (subs, s') \<Longrightarrow> sub \<in> set subs \<Longrightarrow> no_token (sm_msg sub)"
  by (auto simp: register_pool_queries_def res_simps register_query_no_token
      registered_query_no_token)

lemma set_withdraw_no_token:
  "set_withdraw_sub_msg h p ica w s = Inr (sub, s') \<Longrightarrow> no_token (sm_msg sub)"
  by (auto simp: set_withdraw_sub_msg_def res_simps dest!: msg_cb_frame)

lemma era_steps_idle:
  "execute_era_update h env info a s = Inr (s', r) \<Longrightarrow> token_books s s' (messages r)"
  "execute_era_bond h ho env info a vs s = Inr (s', r) \<Longrightarrow> token_books s s' (messages r)"
  "execute_era_collect_withdraw h info a s = Inr (s', r) \<Longrightarrow> token_books s s' (messages r)"
  "execute_era_rebond h info a vs s = Inr (s', r) \<Longrightarrow> token_books s s' (messages r)"
  by (auto simp: execute_era_update_def execute_era_bond_def execute_era_collect_withdraw_def
      execute_era_rebond_def idle_simps dest!: msg_cb_frame bond_unbonds_frame
      dest: icq_no_token intro!: idle_save intro: idle_same split: if_splits)

lemma era_callbacks_idle:
  "sudo_era_update_callback env pl s = Inr (s', r) \<Longrightarrow> token_books s s' (messages r)"
  "sudo_era_update_failed_callback pl s = Inr (s', r) \<Longrightarrow> token_books s s' (messages r)"
  "sudo_era_bond_callback env pl s = Inr (s', r) \<Longrightarrow> token_books s s' (messages r)"
  "sudo_era_bond_failed_callback pl s = Inr (s', r) \<Longrightarrow> token_books s s' (messages r)"
  "sudo_era_collect_withdraw_callback env pl s = Inr (s', r) \<Longrightarrow> token_books s s' (messages r)"
  "sudo_era_collect_withdraw_failed_callback pl s = Inr (s', r) \<Longrightarrow> token_books s s' (messages r)"
  "sudo_era_rebond_callback env pl s = Inr (s', r) \<Longrightarrow> token_books s s' (messages r)"
  "sudo_era_rebond_failed_callback pl s = Inr (s', r) \<Longrightarrow> token_books s s' (messages r)"
  by (auto simp: sudo_era_update_callback_def sudo_era_update_failed_callback_def
      sudo_era_bond_callback_def sudo_era_bond_failed_callback_def
      sudo_era_collect_withdraw_callback_def sudo_era_collect_withdraw_failed_callback_def
      sudo_era_rebond_callback_def sudo_era_rebond_failed_callback_def idle_simps intro!: idle_save)

lemma lsm_idle:
  "execute_stake_lsm h env info who a s = Inr (s', r) \<Longrightarrow> token_books s s' (messages r)"
  "sudo_stake_lsm_failed_callback pl s = Inr (s', r) \<Longrightarrow> token_books s s' (messages r)"
  "execute_redeem_token_for_share h info a cs s = Inr (s', r) \<Longrightarrow> token_books s s' (messages r)"
  "sudo_redeem_token_for_share_callback pl s = Inr (s', r) \<Longrightarrow> token_books s s' (messages r)"
  "sudo_redeem_token_for_share_failed_callback pl s = Inr (s', r) \<Longrightarrow> token_books s s' (messages r)"
  by (auto simp: execute_stake_lsm_def sudo_stake_lsm_failed_callback_def
      execute_redeem_token_for_share_def sudo_redeem_token_for_share_callback_def
      sudo_redeem_token_for_share_failed_callback_def idle_simps dest!: msg_cb_frame
      intro!: idle_save intro: idle_same)

lemma validators_update_no_token:
  "deal_validators_icq_update h s a p conn = Inr r \<Longrightarrow> m \<in> set (messages r) \<Longrightarrow> no_token (sm_msg m)"
  by (auto simp: deal_validators_icq_update_def idle_simps dest!: update_no_token)

lemma validators_idle:
  "execute_rm_pool_validator h info a v s = Inr (s', r) \<Longrightarrow> token_books s s' (messages r)"
  "execute_pool_update_validator h info a old new s = Inr (s', r) \<Longrightarrow> token_books s s' (messages r)"
  "execute_add_pool_validators h info a v s = Inr (s', r) \<Longrightarrow> token_books s s' (messages r)"
  "execute_update_validators_icq h info a s = Inr (s', r) \<Longrightarrow> token_books s s' (messages r)"
  "sudo_rm_validator_callback pl s = Inr (s', r) \<Longrightarrow> token_books s s' (messages r)"
  "sudo_rm_validator_failed_callback pl s = Inr (s', r) \<Longrightarrow> token_books s s' (messages r)"
  "sudo_update_validator_callback pl s = Inr (s', r) \<Longrightarrow> token_books s s' (messages r)"
  "sudo_update_validator_failed_callback pl s = Inr (s', r) \<Longrightarrow> token_books s s' (messages r)"
  by (auto simp: execute_rm_pool_validator_def execute_pool_update_validator_def
      execute_add_pool_validators_def execute_update_validators_icq_def
      sudo_rm_validator_callback_def
      sudo_rm_validator_failed_callback_def sudo_update_validator_callback_def
      sudo_update_validator_failed_callback_def idle_simps dest!: msg_cb_frame
      dest: validators_update_no_token intro!: idle_save split: if_splits option.splits)

lemma admin_idle:
  "execute_pool_delegate h info a n s = Inr (s', r) \<Longrightarrow> token_books s s' (messages r)"
  "execute_register_pool h env info conn i s = Inr (s', r) \<Longrightarrow> token_books s s' (messages r)"
  "execute_config_stack info k s = Inr (s', r) \<Longrightarrow> token_books s s' (messages r)"
  "execute_open_channel info a ch s = Inr (s', r) \<Longrightarrow> token_books s s' (messages r)"
  "update_icq_update_period h info a per s = Inr (s', r) \<Longrightarrow> token_books s s' (messages r)"
  by (auto simp: execute_pool_delegate_def execute_register_pool_def execute_config_stack_def
      execute_open_channel_def update_icq_update_period_def idle_simps dest: icq_no_token
      intro!: idle_same split: if_splits)

lemma set_withdraw_callbacks_idle:
  "sudo_set_withdraw_addr_callback pl s = Inr (s', r) \<Longrightarrow> token_books s s' (messages r)"
  "sudo_set_withdraw_addr_failed_callback pl s = Inr (s', r) \<Longrightarrow> token_books s s' (messages r)"
  by (auto simp: sudo_set_withdraw_addr_callback_def sudo_set_withdraw_addr_failed_callback_def
      idle_simps intro!: idle_save)

lemma chain_idle:
  "reply_sm h i res s = Inr (s', r) \<Longrightarrow> token_books s s' (messages r)"
  "sudo_kv_query_result h q s = Inr (s', r) \<Longrightarrow> token_books s s' (messages r)"
  "migrate_sm s = Inr (s', r) \<Longrightarrow> token_books s s' (messages r)"
  by (auto simp: reply_sm_def prepare_sudo_payload_def write_reply_id_to_query_id_def
      save_sudo_payload_def sudo_kv_query_result_def migrate_sm_def idle_simps
      dest: update_no_token intro!: idle_same split: if_splits option.splits)

lemma withdraw_idle:
  "execute_withdraw h info a rcv is s = Inr (s', r) \<Longrightarrow> token_books s s' (messages r)"
  "sudo_withdraw_callback pl s = Inr (s', r) \<Longrightarrow> token_books s s' (messages r)"
  "sudo_withdraw_failed_callback pl s = Inr (s', r) \<Longrightarrow> token_books s s' (messages r)"
  by (auto simp: execute_withdraw_def sudo_withdraw_callback_def sudo_withdraw_failed_callback_def
      idle_simps dest!: msg_cb_frame withdraw_loop_frame dest: reset_one_frame
      intro!: idle_same split: if_splits option.splits)

section \<open>Calls that move the totals\<close>

lemma token_books_upd:
  assumes "POOLS s' = fmupd a p' (POOLS s)" and "fmlookup (POOLS s) a = Some p"
    and "p_lsd_token p' = p_lsd_token p" and "\<forall>m \<in> set ms. \<not> creates (sm_msg m)"
    and "\<And>t. part t p + minted t ms \<le> part t p' + burned t ms"
  shows "token_books s s' ms"
proof -
  have "tracked t s + minted t ms \<le> tracked t s' + burned t ms" for t
    using tracked_upd [OF assms(1), of t] assms(5) [of t] by (simp add: assms(2))
  moreover have "calm s s' ms"
    by (rule calm_upd [OF assms(1,4)]) (use assms(2,3) in simp)
  ultimately show ?thesis by (simp add: token_books_def)
qed

lemma part_grows:
  assumes "fmlookup (POOLS s) a = Some p" and "POOLS s' = fmupd a p' (POOLS s)"
    and "uadd (p_total_lsd_token_amount p) n = (Inr (p_total_lsd_token_amount p') :: u128 sm_res)"
    and "p_lsd_token p' = p_lsd_token p" and "ms = [no_reply (LsdMint (p_lsd_token p) who n)]"
  shows "token_books s s' ms"
  by (rule token_books_upd [OF assms(2,1,4)])
    (use uadd_unat [OF assms(3)] assms(4,5) in \<open>simp_all add: part_def\<close>)

lemma execute_stake_tokens:
  assumes "execute_stake who a info s = Inr (s', r)"
  shows "token_books s s' (messages r)"
proof -
  from assms obtain p A B n T as where "fmlookup (POOLS s) a = Some p"
      "uadd (p_total_lsd_token_amount p) n = (Inr T :: u128 sm_res)"
    and "s' = save_pool a (p\<lparr>p_active := A, p_bond := B, p_total_lsd_token_amount := T\<rparr>) s"
    and "respond [no_reply (LsdMint (p_lsd_token (p\<lparr>p_active := A, p_bond := B,
      p_total_lsd_token_amount := T\<rparr>)) who n)] as = r"
    unfolding execute_stake_def Let_def rbind_eq_Inr if_Inl_eq_Inr load_pool_eq_Inr case_single_eq_Inr
      sum.inject prod.inject
    by (elim exE conjE) (rule that, assumption+, rule sym, assumption, assumption)
  then show ?thesis by (auto intro: part_grows)
qed

lemma stake_lsm_callback_tokens:
  assumes "sudo_stake_lsm_callback pl s = Inr (s', r)"
  shows "token_books s s' (messages r)"
proof -
  let ?a = "pl_pool_addr pl"
  from assms obtain p A n T cs who as where "fmlookup (POOLS s) ?a = Some p"
      "uadd (p_total_lsd_token_amount p) n = (Inr T :: u128 sm_res)"
    and "s' = save_pool ?a (p\<lparr>p_active := A, p_total_lsd_token_amount := T,
      p_share_tokens := cs\<rparr>) s"
    and "respond [no_reply (LsdMint (p_lsd_token (p\<lparr>p_active := A, p_total_lsd_token_amount := T,
      p_share_tokens := cs\<rparr>)) who n)] as = r"
    unfolding sudo_stake_lsm_callback_def Let_def rbind_eq_Inr load_pool_eq_Inr case_five_eq_Inr
      sum.inject prod.inject
    by (elim exE conjE) (rule that, assumption+, rule sym, assumption, assumption)
  then show ?thesis by (auto intro: part_grows)
qed

lemma commission_no_token:
  assumes "unstake_commission p who n = Inr (burn, ms)" and "m \<in> set ms"
  shows "no_token (sm_msg m)"
  using assms by (auto simp: unstake_commission_def res_simps Let_def split: if_splits)

lemma execute_unstake_tokens:
  assumes "execute_unstake info n a s = Inr (s', r)"
  shows "token_books s s' (messages r)"
  using assms
proof (rule execute_unstake_steps)
  fix p :: pool_info and burn msgs i unbond active tot u
  let ?p' = "p\<lparr>p_next_unstake_index := i, p_unbond := unbond, p_active := active,
    p_total_lsd_token_amount := tot\<rparr>"
  assume p: "fmlookup (POOLS s) a = Some p" and c: "unstake_commission p (sender info) n = Inr (burn, msgs)"
    and tot: "usub (p_total_lsd_token_amount p) burn = (Inr tot :: u128 sm_res)"
    and r: "messages r = msgs @ [no_reply (LsdBurnFrom (p_lsd_token p) (sender info) burn)]"
    and s': "s' = (save_pool a ?p' (s\<lparr>UNSTAKES_OF_INDEX := fmupd (a, i) u (UNSTAKES_OF_INDEX s)\<rparr>))
      \<lparr>UNSTAKES_INDEX_FOR_USER := fmupd (sender info, a)
         (unstakes_of s (sender info) a @ [i]) (UNSTAKES_INDEX_FOR_USER s)\<rparr>"
  have z: "minted t msgs = 0 \<and> burned t msgs = 0" for t
    by (rule no_token_list) (rule commission_no_token [OF c])
  have P: "POOLS s' = fmupd a ?p' (POOLS s)" by (simp add: s')
  have "\<forall>m \<in> set (messages r). \<not> creates (sm_msg m)"
    using no_token_calm [OF commission_no_token [OF c]] by (simp add: r)
  then show ?thesis
    by (intro token_books_upd [OF P p]) (use z usub_unat [OF tot] in \<open>simp_all add: r part_def\<close>)
qed

lemma era_active_tokens:
  assumes "execute_era_active h a s = Inr (s', r)"
  shows "token_books s s' (messages r)"
  using assms
proof (rule execute_era_active_steps)
  fix p :: pool_info and k d p' pf sf p'' icq
  assume p: "fmlookup (POOLS s) a = Some p" and e: "era_active_pool p k d = Inr (p', pf, sf)"
    and t: "\<exists>t. p'' = p'\<lparr>p_total_platform_fee := t\<rparr>" and P: "POOLS s' = fmupd a p'' (POOLS s)"
    and r: "messages r =
        (if pf \<noteq> 0 then [no_reply (LsdMint (p_lsd_token p') (p_platform_fee_receiver p') pf)] else [])
      @ (if sf \<noteq> 0 then [no_reply (LsdMint (p_lsd_token p') (sk_stack_fee_receiver k) sf)] else [])
      @ icq"
    and icq: "\<exists>t. get_update_pool_icq_msgs h t a (p_ica_id p'') DEFAULT_UPDATE_PERIOD = Inr icq"
  from icq obtain st where i: "get_update_pool_icq_msgs h st a (p_ica_id p'') DEFAULT_UPDATE_PERIOD = Inr icq" ..
  have z: "minted t icq = 0 \<and> burned t icq = 0" for t
    by (rule no_token_list) (rule icq_no_token [OF i])
  from e obtain tot0 tot r' n' where u: "uadd (p_total_lsd_token_amount p) pf = (Inr tot0 :: u128 sm_res)"
      "uadd tot0 sf = (Inr tot :: u128 sm_res)"
    and p': "p' = p\<lparr>p_total_lsd_token_amount := tot, p_rate := r', p_status := ActiveEnded,
       p_active := n'\<rparr>"
    by (rule era_active_pool_steps)
  have tok: "p_lsd_token p' = p_lsd_token p" by (simp add: p')
  have t'': "p_lsd_token p'' = p_lsd_token p" "p_total_lsd_token_amount p'' = tot"
    using t by (auto simp: p')
  have m: "minted t (messages r) = (if p_lsd_token p = t then unat pf + unat sf else 0)"
      "burned t (messages r) = 0" for t
    unfolding r minted_simps z [THEN conjunct1] z [THEN conjunct2] tok by simp_all
  have c: "\<forall>m \<in> set (messages r). \<not> creates (sm_msg m)"
    using no_token_calm [OF icq_no_token [OF i]] unfolding r by auto
  show ?thesis
    by (rule token_books_upd [OF P p t''(1) c], unfold m part_def t'')
       (use uadd_unat [OF u(1)] uadd_unat [OF u(2)] in simp)
qed

section \<open>Creation, initialisation, configuration\<close>

lemma config_era_tokens: "config_era env e p = Inr p' \<Longrightarrow> same_tokens p p'"
  by (auto simp: config_era_def idle_simps split: option.splits)

lemma idle_save_silent:
  assumes "fmlookup (POOLS s) a = Some p" and "same_tokens p p'"
  shows "token_books s (save_pool a p' s) (messages (respond [] as))"
  by (rule idle_save [OF assms(1) refl assms(2)]) simp

lemma execute_config_pool_tokens:
  "execute_config_pool info env m s = Inr (s', r) \<Longrightarrow> token_books s s' (messages r)"
  unfolding execute_config_pool_def Let_def rbind_eq_Inr if_Inl_eq_Inr load_pool_eq_Inr sum.inject
    prod.inject
  by (elim exE conjE, hypsubst, rule idle_save_silent, assumption, drule config_era_tokens)
    (simp add: same_tokens_def)

text \<open>A pool without tokens gets new data, and no message creates, mints or burns.\<close>

lemma fresh_tracked:
  assumes "POOLS s' = fmupd a p' (POOLS s)"
    and "\<And>p. fmlookup (POOLS s) a = Some p \<Longrightarrow> p_total_lsd_token_amount p = 0"
  shows "tracked t s \<le> tracked t s'"
  using tracked_upd [OF assms(1), of t] assms(2) by (auto simp: part_def split: option.splits if_splits)

lemma sudo_open_ack_tokens:
  assumes "sudo_open_ack h port ch cch v s = Inr (s', r)"
  shows "token_books s s' (messages r)"
proof -
  have step: "messages r = [] \<and> (POOLS s' = POOLS s \<or> (\<exists>a p'. fmlookup (POOLS s) a = None
      \<and> p_lsd_token p' = [] \<and> POOLS s' = fmupd a p' (POOLS s)))"
    if "(if c \<and> d \<and> \<not> has (POOLS s) a then save_pool a (new_pool_info i admin) s else s)
        \<lparr>INFO_OF_ICA_ID := m\<rparr> = s'" and "respond [] as = r" for c d a i admin m as
  proof (cases "c \<and> d \<and> \<not> has (POOLS s) a")
    case True
    with that have "fmlookup (POOLS s) a = None \<and> messages r = []
        \<and> POOLS s' = fmupd a (new_pool_info i admin) (POOLS s)" by auto
    moreover have "p_lsd_token (new_pool_info i admin) = []" by (simp add: new_pool_info_def)
    ultimately show ?thesis by blast
  qed (use that in auto)
  from assms have "messages r = [] \<and> (POOLS s' = POOLS s \<or> (\<exists>a p'. fmlookup (POOLS s) a = None
      \<and> p_lsd_token p' = [] \<and> POOLS s' = fmupd a p' (POOLS s)))"
    unfolding sudo_open_ack_def case_option_eq_Inr case_pair_eq_Inr rbind_eq_Inr Let_def
      split_paired_Ex prod.case sum.inject prod.inject
    by (elim exE conjE) (erule (1) step)
  then show ?thesis
  proof (elim conjE disjE exE)
    fix a and p' :: pool_info
    assume m: "messages r = []" and n: "fmlookup (POOLS s) a = None" "p_lsd_token p' = []"
      and P: "POOLS s' = fmupd a p' (POOLS s)"
    have "tracked t s \<le> tracked t s'" for t by (rule fresh_tracked [OF P]) (simp add: n)
    moreover have "calm s s' []" by (rule calm_upd [OF P]) (simp_all add: n)
    ultimately show ?thesis by (simp add: token_books_def m)
  qed (use idle_same [of s' s "[]"] in simp)
qed

text \<open>
  The initialisation of a pool creates its token contract at the address the pool keeps, mints
  nothing and burns nothing.
\<close>

definition creates_token :: "host \<Rightarrow> env \<Rightarrow> sm_store \<Rightarrow> sm_store \<Rightarrow> sm_out sub_msg list \<Rightarrow> bool" where
  "creates_token h env s s' ms \<longleftrightarrow> (\<forall>t. tracked t s \<le> tracked t s')
     \<and> (\<exists>a p' ica code salt owner nm sy adm rest.
          POOLS s' = fmupd a p' (POOLS s)
        \<and> token_address h env ica code = Inr (salt, p_lsd_token p')
        \<and> ms = no_reply (LsdInstantiate2 owner code nm sy DEFAULT_DECIMALS adm (contract_addr env) nm salt)
                 # rest
        \<and> (\<forall>m \<in> set rest. no_token (sm_msg m)))"

lemma deal_pool_tokens:
  assumes "deal_pool h env info p' ica w c n sy s = Inr (s', r)"
    and "fmlookup (POOLS s) (ica_addr ica) = Some p" and "p_total_lsd_token_amount p = 0"
  shows "creates_token h env s s' (messages r)"
proof -
  from assms(1) obtain salt tok subs sub s1 s2 where a: "token_address h env ica c = Inr (salt, tok)"
    and q: "register_pool_queries h (p'\<lparr>p_lsd_token := tok, p_status := InitStarted\<rparr>) ica w s1
      = Inr (subs, s2)"
    and w: "set_withdraw_sub_msg h (p'\<lparr>p_lsd_token := tok, p_status := InitStarted\<rparr>) ica w s2
      = Inr (sub, s')"
    and s1: "POOLS s1 = fmupd (ica_addr ica) (p'\<lparr>p_lsd_token := tok, p_status := InitStarted\<rparr>)
      (POOLS s)"
    and r: "messages r = no_reply (LsdInstantiate2 (sender info) c n sy DEFAULT_DECIMALS (p_admin p')
      (contract_addr env) n salt) # subs @ [sub]"
    by (auto simp: deal_pool_def res_simps Let_def)
  have P: "POOLS s' = fmupd (ica_addr ica) (p'\<lparr>p_lsd_token := tok, p_status := InitStarted\<rparr>) (POOLS s)"
    using register_pool_queries_frame [OF q] set_withdraw_frame [OF w] s1 by simp
  have "\<forall>m \<in> set (subs @ [sub]). no_token (sm_msg m)"
    using pool_queries_no_token [OF q] set_withdraw_no_token [OF w] by auto
  moreover have "tracked t s \<le> tracked t s'" for t
    by (rule fresh_tracked [OF P]) (use assms(2,3) in simp)
  moreover have "token_address h env ica c
      = Inr (salt, p_lsd_token (p'\<lparr>p_lsd_token := tok, p_status := InitStarted\<rparr>))"
    using a by simp
  ultimately show ?thesis unfolding creates_token_def r using P by blast
qed

lemma prepare_pool_idle:
  "prepare_pool h info p ica w s = Inr (Inl (s', r)) \<Longrightarrow> token_books s s' (messages r)"
  by (auto simp: prepare_pool_def res_simps dest: set_withdraw_no_token set_withdraw_frame
      intro!: idle_same split: if_splits)

lemma prepared_tokens:
  assumes "prepare_pool h info p ica w s = Inr x" and "fmlookup (POOLS s) (ica_addr ica) = Some p"
    and "(case x of Inl res \<Rightarrow> Inr res
          | Inr _ \<Rightarrow> rbind (mk p) (\<lambda>p. rbind code (\<lambda>c. deal_pool h env info p ica w c n sy s)))
         = Inr (s', r)" and "records_ok s"
  shows "token_books s s' (messages r) \<or> creates_token h env s s' (messages r)"
proof (cases x)
  case (Inl res)
  with assms(1,3) show ?thesis by (auto intro: prepare_pool_idle)
next
  case (Inr u)
  with assms(1) have "p_status p = RegisterEnded"
    by (auto simp: prepare_pool_def res_simps split: if_splits)
  with records_okD(4) [OF assms(4,2)] have z: "p_total_lsd_token_amount p = 0" by blast
  from Inr assms(3) obtain p' c where "deal_pool h env info p' ica w c n sy s = Inr (s', r)"
    by (auto simp: rbind_eq_Inr)
  from deal_pool_tokens [OF this assms(2) z] show ?thesis ..
qed

lemma execute_init_tokens:
  assumes "records_ok s"
  shows "execute_init_pool h env info m s = Inr (s', r) \<Longrightarrow>
      token_books s s' (messages r) \<or> creates_token h env s s' (messages r)"
    and "execute_migrate_pool h env info m' s = Inr (s', r) \<Longrightarrow>
      token_books s s' (messages r) \<or> creates_token h env s s' (messages r)"
  unfolding execute_init_pool_def execute_migrate_pool_def rbind_eq_Inr if_Inl_eq_Inr
    split_paired_Ex prod.case load_pool_eq_Inr
  by (elim exE conjE, erule (2) prepared_tokens [OF _ _ _ assms])+

section \<open>Every call\<close>

lemmas idle_execute = era_steps_idle lsm_idle validators_idle admin_idle withdraw_idle

lemma execute_sm_tokens:
  assumes "execute_sm h ho env info m s = Inr (s', r)" and ok: "records_ok s"
  shows "token_books s s' (messages r) \<or> creates_token h env s s' (messages r)"
proof (cases "(\<exists>x. m = InitPool x) \<or> (\<exists>x. m = MigratePool x)")
  case True
  with assms(1) show ?thesis by (auto dest: execute_init_tokens [OF ok])
next
  case False
  have "token_books s s' (messages r)"
    using assms(1) False
    by (cases m) (auto intro: idle_execute execute_stake_tokens execute_unstake_tokens
        era_active_tokens execute_config_pool_tokens)
  then show ?thesis ..
qed

lemma sudo_callback_tokens:
  assumes "sudo_callback env t pl s = Inr (s', r)"
  shows "token_books s s' (messages r)"
  using assms
  by (cases t) (auto intro: era_callbacks_idle lsm_idle validators_idle withdraw_idle
      set_withdraw_callbacks_idle stake_lsm_callback_tokens)

lemma sudo_failed_callback_tokens:
  assumes "sudo_failed_callback t pl s = Inr (s', r)"
  shows "token_books s s' (messages r)"
  using assms
  by (cases t) (auto intro: era_callbacks_idle lsm_idle validators_idle withdraw_idle
      set_withdraw_callbacks_idle)

lemma token_books_pre:
  "POOLS s1 = POOLS s \<Longrightarrow> token_books s1 s' ms \<Longrightarrow> token_books s s' ms"
  by (simp add: token_books_def calm_def tracked_same [of s1 s])

lemma sudo_sm_tokens:
  assumes "sudo_sm h env m s = Inr (s', r)"
  shows "token_books s s' (messages r)"
  using assms
  by (cases m) (auto simp: sudo_response_def sudo_error_def sudo_timeout_def rbind_eq_Inr
      intro: sudo_open_ack_tokens chain_idle(2) idle_same [OF refl]
        token_books_pre [OF take_payload_pools sudo_callback_tokens]
        token_books_pre [OF take_payload_pools sudo_failed_callback_tokens])

end
