(* ===== verification/System.thy ===== *)
theory System
  imports Stake_Tokens Share_Token
begin

text \<open>
  The stake manager and the token contracts it creates, as one system. A call of the manager returns
  messages; the host executes those for its tokens in their order, in the same transaction: if one
  fails, the whole call is undone. Users call the tokens directly as well. The interface the manager
  relies on is the locale \<open>share_token\<close> of \<open>Share_Token\<close>; the result
  is that a pool never counts fewer tokens than its token contract issued.
\<close>

section \<open>What the manager orders from a token\<close>

fun order_of :: "sm_out \<Rightarrow> (addr \<times> token_order) option" where
  "order_of (LsdMint t rc n) = Some (t, OrderMint rc n)"
| "order_of (LsdTransferFrom t ow rc n) = Some (t, OrderTransferFrom ow rc n)"
| "order_of (LsdBurnFrom t ow n) = Some (t, OrderBurnFrom ow n)"
| "order_of _ = None"

definition orders :: "addr \<Rightarrow> sm_out list \<Rightarrow> token_order list" where
  "orders t ms = List.map_filter
     (\<lambda>m. case order_of m of Some (t', x) \<Rightarrow> if t' = t then Some x else None | None \<Rightarrow> None) ms"

section \<open>Delivery\<close>

text \<open>
  The address of a new token is a function of the code and the salt (\<open>place\<close>); the host refuses a
  second contract at an address, and a call of an address without a contract.
\<close>

definition deliver ::
  "api \<Rightarrow> (u64 \<Rightarrow> string \<Rightarrow> addr) \<Rightarrow> addr \<Rightarrow> env \<Rightarrow> sm_out \<Rightarrow> tokens \<Rightarrow> tokens option" where
  "deliver api place mgr env m toks = (case m of
       LsdInstantiate2 _ code nm sy dec adm minter _ salt \<Rightarrow>
         if has toks (place code salt) then None
         else (case instantiate_lsd api (new_token_msg nm sy dec adm minter) empty_lsd of
             Inl _ \<Rightarrow> None
           | Inr (l, _) \<Rightarrow> Some (fmupd (place code salt) l toks))
     | _ \<Rightarrow> (case order_of m of
           None \<Rightarrow> Some toks
         | Some (t, x) \<Rightarrow> Option.bind (fmlookup toks t) (\<lambda>l.
             map_option (\<lambda>l'. fmupd t l' toks) (order_call api env mgr t x l))))"

definition deliver_all ::
  "api \<Rightarrow> (u64 \<Rightarrow> string \<Rightarrow> addr) \<Rightarrow> addr \<Rightarrow> env \<Rightarrow> sm_out sub_msg list \<Rightarrow> tokens \<Rightarrow> tokens option" where
  "deliver_all api place mgr env ms = calls (deliver api place mgr env) (map sm_msg ms)"

lemma orders_simps [simp]:
  "orders t [] = []"
  "orders t (m # ms) = (case order_of m of
     Some (t', x) \<Rightarrow> if t' = t then x # orders t ms else orders t ms | None \<Rightarrow> orders t ms)"
  by (auto simp: orders_def map_filter_simps split: option.splits)

lemma deliver_order:
  assumes "\<not> creates m"
  shows "deliver api place mgr env m toks = (case order_of m of
       None \<Rightarrow> Some toks
     | Some (t, x) \<Rightarrow> Option.bind (fmlookup toks t) (\<lambda>l.
         map_option (\<lambda>l'. fmupd t l' toks) (order_call api env mgr t x l)))"
  using assms by (cases m) (simp_all add: deliver_def)

text \<open>Each token sees its own orders, in their order.\<close>

lemma delivered:
  assumes "calls (deliver api place mgr env) ms toks = Some toks'" and "\<forall>m \<in> set ms. \<not> creates m"
  shows "case fmlookup toks t of
      None \<Rightarrow> fmlookup toks' t = None
    | Some l \<Rightarrow> \<exists>l'. fmlookup toks' t = Some l'
        \<and> calls (order_call api env mgr t) (orders t ms) l = Some l'"
  using assms
proof (induction ms arbitrary: toks)
  case (Cons m ms)
  then obtain toks1 where d: "deliver api place mgr env m toks = Some toks1"
    and r: "calls (deliver api place mgr env) ms toks1 = Some toks'"
    by (auto simp: bind_eq_Some_conv)
  have IH: "case fmlookup toks1 t of
      None \<Rightarrow> fmlookup toks' t = None
    | Some l \<Rightarrow> \<exists>l'. fmlookup toks' t = Some l'
        \<and> calls (order_call api env mgr t) (orders t ms) l = Some l'"
    by (rule Cons.IH [OF r]) (use Cons.prems in simp)
  show ?case
  proof (cases "order_of m")
    case None
    with d Cons.prems(2) have "toks1 = toks" by (simp add: deliver_order)
    with IH None show ?thesis by (simp split: option.splits)
  next
    case (Some p)
    then obtain t' x where x: "order_of m = Some (t', x)" by (cases p) simp
    with d Cons.prems(2) obtain l l1 where l: "fmlookup toks t' = Some l"
      and c: "order_call api env mgr t' x l = Some l1" and t1: "toks1 = fmupd t' l1 toks"
      by (auto simp: deliver_order bind_eq_Some_conv)
    from IH x l c t1 show ?thesis by (auto split: if_splits option.splits)
  qed
qed (simp split: option.split)

lemma orders_sums:
  "sum_list (map order_made (orders t (map sm_msg ms))) = minted t ms"
  "sum_list (map order_gone (orders t (map sm_msg ms))) = burned t ms"
proof (induction ms)
  case (Cons m ms)
  have "(case order_of (sm_msg m) of Some (t', x) \<Rightarrow> if t' = t then order_made x else 0 | None \<Rightarrow> 0)
      = mints t (sm_msg m)"
    and "(case order_of (sm_msg m) of Some (t', x) \<Rightarrow> if t' = t then order_gone x else 0 | None \<Rightarrow> 0)
      = burns t (sm_msg m)"
    by (cases "sm_msg m"; simp)+
  with Cons show "sum_list (map order_made (orders t (map sm_msg (m # ms)))) = minted t (m # ms)"
    and "sum_list (map order_gone (orders t (map sm_msg (m # ms)))) = burned t (m # ms)"
    by (auto split: option.splits if_splits)
qed simp_all

section \<open>The system\<close>

record system =
  sy_manager :: sm_store
  sy_tokens :: tokens

datatype sys_op =
    CallManager env message_info sm_execute_msg
  | ReplyManager env u64 reply_result
  | SudoManager env sudo_msg
  | MigrateManager env
  | CallToken addr env message_info lsd_execute_msg
  | MigrateToken addr "string version_check" "string \<Rightarrow> string \<Rightarrow> bool"

definition settle_call ::
  "api \<Rightarrow> (u64 \<Rightarrow> string \<Rightarrow> addr) \<Rightarrow> addr \<Rightarrow> env \<Rightarrow> tokens \<Rightarrow> sm_result \<Rightarrow> system option" where
  "settle_call api place mgr env toks res = (case res of
       Inl _ \<Rightarrow> None
     | Inr (s, r) \<Rightarrow> map_option (\<lambda>toks. \<lparr>sy_manager = s, sy_tokens = toks\<rparr>)
         (deliver_all api place mgr env (messages r) toks))"

text \<open>One transaction: \<open>None\<close> when the host undoes it.\<close>

fun sys_apply ::
  "api \<Rightarrow> host \<Rightarrow> (string set \<Rightarrow> string list) \<Rightarrow> (u64 \<Rightarrow> string \<Rightarrow> addr) \<Rightarrow> addr \<Rightarrow> sys_op \<Rightarrow> system
     \<Rightarrow> system option" where
  "sys_apply api h ho place mgr (CallManager env info m) W =
     settle_call api place mgr env (sy_tokens W)
       (execute_sm h ho (env\<lparr>contract_addr := mgr\<rparr>) info m (sy_manager W))"
| "sys_apply api h ho place mgr (ReplyManager env i res) W =
     settle_call api place mgr env (sy_tokens W) (reply_sm h i res (sy_manager W))"
| "sys_apply api h ho place mgr (SudoManager env m) W =
     settle_call api place mgr env (sy_tokens W)
       (sudo_sm h (env\<lparr>contract_addr := mgr\<rparr>) m (sy_manager W))"
| "sys_apply api h ho place mgr (MigrateManager env) W =
     settle_call api place mgr env (sy_tokens W) (migrate_sm (sy_manager W))"
| "sys_apply api h ho place mgr (CallToken t env info msg) W =
     Option.bind (fmlookup (sy_tokens W) t) (\<lambda>l.
     map_option (\<lambda>l'. W\<lparr>sy_tokens := fmupd t l' (sy_tokens W)\<rparr>) (call_token api env t info msg l))"
| "sys_apply api h ho place mgr (MigrateToken t ensure lt) W =
     Option.bind (fmlookup (sy_tokens W) t) (\<lambda>l.
     map_option (\<lambda>l'. W\<lparr>sy_tokens := fmupd t l' (sy_tokens W)\<rparr>) (upgrade_token ensure lt l))"

text \<open>
  Who acts: the pool admins keep commissions within the whole (\<open>sane\<close>) and let nobody mint beside
  the manager; the manager sends its tokens nothing but the messages of its own calls.
\<close>

fun fair :: "addr \<Rightarrow> sys_op \<Rightarrow> bool" where
  "fair mgr (CallManager _ _ m) = sane m"
| "fair mgr (CallToken _ _ info msg) =
     (sender info \<noteq> mgr \<and> (case msg of AddMinter _ \<Rightarrow> False | _ \<Rightarrow> True))"
| "fair mgr _ = True"

inductive sys_reach ::
  "api \<Rightarrow> host \<Rightarrow> (string set \<Rightarrow> string list) \<Rightarrow> (u64 \<Rightarrow> string \<Rightarrow> addr) \<Rightarrow> addr \<Rightarrow> system \<Rightarrow> bool"
  for api h ho place mgr where
  sys_start: "instantiate_sm info code empty_sm = Inr (s, r) \<Longrightarrow>
     sys_reach api h ho place mgr \<lparr>sy_manager = s, sy_tokens = fmempty\<rparr>"
| sys_more: "sys_reach api h ho place mgr W \<Longrightarrow> fair mgr x \<Longrightarrow>
     sys_apply api h ho place mgr x W = Some W' \<Longrightarrow> sys_reach api h ho place mgr W'"

text \<open>The address the manager computes for a new token is the one the host gives it.\<close>

definition agrees :: "host \<Rightarrow> addr \<Rightarrow> (u64 \<Rightarrow> string \<Rightarrow> addr) \<Rightarrow> bool" where
  "agrees h mgr place \<longleftrightarrow> (\<forall>env ica code salt a. contract_addr env = mgr \<longrightarrow>
     token_address h env ica code = Inr (salt, a) \<longrightarrow> place code salt = a)"

section \<open>The invariant of the system\<close>

definition shares_ok :: "addr \<Rightarrow> sm_store \<Rightarrow> tokens \<Rightarrow> bool" where
  "shares_ok mgr s toks \<longleftrightarrow>
     (\<forall>t l. fmlookup toks t = Some l \<longrightarrow> supply_of l \<le> tracked t s \<and> set (minters l) \<subseteq> {mgr} \<and> lsd_inv l)
   \<and> (\<forall>a p. fmlookup (POOLS s) a = Some p \<longrightarrow> p_lsd_token p \<noteq> [] \<longrightarrow> has toks (p_lsd_token p))
   \<and> (\<forall>a b p q. fmlookup (POOLS s) a = Some p \<longrightarrow> fmlookup (POOLS s) b = Some q \<longrightarrow>
        p_lsd_token p = p_lsd_token q \<longrightarrow> p_lsd_token p \<noteq> [] \<longrightarrow> a = b)"

lemma shares_okD:
  assumes "shares_ok mgr s toks"
  shows "fmlookup toks t = Some l \<Longrightarrow> supply_of l \<le> tracked t s \<and> set (minters l) \<subseteq> {mgr} \<and> lsd_inv l"
    and "fmlookup (POOLS s) a = Some p \<Longrightarrow> p_lsd_token p \<noteq> [] \<Longrightarrow> has toks (p_lsd_token p)"
    and "fmlookup (POOLS s) a = Some p \<Longrightarrow> fmlookup (POOLS s) b = Some q \<Longrightarrow>
      p_lsd_token p = p_lsd_token q \<Longrightarrow> p_lsd_token p \<noteq> [] \<Longrightarrow> a = b"
  using assms unfolding shares_ok_def by blast+

lemma shares_okI:
  assumes "\<And>t l. fmlookup toks t = Some l \<Longrightarrow>
      supply_of l \<le> tracked t s \<and> set (minters l) \<subseteq> {mgr} \<and> lsd_inv l"
    and "\<And>a p. fmlookup (POOLS s) a = Some p \<Longrightarrow> p_lsd_token p \<noteq> [] \<Longrightarrow> has toks (p_lsd_token p)"
    and "\<And>a b p q. fmlookup (POOLS s) a = Some p \<Longrightarrow> fmlookup (POOLS s) b = Some q \<Longrightarrow>
      p_lsd_token p = p_lsd_token q \<Longrightarrow> p_lsd_token p \<noteq> [] \<Longrightarrow> a = b"
  shows "shares_ok mgr s toks"
  unfolding shares_ok_def using assms by blast

text \<open>A call that creates no token.\<close>

lemma delivered_shares:
  assumes tb: "token_books s s' ms" and d: "deliver_all api place mgr env ms toks = Some toks'"
    and ok: "shares_ok mgr s toks"
  shows "shares_ok mgr s' toks'"
proof -
  note D = shares_okD [OF ok]
  have c: "calm s s' ms" and b: "tracked t s + minted t ms \<le> tracked t s' + burned t ms" for t
    using tb by (simp_all add: token_books_def)
  have nc: "\<forall>m \<in> set (map sm_msg ms). \<not> creates m" using c by (simp add: calm_def)
  note del = delivered [OF d [unfolded deliver_all_def] nc]
  have "supply_of l' \<le> tracked t s' \<and> set (minters l') \<subseteq> {mgr} \<and> lsd_inv l'"
    if l': "fmlookup toks' t = Some l'" for t l'
  proof -
    from del [of t] l' obtain l where l: "fmlookup toks t = Some l"
      and cs: "calls (order_call api env mgr t) (orders t (map sm_msg ms)) l = Some l'"
      by (auto split: option.splits)
    from st.calls_account [OF cs] D(1) [OF l] b [of t] have "supply_of l' \<le> tracked t s'"
      by (simp add: orders_sums)
    with st.calls_authority [OF cs] D(1) [OF l] calls_inv [OF cs] show ?thesis by simp
  qed
  moreover have "has toks' (p_lsd_token p)"
    if "fmlookup (POOLS s') a = Some p" "p_lsd_token p \<noteq> []" for a p
    using c that D(2) del [of "p_lsd_token p"] unfolding calm_def
    by (fastforce split: option.splits)
  moreover have "a = b" if "fmlookup (POOLS s') a = Some p" "fmlookup (POOLS s') b = Some q"
    "p_lsd_token p = p_lsd_token q" "p_lsd_token p \<noteq> []" for a b p q
    using c that D(3) unfolding calm_def by metis
  ultimately show ?thesis by (rule shares_okI)
qed

lemma created_shares:
  assumes ct: "creates_token h env s s' ms" and env: "contract_addr env = mgr"
    and d: "deliver_all api place mgr env' ms toks = Some toks'"
    and ok: "shares_ok mgr s toks" and ag: "agrees h mgr place" and norm: "validates_normal api"
  shows "shares_ok mgr s' toks'"
proof -
  from ct obtain a p' ica code salt ow nm sy adm rest where grow: "tracked t s \<le> tracked t s'"
    and P: "POOLS s' = fmupd a p' (POOLS s)"
    and addr: "token_address h env ica code = Inr (salt, p_lsd_token p')"
    and ms: "ms = no_reply (LsdInstantiate2 ow code nm sy DEFAULT_DECIMALS adm (contract_addr env) nm salt) # rest"
    and rest: "\<forall>m \<in> set rest. no_token (sm_msg m)" for t
    unfolding creates_token_def by blast
  let ?tok = "p_lsd_token p'"
  have place: "place code salt = ?tok" using ag addr env by (simp add: agrees_def)
  from d obtain l r where new: "\<not> has toks ?tok"
    and l: "instantiate_lsd api (new_token_msg nm sy DEFAULT_DECIMALS adm mgr) empty_lsd = Inr (l, r)"
    and dr: "deliver_all api place mgr env' rest (fmupd ?tok l toks) = Some toks'"
    by (auto simp: deliver_all_def ms deliver_def place env bind_eq_Some_conv split: if_splits sum.splits)
  note D = shares_okD [OF ok] and n = new_token_ok [OF l norm]
  have pools: "fmlookup (POOLS s') b = (if b = a then Some p' else fmlookup (POOLS s) b)" for b
    by (simp add: P)
  have old: "p_lsd_token q \<noteq> ?tok" if "fmlookup (POOLS s) b = Some q" "p_lsd_token q \<noteq> []" for b q
    using D(2) [OF that] new by auto
  have s1: "supply_of k \<le> tracked t s' \<and> set (minters k) \<subseteq> {mgr} \<and> lsd_inv k"
    if "fmlookup (fmupd ?tok l toks) t = Some k" for t k
    using that n D(1) [of t k] grow [of t] by (auto split: if_splits)
  have s2: "has (fmupd ?tok l toks) (p_lsd_token q)"
    if "fmlookup (POOLS s') b = Some q" "p_lsd_token q \<noteq> []" for b q
    using that D(2) by (auto simp: pools split: if_splits)
  have s3: "b = c" if q: "fmlookup (POOLS s') b = Some q" and u: "fmlookup (POOLS s') c = Some u"
    and eq: "p_lsd_token q = p_lsd_token u" "p_lsd_token q \<noteq> []" for b c q u
  proof -
    have alone: "x = a" if "fmlookup (POOLS s') x = Some k" "p_lsd_token k = ?tok" "?tok \<noteq> []" for x k
    proof (rule ccontr)
      assume "x \<noteq> a"
      then have "fmlookup (POOLS s) x = Some k" using that(1) pools by simp
      from old [OF this] that(2,3) show False by metis
    qed
    show ?thesis
    proof (cases "b = a \<or> c = a")
      case True
      with q u have "q = p' \<or> u = p'" by (auto simp: P)
      with eq have "p_lsd_token q = ?tok" "p_lsd_token u = ?tok" "?tok \<noteq> []" by auto
      with alone [OF q] alone [OF u] show ?thesis by blast
    next
      case False
      with q u have "fmlookup (POOLS s) b = Some q" "fmlookup (POOLS s) c = Some u" by (auto simp: pools)
      then show ?thesis by (rule D(3) [OF _ _ eq])
    qed
  qed
  have all: "shares_ok mgr s' (fmupd ?tok l toks)" by (rule shares_okI [OF s1 s2 s3])
  have "token_books s' s' rest" using rest by (intro idle_same) auto
  then show ?thesis by (rule delivered_shares [OF _ dr all])
qed

section \<open>Every transaction keeps it\<close>

lemma settle_call_eq:
  "settle_call api place mgr env toks res = Some W' \<longleftrightarrow>
   (\<exists>r. res = Inr (sy_manager W', r) \<and> deliver_all api place mgr env (messages r) toks = Some (sy_tokens W'))"
  by (cases W') (auto simp: settle_call_def split: sum.splits)

lemma token_shares:
  assumes ok: "shares_ok mgr s toks" and l: "fmlookup toks t = Some l"
    and "supply_of l' \<le> supply_of l" and "set (minters l') \<subseteq> set (minters l)" and "lsd_inv l'"
  shows "shares_ok mgr s (fmupd t l' toks)"
proof -
  note D = shares_okD [OF ok]
  have "supply_of k \<le> tracked u s \<and> set (minters k) \<subseteq> {mgr} \<and> lsd_inv k"
    if "fmlookup (fmupd t l' toks) u = Some k" for u k
    using that D(1) [OF l] D(1) [of u k] assms(3-5) by (auto split: if_splits)
  moreover have "has (fmupd t l' toks) (p_lsd_token p)"
    if "fmlookup (POOLS s) a = Some p" "p_lsd_token p \<noteq> []" for a p
    using D(2) [OF that] by auto
  ultimately show ?thesis using D(3) by (rule shares_okI)
qed

lemma stranger_shares:
  assumes "execute_lsd api env info msg l = Inr (l', r)" and "sender info \<noteq> mgr"
    and "\<And>m. msg \<noteq> AddMinter m" and ok: "shares_ok mgr s toks" and l: "fmlookup toks t = Some l"
  shows "shares_ok mgr s (fmupd t l' toks)"
proof -
  have m: "set (minters l) \<subseteq> {mgr}" and i: "lsd_inv l" using shares_okD(1) [OF ok l] by simp_all
  show ?thesis by (rule token_shares [OF ok l stranger_token [OF assms(1-3) m i]])
qed

lemma sys_apply_step:
  assumes "sys_apply api h ho place mgr x W = Some W'" and "sm_reach h ho (sy_manager W)"
  shows "sm_reach h ho (sy_manager W')"
  using assms
  by (cases x) (auto simp: settle_call_eq bind_eq_Some_conv intro: reach_step sm_step.intros)

lemma sys_apply_books:
  assumes "sys_apply api h ho place mgr x W = Some W'" and "fair mgr x" and "sm_books (sy_manager W)"
  shows "sm_books (sy_manager W')"
proof -
  have "keeps_books True (sy_manager W) (sy_manager W')"
  proof (cases x)
    case (CallManager env info m)
    with assms(1) obtain r where e: "execute_sm h ho (env\<lparr>contract_addr := mgr\<rparr>) info m (sy_manager W)
        = Inr (sy_manager W', r)" by (auto simp: settle_call_eq)
    have "sane m" using assms(2) CallManager by simp
    with execute_sm_books [OF e] show ?thesis by simp
  qed (use assms(1) in \<open>auto simp: settle_call_eq bind_eq_Some_conv
        intro: chain_books sudo_sm_books keeps_books_same\<close>)
  then show ?thesis using assms(3) by (rule keeps_sm_books)
qed

lemma sys_apply_shares:
  assumes x: "sys_apply api h ho place mgr x W = Some W'" and fair: "fair mgr x"
    and rec: "records_ok (sy_manager W)" and ok: "shares_ok mgr (sy_manager W) (sy_tokens W)"
    and ag: "agrees h mgr place" and norm: "validates_normal api"
  shows "shares_ok mgr (sy_manager W') (sy_tokens W')"
proof (cases x)
  case (CallManager env info m)
  with x obtain r where e: "execute_sm h ho (env\<lparr>contract_addr := mgr\<rparr>) info m (sy_manager W)
      = Inr (sy_manager W', r)"
    and d: "deliver_all api place mgr env (messages r) (sy_tokens W) = Some (sy_tokens W')"
    by (auto simp: settle_call_eq)
  from execute_sm_tokens [OF e rec] show ?thesis
  proof
    assume "token_books (sy_manager W) (sy_manager W') (messages r)"
    then show ?thesis by (rule delivered_shares [OF _ d ok])
  next
    assume "creates_token h (env\<lparr>contract_addr := mgr\<rparr>) (sy_manager W) (sy_manager W') (messages r)"
    then show ?thesis by (rule created_shares [OF _ _ d ok ag norm]) simp
  qed
next
  case (CallToken t env info msg)
  with x obtain l l' r where l: "fmlookup (sy_tokens W) t = Some l"
    and e: "execute_lsd api (env\<lparr>contract_addr := t\<rparr>) info msg l = Inr (l', r)"
    and W': "W' = W\<lparr>sy_tokens := fmupd t l' (sy_tokens W)\<rparr>"
    by (auto simp: bind_eq_Some_conv)
  from fair CallToken have f: "sender info \<noteq> mgr" "\<And>m. msg \<noteq> AddMinter m" by auto
  from stranger_shares [OF e f ok l] show ?thesis by (simp add: W')
next
  case (MigrateToken t ensure lt)
  with x obtain l l' r where "fmlookup (sy_tokens W) t = Some l"
    and m: "migrate_lsd ensure lt l = Inr (l', r)"
    and W': "W' = W\<lparr>sy_tokens := fmupd t l' (sy_tokens W)\<rparr>"
    by (auto simp: bind_eq_Some_conv)
  moreover have "lsd_inv l" using shares_okD(1) [OF ok] calculation(1) by blast
  ultimately show ?thesis
    using token_shares [OF ok] upgraded_token [OF m] by simp
qed (use x in \<open>auto simp: settle_call_eq intro: delivered_shares [OF chain_idle(1) _ ok]
       delivered_shares [OF chain_idle(3) _ ok] delivered_shares [OF sudo_sm_tokens _ ok]\<close>)

lemma sys_reach_ok:
  assumes "sys_reach api h ho place mgr W" and ag: "agrees h mgr place" and norm: "validates_normal api"
  shows "sm_reach h ho (sy_manager W) \<and> sm_books (sy_manager W)
    \<and> shares_ok mgr (sy_manager W) (sy_tokens W)"
  using assms(1)
proof (induction rule: sys_reach.induct)
  case (sys_start info code s r)
  moreover have "shares_ok mgr s fmempty"
    using sys_start by (auto simp: instantiate_sm_def empty_sm_def shares_ok_def)
  moreover have "sm_books s"
    using sys_start by (auto simp: instantiate_sm_def empty_sm_def sm_books_def)
  ultimately show ?case by (auto intro: reach_init)
next
  case (sys_more W x W')
  then have "records_ok (sy_manager W)" by (blast intro: sm_reach_records)
  with sys_more show ?case
    by (blast intro: sys_apply_step sys_apply_books sys_apply_shares [OF _ _ _ _ ag norm])
qed

text \<open>A pool that alone has its token counts it alone.\<close>

lemma tracked_alone:
  assumes "fmlookup (POOLS s) a = Some p"
    and "\<And>b q. fmlookup (POOLS s) b = Some q \<Longrightarrow> p_lsd_token q = p_lsd_token p \<Longrightarrow> b = a"
  shows "tracked (p_lsd_token p) s = unat (p_total_lsd_token_amount p)"
proof -
  let ?m = "tracked_map (p_lsd_token p) s"
  have zero: "unat (get_or_zero ?m b) = 0" if "b \<noteq> a" for b
    using assms(2) [of b] that
    by (auto simp: tracked_map_def get_or_zero_def split: option.splits)
  have "a \<in> fmdom' ?m" by (rule fmdom'I) (simp add: tracked_map_def assms(1))
  then have "map_total ?m = unat (get_or_zero ?m a) + (\<Sum>b \<in> fmdom' ?m - {a}. unat (get_or_zero ?m b))"
    unfolding map_total_def by (rule sum.remove [OF finite_fmdom'])
  also have "(\<Sum>b \<in> fmdom' ?m - {a}. unat (get_or_zero ?m b)) = 0"
    using zero by (intro sum.neutral) simp
  finally show ?thesis by (simp add: tracked_def tracked_map_def get_or_zero_def assms(1))
qed

end
