(* ===== verification/System_Properties.thy ===== *)
theory System_Properties
  imports System Stake_Demo
begin

text \<open>
  The properties of the stake manager together with its token contracts: what circulates is backed by
  what is staked, and an unstake takes the tokens it pays for. The history of the witnesses is the one
  of \<open>Stake_Demo\<close>, with the token contract created and called.
\<close>

section \<open>A history of the system\<close>

lemma calls_reach:
  "calls (sys_apply api h ho place mgr) xs W = Some W' \<Longrightarrow> sys_reach api h ho place mgr W \<Longrightarrow>
   \<forall>x \<in> set xs. fair mgr x \<Longrightarrow> sys_reach api h ho place mgr W'"
  by (induction xs arbitrary: W) (auto simp: bind_eq_Some_conv intro: sys_more)

definition demo_place :: "u64 \<Rightarrow> string \<Rightarrow> addr" where
  "demo_place code salt = CHR ''t'' # salt"

abbreviation demo_at :: "u64 \<Rightarrow> env" where
  "demo_at height \<equiv> Stake_Demo.demo_env 0 height"

definition demo_ops :: "sys_op list" where
  "demo_ops =
     [CallManager (demo_at 1) (demo_info ''gov'' [demo_coin FEE_DENOM 10])
        (RegisterPool ''connection-1'' ''ica''),
      SudoManager (demo_at 2) (SudoOpenAck ''p.ica'' ''channel-1'' ''channel-2'' demo_addr),
      SudoManager (demo_at 3) (SudoOpenAck ''p.ica-withdraw_addr'' ''channel-3'' ''channel-4'' ''withdraw''),
      CallManager (demo_at 4) (demo_info ''gov'' [demo_coin FEE_DENOM 9000]) (InitPool demo_init),
      ReplyManager (demo_at 4) 1000000000 (Inr (Some ''channel-1'')),
      SudoManager (demo_at 5)
        (SudoResponse \<lparr>rp_sequence = Some 1, rp_source_channel = Some ''channel-1''\<rparr>),
      CallManager (demo_at 6) (demo_info ''alice'' [demo_coin ''ibc/ATOM'' 1000]) (Stake ''alice'' demo_addr)]"

abbreviation demo_tok :: addr where
  "demo_tok \<equiv> CHR ''t'' # replicate 40 CHR ''a''"

definition demo_shares :: "u128 \<Rightarrow> lsd_store" where
  "demo_shares n = \<lparr>LSD_VERSION = Some (CONTRACT_NAME_lsd, CONTRACT_VERSION_lsd),
     TOKEN_INFO = Some \<lparr>ti_name = ''lsd'', ti_symbol = ''LSD'', ti_decimals = DEFAULT_DECIMALS,
       ti_total_supply = n, ti_mint = Some \<lparr>md_admin = ''gov'', md_minters = [''manager''],
       md_cap = None\<rparr>\<rparr>,
     MARKETING_INFO = None, LOGO = None, BALANCES = fmupd ''alice'' n fmempty,
     ALLOWANCES = fmempty, ALLOWANCES_SPENDER = fmempty\<rparr>"

lemma demo_system:
  "\<exists>W. calls (sys_apply accept_all demo_host (\<lambda>_. []) demo_place ''manager'') demo_ops
      \<lparr>sy_manager = demo_start, sy_tokens = fmempty\<rparr> = Some W
    \<and> fmlookup (POOLS (sy_manager W)) demo_addr = Some (demo_pool ActiveEnded 1000)
    \<and> UNSTAKES_INDEX_FOR_USER (sy_manager W) = fmempty
    \<and> fmlookup (sy_tokens W) demo_tok = Some (demo_shares 1000)"
  by (simp add: demo_start_def execute_register_pool_def invalid_ica_id_def ICA_WITHDRAW_SUFIX_def
      INTERCHAIN_ACCOUNT_ID_LEN_LIMIT_def byte_def get_withdraw_ica_id_def sudo_open_ack_def
      new_ica_info_def opened_def demo_suffix
      execute_init_pool_def demo_init_def prepare_pool_def init_pool_info_def
      code_id_or_default_def deal_pool_def token_address_def
      register_pool_queries_def register_query_submsg_def first_fund_def set_withdraw_sub_msg_def
      query_icq_register_fee_def total_icq_register_fee_def seconds_def isub_def
      VALIDATER_LEN_LIMIT_def DEFAULT_ERA_SECONDS_def MIN_ERA_SECONDS_def
      query_denom_trace_from_ibc_denom_def register_balance_query_msg_def
      register_delegator_delegations_query_msg_def register_staking_validators_query_msg_def
      demo_ops_def reply_sm_def prepare_sudo_payload_def read_reply_payload_def reply_data_def
      save_sudo_payload_def sudo_response_def take_payload_def read_sudo_payload_def
      sudo_set_withdraw_addr_callback_def execute_stake_def eval_simps demo_simps
      settle_call_def deliver_all_def deliver_def demo_place_def new_token_msg_def
      instantiate_lsd_def validate_instantiate_def has_valid_name_def has_valid_symbol_def
      valid_symbol_byte_def create_accounts_def validate_accounts_def instantiate_get_cap_def
      instantiate_mint_def order_call_def call_token_def execute_mint_def raise_balance_def
      get_cap_def get_or_zero_def empty_lsd_def demo_shares_def DEFAULT_DECIMALS_def)

abbreviation demo_sys_reach :: "system \<Rightarrow> bool" where
  "demo_sys_reach \<equiv> sys_reach accept_all demo_host (\<lambda>_. []) demo_place ''manager''"

lemma demo_system_reach:
  "\<exists>W. demo_sys_reach W \<and> fmlookup (POOLS (sy_manager W)) demo_addr = Some (demo_pool ActiveEnded 1000)
    \<and> UNSTAKES_INDEX_FOR_USER (sy_manager W) = fmempty
    \<and> fmlookup (sy_tokens W) demo_tok = Some (demo_shares 1000)"
proof -
  obtain W where W: "calls (sys_apply accept_all demo_host (\<lambda>_. []) demo_place ''manager'') demo_ops
      \<lparr>sy_manager = demo_start, sy_tokens = fmempty\<rparr> = Some W"
    and "fmlookup (POOLS (sy_manager W)) demo_addr = Some (demo_pool ActiveEnded 1000)
      \<and> UNSTAKES_INDEX_FOR_USER (sy_manager W) = fmempty
      \<and> fmlookup (sy_tokens W) demo_tok = Some (demo_shares 1000)"
    using demo_system by blast
  moreover have "instantiate_sm (demo_info ''gov'' []) 5 empty_sm = Inr (demo_start, respond [] [])"
    by (simp add: instantiate_sm_def demo_start_def demo_info_def)
  then have "demo_sys_reach W"
    by (rule calls_reach [OF W sys_start]) (simp add: demo_ops_def demo_init_def set_opt_def CAL_BASE_def)
  ultimately show ?thesis by blast
qed

lemma demo_agrees: "agrees demo_host mgr demo_place"
  by (auto simp: agrees_def token_address_def demo_host_def demo_place_def Let_def split: if_splits)

section \<open>Properties\<close>

text \<open>C1: what the users hold of a pool's share token is backed: in every reachable system the token
  contract of an initialised pool exists, its balances add up to its supply, the supply is at most
  what the pool counts, and the supply at the pool's rate is worth at most what the pool has staked,
  whatever the users do with their tokens and however the manager's calls fail; the admins keep
  commissions within the whole and let nobody but the manager mint.\<close>

theorem circulating_shares_backed:
  assumes "sys_reach api h ho place mgr W" and "agrees h mgr place" and "validates_normal api"
    and p: "fmlookup (POOLS (sy_manager W)) a = Some p" and t: "p_lsd_token p \<noteq> ''''"
  shows "\<exists>l. fmlookup (sy_tokens W) (p_lsd_token p) = Some l \<and> circulating l = supply_of l
    \<and> supply_of l \<le> unat (p_total_lsd_token_amount p)
    \<and> supply_of l * unat (p_rate p) \<le> unat (p_active p) * 1000000"
proof -
  from sys_reach_ok [OF assms(1-3)] have books: "sm_books (sy_manager W)"
    and ok: "shares_ok mgr (sy_manager W) (sy_tokens W)" by simp_all
  from shares_okD(2) [OF ok p t] obtain l where l: "fmlookup (sy_tokens W) (p_lsd_token p) = Some l"
    by auto
  have "tracked (p_lsd_token p) (sy_manager W) = unat (p_total_lsd_token_amount p)"
    by (rule tracked_alone [OF p]) (use shares_okD(3) [OF ok _ p] t in auto)
  with shares_okD(1) [OF ok l] have s: "supply_of l \<le> unat (p_total_lsd_token_amount p)"
    and inv: "lsd_inv l" by simp_all
  have "unat (p_total_lsd_token_amount p) * unat (p_rate p) \<le> unat (p_active p) * 1000000"
    using sm_booksD [OF books p] by (simp add: books_ok_def solvent_def backed_def CAL_BASE_nat)
  with s have "supply_of l * unat (p_rate p) \<le> unat (p_active p) * 1000000"
    by (meson le_trans mult_le_mono1)
  with l s inv show ?thesis by (auto simp: lsd_inv_def)
qed

theorem circulating_shares_backed_witness:
  "\<exists>W l. demo_sys_reach W \<and> fmlookup (sy_tokens W) demo_tok = Some l \<and> supply_of l = 1000
    \<and> circulating l = supply_of l
    \<and> supply_of l * unat (p_rate (demo_pool ActiveEnded 1000))
        \<le> unat (p_active (demo_pool ActiveEnded 1000)) * 1000000"
proof -
  obtain W where W: "demo_sys_reach W"
    "fmlookup (POOLS (sy_manager W)) demo_addr = Some (demo_pool ActiveEnded 1000)"
    "fmlookup (sy_tokens W) demo_tok = Some (demo_shares 1000)"
    using demo_system_reach by blast
  have tok: "p_lsd_token (demo_pool ActiveEnded 1000) = demo_tok" by (simp add: demo_pool_def)
  have ne: "p_lsd_token (demo_pool ActiveEnded 1000) \<noteq> ''''" by (simp add: demo_pool_def)
  from circulating_shares_backed [OF W(1) demo_agrees accept_all_normal W(2) ne, unfolded tok]
  obtain l where l: "fmlookup (sy_tokens W) demo_tok = Some l" "circulating l = supply_of l"
    "supply_of l * unat (p_rate (demo_pool ActiveEnded 1000))
      \<le> unat (p_active (demo_pool ActiveEnded 1000)) * 1000000" by blast
  with W(3) have "supply_of l = 1000" by (simp add: demo_shares_def supply_of_def)
  with W(1) l show ?thesis by blast
qed

text \<open>What a spent allowance does to the owner's account.\<close>

lemma spent_transfer:
  assumes "order_call api env mgr t (OrderTransferFrom ow rc n) l = Some l'"
    and "validates_normal api" and "rc \<noteq> ow"
  shows "bal l' ow + unat n = bal l ow" and "bal l' rc = bal l rc + unat n"
    and "allowed l' ow mgr + unat n = allowed l ow mgr" and "supply_of l' = supply_of l"
proof -
  from assms(1) obtain a b s0 s1 where v: "addr_validate api ow = Inr a" "addr_validate api rc = Inr b"
    and d: "deduct_allowance api (env\<lparr>contract_addr := t\<rparr>) a mgr n l = Inr s0"
    and m: "lower_balance a n s0 = Inr s1" "raise_balance b n s1 = Inr l'"
    by (auto simp: order_call_def dest!: execute_transfer_from_steps)
  note ab = validates_normalD [OF assms(2) v(1)] validates_normalD [OF assms(2) v(2)]
  from move_ok(6) [OF m] deduct_bal [OF d] ab assms(3)
  show "bal l' ow + unat n = bal l ow" and "bal l' rc = bal l rc + unat n" by simp_all
  from move_ok(2,3) [OF m] deduct_allowance_ok(1) [OF d] deduct_allowance_frame [OF d] ab
  show "allowed l' ow mgr + unat n = allowed l ow mgr" and "supply_of l' = supply_of l"
    by (simp_all add: allowed_def same_allowances_def same_token_facts)
qed

lemma spent_burn:
  assumes "order_call api env mgr t (OrderBurnFrom ow n) l = Some l'" and "validates_normal api"
  shows "bal l' ow + unat n = bal l ow" and "c \<noteq> ow \<Longrightarrow> bal l' c = bal l c"
    and "allowed l' ow mgr + unat n = allowed l ow mgr" and "supply_of l' + unat n = supply_of l"
proof -
  from assms(1) obtain a s0 s1 where v: "addr_validate api ow = Inr a"
    and d: "deduct_allowance api (env\<lparr>contract_addr := t\<rparr>) a mgr n l = Inr s0"
    and m: "lower_balance a n s0 = Inr s1" "lower_supply n s1 = Inr l'"
    by (auto simp: order_call_def dest!: execute_burn_from_steps)
  note a = validates_normalD [OF assms(2) v]
  from burn_ok(8,9) [OF m] deduct_bal [OF d] a
  show "bal l' ow + unat n = bal l ow" and "c \<noteq> ow \<Longrightarrow> bal l' c = bal l c" by simp_all
  from burn_ok(2,3) [OF m] deduct_allowance_ok(1) [OF d] deduct_allowance_frame [OF d] a
  show "allowed l' ow mgr + unat n = allowed l ow mgr" and "supply_of l' + unat n = supply_of l"
    by (simp_all add: allowed_def same_allowances_def same_token_facts)
qed

lemma commission_cases:
  assumes "unstake_commission p who n = Inr (burn, fees)"
  obtains "fees = []" and "burn = n"
  | fee where "unat burn + unat fee = unat n"
    and "fees = [no_reply (LsdTransferFrom (p_lsd_token p) who (p_platform_fee_receiver p) fee)]"
proof (cases "0 < p_unbond_commission p")
  case True
  with assms obtain fee where "usub n fee = (Inr burn :: u128 sm_res)"
    and f: "fees = (if 0 < fee
      then [no_reply (LsdTransferFrom (p_lsd_token p) who (p_platform_fee_receiver p) fee)] else [])"
    by (auto simp: unstake_commission_def rbind_eq_Inr)
  from usub_unat [OF this(1)] have s: "unat burn + unat fee = unat n" .
  show ?thesis
  proof (cases "0 < fee")
    case True
    with f s show ?thesis by (intro that(2)) simp_all
  next
    case False
    then have "fee = 0" by (simp add: word_neq_0_conv [symmetric])
    with f s show ?thesis by (intro that(1)) (simp_all add: word_unat_eq_iff)
  qed
qed (use assms that(1) in \<open>simp add: unstake_commission_def\<close>)

text \<open>C37: an unstake that the chain accepts takes from the sender exactly the tokens it names, out of
  the sender's balance and of an allowance the sender gave the manager: the burnt part leaves the
  supply, the commission goes to the fee receiver. The manager's record and the token's ledger are
  changed together or not at all.\<close>

theorem unstake_takes_tokens:
  assumes x: "sys_apply api h ho place mgr (CallManager env info (Unstake n a)) W = Some W'"
    and p: "fmlookup (POOLS (sy_manager W)) a = Some p"
    and l: "fmlookup (sy_tokens W) (p_lsd_token p) = Some l"
    and norm: "validates_normal api" and other: "p_platform_fee_receiver p \<noteq> sender info"
  shows "\<exists>l' burn fees. fmlookup (sy_tokens W') (p_lsd_token p) = Some l'
    \<and> unstake_commission p (sender info) n = Inr (burn, fees)
    \<and> bal l' (sender info) + unat n = bal l (sender info)
    \<and> allowed l' (sender info) mgr + unat n = allowed l (sender info) mgr
    \<and> supply_of l' + unat burn = supply_of l
    \<and> bal l' (p_platform_fee_receiver p) + unat burn = bal l (p_platform_fee_receiver p) + unat n"
proof -
  let ?t = "p_lsd_token p" and ?who = "sender info" and ?rc = "p_platform_fee_receiver p"
  from x obtain r where ex: "execute_unstake info n a (sy_manager W) = Inr (sy_manager W', r)"
    and d: "calls (deliver api place mgr env) (map sm_msg (messages r)) (sy_tokens W) = Some (sy_tokens W')"
    by (auto simp: settle_call_eq deliver_all_def)
  from ex obtain burn fees where c: "unstake_commission p ?who n = Inr (burn, fees)"
    and r: "messages r = fees @ [no_reply (LsdBurnFrom ?t ?who burn)]"
    by (rule execute_unstake_steps) (use p in simp)
  have "\<forall>m \<in> set (map sm_msg (messages r)). \<not> creates m"
    using no_token_calm [OF commission_no_token [OF c]] by (simp add: r)
  from delivered [OF d this, of ?t] l obtain l' where l': "fmlookup (sy_tokens W') ?t = Some l'"
    and o: "calls (order_call api env mgr ?t) (orders ?t (map sm_msg (messages r))) l = Some l'"
    by auto
  from c have "bal l' ?who + unat n = bal l ?who \<and> allowed l' ?who mgr + unat n = allowed l ?who mgr
      \<and> supply_of l' + unat burn = supply_of l \<and> bal l' ?rc + unat burn = bal l ?rc + unat n"
  proof (cases rule: commission_cases)
    case 1
    with o have "order_call api env mgr ?t (OrderBurnFrom ?who burn) l = Some l'"
      by (auto simp: r bind_eq_Some_conv)
    from spent_burn [OF this norm] other 1(2) show ?thesis by simp
  next
    case (2 fee)
    with o obtain l1 where t: "order_call api env mgr ?t (OrderTransferFrom ?who ?rc fee) l = Some l1"
      and b: "order_call api env mgr ?t (OrderBurnFrom ?who burn) l1 = Some l'"
      by (auto simp: r bind_eq_Some_conv)
    from spent_transfer [OF t norm other] spent_burn [OF b norm] other 2(1) show ?thesis by simp
  qed
  with l' c show ?thesis by blast
qed

text \<open>At the demonstration system: \<open>alice\<close> lets the manager spend 500 and unstakes 100.\<close>

definition demo_allowed :: "u128 \<Rightarrow> u128 \<Rightarrow> lsd_store" where
  "demo_allowed n k = (let al = \<lparr>al_allowance = k, al_expires = Never\<rparr> in
     (demo_shares n)\<lparr>ALLOWANCES := fmupd (''alice'', ''manager'') al fmempty,
       ALLOWANCES_SPENDER := fmupd (''manager'', ''alice'') al fmempty\<rparr>)"

lemma demo_unstake_system:
  "\<exists>W W'. demo_sys_reach W
    \<and> fmlookup (POOLS (sy_manager W)) demo_addr = Some (demo_pool ActiveEnded 1000)
    \<and> fmlookup (sy_tokens W) demo_tok = Some (demo_allowed 1000 500)
    \<and> sys_apply accept_all demo_host (\<lambda>_. []) demo_place ''manager''
        (CallManager (demo_at 7) (demo_info ''alice'' []) (Unstake 100 demo_addr)) W = Some W'"
proof -
  from demo_system_reach obtain W where reach: "demo_sys_reach W"
    and W: "fmlookup (POOLS (sy_manager W)) demo_addr = Some (demo_pool ActiveEnded 1000)"
    "UNSTAKES_INDEX_FOR_USER (sy_manager W) = fmempty"
    "fmlookup (sy_tokens W) demo_tok = Some (demo_shares 1000)"
    by blast
  let ?W = "W\<lparr>sy_tokens := fmupd demo_tok (demo_allowed 1000 500) (sy_tokens W)\<rparr>"
  have "sys_apply accept_all demo_host (\<lambda>_. []) demo_place ''manager''
      (CallToken demo_tok (demo_at 7) (demo_info ''alice'' []) (IncreaseAllowance ''manager'' 500 None)) W
    = Some ?W"
    by (simp add: call_token_def W(3) execute_increase_allowance_def increase_fn_def demo_info_def
        demo_allowed_def demo_shares_def default_allowance_def uadd_def Let_def)
  then have "demo_sys_reach ?W" by (rule sys_more [OF reach, rotated]) (simp add: demo_info_def)
  moreover have "\<exists>W'. sys_apply accept_all demo_host (\<lambda>_. []) demo_place ''manager''
      (CallManager (demo_at 7) (demo_info ''alice'' []) (Unstake 100 demo_addr)) ?W = Some W'"
    by (simp add: execute_unstake_def load_pool_def W(1,2) unstakes_of_def ulen_def
        unstake_commission_def demo_pool_def new_pool_info_def demo_info_def eval_simps
        settle_call_def deliver_all_def deliver_def order_call_def call_token_def
        execute_burn_from_def deduct_allowance_def deduct_fn_def lower_balance_def lower_supply_def
        checked_sub_def get_or_zero_def demo_allowed_def demo_shares_def)
  then obtain W' where "sys_apply accept_all demo_host (\<lambda>_. []) demo_place ''manager''
      (CallManager (demo_at 7) (demo_info ''alice'' []) (Unstake 100 demo_addr)) ?W = Some W'" ..
  moreover have "fmlookup (POOLS (sy_manager ?W)) demo_addr = Some (demo_pool ActiveEnded 1000)"
    and "fmlookup (sy_tokens ?W) demo_tok = Some (demo_allowed 1000 500)" using W(1) by simp_all
  ultimately show ?thesis by blast
qed

theorem unstake_takes_tokens_witness:
  "\<exists>W W' l'. demo_sys_reach W
    \<and> sys_apply accept_all demo_host (\<lambda>_. []) demo_place ''manager''
        (CallManager (demo_at 7) (demo_info ''alice'' []) (Unstake 100 demo_addr)) W = Some W'
    \<and> fmlookup (sy_tokens W') demo_tok = Some l' \<and> bal l' ''alice'' = 900
    \<and> allowed l' ''alice'' ''manager'' = 400"
proof -
  from demo_unstake_system obtain W W' where W: "demo_sys_reach W"
    and p: "fmlookup (POOLS (sy_manager W)) demo_addr = Some (demo_pool ActiveEnded 1000)"
    and l: "fmlookup (sy_tokens W) demo_tok = Some (demo_allowed 1000 500)"
    and x: "sys_apply accept_all demo_host (\<lambda>_. []) demo_place ''manager''
        (CallManager (demo_at 7) (demo_info ''alice'' []) (Unstake 100 demo_addr)) W = Some W'"
    by blast
  have tok: "p_lsd_token (demo_pool ActiveEnded 1000) = demo_tok"
    and who: "sender (demo_info ''alice'' []) = ''alice''"
    and rc: "p_platform_fee_receiver (demo_pool ActiveEnded 1000) = ''fees''"
    by (simp_all add: demo_pool_def demo_info_def)
  from unstake_takes_tokens [OF x p, unfolded tok who rc, OF l accept_all_normal]
  obtain l' where l': "fmlookup (sy_tokens W') demo_tok = Some l'"
    and b: "bal l' ''alice'' + unat (100 :: u128) = bal (demo_allowed 1000 500) ''alice''"
    and al: "allowed l' ''alice'' ''manager'' + unat (100 :: u128)
      = allowed (demo_allowed 1000 500) ''alice'' ''manager''" by auto
  have "bal (demo_allowed 1000 500) ''alice'' = 1000"
    and "allowed (demo_allowed 1000 500) ''alice'' ''manager'' = 500"
    by (simp_all add: demo_allowed_def demo_shares_def Let_def bal_def allowed_def get_or_zero_def)
  with b al have "bal l' ''alice'' = 900" "allowed l' ''alice'' ''manager'' = 400" by simp_all
  with W x l' show ?thesis by blast
qed

end
