(* ===== verification/Spec2Isabelle.thy ===== *)
theory Spec2Isabelle
  imports Ics20_System_Properties Bridge_System Stake_User_Properties Stake_Restake
    Stake_Validator_Properties Lsd_Allowance_Tests Ics20_Tests
    Stake_Withdraw_Properties Stake_Era_Update Stake_Records_Properties Stake_Lsm_Properties
    Stake_Query_Properties System_Properties
begin

text \<open>
  A verification development for the CosmWasm contracts of the liquid staking protocol on Neutron.

  \<^bold>\<open>The program.\<close> Four contracts under \<open>src/contracts\<close>. \<open>stake_manager\<close> takes remote tokens from
  users, stakes them on another chain through interchain accounts, and runs the era of each pool
  (update, bond, collect, rebond, active). \<open>lsd_token\<close> is the cw20 token of a pool: the stake manager
  instantiates one per pool, is its only minter, mints on a deposit and burns on an unstake. \<open>bridge\<close>
  mints tokens of the same kind for deposits on another chain, once a threshold of relayers voted for
  the deposit. \<open>cw20-ics20\<close> moves cw20 tokens
  and native coins over IBC channels. The contracts meet in messages: a call returns the messages
  that the host executes after it; a refused message undoes the call. A message with a callback gets
  a reply (the packet was sent) and later an acknowledgement or a timeout through \<open>sudo\<close>.

  \<^bold>\<open>Style.\<close> Every handler is a function from the environment, the message and the storage record to
  \<open>('e, store \<times> response) res\<close>: \<open>Inl\<close> is an error of the contract (\<open>Err\<close>) or a panic (\<open>Panic\<close>), \<open>Inr\<close>
  the new storage and the response. \<open>?\<close> is \<open>rbind\<close>; a Rust panic (overflow of \<open>Uint128\<close> and \<open>u64\<close>,
  division by zero, an index out of bounds, \<open>unwrap\<close>) is a value, so that every branch can be proved
  about. Integers keep their width as words; the checked operations are \<open>uadd\<close>, \<open>usub\<close>, \<open>umul\<close>, \<open>udiv\<close>
  and \<open>isub\<close> of \<open>Base\<close>. \<open>Map\<close> and \<open>Item\<close> of the storage are finite maps and options. A loop over a list
  is \<open>rfold\<close> or \<open>rmap\<close>; every loop of the source is structural on a list, so no fuel is used.

  \<^bold>\<open>Prelude.\<close> \<open>Base\<close>: results, checked arithmetic, finite maps and their totals, the collection
  \<open>res_simps\<close> that destructures handlers. \<open>Strings\<close>: \<open>split\<close>, \<open>join\<close>, decimal numbers with their round
  trips. \<open>Chain\<close>: coins, environment, responses, sub-messages, \<open>commit\<close>. \<open>Pages\<close>: pages of sorted keys.

  \<^bold>\<open>lsd_token.\<close> \<open>Lsd_State\<close> (state.rs, msg.rs, error.rs), \<open>Lsd_Contract\<close> (contract.rs),
  \<open>Lsd_Allowances\<close> (allowances.rs), \<open>Lsd_Enumerable\<close> (enumerable.rs and the dispatch of queries).
  \<open>Lsd_Ledger\<close> and \<open>Lsd_Properties\<close> show that the contract refines an abstract ledger of moves,
  creations and destructions, that supply, cap and the two allowance maps stay consistent, who may
  mint, spend and administrate, and that pagination visits every account once.

  \<^bold>\<open>bridge.\<close> \<open>Bridge\<close> models the whole contract; \<open>Bridge_Properties\<close> shows that a proposal executes
  once and only after the votes of the threshold, with the sets of relayers as they are.

  \<^bold>\<open>stake_manager.\<close> \<open>Stake_State\<close> (state.rs, msg.rs, error_conversion.rs; the record \<open>host\<close> of what the
  host and \<open>neutron-sdk\<close> answer), \<open>Stake_Helper\<close> (helper.rs, the query functions over interchain
  results), \<open>Stake_User\<close> (execute_stake.rs, execute_unstake.rs, execute_withdraw.rs), \<open>Stake_Era\<close> and
  \<open>Stake_Active\<close> (the five execute_era files), \<open>Stake_Validators\<close>, \<open>Stake_Lsm\<close>, \<open>Stake_Admin\<close> (the
  remaining handlers), \<open>Stake_Contract\<close> (entry points, tx_callback.rs, query_callback.rs, query.rs) and
  \<open>Stake_Query\<close> (the query entry point). \<open>Stake_Lemmas\<close> holds the frames of the shared helpers and the
  id allocator as a locale, interpreted on both counters. \<open>Stake_Books\<close> and \<open>Stake_Reach\<close>: the steps
  of the contract and its histories; the tokens of a pool at its rate are worth at most what it
  staked, after every history in which its platform commission was within 100%.
  \<open>Stake_Withdraw\<close> and its properties: what a withdrawal pays, what its acknowledgements do.
  \<open>Stake_Phases\<close>, \<open>Stake_Waiting\<close>, \<open>Stake_Era_Properties\<close>, \<open>Stake_Amounts\<close>, \<open>Stake_Era_Update\<close>: the
  status of a pool as a state machine, the phases that end with an acknowledgement as a locale with
  their exact effect on the storage, what may happen while one is awaited, the amounts of the steps.
  \<open>Stake_Records\<close> and its properties: the map of the withdrawal records and the lists of the users
  agree in every reachable storage. \<open>Stake_Tokens\<close>: no call mints more than its totals grow by.
  \<open>Stake_Lsm_Properties\<close>, \<open>Stake_Query_Properties\<close>: refunds of tokenised shares, the reported queries.
  \<open>Stake_Rates\<close> and \<open>Stake_Rate_Properties\<close>: what lowers the rate of a pool, step by step over every
  message, and a whole era with a slashed validator. \<open>Stake_Restake\<close>: the history in which a second
  restaking transaction makes an era end without bonding. \<open>Stake_Validator_Properties\<close>: the transaction that
  replaces a validator, and its refusal.
  \<open>Stake_Demo\<close> is a concrete history for the witnesses.

  \<^bold>\<open>cw20-ics20.\<close> \<open>Ics20_State\<close> (state.rs, error.rs, amount.rs, msg.rs), \<open>Ics20_Contract\<close> (contract.rs,
  migrations.rs), \<open>Ics20_Ibc\<close> (ibc.rs). \<open>Ics20_Ledger\<close> states the channel ledger as a locale;
  \<open>Ics20_World\<close> adds the holdings of the contract and the settlement of messages, replies and packets
  as a step relation; \<open>Ics20_Reach\<close> and \<open>Ics20_Properties\<close> show solvency, refunds, the outcome of every
  transfer, the voucher parser.

  \<^bold>\<open>The system.\<close> Three theories compose the contracts with the token contracts they use. \<open>Share_Token\<close>
  holds the locale \<open>share_token\<close>, what a minter needs of a token, interpreted on the model of the token
  contract. \<open>System\<close>: the stake manager with the tokens it creates; \<open>sys_apply\<close> is one transaction, a
  call of the manager with the delivery of its token messages, or a call of a token by anybody else;
  what circulates is backed by what is staked, and an unstake takes what it pays for
  (\<open>System_Properties\<close>). \<open>Bridge_System\<close>: the bridge with the tokens whose minter it is, over all
  accepted transactions; the supply of a token is at most the deposits paid out in it and what
  minters added by the mint admin minted. \<open>Ics20_System\<close>: the ICS20 contract with the tokens that are
  sent through it; the locale \<open>escrow_token\<close> is what it needs of them, and each transaction is shown to
  be one of \<open>Ics20_World\<close>, so that what the channels owe is in its account at the token
  (\<open>Ics20_System_Properties\<close>).

  \<^bold>\<open>The tests of the repository.\<close> \<open>Lsd_Tests\<close>, \<open>Lsd_Allowance_Tests\<close> and \<open>Ics20_Tests\<close> translate the
  unit tests of \<open>lsd_token\<close> and \<open>cw20-ics20\<close>, call by call, and prove that the model passes each of them,
  for every host that has the fixtures of the tests; \<open>Scenario\<close> holds the combinators and the fixtures,
  with an instance. They check the model against what the authors of the code expect of it. The other
  two contracts have no tests.

  \<^bold>\<open>What is a parameter.\<close> Code that is not in the repository is an argument: address validation and
  expiry (\<open>api\<close>), interchain queries, fees, code checksums and instantiate2 addresses, parsing of
  protobuf replies (\<open>host\<close>), the iteration order of a hash set, the version comparison of a migration,
  the hash of a proposal. Hypotheses on them state documented behaviour: \<open>validates_normal\<close> (an accepted
  address is returned as it is), \<open>agrees\<close> (the address computed with instantiate2 is the address of the
  contract), the laws of \<open>ics_laws\<close>. \<open>cw2_check\<close> is what the version check of a migration documents.
  The steps and histories of the stake manager and of the bridge are not restricted. The system of
  the stake manager with its tokens (\<open>sys_reach\<close>) is, by \<open>fair\<close>: the messages of the admins set no
  commission above 100% (\<open>sane\<close>), nobody but the manager is made a minter, and the manager sends only
  what its handlers return. The theorems on the rate and the books of a pool bound its commission in
  their own hypotheses, since the code does not: \<open>overcharged_pool\<close> shows what happens without.

  \<^bold>\<open>Not modelled.\<close> JSON and protobuf encodings (messages and stored values are their decoded data; a
  protobuf message keeps its type URL) and the tests of their texts, gas, the schema binaries and the
  crate roots; in the stake manager the remote chain itself, whose answers are arbitrary. The code
  identifier of an instantiated token is taken to be that of \<open>lsd_token\<close>. Reentrancy needs no model:
  messages run after the call that returns them.

  \<^bold>\<open>What the theorems found.\<close> The receiver of a withdrawal and the address of a StakeLsm are put into
  underscore-separated payloads without a check: a record that is being
  withdrawn can be withdrawn again (\<open>pending_record_withdrawn_again\<close>), and shares can be lost (\<open>lsm_refund_unless_underscore\<close>). The restaking step does
  not store its started status (\<open>rebond_submits_twice\<close>), and the acknowledgement of a second restaking
  transaction can then set the pool back in its next era, which ends without bonding and with a fall
  of the rate (\<open>late_restake_failure_skips_bonding\<close>). The identifier of a bridge proposal does not
  separate the resource from the recipient (\<open>bridge_id_confuses_deposits\<close>). The messages that replace a
  validator carry a type URL the staking module does not have, and a refused replacement keeps the
  new list of validators (\<open>refused_replacement_stays\<close>).
\<close>

end
